(* ===== verification/Go_Prelude.thy ===== *)
theory Go_Prelude
  imports Main "HOL-Library.Word" "HOL-Library.Signed_Division"
begin

text \<open>
  The prelude: the Go value types the model uses, Go's panics as values, and the generic facts on
  byte lists the components share.

  \<^item> A Go byte is an 8-bit word, a byte slice or a Go string (an immutable byte sequence) a list of
    bytes. \<open>int\<close>, \<open>int64\<close> and \<open>uint64\<close> are 64-bit words (the module is used on
        64-bit targets);
    \<open>sint\<close> reads one as signed, \<open>unat\<close> as unsigned.
  \<^item> A Go value of slice or string type has fewer than \<open>2^63\<close> elements,
      because \<open>len\<close> returns an
    \<open>int\<close>: \<open>fits\<close> states it, and is the only well-formedness condition on byte sequences.
  \<^item> A call that may panic returns \<open>'a go\<close>: \<open>Ret x\<close> or \<open>Panic\<close>. A Go
      \<open>error\<close> result is an option of
    the package's error type, \<open>None\<close> being \<open>nil\<close>.
\<close>

section \<open>Go values\<close>

type_synonym byte = "8 word"
type_synonym bytes = "byte list"
type_synonym int64 = "64 word"
type_synonym uint64 = "64 word"

text \<open>The text of an \<open>error\<close>, where only its text is looked at; and a method of an interface over a state.\<close>

type_synonym go_error = bytes
type_synonym ('s, 'r) proc = "'s \<Rightarrow> 'r \<times> 's"

text \<open>A string literal of the source, as its bytes.\<close>

definition lit :: "string \<Rightarrow> bytes" where
  "lit s = map of_char s"

text \<open>What the length of every Go slice or string satisfies.\<close>

definition fits :: "'a list \<Rightarrow> bool" where
  "fits xs \<longleftrightarrow> length xs < 2 ^ 63"

text \<open>\<open>len(xs)\<close> as the Go \<open>int\<close> it is.\<close>

definition go_len :: "'a list \<Rightarrow> int64" where
  "go_len xs = word_of_nat (length xs)"

text \<open>The decimal digits of a number, as \<open>fmt\<close>'s \<open>%d\<close> and \<open>strconv\<close> write
    it.\<close>

fun decimal :: "nat \<Rightarrow> bytes" where
  "decimal n = (if n < 10 then [word_of_nat (48 + n)] else decimal (n div 10) @ [word_of_nat (48 + n mod 10)])"

declare decimal.simps [simp del]

section \<open>Panics\<close>

datatype 'a go = Ret 'a | Panic

fun go_bind :: "'a go \<Rightarrow> ('a \<Rightarrow> 'b go) \<Rightarrow> 'b go" where
  "go_bind (Ret x) f = f x"
| "go_bind Panic f = Panic"

text \<open>Go's short-circuit \<open>a && b\<close>: the right operand is evaluated only when the left is true.\<close>

definition go_and :: "bool \<Rightarrow> bool go \<Rightarrow> bool go" where
  "go_and a b = (if a then b else Ret False)"

text \<open>The slice expression \<open>xs[lo:hi]\<close>; bounds outside \<open>0 <= lo <= hi <=
    len(xs)\<close> panic.\<close>

definition go_slice :: "'a list \<Rightarrow> int64 \<Rightarrow> int64 \<Rightarrow> 'a list go" where
  "go_slice xs lo hi =
     (if 0 \<le> sint lo \<and> sint lo \<le> sint hi \<and> sint hi \<le> int (length xs)
      then Ret (take (nat (sint hi) - nat (sint lo)) (drop (nat (sint lo)) xs))
      else Panic)"

named_theorems go_simps \<open>evaluation of the Go-level combinators\<close>

declare go_and_def [go_simps]

lemma go_bind_Ret_iff [simp]:
  "go_bind m f = Ret y \<longleftrightarrow> (\<exists>x. m = Ret x \<and> f x = Ret y)"
  by (cases m) simp_all

lemma go_bind_assoc: "go_bind (go_bind m f) g = go_bind m (\<lambda>x. go_bind (f x) g)"
  by (cases m) simp_all

lemma go_and_Ret_True [simp]: "go_and a b = Ret True \<longleftrightarrow> a \<and> b = Ret True"
  by (simp add: go_and_def)

lemma go_and_no_panic: "(a \<Longrightarrow> b \<noteq> Panic) \<Longrightarrow> go_and a b \<noteq> Panic"
  by (simp add: go_and_def)

lemma go_bind_no_panic: "m \<noteq> Panic \<Longrightarrow> (\<And>x. m = Ret x \<Longrightarrow>
    f x \<noteq> Panic) \<Longrightarrow> go_bind m f \<noteq> Panic"
  by (cases m) simp_all

lemma no_panic_Ret: "m \<noteq> Panic \<longleftrightarrow> (\<exists>x. m = Ret x)"
  by (cases m) simp_all

section \<open>Bytes and literals\<close>

lemma length_lit [simp]: "length (lit s) = length s"
  by (simp add: lit_def)

lemma lit_inject: "map of_char s = (map of_char t :: bytes) \<longleftrightarrow> s = t"
proof -
  have "inj (of_char :: char \<Rightarrow> byte)"
  proof (rule injI)
    fix c d :: char
    assume eq: "(of_char c :: byte) = of_char d"
    have "unat (of_char c :: byte) = of_char c" for c :: char
      by (simp add: of_char_def unat_of_nat)
    then show "c = d" using eq by (metis of_char_eq_iff)
  qed
  then show ?thesis by (rule inj_map_eq_map)
qed

lemma lit_eq_iff [simp]: "lit s = lit t \<longleftrightarrow> s = t"
  unfolding lit_def by (rule lit_inject)

lemma fits_lit: "length s < 2 ^ 63 \<Longrightarrow> fits (lit s)"
  by (simp add: fits_def)

lemma fits_Nil [simp]: "fits []"
  by (simp add: fits_def)

lemma word_of_nat_inj_fits:
  "fits xs \<Longrightarrow> fits ys \<Longrightarrow> (go_len xs = go_len ys) = (length xs = length ys)"
  by (auto simp: fits_def go_len_def word_of_nat_eq_iff take_bit_nat_eq_self)

lemma sint_go_len: "fits xs \<Longrightarrow> sint (go_len xs) = int (length xs)"
  by (simp add: fits_def go_len_def signed_of_nat signed_take_bit_int_eq_self)

lemma twos_complement:
  fixes s :: int
  assumes "- (2 ^ 64) \<le> s" and "s < 2 ^ 64"
  shows "s mod 2 ^ 64 = (if s < 0 then s + 2 ^ 64 else s)"
proof (cases "s < 0")
  case True
  have "s mod 2 ^ 64 = (s + 2 ^ 64) mod 2 ^ 64" by simp
  also have "\<dots> = s + 2 ^ 64" using assms True by (intro mod_pos_pos_trivial) simp_all
  finally show ?thesis using True by simp
next
  case False
  with assms show ?thesis by simp
qed

text \<open>Signed 64-bit arithmetic is exact when the exact result is representable.\<close>

lemma sint_add_exact:
  "- (2 ^ 63) \<le> sint a + sint b \<Longrightarrow> sint a + sint b < 2 ^ 63 \<Longrightarrow> sint (a + b :: int64) =
      sint a + sint b"
  by (simp add: sint_word_add signed_take_bit_int_eq_self)

lemma sint_sub_exact:
  "- (2 ^ 63) \<le> sint a - sint b \<Longrightarrow> sint a - sint b < 2 ^ 63 \<Longrightarrow> sint (a - b :: int64) =
      sint a - sint b"
  by (simp add: sint_word_diff signed_take_bit_int_eq_self)

lemma append_eq_same_length:
  "length xs = length ys \<Longrightarrow> (xs @ r = ys @ s) = (xs = ys \<and> r = s)"
  by simp

end
