(* ===== verification/Prefix_Codes.thy ===== *)
theory Prefix_Codes
  imports Go_Prelude
begin

text \<open>
  The contract every piece of the canonical encoding keeps: an encoder is a prefix code when two
  encodings that agree as prefixes of longer byte strings encode the same value and leave the same
  rest. \<open>view\<close> is the part of a value the encoding carries (the whole value for a string, the instant
  without its location for a time, the message without its signature for a message), and \<open>good\<close> the
  values the contract is about.

  The interface is stated once as a locale; package \<open>canon\<close> provides it for its primitives, each
  message package provides it for its messages, and the lemmas below (decoding is unambiguous, a
  field sequence splits in one way, repeated fields compose) are proved here for all of them.
\<close>

locale prefix_code =
  fixes enc :: "'a \<Rightarrow> bytes"
    and good :: "'a \<Rightarrow> bool"
    and view :: "'a \<Rightarrow> 'b"
  assumes enc_view: "good x \<Longrightarrow> good y \<Longrightarrow> view x = view y \<Longrightarrow> enc x = enc y"
    and cancel: "good x \<Longrightarrow> good y \<Longrightarrow> enc x @ r = enc y @ s \<Longrightarrow> view x =
        view y \<and> r = s"
begin

lemma cancel_iff: "good x \<Longrightarrow> good y \<Longrightarrow> (enc x @ r = enc y @ s) = (view x = view y \<and>
    r = s)"
  using cancel enc_view by blast

lemma enc_eq_iff: "good x \<Longrightarrow> good y \<Longrightarrow> (enc x = enc y) = (view x = view y)"
  using cancel_iff [of x y "[]" "[]"] by simp

lemma no_proper_prefix: "good x \<Longrightarrow> good y \<Longrightarrow> enc x @ r = enc y \<Longrightarrow> r = []"
  using cancel [of x y r "[]"] by simp

lemma concat_cancel:
  assumes "list_all good xs" and "list_all good ys" and "length xs = length ys"
    and "concat (map enc xs) @ r = concat (map enc ys) @ s"
  shows "map view xs = map view ys \<and> r = s"
  using assms(3,1,2,4)
proof (induction xs ys rule: list_induct2)
  case Nil
  then show ?case by simp
next
  case (Cons x xs y ys)
  then have "view x = view y \<and> concat (map enc xs) @ r = concat (map enc ys) @ s"
    by (intro cancel) simp_all
  with Cons show ?case by simp
qed

lemma concat_view:
  assumes "list_all good xs" and "list_all good ys" and "map view xs = map view ys"
  shows "concat (map enc xs) = concat (map enc ys)"
proof -
  from assms(3) have "length xs = length ys" by (rule map_eq_imp_length_eq)
  then show ?thesis using assms
    by (induction xs ys rule: list_induct2) (auto intro: enc_view)
qed

end

text \<open>
  A repeated field: an element count followed by the elements. Given a count encoder that is itself a
  prefix code on lengths, the repeated field is a prefix code on lists.
\<close>

definition enc_repeated :: "(nat \<Rightarrow> bytes) \<Rightarrow> ('a \<Rightarrow> bytes) \<Rightarrow>
    'a list \<Rightarrow> bytes" where
  "enc_repeated cnt enc xs = cnt (length xs) @ concat (map enc xs)"

locale repeated_code = prefix_code enc good view
  for enc :: "'a \<Rightarrow> bytes" and good :: "'a \<Rightarrow> bool" and view :: "'a \<Rightarrow> 'b" +
  fixes cnt :: "nat \<Rightarrow> bytes"
  assumes cnt_cancel: "m < 2 ^ 63 \<Longrightarrow> n < 2 ^ 63 \<Longrightarrow> cnt m @ r = cnt n @ s \<Longrightarrow>
      m = n \<and> r = s"

sublocale repeated_code \<subseteq> rep: prefix_code
  "enc_repeated cnt enc" "\<lambda>xs. fits xs \<and> list_all good xs" "map view"
proof (unfold_locales, goal_cases)
  case (1 xs ys)
  then show ?case using concat_view [of xs ys] map_eq_imp_length_eq [of view xs view ys] by (simp add: enc_repeated_def)
next
  case (2 xs ys r s)
  then have "length xs = length ys \<and> concat (map enc xs) @ r = concat (map enc ys) @ s"
    by (intro cnt_cancel) (simp_all add: fits_def enc_repeated_def)
  with 2 show ?case using concat_cancel [of xs ys r s] by simp
qed

end
