(* ===== verification/Go_Time.thy ===== *)
theory Go_Time
  imports Go_Prelude
begin

text \<open>
  What the module uses of Go's package \<open>time\<close>: the representation of \<open>time.Time\<close> (whole
      seconds since
  January 1, year 1, nanoseconds, a location and an optional monotonic reading), \<open>time.Unix\<close>,
      \<open>UTC\<close>,
  \<open>Before\<close>, \<open>After\<close> and \<open>UnixNano\<close>, all at their machine widths,
      so that \<open>UnixNano\<close> wraps as Go's does.
  \<open>instant_ns\<close> is the specification: the instant as an unbounded number of nanoseconds since the Unix
  epoch.
\<close>

record go_time =
  t_sec :: int64
  t_nsec :: "32 word"
  t_loc :: "string option"
  t_mono :: "int64 option"

text \<open>The representation invariant of \<open>time.Time\<close>: nanoseconds lie in \<open>0..999999999\<close>.\<close>

definition wf_time :: "go_time \<Rightarrow> bool" where
  "wf_time t \<longleftrightarrow> unat (t_nsec t) < 1000000000"

definition unixToInternal :: int64 where
  "unixToInternal = 62135596800"

definition internalToUnix :: int64 where
  "internalToUnix = - unixToInternal"

definition time_Unix :: "int64 \<Rightarrow> int64 \<Rightarrow> go_time" where
  "time_Unix sec nsec =
     (let (sec', nsec') =
        (if sint nsec < 0 \<or> 1000000000 \<le> sint nsec
         then let n = word_of_int (sint nsec sdiv 1000000000);
                  sec1 = sec + n;
                  nsec1 = nsec - n * 1000000000
              in if sint nsec1 < 0 then (sec1 - 1, nsec1 + 1000000000) else (sec1, nsec1)
         else (sec, nsec))
      in \<lparr>t_sec = sec' + unixToInternal, t_nsec = ucast nsec', t_loc = Some ''Local'', t_mono = None\<rparr>)"

text \<open>\<open>t.UTC()\<close> sets the location to UTC (a nil pointer) and strips the monotonic reading.\<close>

definition time_UTC :: "go_time \<Rightarrow> go_time" where
  "time_UTC t = t\<lparr>t_loc := None, t_mono := None\<rparr>"

text \<open>\<open>Before\<close> and \<open>After\<close> compare monotonic readings when both times have one.\<close>

definition time_Before :: "go_time \<Rightarrow> go_time \<Rightarrow> bool" where
  "time_Before t u =
     (case (t_mono t, t_mono u) of
        (Some a, Some b) \<Rightarrow> sint a < sint b
      | _ \<Rightarrow> sint (t_sec t) < sint (t_sec u) \<or>
            t_sec t = t_sec u \<and> sint (t_nsec t) < sint (t_nsec u))"

definition time_After :: "go_time \<Rightarrow> go_time \<Rightarrow> bool" where
  "time_After t u =
     (case (t_mono t, t_mono u) of
        (Some a, Some b) \<Rightarrow> sint b < sint a
      | _ \<Rightarrow> sint (t_sec u) < sint (t_sec t) \<or>
            t_sec t = t_sec u \<and> sint (t_nsec u) < sint (t_nsec t))"

definition time_UnixNano :: "go_time \<Rightarrow> int64" where
  "time_UnixNano t = (t_sec t + internalToUnix) * 1000000000 + scast (t_nsec t)"

text \<open>The specification: the instant in exact nanoseconds since the epoch.\<close>

definition instant_ns :: "go_time \<Rightarrow> int" where
  "instant_ns t = (sint (t_sec t) - 62135596800) * 1000000000 + uint (t_nsec t)"

section \<open>Lemmas\<close>

lemma time_UTC_simps [simp]:
  "t_sec (time_UTC t) = t_sec t" "t_nsec (time_UTC t) = t_nsec t"
  "t_loc (time_UTC t) = None" "t_mono (time_UTC t) = None"
  by (simp_all add: time_UTC_def)

lemma time_UTC_idem [simp]: "time_UTC (time_UTC t) = time_UTC t"
  by (simp add: time_UTC_def)

lemma wf_time_UTC [simp]: "wf_time (time_UTC t) = wf_time t"
  by (simp add: wf_time_def)

lemma instant_ns_UTC [simp]: "instant_ns (time_UTC t) = instant_ns t"
  by (simp add: instant_ns_def)

lemma time_UnixNano_UTC [simp]: "time_UnixNano (time_UTC t) = time_UnixNano t"
  by (simp add: time_UnixNano_def)

lemma wf_time_uint: "wf_time t \<Longrightarrow> 0 \<le> uint (t_nsec t) \<and> uint (t_nsec t) < 1000000000"
proof -
  assume "wf_time t"
  then have "int (unat (t_nsec t)) < 1000000000" by (simp only: wf_time_def)
  then show ?thesis by simp
qed

lemma wf_time_sint: "wf_time t \<Longrightarrow> sint (t_nsec t) = uint (t_nsec t)"
  using wf_time_uint [of t]
  by (simp add: sint_uint signed_take_bit_int_eq_self_iff order_trans [of "- 2147483648" 0])

lemma time_UTC_eq_iff: "time_UTC t = time_UTC u \<longleftrightarrow> t_sec t = t_sec u \<and> t_nsec t = t_nsec u"
  by (cases t; cases u) (auto simp: time_UTC_def)

text \<open>Two well-formed times are the same instant exactly when they agree after \<open>UTC()\<close>.\<close>

lemma instant_ns_eq_iff:
  assumes "wf_time t" and "wf_time u"
  shows "instant_ns t = instant_ns u \<longleftrightarrow> time_UTC t = time_UTC u"
proof
  assume eq: "instant_ns t = instant_ns u"
  have "uint (t_nsec t) = instant_ns t mod 1000000000" "uint (t_nsec u) = instant_ns u mod 1000000000"
    using wf_time_uint [OF assms(1)] wf_time_uint [OF assms(2)]
    by (simp_all only: instant_ns_def mod_mult_self3 mod_pos_pos_trivial)
  with eq have n: "uint (t_nsec t) = uint (t_nsec u)" by simp
  with eq have "sint (t_sec t) = sint (t_sec u)" by (simp add: instant_ns_def)
  then have "t_sec t = t_sec u" by (rule signed_word_eqI)
  with n show "time_UTC t = time_UTC u" by (simp add: time_UTC_eq_iff word_uint_eq_iff)
next
  assume "time_UTC t = time_UTC u"
  then show "instant_ns t = instant_ns u" by (metis instant_ns_UTC)
qed

text \<open>\<open>UnixNano\<close> is the exact instant reduced to 64 bits, and exact when that fits.\<close>

lemma time_UnixNano_of_int:
  assumes "wf_time t"
  shows "time_UnixNano t = word_of_int (instant_ns t)"
proof -
  have n: "scast (t_nsec t) = (word_of_int (uint (t_nsec t)) :: int64)"
    by (simp add: wf_time_sint [OF assms, symmetric] del: of_int_uint)
  have "word_of_int (instant_ns t)
      = (word_of_int (sint (t_sec t)) - 62135596800) * 1000000000 + (word_of_int (uint (t_nsec t)) :: int64)"
    by (simp only: instant_ns_def of_int_add of_int_diff of_int_mult of_int_numeral)
  also have "\<dots> = time_UnixNano t"
    by (simp only: n [symmetric] time_UnixNano_def internalToUnix_def unixToInternal_def of_int_sint
        scast_id diff_conv_add_uminus)
  finally show ?thesis by (rule sym)
qed

lemma sint_time_UnixNano:
  assumes "wf_time t" and "- (2 ^ 63) \<le> instant_ns t" and "instant_ns t < 2 ^ 63"
  shows "sint (time_UnixNano t) = instant_ns t"
proof -
  have "sint (word_of_int (instant_ns t) :: int64) = signed_take_bit 63 (instant_ns t)"
    by (simp add: signed_of_int)
  also have "\<dots> = instant_ns t"
    using assms(2,3) by (rule signed_take_bit_int_eq_self)
  finally show ?thesis by (simp only: time_UnixNano_of_int [OF assms(1)])
qed

end
