(* ===== verification/Go_Crypto.thy ===== *)
theory Go_Crypto
  imports Go_Prelude
begin

text \<open>
  What the module uses of \<open>crypto/ed25519\<close>. The curve arithmetic is not modelled: a record of type
  \<open>ed25519\<close> holds the three cryptographic functions (public key of a seed, signature of a message,
  acceptance of a signature) and is an argument of every definition that signs or verifies. What is
  modelled is the documented behaviour around them: the key sizes, and the panics on keys of a wrong
  size, which the module's \<open>VerifySig\<close> exists to avoid.

  \<open>ed25519_laws\<close> is the documented functional contract of the package (sizes, and that a signature made
  with a key verifies under it); theorems that need it take it as a hypothesis. Unforgeability is never
  assumed in general: where a theorem is about an adversary, it names the set of messages the key holder
  signed.
\<close>

record ed25519 =
  ed_pub :: "bytes \<Rightarrow> bytes"
  ed_sign :: "bytes \<Rightarrow> bytes \<Rightarrow> bytes"
  ed_verify :: "bytes \<Rightarrow> bytes \<Rightarrow> bytes \<Rightarrow> bool"

definition PublicKeySize :: nat where "PublicKeySize = 32"
definition PrivateKeySize :: nat where "PrivateKeySize = 64"
definition SignatureSize :: nat where "SignatureSize = 64"
definition SeedSize :: nat where "SeedSize = 32"

lemmas key_sizes = PublicKeySize_def PrivateKeySize_def SignatureSize_def SeedSize_def

text \<open>\<open>ed25519.Sign\<close> panics on a private key that is not 64 bytes long.\<close>

definition ed25519_Sign :: "ed25519 \<Rightarrow> bytes \<Rightarrow> bytes \<Rightarrow> bytes go" where
  "ed25519_Sign E priv msg = (if length priv \<noteq> PrivateKeySize then Panic else Ret (ed_sign E priv msg))"

text \<open>\<open>ed25519.Verify\<close> panics on a public key that is not 32 bytes long and rejects a signature that is
  not 64 bytes long.\<close>

definition ed25519_Verify :: "ed25519 \<Rightarrow> bytes \<Rightarrow> bytes \<Rightarrow> bytes \<Rightarrow>
    bool go" where
  "ed25519_Verify E pub msg sig =
     (if length pub \<noteq> PublicKeySize then Panic
      else Ret (length sig = SignatureSize \<and> ed_verify E pub msg sig))"

text \<open>A private key is the 32-byte seed followed by the public key (\<open>NewKeyFromSeed\<close>).\<close>

definition keypair :: "ed25519 \<Rightarrow> bytes \<Rightarrow> bytes \<Rightarrow> bool" where
  "keypair E priv pub \<longleftrightarrow>
     (length priv = PrivateKeySize \<and> pub = drop SeedSize priv \<and> pub = ed_pub E (take SeedSize priv))"

definition ed25519_laws :: "ed25519 \<Rightarrow> bool" where
  "ed25519_laws E \<longleftrightarrow>
     (\<forall>priv msg. length priv = PrivateKeySize \<longrightarrow> length (ed_sign E priv msg) = SignatureSize) \<and>
     (\<forall>priv pub msg. keypair E priv pub \<longrightarrow> ed_verify E pub msg (ed_sign E priv msg))"

lemma keypair_length: "keypair E priv pub \<Longrightarrow> length priv = PrivateKeySize \<and> length pub = PublicKeySize"
  by (simp add: keypair_def key_sizes)

lemma ed25519_Sign_keypair:
  "keypair E priv pub \<Longrightarrow> ed25519_Sign E priv msg = Ret (ed_sign E priv msg)"
  by (simp add: ed25519_Sign_def keypair_def)

lemma ed25519_Sign_no_panic: "ed25519_Sign E priv msg \<noteq> Panic \<longleftrightarrow> length priv = PrivateKeySize"
  by (simp add: ed25519_Sign_def)

lemma ed25519_laws_length:
  "ed25519_laws E \<Longrightarrow> length priv = PrivateKeySize \<Longrightarrow> length (ed_sign E priv msg) =
      SignatureSize"
  by (simp add: ed25519_laws_def)

lemma ed25519_laws_verify:
  "ed25519_laws E \<Longrightarrow> keypair E priv pub \<Longrightarrow> ed_verify E pub msg (ed_sign E priv msg)"
  by (simp add: ed25519_laws_def)

section \<open>The contract of a panic-safe verifier\<close>

text \<open>
  The contract the module's verification functions give their callers: they return on every input, and
  accept only keys and signatures of the right sizes that the primitive accepts.
\<close>

locale panic_safe_verifier =
  fixes E :: ed25519 and verify :: "bytes \<Rightarrow> bytes \<Rightarrow> bytes \<Rightarrow> bool go"
  assumes accepts_iff: "verify pub msg sig = Ret True \<longleftrightarrow>
      length pub = PublicKeySize \<and> length sig = SignatureSize \<and> ed_verify E pub msg sig"
    and returns: "verify pub msg sig \<noteq> Panic"
begin

lemma verify_eq:
  "verify pub msg sig =
     Ret (length pub = PublicKeySize \<and> length sig = SignatureSize \<and> ed_verify E pub msg sig)"
  using accepts_iff [of pub msg sig] returns [of pub msg sig] by (cases "verify pub msg sig") auto

lemma rejects_bad_sizes:
  "length pub \<noteq> PublicKeySize \<or> length sig \<noteq> SignatureSize \<Longrightarrow> verify pub msg sig =
      Ret False"
  by (auto simp: verify_eq)

lemma accepts_own_signature:
  "ed25519_laws E \<Longrightarrow> keypair E priv pub \<Longrightarrow> verify pub msg (ed_sign E priv msg) = Ret True"
  using keypair_length [of E priv pub]
  by (simp add: verify_eq ed25519_laws_length ed25519_laws_verify)

end

end
