(* ===== verification/Canon.thy ===== *)
theory Canon
  imports Prefix_Codes Go_Time Go_Crypto
begin

unbundle bit_operations_syntax

text \<open>
  Package \<open>canon\<close> (src/canon/canon.go): the canonical byte encoding every signature is computed over.
  A \<open>Buffer\<close> is a record of the accumulated bytes and the latched error; every method is a function
  from buffer to buffer. \<open>enc_uvarint\<close>, \<open>enc_string\<close>, \<open>enc_int64\<close>, \<open>enc_bool\<close> and \<open>enc_time\<close> are the
  bytes each method appends; they are the abstract encoding of SPEC.md section 3, and each is shown to
  be a prefix code.
\<close>

section \<open>The standard library's integer encoders\<close>

text \<open>\<open>binary.PutUvarint\<close>: seven bits per byte, least significant group first, the top bit set on every
  byte but the last. First the bytes it produces, then the loop that writes them into a buffer by index,
  which panics when it runs past the end.\<close>

function enc_uvarint :: "uint64 \<Rightarrow> bytes" where
  "enc_uvarint x = (if 0x80 \<le> x then (ucast x OR 0x80) # enc_uvarint (drop_bit 7 x) else [ucast x])"
  by pat_completeness auto

lemma unat_drop_bit_less: "0x80 \<le> (x :: uint64) \<Longrightarrow> unat (drop_bit 7 x) < unat x"
proof -
  assume "0x80 \<le> x"
  then have "128 \<le> unat x" by (simp add: word_le_nat_alt)
  then have "drop_bit 7 (unat x) < unat x" by (simp add: drop_bit_eq_div)
  then show ?thesis by (simp only: unat_drop_bit_eq)
qed

termination enc_uvarint
  by (relation "measure unat") (simp_all only: in_measure wf_measure unat_drop_bit_less)

declare enc_uvarint.simps [simp del]

function PutUvarint_loop :: "bytes \<Rightarrow> nat \<Rightarrow> uint64 \<Rightarrow> (bytes \<times> nat) go" where
  "PutUvarint_loop buf i x =
     (if i < length buf
      then if 0x80 \<le> x then PutUvarint_loop (buf[i := ucast x OR 0x80]) (Suc i) (drop_bit 7 x)
           else Ret (buf[i := ucast x], Suc i)
      else Panic)"
  by pat_completeness auto

termination PutUvarint_loop
  by (relation "measure (\<lambda>(buf, i, x). unat x)")
    (simp_all only: in_measure wf_measure prod.case unat_drop_bit_less)

declare PutUvarint_loop.simps [simp del]

definition MaxVarintLen64 :: nat where "MaxVarintLen64 = 10"

text \<open>\<open>binary.BigEndian.PutUint64\<close>: the eight bytes, most significant first.\<close>

definition enc_uint64 :: "uint64 \<Rightarrow> bytes" where
  "enc_uint64 v = [ucast (drop_bit 56 v), ucast (drop_bit 48 v), ucast (drop_bit 40 v), ucast (drop_bit 32 v),
                   ucast (drop_bit 24 v), ucast (drop_bit 16 v), ucast (drop_bit 8 v), ucast v]"

section \<open>Package canon\<close>

datatype canon_error = ErrTimeOutOfRange

definition minInt64 :: int64 where "minInt64 = - (2 ^ 63)"
definition maxInt64 :: int64 where "maxInt64 = 2 ^ 63 - 1"

definition minRepresentableUnixNano :: go_time where
  "minRepresentableUnixNano = time_Unix 0 minInt64"

definition maxRepresentableUnixNano :: go_time where
  "maxRepresentableUnixNano = time_Unix 0 maxInt64"

definition ValidTime :: "go_time \<Rightarrow> bool" where
  "ValidTime t =
     (let u = time_UTC t
      in \<not> time_Before u minRepresentableUnixNano \<and> \<not> time_After u maxRepresentableUnixNano)"

record Buffer =
  buf_b :: bytes
  buf_err :: "canon_error option"

text \<open>The scratch array has \<open>MaxVarintLen64\<close> bytes, which is always enough: the last branch, where
  \<open>PutUvarint\<close> panics, is unreachable (lemma \<open>PutUvarint_scratch\<close> below).\<close>

definition Buffer_Count :: "int64 \<Rightarrow> Buffer \<Rightarrow> Buffer" where
  "Buffer_Count n buf =
     (case PutUvarint_loop (replicate MaxVarintLen64 0) 0 n of
        Ret (tmp, m) \<Rightarrow> buf\<lparr>buf_b := buf_b buf @ take m tmp\<rparr>
      | Panic \<Rightarrow> buf)"

definition Buffer_String :: "bytes \<Rightarrow> Buffer \<Rightarrow> Buffer" where
  "Buffer_String s buf = (let buf = Buffer_Count (go_len s) buf in buf\<lparr>buf_b := buf_b buf @ s\<rparr>)"

definition Buffer_Bytes :: "bytes \<Rightarrow> Buffer \<Rightarrow> Buffer" where
  "Buffer_Bytes p buf = (let buf = Buffer_Count (go_len p) buf in buf\<lparr>buf_b := buf_b buf @ p\<rparr>)"

definition Buffer_Bool :: "bool \<Rightarrow> Buffer \<Rightarrow> Buffer" where
  "Buffer_Bool v buf =
     (if v then buf\<lparr>buf_b := buf_b buf @ [1]\<rparr> else buf\<lparr>buf_b := buf_b buf @ [0]\<rparr>)"

definition Buffer_Uint64 :: "uint64 \<Rightarrow> Buffer \<Rightarrow> Buffer" where
  "Buffer_Uint64 v buf = buf\<lparr>buf_b := buf_b buf @ enc_uint64 v\<rparr>"

definition Buffer_Int64 :: "int64 \<Rightarrow> Buffer \<Rightarrow> Buffer" where
  "Buffer_Int64 v buf = Buffer_Uint64 v buf"

definition Buffer_Time :: "go_time \<Rightarrow> Buffer \<Rightarrow> Buffer" where
  "Buffer_Time t buf =
     (if \<not> ValidTime t
      then (if buf_err buf = None then buf\<lparr>buf_err := Some ErrTimeOutOfRange\<rparr> else buf)
      else Buffer_Int64 (time_UnixNano (time_UTC t)) buf)"

definition Buffer_Err :: "Buffer \<Rightarrow> canon_error option" where
  "Buffer_Err buf = buf_err buf"

definition Buffer_Sum :: "Buffer \<Rightarrow> bytes" where
  "Buffer_Sum buf = buf_b buf"

definition canon_New :: "bytes \<Rightarrow> Buffer" where
  "canon_New domainTag = Buffer_String domainTag \<lparr>buf_b = [], buf_err = None\<rparr>"

definition VerifySig :: "ed25519 \<Rightarrow> bytes \<Rightarrow> bytes \<Rightarrow> bytes \<Rightarrow> bool go" where
  "VerifySig E pub msg sig =
     go_and (length pub = PublicKeySize) (go_and (length sig = SignatureSize) (ed25519_Verify E pub msg sig))"

interpretation canon_verifier: panic_safe_verifier E "VerifySig E" for E
  by unfold_locales (auto simp: VerifySig_def ed25519_Verify_def go_simps)

section \<open>Uvarints are a prefix code\<close>

lemma bit_uvarint_head:
  "n < 7 \<Longrightarrow> bit (ucast (x :: uint64) OR 0x80 :: byte) n = bit x n"
  by (auto simp: bit_simps less_Suc_eq numeral_eq_Suc)

lemma uvarint_head_continues: "bit (ucast (x :: uint64) OR 0x80 :: byte) 7"
  by (simp add: bit_simps)

lemma uvarint_last_stops:
  assumes "(x :: uint64) < 0x80"
  shows "\<not> bit (ucast x :: byte) 7"
proof -
  have "x AND mask 7 = x" using assms by (intro less_mask_eq) simp
  then have "\<not> bit x 7" by (metis bit_and_iff bit_mask_iff less_irrefl)
  then show ?thesis by (simp add: bit_simps)
qed

lemma uvarint_last_inj:
  assumes "(x :: uint64) < 0x80" and "y < 0x80" and "(ucast x :: byte) = ucast y"
  shows "x = y"
proof -
  have "uint x < 256" "uint y < 256"
    using assms(1,2) by (simp_all add: word_less_def)
  with arg_cong [OF assms(3), of uint] have "uint x = uint y"
    by (simp add: unsigned_ucast_eq take_bit_eq_mod)
  then show ?thesis by (simp add: word_uint_eq_iff)
qed

lemma uvarint_head_inj:
  assumes "(ucast (x :: uint64) OR 0x80 :: byte) = ucast y OR 0x80" and "drop_bit 7 x = drop_bit 7 y"
  shows "x = y"
proof (rule bit_word_eqI)
  fix n
  assume "n < LENGTH(64)"
  show "bit x n = bit y n"
  proof (cases "n < 7")
    case True
    then show ?thesis using assms(1) bit_uvarint_head [of n x] bit_uvarint_head [of n y] by simp
  next
    case False
    then have "bit (drop_bit 7 x) (n - 7) = bit (drop_bit 7 y) (n - 7)" using assms(2) by simp
    with False show ?thesis by (simp add: bit_drop_bit_eq)
  qed
qed

lemma enc_uvarint_more: "0x80 \<le> x \<Longrightarrow> enc_uvarint x = (ucast x OR 0x80) # enc_uvarint (drop_bit 7 x)"
  by (simp add: enc_uvarint.simps [of x])

lemma enc_uvarint_last: "x < 0x80 \<Longrightarrow> enc_uvarint x = [ucast x]"
  by (simp add: enc_uvarint.simps [of x] not_le [symmetric])

lemma enc_uvarint_cancel: "enc_uvarint x @ r = enc_uvarint y @ s \<Longrightarrow> x = y \<and> r = s"
proof (induction x arbitrary: y rule: enc_uvarint.induct)
  case (1 x)
  consider "0x80 \<le> x" "0x80 \<le> y" | "0x80 \<le> x" "y < 0x80" | "x < 0x80" "0x80 \<le> y" | "x < 0x80" "y < 0x80"
    by fastforce
  then show ?case
  proof cases
    case a: 1
    with "1.prems" have h: "(ucast x OR 0x80 :: byte) = ucast y OR 0x80"
      and t: "enc_uvarint (drop_bit 7 x) @ r = enc_uvarint (drop_bit 7 y) @ s"
      by (simp_all add: enc_uvarint_more)
    from "1.IH" [OF a(1) t] have "drop_bit 7 x = drop_bit 7 y" "r = s" by simp_all
    with h show ?thesis by (simp add: uvarint_head_inj)
  next
    case 2
    with "1.prems" have "(ucast x OR 0x80 :: byte) = ucast y"
      by (simp add: enc_uvarint_more enc_uvarint_last)
    with 2 show ?thesis using uvarint_head_continues [of x] uvarint_last_stops [of y] by simp
  next
    case 3
    with "1.prems" have "(ucast x :: byte) = ucast y OR 0x80"
      by (simp add: enc_uvarint_more enc_uvarint_last)
    with 3 show ?thesis using uvarint_head_continues [of y] uvarint_last_stops [of x] by simp
  next
    case 4
    with "1.prems" show ?thesis
      by (simp add: enc_uvarint_last uvarint_last_inj)
  qed
qed

text \<open>The ten-byte scratch array of \<open>Count\<close> is always long enough.\<close>

lemma enc_uvarint_length: "unat x < 2 ^ (7 * k) \<Longrightarrow> 0 < k \<Longrightarrow> length (enc_uvarint x) \<le> k"
proof (induction k arbitrary: x)
  case 0
  then show ?case by simp
next
  case (Suc k)
  show ?case
  proof (cases "0x80 \<le> x")
    case True
    then have "128 \<le> unat x" by (simp add: word_le_nat_alt)
    with Suc.prems(1) have "0 < k" by (cases k) simp_all
    have "unat (drop_bit 7 x) = drop_bit 7 (unat x)" by (simp only: unat_drop_bit_eq)
    also have "\<dots> = unat x div 2 ^ 7" by (simp only: drop_bit_eq_div)
    also have "\<dots> < 2 ^ (7 * k)" using Suc.prems(1) by (simp add: less_mult_imp_div_less power_add)
    finally have "length (enc_uvarint (drop_bit 7 x)) \<le> k" using \<open>0 < k\<close> by (rule Suc.IH)
    with True show ?thesis by (simp add: enc_uvarint_more)
  next
    case False
    then show ?thesis by (simp add: enc_uvarint_last)
  qed
qed

lemma enc_uvarint_length10: "length (enc_uvarint x) \<le> 10"
proof (rule enc_uvarint_length)
  have "unat x < 2 ^ 64" using unsigned_less [of x] by simp
  then show "unat x < 2 ^ (7 * 10)" by (rule less_trans) simp
qed simp

lemma PutUvarint_loop_eq:
  assumes "i + length (enc_uvarint x) \<le> length buf"
  shows "PutUvarint_loop buf i x =
    Ret (take i buf @ enc_uvarint x @ drop (i + length (enc_uvarint x)) buf, i + length (enc_uvarint x))"
  using assms
proof (induction buf i x rule: PutUvarint_loop.induct)
  case (1 buf i x)
  show ?case
  proof (cases "0x80 \<le> x")
    case True
    with "1.prems" have "i < length buf" by (simp add: enc_uvarint_more)
    with True "1" show ?thesis
      by (simp add: PutUvarint_loop.simps [of buf i x] enc_uvarint_more take_Suc_conv_app_nth)
  next
    case False
    with "1.prems" have "i < length buf" by (simp add: enc_uvarint_last)
    with False show ?thesis
      by (simp add: PutUvarint_loop.simps [of buf i x] enc_uvarint_last upd_conv_take_nth_drop)
  qed
qed

lemma PutUvarint_scratch:
  "PutUvarint_loop (replicate MaxVarintLen64 0) 0 x =
     Ret (enc_uvarint x @ replicate (10 - length (enc_uvarint x)) 0, length (enc_uvarint x))"
  using PutUvarint_loop_eq [of 0 x "replicate MaxVarintLen64 0"] enc_uvarint_length10 [of x]
  by (simp add: MaxVarintLen64_def)

lemma Buffer_Count_eq: "Buffer_Count n buf = buf\<lparr>buf_b := buf_b buf @ enc_uvarint n\<rparr>"
  by (simp add: Buffer_Count_def PutUvarint_scratch)

section \<open>The primitive encodings as prefix codes\<close>

definition enc_string :: "bytes \<Rightarrow> bytes" where
  "enc_string s = enc_uvarint (go_len s) @ s"

definition enc_bool :: "bool \<Rightarrow> bytes" where
  "enc_bool v = [if v then 1 else 0]"

definition enc_time :: "go_time \<Rightarrow> bytes" where
  "enc_time t = (if ValidTime t then enc_uint64 (time_UnixNano t) else [])"

definition enc_count :: "nat \<Rightarrow> bytes" where
  "enc_count n = enc_uvarint (word_of_nat n)"

lemma bit_ucast_drop_bit: "i < 8 \<Longrightarrow> bit (ucast (drop_bit k (v :: uint64)) :: byte) i = bit v (k + i)"
  by (simp add: bit_simps)

lemma enc_uint64_inj:
  assumes "enc_uint64 v = enc_uint64 w"
  shows "v = w"
proof (rule bit_word_eqI)
  fix n
  assume "n < LENGTH(64)"
  then have n: "n div 8 < 8" "n mod 8 < 8" "n = 8 * (n div 8) + n mod 8" by simp_all
  have "(ucast (drop_bit (8 * k) v) :: byte) = ucast (drop_bit (8 * k) w)" if "k < 8" for k
  proof -
    from that have "k \<in> {0, 1, 2, 3, 4, 5, 6, 7}" by auto
    with assms show ?thesis by (auto simp: enc_uint64_def)
  qed
  from this [OF n(1)] show "bit v n = bit w n"
    using bit_ucast_drop_bit [OF n(2), of "8 * (n div 8)" v] bit_ucast_drop_bit [OF n(2), of "8 * (n div 8)" w] n(3)
    by simp
qed

lemma length_enc_uint64 [simp]: "length (enc_uint64 v) = 8"
  by (simp add: enc_uint64_def)

text \<open>The exact range of \<open>ValidTime\<close>, and the exactness of \<open>UnixNano\<close> on it.\<close>

lemma representable_bounds:
  "minRepresentableUnixNano = \<lparr>t_sec = 52912224763, t_nsec = 145224192, t_loc = Some ''Local'', t_mono = None\<rparr>"
  "maxRepresentableUnixNano = \<lparr>t_sec = 71358968836, t_nsec = 854775807, t_loc = Some ''Local'', t_mono = None\<rparr>"
  by (simp_all add: minRepresentableUnixNano_def maxRepresentableUnixNano_def minInt64_def maxInt64_def
      time_Unix_def unixToInternal_def signed_divide_int_def Let_def)

lemma nanosecond_range:
  fixes s n :: int
  assumes "0 \<le> n" and "n < 1000000000"
  shows "(\<not> (s < 52912224763 \<or> s = 52912224763 \<and> n < 145224192) \<and>
          \<not> (71358968836 < s \<or> s = 71358968836 \<and> 854775807 < n))
     \<longleftrightarrow> - (2 ^ 63) \<le> (s - 62135596800) * 1000000000 + n \<and> (s - 62135596800) * 1000000000 + n < 2 ^ 63"
  using assms by auto

lemma ValidTime_range:
  assumes "wf_time t"
  shows "ValidTime t \<longleftrightarrow> - (2 ^ 63) \<le> instant_ns t \<and> instant_ns t < 2 ^ 63"
proof -
  have eq: "t_sec t = c \<longleftrightarrow> sint (t_sec t) = sint c" for c by (auto intro: signed_word_eqI)
  have "ValidTime t \<longleftrightarrow>
     \<not> (sint (t_sec t) < 52912224763 \<or> sint (t_sec t) = 52912224763 \<and> uint (t_nsec t) < 145224192) \<and>
     \<not> (71358968836 < sint (t_sec t) \<or> sint (t_sec t) = 71358968836 \<and> 854775807 < uint (t_nsec t))"
    by (simp add: ValidTime_def time_Before_def time_After_def representable_bounds wf_time_sint [OF assms] eq)
  also have "\<dots> \<longleftrightarrow> - (2 ^ 63) \<le> instant_ns t \<and> instant_ns t < 2 ^ 63"
    unfolding instant_ns_def using wf_time_uint [OF assms] by (intro nanosecond_range) simp_all
  finally show ?thesis .
qed

lemma ValidTime_UTC [simp]: "ValidTime (time_UTC t) = ValidTime t"
  by (simp add: ValidTime_def)

lemma enc_time_UTC: "enc_time (time_UTC t) = enc_time t"
  by (simp add: enc_time_def)

lemma ValidTime_UnixNano:
  "wf_time t \<Longrightarrow> ValidTime t \<Longrightarrow> sint (time_UnixNano t) = instant_ns t"
  using ValidTime_range sint_time_UnixNano by blast

interpretation uvarint_code: prefix_code enc_uvarint "\<lambda>_. True" "\<lambda>x. x"
  by unfold_locales (simp, rule enc_uvarint_cancel)

lemma enc_count_cancel:
  "m < 2 ^ 63 \<Longrightarrow> n < 2 ^ 63 \<Longrightarrow> enc_count m @ r = enc_count n @ s \<Longrightarrow> m = n \<and> r = s"
  using enc_uvarint_cancel [of "word_of_nat m" r "word_of_nat n" s]
  by (simp add: enc_count_def word_of_nat_eq_iff take_bit_nat_eq_self)

interpretation count_code: prefix_code enc_count "\<lambda>n. n < 2 ^ 63" "\<lambda>n. n"
  by unfold_locales (simp, rule enc_count_cancel)

interpretation string_code: prefix_code enc_string fits "\<lambda>s. s"
proof (unfold_locales, simp, goal_cases)
  case (1 x y r s)
  from "1"(3) have "enc_uvarint (go_len x) @ (x @ r) = enc_uvarint (go_len y) @ (y @ s)"
    by (simp add: enc_string_def)
  then have "go_len x = go_len y" and eq: "x @ r = y @ s"
    using enc_uvarint_cancel by blast+
  with "1"(1,2) have "length x = length y" by (simp add: word_of_nat_inj_fits)
  with eq show ?case by simp
qed

interpretation bool_code: prefix_code enc_bool "\<lambda>_. True" "\<lambda>v. v"
  by unfold_locales (auto simp: enc_bool_def split: if_splits)

interpretation uint64_code: prefix_code enc_uint64 "\<lambda>_. True" "\<lambda>v. v"
  by unfold_locales (simp, use append_eq_same_length [of "enc_uint64 _" "enc_uint64 _"] enc_uint64_inj in auto)

interpretation time_code: prefix_code enc_time "\<lambda>t. wf_time t \<and> ValidTime t" time_UTC
proof (unfold_locales, goal_cases)
  case (1 x y)
  then show ?case by (metis enc_time_UTC)
next
  case (2 x y r s)
  then have "enc_uint64 (time_UnixNano x) @ r = enc_uint64 (time_UnixNano y) @ s"
    by (simp add: enc_time_def)
  then have "time_UnixNano x = time_UnixNano y" "r = s"
    using uint64_code.cancel by blast+
  with 2 show ?case by (metis ValidTime_UnixNano instant_ns_eq_iff)
qed

text \<open>The cancellation rules that split an equation between two field sequences field by field.\<close>

lemmas canon_cancel = string_code.cancel_iff count_code.cancel_iff bool_code.cancel_iff
  uint64_code.cancel_iff time_code.cancel_iff string_code.enc_eq_iff bool_code.enc_eq_iff
  uint64_code.enc_eq_iff time_code.enc_eq_iff

section \<open>The buffer methods append their encodings\<close>

named_theorems buffer_simps \<open>the bytes and the error of a buffer after each method\<close>

lemma buf_b_ops [buffer_simps]:
  "buf_b (Buffer_Count n buf) = buf_b buf @ enc_uvarint n"
  "buf_b (Buffer_String s buf) = buf_b buf @ enc_string s"
  "buf_b (Buffer_Bytes s buf) = buf_b buf @ enc_string s"
  "buf_b (Buffer_Bool v buf) = buf_b buf @ enc_bool v"
  "buf_b (Buffer_Uint64 w buf) = buf_b buf @ enc_uint64 w"
  "buf_b (Buffer_Int64 w buf) = buf_b buf @ enc_uint64 w"
  "buf_b (Buffer_Time t buf) = buf_b buf @ enc_time t"
  "buf_b (canon_New tag) = enc_string tag"
  by (simp_all add: Buffer_Count_eq Buffer_String_def Buffer_Bytes_def Buffer_Bool_def Buffer_Uint64_def
      Buffer_Int64_def Buffer_Time_def canon_New_def enc_string_def enc_bool_def enc_time_def Let_def)

lemma canon_error_eq: "(e :: canon_error) = ErrTimeOutOfRange"
  by (cases e) simp

lemma buf_err_ops [buffer_simps]:
  "buf_err (Buffer_Count n buf) = buf_err buf"
  "buf_err (Buffer_String s buf) = buf_err buf"
  "buf_err (Buffer_Bytes s buf) = buf_err buf"
  "buf_err (Buffer_Bool v buf) = buf_err buf"
  "buf_err (Buffer_Uint64 w buf) = buf_err buf"
  "buf_err (Buffer_Int64 w buf) = buf_err buf"
  "buf_err (Buffer_Time t buf) = (if ValidTime t then buf_err buf else Some ErrTimeOutOfRange)"
  "buf_err (canon_New tag) = None"
  by (auto simp: Buffer_Count_eq Buffer_String_def Buffer_Bytes_def Buffer_Bool_def Buffer_Uint64_def
      Buffer_Int64_def Buffer_Time_def canon_New_def Let_def intro: canon_error_eq)

lemma buf_b_fold:
  assumes "\<And>x buf. buf_b (f x buf) = buf_b buf @ g x"
  shows "buf_b (fold f xs buf) = buf_b buf @ concat (map g xs)"
  by (induction xs arbitrary: buf) (simp_all add: assms)

lemma buf_err_fold:
  assumes "\<And>x buf. buf_err (f x buf) = buf_err buf"
  shows "buf_err (fold f xs buf) = buf_err buf"
  by (induction xs arbitrary: buf) (simp_all add: assms)

lemma enc_uvarint_len: "enc_uvarint (go_len xs) = enc_count (length xs)"
  by (simp add: go_len_def enc_count_def)

end
