(* ===== verification/Canon_Properties.thy ===== *)
theory Canon_Properties
  imports Spec_Encoding
begin

text \<open>
  What package \<open>canon\<close> promises the message packages: the exact bytes of every \<open>Buffer\<close>
      method, the exact
  range of \<open>ValidTime\<close>, and the behaviour of whole sequences of method calls, errors included.
\<close>

section \<open>Sequences of buffer operations\<close>

datatype buffer_op =
    PutCount int64 | PutString bytes | PutBytes bytes | PutBool bool | PutInt64 int64 | PutUint64 uint64
  | PutTime go_time

fun run_op :: "buffer_op \<Rightarrow> Buffer \<Rightarrow> Buffer" where
  "run_op (PutCount n) = Buffer_Count n"
| "run_op (PutString s) = Buffer_String s"
| "run_op (PutBytes s) = Buffer_Bytes s"
| "run_op (PutBool v) = Buffer_Bool v"
| "run_op (PutInt64 v) = Buffer_Int64 v"
| "run_op (PutUint64 v) = Buffer_Uint64 v"
| "run_op (PutTime t) = Buffer_Time t"

definition representable :: "go_time \<Rightarrow> bool" where
  "representable t \<longleftrightarrow> - (2 ^ 63) \<le> instant_ns t \<and> instant_ns t < 2 ^ 63"

text \<open>The bytes SPEC.md section 3 gives each operation; nothing for a time outside the range.\<close>

fun op_bytes :: "buffer_op \<Rightarrow> bytes" where
  "op_bytes (PutCount n) = spec_leb128 (unat n)"
| "op_bytes (PutString s) = spec_leb128 (length s) @ s"
| "op_bytes (PutBytes s) = spec_leb128 (length s) @ s"
| "op_bytes (PutBool v) = (if v then [0x01] else [0x00])"
| "op_bytes (PutInt64 v) = spec_be64 (sint v)"
| "op_bytes (PutUint64 v) = spec_be64 (uint v)"
| "op_bytes (PutTime t) = (if representable t then spec_be64 (instant_ns t) else [])"

fun op_wf :: "buffer_op \<Rightarrow> bool" where
  "op_wf (PutString s) = fits s"
| "op_wf (PutBytes s) = fits s"
| "op_wf (PutTime t) = wf_time t"
| "op_wf _ = True"

fun op_fails :: "buffer_op \<Rightarrow> bool" where
  "op_fails (PutTime t) = (\<not> representable t)"
| "op_fails _ = False"

lemma ValidTime_representable: "wf_time t \<Longrightarrow> ValidTime t = representable t"
  by (simp add: ValidTime_range representable_def)

lemma time_nanos_spec: "wf_time t \<Longrightarrow> representable t \<Longrightarrow> enc_uint64 (time_UnixNano t) =
    spec_be64 (instant_ns t)"
  by (metis enc_int64_spec ValidTime_UnixNano ValidTime_representable)

lemma run_op_bytes: "op_wf op \<Longrightarrow> buf_b (run_op op buf) = buf_b buf @ op_bytes op"
  by (cases op) (auto simp: buffer_simps enc_uvarint_spec enc_string_spec enc_bool_def enc_int64_spec [symmetric]
      enc_uint64_spec [symmetric] ValidTime_representable enc_time_def time_nanos_spec)

lemma run_op_err: "op_wf op \<Longrightarrow> buf_err (run_op op buf) =
    (if op_fails op then Some ErrTimeOutOfRange else buf_err buf)"
  by (cases op) (simp_all add: buffer_simps ValidTime_representable)

lemma run_ops:
  assumes "list_all op_wf ops"
  shows "buf_b (fold run_op ops buf) = buf_b buf @ concat (map op_bytes ops) \<and>
     buf_err (fold run_op ops buf) = (if list_ex op_fails ops then Some ErrTimeOutOfRange else buf_err buf)"
  using assms by (induction ops arbitrary: buf) (simp_all add: run_op_bytes run_op_err)

section \<open>Properties\<close>

text \<open>C25: for every sequence of \<open>Buffer\<close> method calls on \<open>New(tag)\<close>,
    in any order and number, \<open>Sum\<close> is the
  concatenation of the encodings SPEC.md section 3 gives the tag and each value, a time outside the
  \<open>int64\<close> nanosecond range contributing nothing, and \<open>Err\<close> is \<open>ErrTimeOutOfRange\<close>
      exactly when some such
  time was appended, however many correct fields follow: the error is latched.\<close>

theorem Buffer_sequence:
  assumes "fits tag" and "list_all op_wf ops"
  shows "Buffer_Sum (fold run_op ops (canon_New tag)) = spec_leb128 (length tag) @ tag @ concat (map op_bytes ops) \<and>
     Buffer_Err (fold run_op ops (canon_New tag)) = (if list_ex op_fails ops then Some ErrTimeOutOfRange else None)"
  using run_ops [OF assms(2), of "canon_New tag"] assms(1)
  by (simp add: Buffer_Sum_def Buffer_Err_def buffer_simps enc_string_spec)

definition ops_example :: "buffer_op list" where
  "ops_example = [PutInt64 (-1), PutTime \<lparr>t_sec = 0, t_nsec = 5, t_loc = None, t_mono = None\<rparr>, PutBool True]"

lemma Buffer_sequence_witness:
  "fits (lit ''tag'') \<and> list_all op_wf ops_example \<and>
   Buffer_Err (fold run_op ops_example (canon_New (lit ''tag''))) = Some ErrTimeOutOfRange"
  using Buffer_sequence [of "lit ''tag''" ops_example]
  by (simp add: ops_example_def fits_def wf_time_def representable_def instant_ns_def)

text \<open>\<open>ValidTime\<close> holds of an instant exactly when its nanoseconds since the Unix epoch, as an exact
  integer, are representable in \<open>int64\<close>, which is exactly when \<open>UnixNano\<close> returns them instead of a
  wrapped value.\<close>

theorem ValidTime_exact:
  assumes "wf_time t"
  shows "(ValidTime t \<longleftrightarrow> - (2 ^ 63) \<le> instant_ns t \<and> instant_ns t < 2 ^ 63) \<and>
     (ValidTime t \<longleftrightarrow> sint (time_UnixNano t) = instant_ns t)"
proof -
  have "ValidTime t" if "sint (time_UnixNano t) = instant_ns t"
    using that sint_greater_eq [of "time_UnixNano t"] sint_less [of "time_UnixNano t"]
    by (simp add: ValidTime_range [OF assms])
  then show ?thesis using ValidTime_range [OF assms] ValidTime_UnixNano [OF assms] by blast
qed

lemma ValidTime_exact_witness:
  "wf_time minRepresentableUnixNano \<and> ValidTime minRepresentableUnixNano \<and>
   \<not> ValidTime (minRepresentableUnixNano\<lparr>t_nsec := 0\<rparr>)"
  using ValidTime_exact [of minRepresentableUnixNano] ValidTime_exact [of "minRepresentableUnixNano\<lparr>t_nsec :=
      0\<rparr>"]
  by (simp add: representable_bounds wf_time_def instant_ns_def)

text \<open>\<open>Time\<close> appends the eight big-endian bytes of the exact nanoseconds of a representable instant,
  whatever its location and monotonic reading; any other instant appends nothing, leaves the bytes
  untouched and latches the error.\<close>

theorem Buffer_Time_exact:
  assumes "wf_time t"
  shows "Buffer_Time t buf =
     (if - (2 ^ 63) \<le> instant_ns t \<and> instant_ns t < 2 ^ 63
      then buf\<lparr>buf_b := buf_b buf @ spec_be64 (instant_ns t)\<rparr>
      else buf\<lparr>buf_err := Some ErrTimeOutOfRange\<rparr>)"
proof (cases "ValidTime t")
  case True
  then show ?thesis using ValidTime_range [OF assms] ValidTime_UnixNano [OF assms True]
    by (simp add: Buffer_Time_def Buffer_Int64_def Buffer_Uint64_def enc_int64_spec)
next
  case False
  have "buf_err buf = None \<or> buf_err buf = Some ErrTimeOutOfRange"
    using canon_error_eq by (cases "buf_err buf") auto
  with False show ?thesis unfolding ValidTime_range [OF assms, symmetric]
    by (cases buf) (auto simp: Buffer_Time_def)
qed

lemma Buffer_Time_exact_witness:
  "Buffer_Time \<lparr>t_sec = 62135596800, t_nsec = 7, t_loc = Some ''Local'', t_mono = Some 3\<rparr> (canon_New []) =
     \<lparr>buf_b = [0, 0, 0, 0, 0, 0, 0, 0, 7], buf_err = None\<rparr>"
proof -
  have "canon_New [] = \<lparr>buf_b = [0], buf_err = None\<rparr>" by code_simp
  then show ?thesis
    using Buffer_Time_exact [of "\<lparr>t_sec = 62135596800, t_nsec = 7, t_loc = Some ''Local'', t_mono =
        Some 3\<rparr>" "canon_New []"]
    by (simp add: wf_time_def instant_ns_def spec_be64_def)
qed

text \<open>C26: \<open>Count\<close> never overruns its ten-byte scratch array, for any \<open>int\<close> (a negative
    one is converted to
  its \<open>uint64\<close> reinterpretation), and appends exactly the unsigned LEB128 encoding of SPEC.md section 3.\<close>

theorem Buffer_Count_leb128:
  "PutUvarint_loop (replicate MaxVarintLen64 0) 0 n \<noteq> Panic \<and> length (spec_leb128 (unat n)) \<le> 10 \<and>
   Buffer_Count n buf = buf\<lparr>buf_b := buf_b buf @ spec_leb128 (unat n)\<rparr>"
  using enc_uvarint_length10 [of n] by (simp add: PutUvarint_scratch Buffer_Count_eq enc_uvarint_spec)

text \<open>\<open>Int64\<close> and \<open>Uint64\<close> append eight big-endian bytes of the value,
    \<open>Int64\<close> in two's complement, as
  SPEC.md section 3 requires (\<open>2^64\<close> added to a negative value).\<close>

theorem Buffer_Int64_bigendian:
  "Buffer_Int64 v buf = buf\<lparr>buf_b := buf_b buf @ spec_be64 (sint v)\<rparr> \<and>
   Buffer_Uint64 v buf = buf\<lparr>buf_b := buf_b buf @ spec_be64 (uint v)\<rparr> \<and> length (spec_be64 (uint v)) = 8"
  by (simp add: Buffer_Int64_def Buffer_Uint64_def enc_int64_spec [symmetric] enc_uint64_spec [symmetric])

end
