(* ===== verification/Signed_Messages.thy ===== *)
theory Signed_Messages
  imports Canon
begin

text \<open>
  The contract the twelve singly signed messages share, whatever their fields: the canonical bytes start
  with the message's domain tag, exclude the signature and are a prefix code on the rest of the message;
  \<open>Sign\<close> stores an ed25519 signature over exactly those bytes; \<open>Verify\<close> returns on every input and
  accepts when the message's own guard holds and the stored signature verifies over those bytes. Each
  message package provides the contract; the lemmas are proved here once.
\<close>

named_theorems message_simps \<open>the canonical bytes, operations, well-formedness and payload of each message\<close>

declare canon_verifier.verify_eq [message_simps]

text \<open>A forgery under a key: a pair the verifier accepts although the holder never signed those bytes.\<close>

definition forgery :: "ed25519 \<Rightarrow> bytes \<Rightarrow> bytes set \<Rightarrow> bytes \<Rightarrow>
    bytes \<Rightarrow> bool" where
  "forgery E pub issued b s \<longleftrightarrow> ed_verify E pub b s \<and> b \<notin> issued"

locale signed_payload = prefix_code canon good payload
  for canon :: "'m \<Rightarrow> bytes" and good :: "'m \<Rightarrow> bool" and payload :: "'m \<Rightarrow> 'm" +
  fixes sig :: "'m \<Rightarrow> bytes"
    and put :: "bytes \<Rightarrow> 'm \<Rightarrow> 'm"
    and guard :: "bytes \<Rightarrow> 'm \<Rightarrow> bool"
    and sign :: "ed25519 \<Rightarrow> bytes \<Rightarrow> 'm \<Rightarrow> 'm go"
    and verify :: "ed25519 \<Rightarrow> bytes \<Rightarrow> 'm \<Rightarrow> bool go"
  assumes canon_put: "canon (put s m) = canon m"
    and sig_put: "sig (put s m) = s"
    and payload_put: "payload (put s m) = payload m"
    and guard_put: "guard pub (put s m) = guard pub m"
    and sign_eq: "sign E priv m = go_bind (ed25519_Sign E priv (canon m)) (\<lambda>s. Ret (put s m))"
    and verify_eq: "verify E pub m = Ret (guard pub m \<and> length pub = PublicKeySize \<and>
          length (sig m) = SignatureSize \<and> ed_verify E pub (canon m) (sig m))"
begin

lemma verify_no_panic: "verify E pub m \<noteq> Panic"
  by (simp add: verify_eq)

lemma rejects_bad_sizes:
  "length pub \<noteq> PublicKeySize \<or> length (sig m) \<noteq> SignatureSize \<Longrightarrow> verify E pub m =
      Ret False"
  by (auto simp: verify_eq)

lemma sign_panics_iff: "sign E priv m = Panic \<longleftrightarrow> length priv \<noteq> PrivateKeySize"
  by (simp add: sign_eq ed25519_Sign_def)

lemma sign_verify:
  assumes "ed25519_laws E" and "keypair E priv pub" and "guard pub m"
  shows "\<exists>m'. sign E priv m = Ret m' \<and> payload m' = payload m \<and> verify E pub m' = Ret True"
proof -
  let ?s = "ed_sign E priv (canon m)"
  have "sign E priv m = Ret (put ?s m)"
    by (simp add: sign_eq ed25519_Sign_keypair [OF assms(2)])
  moreover have "verify E pub (put ?s m) = Ret True"
    using assms keypair_length [OF assms(2)]
    by (simp add: verify_eq canon_put sig_put guard_put ed25519_laws_length ed25519_laws_verify)
  ultimately show ?thesis by (auto simp: payload_put)
qed

text \<open>An accepted message whose content the key holder never signed is a forgery of the primitive, or has the bytes of a
  signed message that is malformed or of which it is a malformed copy.\<close>

lemma unsigned_content_is_forgery:
  assumes "verify E pub m = Ret True" and "payload m \<notin> payload ` S"
  shows "forgery E pub (canon ` S) (canon m) (sig m) \<or> (\<exists>m' \<in> S. canon m' = canon m \<and> (\<not> good m \<or> \<not> good m'))"
  using assms enc_eq_iff [of m] by (fastforce simp: verify_eq forgery_def)

end

text \<open>One message type: its bytes start with its own domain tag.\<close>

locale signed_message = signed_payload canon good payload sig put guard sign verify
  for canon :: "'m \<Rightarrow> bytes" and good payload sig put guard sign verify +
  fixes tag :: bytes and body :: "'m \<Rightarrow> bytes"
  assumes tag_fits: "fits tag"
    and canon_tag: "canon m = enc_string tag @ body m"
begin

text \<open>The bytes of a message are never those of a message with another domain tag.\<close>

lemma tag_separates:
  assumes "fits tag'" and "tag' \<noteq> tag"
  shows "canon m \<noteq> enc_string tag' @ b"
  using string_code.cancel [OF tag_fits assms(1)] assms(2) by (auto simp: canon_tag)

end

end
