(* ===== verification/Identity.thy ===== *)
theory Identity
  imports Signed_Messages
begin

text \<open>
  Package \<open>identity\<close>: the SPIFFE binding of a node (src/identity/identity.go) and the node-key lifecycle
  messages (src/identity/keylife.go). A \<open>NodeID\<close> is a named string type in Go, so any byte string is one.
\<close>

type_synonym NodeID = bytes

definition SPIFFEPathForNode :: "NodeID \<Rightarrow> bytes" where
  "SPIFFEPathForNode n = lit ''/node/'' @ n"

definition BindsTo :: "bytes \<Rightarrow> NodeID \<Rightarrow> bool" where
  "BindsTo spiffePath n \<longleftrightarrow> spiffePath = SPIFFEPathForNode n"

record KeyRotation =
  kr_NodeID :: NodeID
  kr_NewPublicKey :: bytes
  kr_Algo :: bytes
  kr_RotatedAt :: go_time
  kr_Seq :: uint64
  kr_Signature :: bytes

record KeyRevocation =
  kv_NodeID :: NodeID
  kv_RevokedPublicKey :: bytes
  kv_RevokedAt :: go_time
  kv_Seq :: uint64
  kv_Signature :: bytes

definition domainRotate :: bytes where "domainRotate = lit ''sohocloud/node-rotate/v0''"
definition domainRevoke :: bytes where "domainRevoke = lit ''sohocloud/node-revoke/v0''"

definition KeyRotation_CanonicalBytes :: "KeyRotation \<Rightarrow> bytes" where
  "KeyRotation_CanonicalBytes k =
     (let b = canon_New domainRotate;
          b = Buffer_String (kr_NodeID k) b;
          b = Buffer_Bytes (kr_NewPublicKey k) b;
          b = Buffer_String (kr_Algo k) b;
          b = Buffer_Time (kr_RotatedAt k) b;
          b = Buffer_Uint64 (kr_Seq k) b
      in Buffer_Sum b)"

definition KeyRotation_Sign :: "ed25519 \<Rightarrow> bytes \<Rightarrow> KeyRotation \<Rightarrow> KeyRotation go" where
  "KeyRotation_Sign E priv k =
     go_bind (ed25519_Sign E priv (KeyRotation_CanonicalBytes k)) (\<lambda>s. Ret (k\<lparr>kr_Signature := s\<rparr>))"

definition KeyRotation_Verify :: "ed25519 \<Rightarrow> bytes \<Rightarrow> KeyRotation \<Rightarrow> bool go" where
  "KeyRotation_Verify E currentPub k =
     go_and (kr_Algo k = lit ''ed25519'')
       (go_and (length (kr_NewPublicKey k) = PublicKeySize)
         (VerifySig E currentPub (KeyRotation_CanonicalBytes k) (kr_Signature k)))"

definition KeyRevocation_CanonicalBytes :: "KeyRevocation \<Rightarrow> bytes" where
  "KeyRevocation_CanonicalBytes k =
     (let b = canon_New domainRevoke;
          b = Buffer_String (kv_NodeID k) b;
          b = Buffer_Bytes (kv_RevokedPublicKey k) b;
          b = Buffer_Time (kv_RevokedAt k) b;
          b = Buffer_Uint64 (kv_Seq k) b
      in Buffer_Sum b)"

definition KeyRevocation_Sign :: "ed25519 \<Rightarrow> bytes \<Rightarrow> KeyRevocation \<Rightarrow> KeyRevocation go" where
  "KeyRevocation_Sign E priv k =
     go_bind (ed25519_Sign E priv (KeyRevocation_CanonicalBytes k)) (\<lambda>s. Ret (k\<lparr>kv_Signature := s\<rparr>))"

definition KeyRevocation_Verify :: "ed25519 \<Rightarrow> bytes \<Rightarrow> KeyRevocation \<Rightarrow> bool go" where
  "KeyRevocation_Verify E trustedPub k =
     go_and (length (kv_RevokedPublicKey k) = PublicKeySize)
       (go_and (kv_RevokedPublicKey k = trustedPub)
         (VerifySig E (kv_RevokedPublicKey k) (KeyRevocation_CanonicalBytes k) (kv_Signature k)))"

definition KeyRotation_good :: "KeyRotation \<Rightarrow> bool" where
  "KeyRotation_good k \<longleftrightarrow> fits (kr_NodeID k) \<and> fits (kr_NewPublicKey k) \<and> fits (kr_Algo k) \<and>
     wf_time (kr_RotatedAt k) \<and> ValidTime (kr_RotatedAt k)"

definition KeyRotation_payload :: "KeyRotation \<Rightarrow> KeyRotation" where
  "KeyRotation_payload k = k\<lparr>kr_RotatedAt := time_UTC (kr_RotatedAt k), kr_Signature := []\<rparr>"

definition KeyRevocation_good :: "KeyRevocation \<Rightarrow> bool" where
  "KeyRevocation_good k \<longleftrightarrow> fits (kv_NodeID k) \<and> fits (kv_RevokedPublicKey k) \<and>
     wf_time (kv_RevokedAt k) \<and> ValidTime (kv_RevokedAt k)"

definition KeyRevocation_payload :: "KeyRevocation \<Rightarrow> KeyRevocation" where
  "KeyRevocation_payload k = k\<lparr>kv_RevokedAt := time_UTC (kv_RevokedAt k), kv_Signature := []\<rparr>"

lemma domain_identity_fits [simp]: "fits domainRotate" "fits domainRevoke"
  by (simp_all add: domainRotate_def domainRevoke_def fits_lit)

section \<open>The rotation\<close>

lemma KeyRotation_canon [message_simps]:
  "KeyRotation_CanonicalBytes k =
     enc_string domainRotate @ enc_string (kr_NodeID k) @ enc_string (kr_NewPublicKey k) @
     enc_string (kr_Algo k) @ enc_time (kr_RotatedAt k) @ enc_uint64 (kr_Seq k)"
  by (simp add: KeyRotation_CanonicalBytes_def Buffer_Sum_def Let_def buffer_simps)

lemma KeyRotation_payload_eq_iff:
  "KeyRotation_payload x = KeyRotation_payload y \<longleftrightarrow> kr_NodeID x = kr_NodeID y \<and>
     kr_NewPublicKey x = kr_NewPublicKey y \<and> kr_Algo x = kr_Algo y \<and>
     time_UTC (kr_RotatedAt x) = time_UTC (kr_RotatedAt y) \<and> kr_Seq x = kr_Seq y"
  by (cases x; cases y) (auto simp: KeyRotation_payload_def)

text \<open>What \<open>Verify\<close> asks of a rotation besides the signature: a well-formed successor.\<close>

definition KeyRotation_guard :: "bytes \<Rightarrow> KeyRotation \<Rightarrow> bool" where
  "KeyRotation_guard pub k \<longleftrightarrow> kr_Algo k = lit ''ed25519'' \<and> length (kr_NewPublicKey k) = PublicKeySize"

interpretation KeyRotation_msg: signed_message KeyRotation_CanonicalBytes KeyRotation_good KeyRotation_payload
  kr_Signature "\<lambda>s k. k\<lparr>kr_Signature := s\<rparr>" KeyRotation_guard
  KeyRotation_Sign KeyRotation_Verify domainRotate
  "\<lambda>k. enc_string (kr_NodeID k) @ enc_string (kr_NewPublicKey k) @ enc_string (kr_Algo k) @
     enc_time (kr_RotatedAt k) @ enc_uint64 (kr_Seq k)"
  by unfold_locales (auto simp: message_simps canon_cancel KeyRotation_payload_eq_iff KeyRotation_good_def
      KeyRotation_guard_def KeyRotation_Sign_def KeyRotation_Verify_def go_simps)

section \<open>The revocation\<close>

lemma KeyRevocation_canon [message_simps]:
  "KeyRevocation_CanonicalBytes k =
     enc_string domainRevoke @ enc_string (kv_NodeID k) @ enc_string (kv_RevokedPublicKey k) @
     enc_time (kv_RevokedAt k) @ enc_uint64 (kv_Seq k)"
  by (simp add: KeyRevocation_CanonicalBytes_def Buffer_Sum_def Let_def buffer_simps)

lemma KeyRevocation_payload_eq_iff:
  "KeyRevocation_payload x = KeyRevocation_payload y \<longleftrightarrow> kv_NodeID x = kv_NodeID y \<and>
     kv_RevokedPublicKey x = kv_RevokedPublicKey y \<and>
     time_UTC (kv_RevokedAt x) = time_UTC (kv_RevokedAt y) \<and> kv_Seq x = kv_Seq y"
  by (cases x; cases y) (auto simp: KeyRevocation_payload_def)

text \<open>What \<open>Verify\<close> asks of a revocation besides the signature: it names the trusted key.\<close>

definition KeyRevocation_guard :: "bytes \<Rightarrow> KeyRevocation \<Rightarrow> bool" where
  "KeyRevocation_guard pub k \<longleftrightarrow> kv_RevokedPublicKey k = pub"

interpretation KeyRevocation_msg: signed_message KeyRevocation_CanonicalBytes KeyRevocation_good KeyRevocation_payload
  kv_Signature "\<lambda>s k. k\<lparr>kv_Signature := s\<rparr>" KeyRevocation_guard
  KeyRevocation_Sign KeyRevocation_Verify domainRevoke
  "\<lambda>k. enc_string (kv_NodeID k) @ enc_string (kv_RevokedPublicKey k) @ enc_time (kv_RevokedAt k) @
     enc_uint64 (kv_Seq k)"
  by unfold_locales (auto simp: message_simps canon_cancel KeyRevocation_payload_eq_iff KeyRevocation_good_def
      KeyRevocation_guard_def KeyRevocation_Sign_def KeyRevocation_Verify_def go_simps)

section \<open>Properties\<close>

text \<open>A SPIFFE path binds to a node exactly when it is that node's own path, so a path binds at most one
  node: the authenticated peer identity cannot be claimed for another \<open>NodeID\<close>.\<close>

theorem BindsTo_unique: "BindsTo (SPIFFEPathForNode m) n \<longleftrightarrow> m = n"
  by (auto simp: BindsTo_def SPIFFEPathForNode_def)

text \<open>A \<open>KeyRotation\<close> is accepted exactly when its algorithm is \<open>ed25519\<close>, the successor is a well-formed
  32-byte key, and the signature over the canonical bytes, which contain the successor, verifies under
  the key the verifier currently holds; so what is installed is never malformed, a rotation signed only
  by the successor is not accepted, and no input makes \<open>Verify\<close> panic.\<close>

lemma KeyRotation_accepts:
  "(KeyRotation_Verify E currentPub k = Ret True \<longleftrightarrow>
     kr_Algo k = lit ''ed25519'' \<and> length (kr_NewPublicKey k) = 32 \<and> length currentPub = 32 \<and>
     length (kr_Signature k) = 64 \<and> ed_verify E currentPub (KeyRotation_CanonicalBytes k) (kr_Signature k)) \<and>
   KeyRotation_Verify E currentPub k \<noteq> Panic"
  by (auto simp: KeyRotation_msg.verify_eq KeyRotation_guard_def key_sizes)

text \<open>A \<open>KeyRevocation\<close> is accepted only against the exact key it names: whoever signs it, a revocation
  naming any other key than the one the verifier trusts is rejected, so a stranger cannot revoke a
  node's key (SPEC.md section 4.12).\<close>

lemma KeyRevocation_accepts:
  "(KeyRevocation_Verify E trustedPub k = Ret True \<longleftrightarrow>
     kv_RevokedPublicKey k = trustedPub \<and> length trustedPub = 32 \<and> length (kv_Signature k) = 64 \<and>
     ed_verify E trustedPub (KeyRevocation_CanonicalBytes k) (kv_Signature k)) \<and>
   KeyRevocation_Verify E trustedPub k \<noteq> Panic"
  by (auto simp: KeyRevocation_msg.verify_eq KeyRevocation_guard_def key_sizes)

text \<open>C24: the two messages of the node key lifecycle are accepted exactly under SPEC.md 4.11 and 4.12: a rotation
  when its algorithm is \<open>ed25519\<close>, the successor is a well-formed 32-byte key and the signature over bytes that
  contain the successor verifies under the key now held; a revocation only against the exact key it names. No
  input makes \<open>Verify\<close> panic.\<close>

theorem key_lifecycle_accepts:
  "(KeyRotation_Verify E currentPub k = Ret True \<longleftrightarrow>
     kr_Algo k = lit ''ed25519'' \<and> length (kr_NewPublicKey k) = 32 \<and> length currentPub = 32 \<and>
     length (kr_Signature k) = 64 \<and> ed_verify E currentPub (KeyRotation_CanonicalBytes k) (kr_Signature k)) \<and>
   (KeyRevocation_Verify E currentPub v = Ret True \<longleftrightarrow>
     kv_RevokedPublicKey v = currentPub \<and> length currentPub = 32 \<and> length (kv_Signature v) = 64 \<and>
     ed_verify E currentPub (KeyRevocation_CanonicalBytes v) (kv_Signature v)) \<and>
   KeyRotation_Verify E currentPub k \<noteq> Panic \<and> KeyRevocation_Verify E currentPub v \<noteq> Panic"
  by (simp only: KeyRotation_accepts KeyRevocation_accepts simp_thms)

end
