(* ===== verification/Listing.thy ===== *)
theory Listing
  imports Identity
begin

text \<open>
  Package \<open>listing\<close> (src/listing/listing.go): a node's signed capability advertisement. The enumerations
  (\<open>ComputeClass\<close>, \<open>PrinterKind\<close>, \<open>GPUAPI\<close>) are named string types in Go, so any byte string inhabits
  them; the constants are the enumerated values.
\<close>

type_synonym ComputeClass = bytes

definition ClassMicro :: ComputeClass where "ClassMicro = lit ''micro''"
definition ClassStandard :: ComputeClass where "ClassStandard = lit ''standard''"
definition ClassServer :: ComputeClass where "ClassServer = lit ''server''"

type_synonym PrinterKind = bytes

definition PrinterTraditional :: PrinterKind where "PrinterTraditional = lit ''traditional''"
definition Printer3D :: PrinterKind where "Printer3D = lit ''threed''"

type_synonym GPUAPI = bytes

definition GPUVulkan :: GPUAPI where "GPUVulkan = lit ''vulkan''"
definition GPUNNAPI :: GPUAPI where "GPUNNAPI = lit ''nnapi''"
definition GPUCUDA :: GPUAPI where "GPUCUDA = lit ''cuda''"
definition GPUMetal :: GPUAPI where "GPUMetal = lit ''metal''"

record PrinterCapability =
  pc_Kind :: PrinterKind
  pc_Model :: bytes

record GPUCapability =
  gc_API :: GPUAPI
  gc_Model :: bytes
  gc_VRAMMB :: int64

record Capacity =
  ca_VCPUs :: int64
  ca_MemMB :: int64
  ca_DiskMB :: int64
  ca_StorageCommitMB :: int64
  ca_PrintQPS :: int64

record WorkloadOptIn =
  oi_Compute :: bool
  oi_Print :: bool
  oi_Storage :: bool

record CapabilityListing =
  cl_NodeID :: NodeID
  cl_Class :: ComputeClass
  cl_Printers :: "PrinterCapability list"
  cl_GPUs :: "GPUCapability list"
  cl_Capacity :: Capacity
  cl_OptIn :: WorkloadOptIn
  cl_IssuedAt :: go_time
  cl_Seq :: uint64
  cl_Signature :: bytes

definition domainListing :: bytes where
  "domainListing = lit ''sohocloud/listing/v0''"

definition CapabilityListing_CanonicalBytes :: "CapabilityListing \<Rightarrow> bytes" where
  "CapabilityListing_CanonicalBytes l =
     (let b = canon_New domainListing;
          b = Buffer_String (cl_NodeID l) b;
          b = Buffer_String (cl_Class l) b;
          b = Buffer_Count (go_len (cl_Printers l)) b;
          b = fold (\<lambda>p b. let b = Buffer_String (pc_Kind p) b in Buffer_String (pc_Model p) b) (cl_Printers l) b;
          b = Buffer_Count (go_len (cl_GPUs l)) b;
          b = fold (\<lambda>g b. let b = Buffer_String (gc_API g) b;
                                b = Buffer_String (gc_Model g) b
                            in Buffer_Int64 (gc_VRAMMB g) b) (cl_GPUs l) b;
          b = Buffer_Int64 (ca_VCPUs (cl_Capacity l)) b;
          b = Buffer_Int64 (ca_MemMB (cl_Capacity l)) b;
          b = Buffer_Int64 (ca_DiskMB (cl_Capacity l)) b;
          b = Buffer_Int64 (ca_StorageCommitMB (cl_Capacity l)) b;
          b = Buffer_Int64 (ca_PrintQPS (cl_Capacity l)) b;
          b = Buffer_Bool (oi_Compute (cl_OptIn l)) b;
          b = Buffer_Bool (oi_Print (cl_OptIn l)) b;
          b = Buffer_Bool (oi_Storage (cl_OptIn l)) b;
          b = Buffer_Time (cl_IssuedAt l) b;
          b = Buffer_Uint64 (cl_Seq l) b
      in Buffer_Sum b)"

definition CapabilityListing_Sign :: "ed25519 \<Rightarrow> bytes \<Rightarrow> CapabilityListing \<Rightarrow> CapabilityListing go" where
  "CapabilityListing_Sign E priv l =
     go_bind (ed25519_Sign E priv (CapabilityListing_CanonicalBytes l)) (\<lambda>s. Ret (l\<lparr>cl_Signature := s\<rparr>))"

definition CapabilityListing_Verify :: "ed25519 \<Rightarrow> bytes \<Rightarrow> CapabilityListing \<Rightarrow> bool go" where
  "CapabilityListing_Verify E pub l = VerifySig E pub (CapabilityListing_CanonicalBytes l) (cl_Signature l)"

section \<open>Encodings of the parts\<close>

definition enc_printer :: "PrinterCapability \<Rightarrow> bytes" where
  "enc_printer p = enc_string (pc_Kind p) @ enc_string (pc_Model p)"

definition enc_gpu :: "GPUCapability \<Rightarrow> bytes" where
  "enc_gpu g = enc_string (gc_API g) @ enc_string (gc_Model g) @ enc_uint64 (gc_VRAMMB g)"

definition enc_capacity :: "Capacity \<Rightarrow> bytes" where
  "enc_capacity c = enc_uint64 (ca_VCPUs c) @ enc_uint64 (ca_MemMB c) @ enc_uint64 (ca_DiskMB c) @
     enc_uint64 (ca_StorageCommitMB c) @ enc_uint64 (ca_PrintQPS c)"

definition enc_optin :: "WorkloadOptIn \<Rightarrow> bytes" where
  "enc_optin o' = enc_bool (oi_Compute o') @ enc_bool (oi_Print o') @ enc_bool (oi_Storage o')"

definition printer_good :: "PrinterCapability \<Rightarrow> bool" where
  "printer_good p \<longleftrightarrow> fits (pc_Kind p) \<and> fits (pc_Model p)"

definition gpu_good :: "GPUCapability \<Rightarrow> bool" where
  "gpu_good g \<longleftrightarrow> fits (gc_API g) \<and> fits (gc_Model g)"

definition CapabilityListing_good :: "CapabilityListing \<Rightarrow> bool" where
  "CapabilityListing_good l \<longleftrightarrow> fits (cl_NodeID l) \<and> fits (cl_Class l) \<and>
     fits (cl_Printers l) \<and> list_all printer_good (cl_Printers l) \<and>
     fits (cl_GPUs l) \<and> list_all gpu_good (cl_GPUs l) \<and> wf_time (cl_IssuedAt l) \<and> ValidTime (cl_IssuedAt l)"

definition CapabilityListing_payload :: "CapabilityListing \<Rightarrow> CapabilityListing" where
  "CapabilityListing_payload l = l\<lparr>cl_IssuedAt := time_UTC (cl_IssuedAt l), cl_Signature := []\<rparr>"

interpretation printers_code: repeated_code enc_printer printer_good "\<lambda>p. p" enc_count
proof (unfold_locales, simp, goal_cases)
  case (1 x y r s)
  then show ?case by (cases x; cases y) (simp add: enc_printer_def printer_good_def canon_cancel)
qed (rule enc_count_cancel)

interpretation gpus_code: repeated_code enc_gpu gpu_good "\<lambda>g. g" enc_count
proof (unfold_locales, simp, goal_cases)
  case (1 x y r s)
  then show ?case by (cases x; cases y) (simp add: enc_gpu_def gpu_good_def canon_cancel)
qed (rule enc_count_cancel)

interpretation capacity_code: prefix_code enc_capacity "\<lambda>_. True" "\<lambda>c. c"
proof (unfold_locales, simp, goal_cases)
  case (1 x y r s)
  then show ?case by (cases x; cases y) (simp add: enc_capacity_def canon_cancel)
qed

interpretation optin_code: prefix_code enc_optin "\<lambda>_. True" "\<lambda>o'. o'"
proof (unfold_locales, simp, goal_cases)
  case (1 x y r s)
  then show ?case by (cases x; cases y) (simp add: enc_optin_def canon_cancel)
qed

section \<open>The listing\<close>

lemma domainListing_fits [simp]: "fits domainListing"
  by (simp add: domainListing_def fits_lit)

lemma buf_b_fold_printers:
  "buf_b (fold (\<lambda>p b. Buffer_String (pc_Model p) (Buffer_String (pc_Kind p) b)) ps b) =
     buf_b b @ concat (map enc_printer ps)"
  by (rule buf_b_fold) (simp add: buffer_simps enc_printer_def)

lemma buf_b_fold_gpus:
  "buf_b (fold (\<lambda>g b. Buffer_Int64 (gc_VRAMMB g) (Buffer_String (gc_Model g) (Buffer_String (gc_API g) b))) gs b) =
     buf_b b @ concat (map enc_gpu gs)"
  by (rule buf_b_fold) (simp add: buffer_simps enc_gpu_def)

lemma CapabilityListing_canon [message_simps]:
  "CapabilityListing_CanonicalBytes l =
     enc_string domainListing @ enc_string (cl_NodeID l) @ enc_string (cl_Class l) @
     enc_repeated enc_count enc_printer (cl_Printers l) @ enc_repeated enc_count enc_gpu (cl_GPUs l) @
     enc_capacity (cl_Capacity l) @ enc_optin (cl_OptIn l) @ enc_time (cl_IssuedAt l) @ enc_uint64 (cl_Seq l)"
  by (simp add: CapabilityListing_CanonicalBytes_def Buffer_Sum_def Let_def buffer_simps buf_b_fold_printers
      buf_b_fold_gpus enc_uvarint_len enc_repeated_def enc_capacity_def enc_optin_def)

lemma CapabilityListing_payload_eq_iff:
  "CapabilityListing_payload x = CapabilityListing_payload y \<longleftrightarrow> cl_NodeID x = cl_NodeID y \<and>
     cl_Class x = cl_Class y \<and> cl_Printers x = cl_Printers y \<and> cl_GPUs x = cl_GPUs y \<and>
     cl_Capacity x = cl_Capacity y \<and> cl_OptIn x = cl_OptIn y \<and>
     time_UTC (cl_IssuedAt x) = time_UTC (cl_IssuedAt y) \<and> cl_Seq x = cl_Seq y"
  by (cases x; cases y) (auto simp: CapabilityListing_payload_def)

interpretation CapabilityListing_msg: signed_message CapabilityListing_CanonicalBytes CapabilityListing_good CapabilityListing_payload
  cl_Signature "\<lambda>s l. l\<lparr>cl_Signature := s\<rparr>" "\<lambda>_ _. True"
  CapabilityListing_Sign CapabilityListing_Verify domainListing
  "\<lambda>l. enc_string (cl_NodeID l) @ enc_string (cl_Class l) @
     enc_repeated enc_count enc_printer (cl_Printers l) @ enc_repeated enc_count enc_gpu (cl_GPUs l) @
     enc_capacity (cl_Capacity l) @ enc_optin (cl_OptIn l) @ enc_time (cl_IssuedAt l) @ enc_uint64 (cl_Seq l)"
  by unfold_locales (auto simp: message_simps canon_cancel printers_code.rep.cancel_iff gpus_code.rep.cancel_iff
      capacity_code.cancel_iff optin_code.cancel_iff CapabilityListing_payload_eq_iff CapabilityListing_good_def
      CapabilityListing_Sign_def CapabilityListing_Verify_def)

end
