(* ===== verification/Liveness.thy ===== *)
theory Liveness
  imports Identity
begin

text \<open>Package \<open>liveness\<close> (src/liveness/liveness.go): a node's signed heartbeat.\<close>

record Heartbeat =
  hb_NodeID :: NodeID
  hb_SentAt :: go_time
  hb_Seq :: uint64
  hb_Signature :: bytes

definition domainHeartbeat :: bytes where
  "domainHeartbeat = lit ''sohocloud/heartbeat/v0''"

definition Heartbeat_CanonicalBytes :: "Heartbeat \<Rightarrow> bytes" where
  "Heartbeat_CanonicalBytes h =
     (let b = canon_New domainHeartbeat;
          b = Buffer_String (hb_NodeID h) b;
          b = Buffer_Time (hb_SentAt h) b;
          b = Buffer_Uint64 (hb_Seq h) b
      in Buffer_Sum b)"

definition Heartbeat_Sign :: "ed25519 \<Rightarrow> bytes \<Rightarrow> Heartbeat \<Rightarrow> Heartbeat go" where
  "Heartbeat_Sign E priv h =
     go_bind (ed25519_Sign E priv (Heartbeat_CanonicalBytes h)) (\<lambda>s. Ret (h\<lparr>hb_Signature := s\<rparr>))"

definition Heartbeat_Verify :: "ed25519 \<Rightarrow> bytes \<Rightarrow> Heartbeat \<Rightarrow> bool go" where
  "Heartbeat_Verify E pub h = VerifySig E pub (Heartbeat_CanonicalBytes h) (hb_Signature h)"

text \<open>What every Go value satisfies, what SPEC.md section 3 asks of the timestamp, and the content of a
  heartbeat that its signature is over.\<close>

definition Heartbeat_good :: "Heartbeat \<Rightarrow> bool" where
  "Heartbeat_good h \<longleftrightarrow> fits (hb_NodeID h) \<and> wf_time (hb_SentAt h) \<and> ValidTime (hb_SentAt h)"

definition Heartbeat_payload :: "Heartbeat \<Rightarrow> Heartbeat" where
  "Heartbeat_payload h = h\<lparr>hb_SentAt := time_UTC (hb_SentAt h), hb_Signature := []\<rparr>"

lemma domainHeartbeat_fits [simp]: "fits domainHeartbeat"
  by (simp add: domainHeartbeat_def fits_lit)

lemma Heartbeat_canon [message_simps]:
  "Heartbeat_CanonicalBytes h =
     enc_string domainHeartbeat @ enc_string (hb_NodeID h) @ enc_time (hb_SentAt h) @ enc_uint64 (hb_Seq h)"
  by (simp add: Heartbeat_CanonicalBytes_def Buffer_Sum_def Let_def buffer_simps)

lemma Heartbeat_payload_eq_iff:
  "Heartbeat_payload x = Heartbeat_payload y \<longleftrightarrow> hb_NodeID x = hb_NodeID y \<and>
     time_UTC (hb_SentAt x) = time_UTC (hb_SentAt y) \<and> hb_Seq x = hb_Seq y"
  by (cases x; cases y) (auto simp: Heartbeat_payload_def)

interpretation Heartbeat_msg: signed_message Heartbeat_CanonicalBytes Heartbeat_good Heartbeat_payload
  hb_Signature "\<lambda>s h. h\<lparr>hb_Signature := s\<rparr>" "\<lambda>_ _. True"
  Heartbeat_Sign Heartbeat_Verify domainHeartbeat
  "\<lambda>h. enc_string (hb_NodeID h) @ enc_time (hb_SentAt h) @ enc_uint64 (hb_Seq h)"
  by unfold_locales (auto simp: message_simps canon_cancel Heartbeat_payload_eq_iff Heartbeat_good_def
      Heartbeat_Sign_def Heartbeat_Verify_def)

end
