(* ===== verification/Fees.thy ===== *)
theory Fees
  imports Signed_Messages
begin

text \<open>
  Package \<open>fees\<close> (src/fees/fees.go): fee terms in basis points, carried inline by assignments and storage
  leases, and the coordinator's signed fee declaration. \<open>Balanced\<close> is Go's 64-bit addition, which wraps.
\<close>

record Terms =
  ft_ContributorShareBps :: int64
  ft_PlatformFeeBps :: int64

definition Terms_Balanced :: "Terms \<Rightarrow> bool" where
  "Terms_Balanced t \<longleftrightarrow> ft_ContributorShareBps t + ft_PlatformFeeBps t = 10000"

record FeeDeclaration =
  fd_CoordinatorID :: bytes
  fd_Terms :: Terms
  fd_EffectiveAt :: go_time
  fd_Seq :: uint64
  fd_Signature :: bytes

definition domainFee :: bytes where
  "domainFee = lit ''sohocloud/fee/v0''"

definition FeeDeclaration_CanonicalBytes :: "FeeDeclaration \<Rightarrow> bytes" where
  "FeeDeclaration_CanonicalBytes f =
     (let b = canon_New domainFee;
          b = Buffer_String (fd_CoordinatorID f) b;
          b = Buffer_Int64 (ft_ContributorShareBps (fd_Terms f)) b;
          b = Buffer_Int64 (ft_PlatformFeeBps (fd_Terms f)) b;
          b = Buffer_Time (fd_EffectiveAt f) b;
          b = Buffer_Uint64 (fd_Seq f) b
      in Buffer_Sum b)"

definition FeeDeclaration_Sign :: "ed25519 \<Rightarrow> bytes \<Rightarrow> FeeDeclaration \<Rightarrow> FeeDeclaration go" where
  "FeeDeclaration_Sign E priv f =
     go_bind (ed25519_Sign E priv (FeeDeclaration_CanonicalBytes f)) (\<lambda>s. Ret (f\<lparr>fd_Signature := s\<rparr>))"

definition FeeDeclaration_Verify :: "ed25519 \<Rightarrow> bytes \<Rightarrow> FeeDeclaration \<Rightarrow> bool go" where
  "FeeDeclaration_Verify E pub f = VerifySig E pub (FeeDeclaration_CanonicalBytes f) (fd_Signature f)"

definition FeeDeclaration_good :: "FeeDeclaration \<Rightarrow> bool" where
  "FeeDeclaration_good f \<longleftrightarrow> fits (fd_CoordinatorID f) \<and> wf_time (fd_EffectiveAt f) \<and> ValidTime (fd_EffectiveAt f)"

definition FeeDeclaration_payload :: "FeeDeclaration \<Rightarrow> FeeDeclaration" where
  "FeeDeclaration_payload f = f\<lparr>fd_EffectiveAt := time_UTC (fd_EffectiveAt f), fd_Signature := []\<rparr>"

section \<open>Fee terms\<close>

text \<open>The bytes of fee terms, wherever they are carried.\<close>

definition enc_terms :: "Terms \<Rightarrow> bytes" where
  "enc_terms t = enc_uint64 (ft_ContributorShareBps t) @ enc_uint64 (ft_PlatformFeeBps t)"

interpretation terms_code: prefix_code enc_terms "\<lambda>_. True" "\<lambda>t. t"
proof (unfold_locales, simp, goal_cases)
  case (1 x y r s)
  then show ?case by (cases x; cases y) (simp add: enc_terms_def canon_cancel)
qed

section \<open>The fee declaration\<close>

lemma domainFee_fits [simp]: "fits domainFee"
  by (simp add: domainFee_def fits_lit)

lemma FeeDeclaration_canon [message_simps]:
  "FeeDeclaration_CanonicalBytes f =
     enc_string domainFee @ enc_string (fd_CoordinatorID f) @ enc_terms (fd_Terms f) @
     enc_time (fd_EffectiveAt f) @ enc_uint64 (fd_Seq f)"
  by (simp add: FeeDeclaration_CanonicalBytes_def Buffer_Sum_def Let_def buffer_simps enc_terms_def)

lemma FeeDeclaration_payload_eq_iff:
  "FeeDeclaration_payload x = FeeDeclaration_payload y \<longleftrightarrow> fd_CoordinatorID x = fd_CoordinatorID y \<and>
     fd_Terms x = fd_Terms y \<and> time_UTC (fd_EffectiveAt x) = time_UTC (fd_EffectiveAt y) \<and> fd_Seq x = fd_Seq y"
  by (cases x; cases y) (auto simp: FeeDeclaration_payload_def)

interpretation FeeDeclaration_msg: signed_message FeeDeclaration_CanonicalBytes FeeDeclaration_good FeeDeclaration_payload
  fd_Signature "\<lambda>s f. f\<lparr>fd_Signature := s\<rparr>" "\<lambda>_ _. True"
  FeeDeclaration_Sign FeeDeclaration_Verify domainFee
  "\<lambda>f. enc_string (fd_CoordinatorID f) @ enc_terms (fd_Terms f) @ enc_time (fd_EffectiveAt f) @ enc_uint64 (fd_Seq f)"
  by unfold_locales (auto simp: message_simps canon_cancel terms_code.cancel_iff FeeDeclaration_payload_eq_iff
      FeeDeclaration_good_def FeeDeclaration_Sign_def FeeDeclaration_Verify_def)

section \<open>Properties\<close>

text \<open>C27: \<open>Balanced\<close> holds exactly when the two signed shares add up to 10000, or to \<open>10000 - 2^64\<close>: Go's
  64-bit addition wraps, so a pair of large negative shares also passes; no pair of shares whose sum is
  representable passes wrongly.\<close>

theorem Terms_Balanced_exact:
  "Terms_Balanced t \<longleftrightarrow>
     sint (ft_ContributorShareBps t) + sint (ft_PlatformFeeBps t) \<in> {10000, 10000 - 2 ^ 64}"
proof -
  define a where "a = sint (ft_ContributorShareBps t)"
  define b where "b = sint (ft_PlatformFeeBps t)"
  have ab: "- (2 ^ 63) \<le> a" "a < 2 ^ 63" "- (2 ^ 63) \<le> b" "b < 2 ^ 63"
    using sint_greater_eq [of "ft_ContributorShareBps t"] sint_less [of "ft_ContributorShareBps t"]
      sint_greater_eq [of "ft_PlatformFeeBps t"] sint_less [of "ft_PlatformFeeBps t"]
    by (simp_all add: a_def b_def)
  have "Terms_Balanced t \<longleftrightarrow> (word_of_int (a + b) :: int64) = word_of_int 10000"
    by (simp add: Terms_Balanced_def a_def b_def)
  also have "\<dots> \<longleftrightarrow> (a + b) mod 2 ^ 64 = 10000"
    by (simp only: word_of_int_eq_iff take_bit_eq_mod) simp
  also have "\<dots> \<longleftrightarrow> a + b \<in> {10000, 10000 - 2 ^ 64}"
    using ab by (subst twos_complement) auto
  finally show ?thesis by (simp add: a_def b_def)
qed

end
