(* ===== verification/Employment.thy ===== *)
theory Employment
  imports Fees Identity
begin

text \<open>
  Package \<open>employment\<close> (src/employment/employment.go): the coordinator's signed offer, the node's signed
  refusal and the node's signed outcome of a job.
\<close>

record JobSpec =
  js_Workload :: bytes
  js_Image :: bytes
  js_Args :: "bytes list"
  js_PrinterKind :: bytes
  js_GPUAPI :: bytes
  js_GPUMinVRAMMB :: int64

record Assignment =
  as_JobID :: bytes
  as_NodeID :: NodeID
  as_Spec :: JobSpec
  as_Fee :: Terms
  as_OfferedAt :: go_time
  as_Signature :: bytes

type_synonym DeclineReason = bytes

definition DeclineLocalPolicy :: DeclineReason where "DeclineLocalPolicy = lit ''local_policy''"
definition DeclineCapacity :: DeclineReason where "DeclineCapacity = lit ''capacity''"
definition DeclineUnavailable :: DeclineReason where "DeclineUnavailable = lit ''unavailable''"

record Decline =
  dc_JobID :: bytes
  dc_NodeID :: NodeID
  dc_Reason :: DeclineReason
  dc_DeclinedAt :: go_time
  dc_Signature :: bytes

record JobReport =
  jr_JobID :: bytes
  jr_NodeID :: NodeID
  jr_ExitCode :: int64
  jr_FailureCause :: bytes
  jr_TmpfsExhausted :: bool
  jr_StartedAt :: go_time
  jr_FinishedAt :: go_time
  jr_Signature :: bytes

definition domainAssignment :: bytes where "domainAssignment = lit ''sohocloud/assignment/v0''"
definition domainDecline :: bytes where "domainDecline = lit ''sohocloud/decline/v0''"
definition domainJobReport :: bytes where "domainJobReport = lit ''sohocloud/jobreport/v0''"

definition Assignment_CanonicalBytes :: "Assignment \<Rightarrow> bytes" where
  "Assignment_CanonicalBytes a =
     (let b = canon_New domainAssignment;
          b = Buffer_String (as_JobID a) b;
          b = Buffer_String (as_NodeID a) b;
          b = Buffer_String (js_Workload (as_Spec a)) b;
          b = Buffer_String (js_Image (as_Spec a)) b;
          b = Buffer_Count (go_len (js_Args (as_Spec a))) b;
          b = fold (\<lambda>arg b. Buffer_String arg b) (js_Args (as_Spec a)) b;
          b = Buffer_String (js_PrinterKind (as_Spec a)) b;
          b = Buffer_String (js_GPUAPI (as_Spec a)) b;
          b = Buffer_Int64 (js_GPUMinVRAMMB (as_Spec a)) b;
          b = Buffer_Int64 (ft_ContributorShareBps (as_Fee a)) b;
          b = Buffer_Int64 (ft_PlatformFeeBps (as_Fee a)) b;
          b = Buffer_Time (as_OfferedAt a) b
      in Buffer_Sum b)"

definition Assignment_Sign :: "ed25519 \<Rightarrow> bytes \<Rightarrow> Assignment \<Rightarrow> Assignment go" where
  "Assignment_Sign E priv a =
     go_bind (ed25519_Sign E priv (Assignment_CanonicalBytes a)) (\<lambda>s. Ret (a\<lparr>as_Signature := s\<rparr>))"

definition Assignment_Verify :: "ed25519 \<Rightarrow> bytes \<Rightarrow> Assignment \<Rightarrow> bool go" where
  "Assignment_Verify E pub a = VerifySig E pub (Assignment_CanonicalBytes a) (as_Signature a)"

definition Decline_CanonicalBytes :: "Decline \<Rightarrow> bytes" where
  "Decline_CanonicalBytes d =
     (let b = canon_New domainDecline;
          b = Buffer_String (dc_JobID d) b;
          b = Buffer_String (dc_NodeID d) b;
          b = Buffer_String (dc_Reason d) b;
          b = Buffer_Time (dc_DeclinedAt d) b
      in Buffer_Sum b)"

definition Decline_Sign :: "ed25519 \<Rightarrow> bytes \<Rightarrow> Decline \<Rightarrow> Decline go" where
  "Decline_Sign E priv d =
     go_bind (ed25519_Sign E priv (Decline_CanonicalBytes d)) (\<lambda>s. Ret (d\<lparr>dc_Signature := s\<rparr>))"

definition Decline_Verify :: "ed25519 \<Rightarrow> bytes \<Rightarrow> Decline \<Rightarrow> bool go" where
  "Decline_Verify E pub d = VerifySig E pub (Decline_CanonicalBytes d) (dc_Signature d)"

definition JobReport_CanonicalBytes :: "JobReport \<Rightarrow> bytes" where
  "JobReport_CanonicalBytes r =
     (let b = canon_New domainJobReport;
          b = Buffer_String (jr_JobID r) b;
          b = Buffer_String (jr_NodeID r) b;
          b = Buffer_Int64 (jr_ExitCode r) b;
          b = Buffer_String (jr_FailureCause r) b;
          b = Buffer_Bool (jr_TmpfsExhausted r) b;
          b = Buffer_Time (jr_StartedAt r) b;
          b = Buffer_Time (jr_FinishedAt r) b
      in Buffer_Sum b)"

definition JobReport_Sign :: "ed25519 \<Rightarrow> bytes \<Rightarrow> JobReport \<Rightarrow> JobReport go" where
  "JobReport_Sign E priv r =
     go_bind (ed25519_Sign E priv (JobReport_CanonicalBytes r)) (\<lambda>s. Ret (r\<lparr>jr_Signature := s\<rparr>))"

definition JobReport_Verify :: "ed25519 \<Rightarrow> bytes \<Rightarrow> JobReport \<Rightarrow> bool go" where
  "JobReport_Verify E pub r = VerifySig E pub (JobReport_CanonicalBytes r) (jr_Signature r)"

section \<open>Well-formed messages and what their signatures are over\<close>

definition jobspec_good :: "JobSpec \<Rightarrow> bool" where
  "jobspec_good s \<longleftrightarrow> fits (js_Workload s) \<and> fits (js_Image s) \<and> fits (js_Args s) \<and>
     list_all fits (js_Args s) \<and> fits (js_PrinterKind s) \<and> fits (js_GPUAPI s)"

definition Assignment_good :: "Assignment \<Rightarrow> bool" where
  "Assignment_good a \<longleftrightarrow> fits (as_JobID a) \<and> fits (as_NodeID a) \<and> jobspec_good (as_Spec a) \<and>
     wf_time (as_OfferedAt a) \<and> ValidTime (as_OfferedAt a)"

definition Assignment_payload :: "Assignment \<Rightarrow> Assignment" where
  "Assignment_payload a = a\<lparr>as_OfferedAt := time_UTC (as_OfferedAt a), as_Signature := []\<rparr>"

definition Decline_good :: "Decline \<Rightarrow> bool" where
  "Decline_good d \<longleftrightarrow> fits (dc_JobID d) \<and> fits (dc_NodeID d) \<and> fits (dc_Reason d) \<and>
     wf_time (dc_DeclinedAt d) \<and> ValidTime (dc_DeclinedAt d)"

definition Decline_payload :: "Decline \<Rightarrow> Decline" where
  "Decline_payload d = d\<lparr>dc_DeclinedAt := time_UTC (dc_DeclinedAt d), dc_Signature := []\<rparr>"

definition JobReport_good :: "JobReport \<Rightarrow> bool" where
  "JobReport_good r \<longleftrightarrow> fits (jr_JobID r) \<and> fits (jr_NodeID r) \<and> fits (jr_FailureCause r) \<and>
     wf_time (jr_StartedAt r) \<and> ValidTime (jr_StartedAt r) \<and>
     wf_time (jr_FinishedAt r) \<and> ValidTime (jr_FinishedAt r)"

definition JobReport_payload :: "JobReport \<Rightarrow> JobReport" where
  "JobReport_payload r = r\<lparr>jr_StartedAt := time_UTC (jr_StartedAt r),
     jr_FinishedAt := time_UTC (jr_FinishedAt r), jr_Signature := []\<rparr>"

lemma domain_employment_fits [simp]: "fits domainAssignment" "fits domainDecline" "fits domainJobReport"
  by (simp_all add: domainAssignment_def domainDecline_def domainJobReport_def fits_lit)

section \<open>The assignment\<close>

interpretation args_code: repeated_code enc_string fits "\<lambda>s. s" enc_count
  by unfold_locales (rule enc_count_cancel)

definition enc_jobspec :: "JobSpec \<Rightarrow> bytes" where
  "enc_jobspec s = enc_string (js_Workload s) @ enc_string (js_Image s) @
     enc_repeated enc_count enc_string (js_Args s) @ enc_string (js_PrinterKind s) @
     enc_string (js_GPUAPI s) @ enc_uint64 (js_GPUMinVRAMMB s)"

interpretation jobspec_code: prefix_code enc_jobspec jobspec_good "\<lambda>s. s"
proof (unfold_locales, simp, goal_cases)
  case (1 x y r s)
  then show ?case
    by (cases x; cases y) (simp add: enc_jobspec_def jobspec_good_def canon_cancel args_code.rep.cancel_iff)
qed

lemma buf_b_fold_args: "buf_b (fold Buffer_String args b) = buf_b b @ concat (map enc_string args)"
  by (rule buf_b_fold) (simp add: buffer_simps)

lemma Assignment_canon [message_simps]:
  "Assignment_CanonicalBytes a =
     enc_string domainAssignment @ enc_string (as_JobID a) @ enc_string (as_NodeID a) @
     enc_jobspec (as_Spec a) @ enc_terms (as_Fee a) @ enc_time (as_OfferedAt a)"
  by (simp add: Assignment_CanonicalBytes_def Buffer_Sum_def Let_def buffer_simps buf_b_fold_args
      enc_uvarint_len enc_repeated_def enc_jobspec_def enc_terms_def)

lemma Assignment_payload_eq_iff:
  "Assignment_payload x = Assignment_payload y \<longleftrightarrow> as_JobID x = as_JobID y \<and> as_NodeID x = as_NodeID y \<and>
     as_Spec x = as_Spec y \<and> as_Fee x = as_Fee y \<and> time_UTC (as_OfferedAt x) = time_UTC (as_OfferedAt y)"
  by (cases x; cases y) (auto simp: Assignment_payload_def)

interpretation Assignment_msg: signed_message Assignment_CanonicalBytes Assignment_good Assignment_payload
  as_Signature "\<lambda>s a. a\<lparr>as_Signature := s\<rparr>" "\<lambda>_ _. True"
  Assignment_Sign Assignment_Verify domainAssignment
  "\<lambda>a. enc_string (as_JobID a) @ enc_string (as_NodeID a) @ enc_jobspec (as_Spec a) @ enc_terms (as_Fee a) @
     enc_time (as_OfferedAt a)"
  by unfold_locales (auto simp: message_simps canon_cancel jobspec_code.cancel_iff terms_code.cancel_iff
      Assignment_payload_eq_iff Assignment_good_def Assignment_Sign_def Assignment_Verify_def)

section \<open>The decline and the job report\<close>

lemma Decline_canon [message_simps]:
  "Decline_CanonicalBytes d =
     enc_string domainDecline @ enc_string (dc_JobID d) @ enc_string (dc_NodeID d) @ enc_string (dc_Reason d) @
     enc_time (dc_DeclinedAt d)"
  by (simp add: Decline_CanonicalBytes_def Buffer_Sum_def Let_def buffer_simps)

lemma Decline_payload_eq_iff:
  "Decline_payload x = Decline_payload y \<longleftrightarrow> dc_JobID x = dc_JobID y \<and> dc_NodeID x = dc_NodeID y \<and>
     dc_Reason x = dc_Reason y \<and> time_UTC (dc_DeclinedAt x) = time_UTC (dc_DeclinedAt y)"
  by (cases x; cases y) (auto simp: Decline_payload_def)

interpretation Decline_msg: signed_message Decline_CanonicalBytes Decline_good Decline_payload
  dc_Signature "\<lambda>s d. d\<lparr>dc_Signature := s\<rparr>" "\<lambda>_ _. True"
  Decline_Sign Decline_Verify domainDecline
  "\<lambda>d. enc_string (dc_JobID d) @ enc_string (dc_NodeID d) @ enc_string (dc_Reason d) @ enc_time (dc_DeclinedAt d)"
  by unfold_locales (auto simp: message_simps canon_cancel Decline_payload_eq_iff Decline_good_def
      Decline_Sign_def Decline_Verify_def)

lemma JobReport_canon [message_simps]:
  "JobReport_CanonicalBytes r =
     enc_string domainJobReport @ enc_string (jr_JobID r) @ enc_string (jr_NodeID r) @
     enc_uint64 (jr_ExitCode r) @ enc_string (jr_FailureCause r) @ enc_bool (jr_TmpfsExhausted r) @
     enc_time (jr_StartedAt r) @ enc_time (jr_FinishedAt r)"
  by (simp add: JobReport_CanonicalBytes_def Buffer_Sum_def Let_def buffer_simps)

lemma JobReport_payload_eq_iff:
  "JobReport_payload x = JobReport_payload y \<longleftrightarrow> jr_JobID x = jr_JobID y \<and> jr_NodeID x = jr_NodeID y \<and>
     jr_ExitCode x = jr_ExitCode y \<and> jr_FailureCause x = jr_FailureCause y \<and>
     jr_TmpfsExhausted x = jr_TmpfsExhausted y \<and>
     time_UTC (jr_StartedAt x) = time_UTC (jr_StartedAt y) \<and>
     time_UTC (jr_FinishedAt x) = time_UTC (jr_FinishedAt y)"
  by (cases x; cases y) (auto simp: JobReport_payload_def)

interpretation JobReport_msg: signed_message JobReport_CanonicalBytes JobReport_good JobReport_payload
  jr_Signature "\<lambda>s r. r\<lparr>jr_Signature := s\<rparr>" "\<lambda>_ _. True"
  JobReport_Sign JobReport_Verify domainJobReport
  "\<lambda>r. enc_string (jr_JobID r) @ enc_string (jr_NodeID r) @ enc_uint64 (jr_ExitCode r) @
     enc_string (jr_FailureCause r) @ enc_bool (jr_TmpfsExhausted r) @
     enc_time (jr_StartedAt r) @ enc_time (jr_FinishedAt r)"
  by unfold_locales (auto simp: message_simps canon_cancel JobReport_payload_eq_iff JobReport_good_def
      JobReport_Sign_def JobReport_Verify_def)

end
