(* ===== verification/Go_Sha256.thy ===== *)
theory Go_Sha256
  imports Go_Prelude
begin

unbundle bit_operations_syntax

text \<open>
  Go's \<open>crypto/sha256\<close> as package \<open>lease\<close> uses it: \<open>sha256 m\<close> is what
      \<open>New\<close>, any sequence of \<open>Write\<close> calls
  whose arguments concatenate to \<open>m\<close>, and \<open>Sum(nil)\<close> return (FIPS 180-4, on 32-bit words,
      executable).
  Collision resistance is not assumed anywhere; theorems about digests name the two colliding inputs.
\<close>

type_synonym w32 = "32 word"
type_synonym sha_state = "w32 \<times> w32 \<times> w32 \<times> w32 \<times> w32 \<times> w32 \<times> w32 \<times> w32"

text \<open>The round constants are the first 32 bits of the fractional parts of the cube roots of the first 64
  primes, the initial state those of the square roots of the first eight.\<close>

definition sha_K :: "w32 list" where
  "sha_K =
    [1116352408, 1899447441, 3049323471, 3921009573, 961987163, 1508970993, 2453635748, 2870763221,
     3624381080, 310598401, 607225278, 1426881987, 1925078388, 2162078206, 2614888103, 3248222580,
     3835390401, 4022224774, 264347078, 604807628, 770255983, 1249150122, 1555081692, 1996064986,
     2554220882, 2821834349, 2952996808, 3210313671, 3336571891, 3584528711, 113926993, 338241895,
     666307205, 773529912, 1294757372, 1396182291, 1695183700, 1986661051, 2177026350, 2456956037,
     2730485921, 2820302411, 3259730800, 3345764771, 3516065817, 3600352804, 4094571909, 275423344,
     430227734, 506948616, 659060556, 883997877, 958139571, 1322822218, 1537002063, 1747873779,
     1955562222, 2024104815, 2227730452, 2361852424, 2428436474, 2756734187, 3204031479, 3329325298]"

definition sha_init :: sha_state where
  "sha_init = (1779033703, 3144134277, 1013904242, 2773480762,
     1359893119, 2600822924, 528734635, 1541459225)"

definition rotr :: "nat \<Rightarrow> w32 \<Rightarrow> w32" where
  "rotr n x = drop_bit n x OR push_bit (32 - n) x"

text \<open>The padding: a one bit, zeros up to 56 modulo 64, and the length in bits as a big-endian 64-bit word.\<close>

definition sha_len64 :: "64 word \<Rightarrow> bytes" where
  "sha_len64 n = [ucast (drop_bit 56 n), ucast (drop_bit 48 n), ucast (drop_bit 40 n), ucast (drop_bit 32 n),
                  ucast (drop_bit 24 n), ucast (drop_bit 16 n), ucast (drop_bit 8 n), ucast n]"

definition sha_pad :: "bytes \<Rightarrow> bytes" where
  "sha_pad m = m @ 0x80 # replicate ((119 - length m mod 64) mod 64) 0 @ sha_len64 (8 * go_len m)"

definition be32 :: "byte \<Rightarrow> byte \<Rightarrow> byte \<Rightarrow> byte \<Rightarrow> w32" where
  "be32 a b c d = push_bit 24 (ucast a) OR push_bit 16 (ucast b) OR push_bit 8 (ucast c) OR ucast d"

fun be_words :: "bytes \<Rightarrow> w32 list" where
  "be_words (a # b # c # d # rest) = be32 a b c d # be_words rest"
| "be_words _ = []"

definition be_bytes :: "w32 \<Rightarrow> bytes" where
  "be_bytes w = [ucast (drop_bit 24 w), ucast (drop_bit 16 w), ucast (drop_bit 8 w), ucast w]"

text \<open>The message schedule, newest word first: each new word comes from the last sixteen.\<close>

fun sha_extend :: "nat \<Rightarrow> w32 list \<Rightarrow> w32 list" where
  "sha_extend 0 ws = ws"
| "sha_extend (Suc n) ws =
     (let w2 = ws ! 1; w7 = ws ! 6; w15 = ws ! 14; w16 = ws ! 15;
          s1 = rotr 17 w2 XOR rotr 19 w2 XOR drop_bit 10 w2;
          s0 = rotr 7 w15 XOR rotr 18 w15 XOR drop_bit 3 w15
      in sha_extend n ((s1 + w7 + s0 + w16) # ws))"

definition sha_schedule :: "bytes \<Rightarrow> w32 list" where
  "sha_schedule block = rev (sha_extend 48 (rev (be_words block)))"

fun sha_round :: "w32 \<times> w32 \<Rightarrow> sha_state \<Rightarrow> sha_state" where
  "sha_round (k, w) (a, b, c, d, e, f, g, h) =
     (let t1 = h + (rotr 6 e XOR rotr 11 e XOR rotr 25 e) + ((e AND f) XOR (NOT e AND g)) + k + w;
          t2 = (rotr 2 a XOR rotr 13 a XOR rotr 22 a) + ((a AND b) XOR (a AND c) XOR (b AND c))
      in (t1 + t2, a, b, c, d + t1, e, f, g))"

fun sha_add :: "sha_state \<Rightarrow> sha_state \<Rightarrow> sha_state" where
  "sha_add (a, b, c, d, e, f, g, h) (a', b', c', d', e', f', g', h') =
     (a + a', b + b', c + c', d + d', e + e', f + f', g + g', h + h')"

definition sha_block :: "bytes \<Rightarrow> sha_state \<Rightarrow> sha_state" where
  "sha_block block s = sha_add s (fold sha_round (zip sha_K (sha_schedule block)) s)"

function sha_blocks :: "bytes \<Rightarrow> sha_state \<Rightarrow> sha_state" where
  "sha_blocks p s = (if length p < 64 then s else sha_blocks (drop 64 p) (sha_block (take 64 p) s))"
  by pat_completeness auto

termination sha_blocks
  by (relation "measure (\<lambda>(p, s). length p)") auto

declare sha_blocks.simps [simp del]

fun sha_output :: "sha_state \<Rightarrow> bytes" where
  "sha_output (a, b, c, d, e, f, g, h) = concat (map be_bytes [a, b, c, d, e, f, g, h])"

definition sha256 :: "bytes \<Rightarrow> bytes" where
  "sha256 m = sha_output (sha_blocks (sha_pad m) sha_init)"

lemma length_sha256 [simp]: "length (sha256 m) = 32"
proof -
  have "length (sha_output s) = 32" for s by (cases s rule: sha_output.cases) (simp add: be_bytes_def)
  then show ?thesis by (simp only: sha256_def)
qed

text \<open>The padded message is a whole number of 64-byte blocks, so no input byte is dropped.\<close>

lemma length_sha_pad: "length (sha_pad m) mod 64 = 0"
proof -
  define k where "k = length m mod 64"
  have "k < 64" by (simp add: k_def)
  then have z: "(k + (9 + (119 - k) mod 64)) mod 64 = 0"
    by (cases "k \<le> 55") (auto simp add: mod_if not_le)
  have "length (sha_pad m) mod 64 = (length m + (9 + (119 - k) mod 64)) mod 64"
    by (simp add: sha_pad_def sha_len64_def k_def add.left_commute)
  also have "\<dots> = (k + (9 + (119 - k) mod 64)) mod 64"
    by (simp only: k_def mod_add_left_eq)
  finally show ?thesis using z by simp
qed

end
