(* ===== verification/Lease.thy ===== *)
theory Lease
  imports Fees Identity Go_Sha256 Spec_Encoding
begin

text \<open>
  Package \<open>lease\<close> (src/lease/lease.go): the coordinator's signed storage lease, the node's signed decline,
  release and proof of possession, and the computation of a proof. Go's fixed-size arrays (\<open>[32]byte\<close>,
  \<open>[16]byte\<close>) are byte lists; their lengths are part of each message's well-formedness.
\<close>

type_synonym SizeClass = int64

record StorageLease =
  sl_LeaseID :: bytes
  sl_NodeID :: NodeID
  sl_ShardRef :: bytes
  sl_SizeClass :: SizeClass
  sl_Fee :: Terms
  sl_IssuedAt :: go_time
  sl_ExpiresAt :: go_time
  sl_Seq :: uint64
  sl_Signature :: bytes

type_synonym LeaseDeclineReason = bytes

definition LeaseDeclineLocalPolicy :: LeaseDeclineReason where "LeaseDeclineLocalPolicy = lit ''local_policy''"
definition LeaseDeclineCapacity :: LeaseDeclineReason where "LeaseDeclineCapacity = lit ''capacity''"
definition LeaseDeclineUnavailable :: LeaseDeclineReason where "LeaseDeclineUnavailable = lit ''unavailable''"

record LeaseDecline =
  ld_LeaseID :: bytes
  ld_NodeID :: NodeID
  ld_Reason :: LeaseDeclineReason
  ld_DeclinedAt :: go_time
  ld_Signature :: bytes

record LeaseRelease =
  lr_LeaseID :: bytes
  lr_NodeID :: NodeID
  lr_ReleasedAt :: go_time
  lr_Signature :: bytes

record ProofChallenge =
  ch_LeaseID :: bytes
  ch_Offset :: int64
  ch_Length :: int64
  ch_Nonce :: bytes
  ch_IssuedAt :: go_time

record ProofResponse =
  pr_LeaseID :: bytes
  pr_NodeID :: NodeID
  pr_Offset :: int64
  pr_Length :: int64
  pr_Nonce :: bytes
  pr_Digest :: bytes
  pr_RespondedAt :: go_time
  pr_Signature :: bytes

section \<open>Proofs of possession\<close>

text \<open>The hash is written the nonce, the two parameters as one 16-byte array, and the range.\<close>

definition ProofDigest :: "bytes \<Rightarrow> int64 \<Rightarrow> int64 \<Rightarrow> bytes \<Rightarrow> bytes" where
  "ProofDigest nonce off len rangeBytes =
     (let h = nonce;
          params = enc_uint64 off @ enc_uint64 len;
          h = h @ params;
          h = h @ rangeBytes
      in sha256 h)"

text \<open>The error carries the values its message formats: offset, length and the size of the shard.\<close>

datatype lease_error = ErrChallengeRange int64 int64 nat

definition ProofOverShard :: "bytes \<Rightarrow> ProofChallenge \<Rightarrow> (bytes \<times> lease_error option) go" where
  "ProofOverShard sealed ch =
     (if sint (ch_Offset ch) < 0 \<or> sint (ch_Length ch) < 1 \<or>
         sint (go_len sealed - ch_Length ch) < sint (ch_Offset ch)
      then Ret (replicate 32 0, Some (ErrChallengeRange (ch_Offset ch) (ch_Length ch) (length sealed)))
      else go_bind (go_slice sealed (ch_Offset ch) (ch_Offset ch + ch_Length ch))
             (\<lambda>r. Ret (ProofDigest (ch_Nonce ch) (ch_Offset ch) (ch_Length ch) r, None)))"

section \<open>The signed messages\<close>

definition domainLease :: bytes where "domainLease = lit ''sohocloud/lease/v0''"
definition domainLeaseDecline :: bytes where "domainLeaseDecline = lit ''sohocloud/lease-decline/v0''"
definition domainLeaseRelease :: bytes where "domainLeaseRelease = lit ''sohocloud/lease-release/v0''"
definition domainProof :: bytes where "domainProof = lit ''sohocloud/proof/v0''"

definition StorageLease_CanonicalBytes :: "StorageLease \<Rightarrow> bytes" where
  "StorageLease_CanonicalBytes l =
     (let b = canon_New domainLease;
          b = Buffer_String (sl_LeaseID l) b;
          b = Buffer_String (sl_NodeID l) b;
          b = Buffer_Bytes (sl_ShardRef l) b;
          b = Buffer_Int64 (sl_SizeClass l) b;
          b = Buffer_Int64 (ft_ContributorShareBps (sl_Fee l)) b;
          b = Buffer_Int64 (ft_PlatformFeeBps (sl_Fee l)) b;
          b = Buffer_Time (sl_IssuedAt l) b;
          b = Buffer_Time (sl_ExpiresAt l) b;
          b = Buffer_Uint64 (sl_Seq l) b
      in Buffer_Sum b)"

definition StorageLease_Sign :: "ed25519 \<Rightarrow> bytes \<Rightarrow> StorageLease \<Rightarrow> StorageLease go" where
  "StorageLease_Sign E priv l =
     go_bind (ed25519_Sign E priv (StorageLease_CanonicalBytes l)) (\<lambda>s. Ret (l\<lparr>sl_Signature := s\<rparr>))"

definition StorageLease_Verify :: "ed25519 \<Rightarrow> bytes \<Rightarrow> StorageLease \<Rightarrow> bool go" where
  "StorageLease_Verify E pub l = VerifySig E pub (StorageLease_CanonicalBytes l) (sl_Signature l)"

definition LeaseDecline_CanonicalBytes :: "LeaseDecline \<Rightarrow> bytes" where
  "LeaseDecline_CanonicalBytes d =
     (let b = canon_New domainLeaseDecline;
          b = Buffer_String (ld_LeaseID d) b;
          b = Buffer_String (ld_NodeID d) b;
          b = Buffer_String (ld_Reason d) b;
          b = Buffer_Time (ld_DeclinedAt d) b
      in Buffer_Sum b)"

definition LeaseDecline_Sign :: "ed25519 \<Rightarrow> bytes \<Rightarrow> LeaseDecline \<Rightarrow> LeaseDecline go" where
  "LeaseDecline_Sign E priv d =
     go_bind (ed25519_Sign E priv (LeaseDecline_CanonicalBytes d)) (\<lambda>s. Ret (d\<lparr>ld_Signature := s\<rparr>))"

definition LeaseDecline_Verify :: "ed25519 \<Rightarrow> bytes \<Rightarrow> LeaseDecline \<Rightarrow> bool go" where
  "LeaseDecline_Verify E pub d = VerifySig E pub (LeaseDecline_CanonicalBytes d) (ld_Signature d)"

definition LeaseRelease_CanonicalBytes :: "LeaseRelease \<Rightarrow> bytes" where
  "LeaseRelease_CanonicalBytes r =
     (let b = canon_New domainLeaseRelease;
          b = Buffer_String (lr_LeaseID r) b;
          b = Buffer_String (lr_NodeID r) b;
          b = Buffer_Time (lr_ReleasedAt r) b
      in Buffer_Sum b)"

definition LeaseRelease_Sign :: "ed25519 \<Rightarrow> bytes \<Rightarrow> LeaseRelease \<Rightarrow> LeaseRelease go" where
  "LeaseRelease_Sign E priv r =
     go_bind (ed25519_Sign E priv (LeaseRelease_CanonicalBytes r)) (\<lambda>s. Ret (r\<lparr>lr_Signature := s\<rparr>))"

definition LeaseRelease_Verify :: "ed25519 \<Rightarrow> bytes \<Rightarrow> LeaseRelease \<Rightarrow> bool go" where
  "LeaseRelease_Verify E pub r = VerifySig E pub (LeaseRelease_CanonicalBytes r) (lr_Signature r)"

definition ProofResponse_CanonicalBytes :: "ProofResponse \<Rightarrow> bytes" where
  "ProofResponse_CanonicalBytes p =
     (let b = canon_New domainProof;
          b = Buffer_String (pr_LeaseID p) b;
          b = Buffer_String (pr_NodeID p) b;
          b = Buffer_Int64 (pr_Offset p) b;
          b = Buffer_Int64 (pr_Length p) b;
          b = Buffer_Bytes (pr_Nonce p) b;
          b = Buffer_Bytes (pr_Digest p) b;
          b = Buffer_Time (pr_RespondedAt p) b
      in Buffer_Sum b)"

definition ProofResponse_Sign :: "ed25519 \<Rightarrow> bytes \<Rightarrow> ProofResponse \<Rightarrow> ProofResponse go" where
  "ProofResponse_Sign E priv p =
     go_bind (ed25519_Sign E priv (ProofResponse_CanonicalBytes p)) (\<lambda>s. Ret (p\<lparr>pr_Signature := s\<rparr>))"

definition ProofResponse_Verify :: "ed25519 \<Rightarrow> bytes \<Rightarrow> ProofResponse \<Rightarrow> bool go" where
  "ProofResponse_Verify E pub p = VerifySig E pub (ProofResponse_CanonicalBytes p) (pr_Signature p)"

section \<open>Well-formed messages and what their signatures are over\<close>

definition StorageLease_good :: "StorageLease \<Rightarrow> bool" where
  "StorageLease_good l \<longleftrightarrow> fits (sl_LeaseID l) \<and> fits (sl_NodeID l) \<and> length (sl_ShardRef l) = 32 \<and>
     wf_time (sl_IssuedAt l) \<and> ValidTime (sl_IssuedAt l) \<and> wf_time (sl_ExpiresAt l) \<and> ValidTime (sl_ExpiresAt l)"

definition StorageLease_payload :: "StorageLease \<Rightarrow> StorageLease" where
  "StorageLease_payload l = l\<lparr>sl_IssuedAt := time_UTC (sl_IssuedAt l),
     sl_ExpiresAt := time_UTC (sl_ExpiresAt l), sl_Signature := []\<rparr>"

definition LeaseDecline_good :: "LeaseDecline \<Rightarrow> bool" where
  "LeaseDecline_good d \<longleftrightarrow> fits (ld_LeaseID d) \<and> fits (ld_NodeID d) \<and> fits (ld_Reason d) \<and>
     wf_time (ld_DeclinedAt d) \<and> ValidTime (ld_DeclinedAt d)"

definition LeaseDecline_payload :: "LeaseDecline \<Rightarrow> LeaseDecline" where
  "LeaseDecline_payload d = d\<lparr>ld_DeclinedAt := time_UTC (ld_DeclinedAt d), ld_Signature := []\<rparr>"

definition LeaseRelease_good :: "LeaseRelease \<Rightarrow> bool" where
  "LeaseRelease_good r \<longleftrightarrow> fits (lr_LeaseID r) \<and> fits (lr_NodeID r) \<and>
     wf_time (lr_ReleasedAt r) \<and> ValidTime (lr_ReleasedAt r)"

definition LeaseRelease_payload :: "LeaseRelease \<Rightarrow> LeaseRelease" where
  "LeaseRelease_payload r = r\<lparr>lr_ReleasedAt := time_UTC (lr_ReleasedAt r), lr_Signature := []\<rparr>"

definition ProofResponse_good :: "ProofResponse \<Rightarrow> bool" where
  "ProofResponse_good p \<longleftrightarrow> fits (pr_LeaseID p) \<and> fits (pr_NodeID p) \<and> length (pr_Nonce p) = 16 \<and>
     length (pr_Digest p) = 32 \<and> wf_time (pr_RespondedAt p) \<and> ValidTime (pr_RespondedAt p)"

definition ProofResponse_payload :: "ProofResponse \<Rightarrow> ProofResponse" where
  "ProofResponse_payload p = p\<lparr>pr_RespondedAt := time_UTC (pr_RespondedAt p), pr_Signature := []\<rparr>"

lemma domain_lease_fits [simp]:
  "fits domainLease" "fits domainLeaseDecline" "fits domainLeaseRelease" "fits domainProof"
  by (simp_all add: domainLease_def domainLeaseDecline_def domainLeaseRelease_def domainProof_def fits_lit)

lemma fits_array: "length xs = 32 \<Longrightarrow> fits xs" "length xs = 16 \<Longrightarrow> fits xs"
  by (simp_all add: fits_def)

lemma StorageLease_canon [message_simps]:
  "StorageLease_CanonicalBytes l =
     enc_string domainLease @ enc_string (sl_LeaseID l) @ enc_string (sl_NodeID l) @ enc_string (sl_ShardRef l) @
     enc_uint64 (sl_SizeClass l) @ enc_terms (sl_Fee l) @ enc_time (sl_IssuedAt l) @ enc_time (sl_ExpiresAt l) @
     enc_uint64 (sl_Seq l)"
  by (simp add: StorageLease_CanonicalBytes_def Buffer_Sum_def Let_def buffer_simps enc_terms_def)

lemma StorageLease_payload_eq_iff:
  "StorageLease_payload x = StorageLease_payload y \<longleftrightarrow> sl_LeaseID x = sl_LeaseID y \<and>
     sl_NodeID x = sl_NodeID y \<and> sl_ShardRef x = sl_ShardRef y \<and> sl_SizeClass x = sl_SizeClass y \<and>
     sl_Fee x = sl_Fee y \<and> time_UTC (sl_IssuedAt x) = time_UTC (sl_IssuedAt y) \<and>
     time_UTC (sl_ExpiresAt x) = time_UTC (sl_ExpiresAt y) \<and> sl_Seq x = sl_Seq y"
  by (cases x; cases y) (auto simp: StorageLease_payload_def)

interpretation StorageLease_msg: signed_message StorageLease_CanonicalBytes StorageLease_good StorageLease_payload
  sl_Signature "\<lambda>s l. l\<lparr>sl_Signature := s\<rparr>" "\<lambda>_ _. True"
  StorageLease_Sign StorageLease_Verify domainLease
  "\<lambda>l. enc_string (sl_LeaseID l) @ enc_string (sl_NodeID l) @ enc_string (sl_ShardRef l) @
     enc_uint64 (sl_SizeClass l) @ enc_terms (sl_Fee l) @ enc_time (sl_IssuedAt l) @ enc_time (sl_ExpiresAt l) @
     enc_uint64 (sl_Seq l)"
  by unfold_locales (auto simp: message_simps canon_cancel terms_code.cancel_iff fits_array
      StorageLease_payload_eq_iff StorageLease_good_def StorageLease_Sign_def StorageLease_Verify_def)

lemma LeaseDecline_canon [message_simps]:
  "LeaseDecline_CanonicalBytes d =
     enc_string domainLeaseDecline @ enc_string (ld_LeaseID d) @ enc_string (ld_NodeID d) @
     enc_string (ld_Reason d) @ enc_time (ld_DeclinedAt d)"
  by (simp add: LeaseDecline_CanonicalBytes_def Buffer_Sum_def Let_def buffer_simps)

lemma LeaseDecline_payload_eq_iff:
  "LeaseDecline_payload x = LeaseDecline_payload y \<longleftrightarrow> ld_LeaseID x = ld_LeaseID y \<and>
     ld_NodeID x = ld_NodeID y \<and> ld_Reason x = ld_Reason y \<and>
     time_UTC (ld_DeclinedAt x) = time_UTC (ld_DeclinedAt y)"
  by (cases x; cases y) (auto simp: LeaseDecline_payload_def)

interpretation LeaseDecline_msg: signed_message LeaseDecline_CanonicalBytes LeaseDecline_good LeaseDecline_payload
  ld_Signature "\<lambda>s d. d\<lparr>ld_Signature := s\<rparr>" "\<lambda>_ _. True"
  LeaseDecline_Sign LeaseDecline_Verify domainLeaseDecline
  "\<lambda>d. enc_string (ld_LeaseID d) @ enc_string (ld_NodeID d) @ enc_string (ld_Reason d) @ enc_time (ld_DeclinedAt d)"
  by unfold_locales (auto simp: message_simps canon_cancel LeaseDecline_payload_eq_iff LeaseDecline_good_def
      LeaseDecline_Sign_def LeaseDecline_Verify_def)

lemma LeaseRelease_canon [message_simps]:
  "LeaseRelease_CanonicalBytes r =
     enc_string domainLeaseRelease @ enc_string (lr_LeaseID r) @ enc_string (lr_NodeID r) @
     enc_time (lr_ReleasedAt r)"
  by (simp add: LeaseRelease_CanonicalBytes_def Buffer_Sum_def Let_def buffer_simps)

lemma LeaseRelease_payload_eq_iff:
  "LeaseRelease_payload x = LeaseRelease_payload y \<longleftrightarrow> lr_LeaseID x = lr_LeaseID y \<and>
     lr_NodeID x = lr_NodeID y \<and> time_UTC (lr_ReleasedAt x) = time_UTC (lr_ReleasedAt y)"
  by (cases x; cases y) (auto simp: LeaseRelease_payload_def)

interpretation LeaseRelease_msg: signed_message LeaseRelease_CanonicalBytes LeaseRelease_good LeaseRelease_payload
  lr_Signature "\<lambda>s r. r\<lparr>lr_Signature := s\<rparr>" "\<lambda>_ _. True"
  LeaseRelease_Sign LeaseRelease_Verify domainLeaseRelease
  "\<lambda>r. enc_string (lr_LeaseID r) @ enc_string (lr_NodeID r) @ enc_time (lr_ReleasedAt r)"
  by unfold_locales (auto simp: message_simps canon_cancel LeaseRelease_payload_eq_iff LeaseRelease_good_def
      LeaseRelease_Sign_def LeaseRelease_Verify_def)

lemma ProofResponse_canon [message_simps]:
  "ProofResponse_CanonicalBytes p =
     enc_string domainProof @ enc_string (pr_LeaseID p) @ enc_string (pr_NodeID p) @ enc_uint64 (pr_Offset p) @
     enc_uint64 (pr_Length p) @ enc_string (pr_Nonce p) @ enc_string (pr_Digest p) @ enc_time (pr_RespondedAt p)"
  by (simp add: ProofResponse_CanonicalBytes_def Buffer_Sum_def Let_def buffer_simps)

lemma ProofResponse_payload_eq_iff:
  "ProofResponse_payload x = ProofResponse_payload y \<longleftrightarrow> pr_LeaseID x = pr_LeaseID y \<and>
     pr_NodeID x = pr_NodeID y \<and> pr_Offset x = pr_Offset y \<and> pr_Length x = pr_Length y \<and>
     pr_Nonce x = pr_Nonce y \<and> pr_Digest x = pr_Digest y \<and>
     time_UTC (pr_RespondedAt x) = time_UTC (pr_RespondedAt y)"
  by (cases x; cases y) (auto simp: ProofResponse_payload_def)

interpretation ProofResponse_msg: signed_message ProofResponse_CanonicalBytes ProofResponse_good ProofResponse_payload
  pr_Signature "\<lambda>s p. p\<lparr>pr_Signature := s\<rparr>" "\<lambda>_ _. True"
  ProofResponse_Sign ProofResponse_Verify domainProof
  "\<lambda>p. enc_string (pr_LeaseID p) @ enc_string (pr_NodeID p) @ enc_uint64 (pr_Offset p) @
     enc_uint64 (pr_Length p) @ enc_string (pr_Nonce p) @ enc_string (pr_Digest p) @ enc_time (pr_RespondedAt p)"
  by unfold_locales (auto simp: message_simps canon_cancel fits_array ProofResponse_payload_eq_iff
      ProofResponse_good_def ProofResponse_Sign_def ProofResponse_Verify_def)

section \<open>Properties\<close>

text \<open>The input of the hash, as SPEC.md section 4.10 writes it.\<close>

definition proof_preimage :: "bytes \<Rightarrow> int64 \<Rightarrow> int64 \<Rightarrow> bytes \<Rightarrow> bytes" where
  "proof_preimage nonce off len rb = nonce @ spec_be64 (uint off) @ spec_be64 (uint len) @ rb"

lemma ProofDigest_preimage: "ProofDigest nonce off len rb = sha256 (proof_preimage nonce off len rb)"
  by (simp add: ProofDigest_def proof_preimage_def enc_uint64_spec [symmetric] Let_def)

lemma proof_preimage_eq_iff:
  assumes "length nonce = 16" and "length nonce' = 16"
  shows "proof_preimage nonce off len rb = proof_preimage nonce' off' len' rb' \<longleftrightarrow>
     nonce = nonce' \<and> off = off' \<and> len = len' \<and> rb = rb'"
  using assms by (auto simp: proof_preimage_def enc_uint64_spec [symmetric] dest: enc_uint64_inj)

text \<open>\<open>ProofDigest\<close> is the SHA-256 of the SPEC.md section 4.10 input, and that input determines the
  nonce, the offset, the length and the range bytes: a digest computed for one challenge is a digest for
  another only through a SHA-256 collision between two known inputs.\<close>

theorem ProofDigest_binds:
  assumes "length nonce = 16" and "length nonce' = 16"
  shows "ProofDigest nonce off len rb = sha256 (proof_preimage nonce off len rb) \<and>
     (proof_preimage nonce off len rb = proof_preimage nonce' off' len' rb' \<longleftrightarrow>
        nonce = nonce' \<and> off = off' \<and> len = len' \<and> rb = rb')"
  using assms by (simp add: ProofDigest_preimage proof_preimage_eq_iff)

lemma ProofDigest_binds_witness:
  "proof_preimage (replicate 16 1) 0 64 [7] \<noteq> proof_preimage (replicate 16 1) 64 64 [7]"
  using ProofDigest_binds [of "replicate 16 1" "replicate 16 1" 0 64 "[7]" 64 64 "[7]"] by simp

lemma ProofOverShard_eq:
  assumes "fits sealed"
  shows "ProofOverShard sealed ch =
     (if 0 \<le> sint (ch_Offset ch) \<and> 1 \<le> sint (ch_Length ch) \<and>
         sint (ch_Offset ch) + sint (ch_Length ch) \<le> int (length sealed)
      then Ret (ProofDigest (ch_Nonce ch) (ch_Offset ch) (ch_Length ch)
                  (take (nat (sint (ch_Length ch))) (drop (nat (sint (ch_Offset ch))) sealed)), None)
      else Ret (replicate 32 0, Some (ErrChallengeRange (ch_Offset ch) (ch_Length ch) (length sealed))))"
proof -
  define n where "n = int (length sealed)"
  define f where "f = sint (ch_Offset ch)"
  define l where "l = sint (ch_Length ch)"
  have n: "0 \<le> n" "n < 2 ^ 63" using assms by (simp_all add: n_def fits_def)
  have fl: "- (2 ^ 63) \<le> f" "f < 2 ^ 63" "- (2 ^ 63) \<le> l" "l < 2 ^ 63"
    using sint_greater_eq [of "ch_Offset ch"] sint_less [of "ch_Offset ch"]
      sint_greater_eq [of "ch_Length ch"] sint_less [of "ch_Length ch"] by (simp_all add: f_def l_def)
  have sub: "sint (go_len sealed - ch_Length ch) = n - l" if "1 \<le> l"
    using that n fl sint_sub_exact [of "go_len sealed" "ch_Length ch"]
    by (simp add: sint_go_len [OF assms] n_def l_def)
  have add: "sint (ch_Offset ch + ch_Length ch) = f + l" if "0 \<le> f" "1 \<le> l" "f + l \<le> n"
    using that n fl sint_add_exact [of "ch_Offset ch" "ch_Length ch"] by (simp add: f_def l_def)
  show ?thesis
  proof (cases "0 \<le> f \<and> 1 \<le> l \<and> f + l \<le> n")
    case True
    then have "go_slice sealed (ch_Offset ch) (ch_Offset ch + ch_Length ch) = Ret (take (nat l) (drop (nat f) sealed))"
      using add by (simp add: go_slice_def f_def [symmetric] l_def [symmetric] n_def [symmetric] nat_add_distrib)
    with True sub show ?thesis
      by (simp add: ProofOverShard_def f_def [symmetric] l_def [symmetric] n_def [symmetric])
  next
    case False
    with sub show ?thesis
      by (cases "1 \<le> l") (auto simp add: ProofOverShard_def f_def [symmetric] l_def [symmetric] n_def [symmetric])
  qed
qed

text \<open>C23: \<open>ProofOverShard\<close> never panics: for every challenge, wrapped offsets and lengths included, it either
  returns the digest of exactly the challenged bytes (when the range is non-empty and lies within the
  shard, as exact integers) or the zero digest and \<open>ErrChallengeRange\<close>.\<close>

theorem ProofOverShard_exact:
  assumes "fits sealed"
  shows "ProofOverShard sealed ch =
     (if 0 \<le> sint (ch_Offset ch) \<and> 1 \<le> sint (ch_Length ch) \<and>
         sint (ch_Offset ch) + sint (ch_Length ch) \<le> int (length sealed)
      then Ret (ProofDigest (ch_Nonce ch) (ch_Offset ch) (ch_Length ch)
                  (take (nat (sint (ch_Length ch))) (drop (nat (sint (ch_Offset ch))) sealed)), None)
      else Ret (replicate 32 0, Some (ErrChallengeRange (ch_Offset ch) (ch_Length ch) (length sealed))))"
  using assms by (rule ProofOverShard_eq)

definition challenge_example :: "int64 \<Rightarrow> int64 \<Rightarrow> ProofChallenge" where
  "challenge_example off len =
     \<lparr>ch_LeaseID = lit ''lease'', ch_Offset = off, ch_Length = len, ch_Nonce = replicate 16 9,
      ch_IssuedAt = time_Unix 0 0\<rparr>"

lemma ProofOverShard_exact_witness:
  "ProofOverShard [1, 2, 3] (challenge_example 1 2) = Ret (ProofDigest (replicate 16 9) 1 2 [2, 3], None) \<and>
   ProofOverShard [1, 2, 3] (challenge_example 1 maxInt64) =
     Ret (replicate 32 0, Some (ErrChallengeRange 1 maxInt64 3))"
  using ProofOverShard_exact [of "[1, 2, 3]" "challenge_example 1 2"]
    ProofOverShard_exact [of "[1, 2, 3]" "challenge_example 1 maxInt64"]
  by (simp add: fits_def challenge_example_def maxInt64_def)

end
