(* ===== verification/Operator.thy ===== *)
theory Operator
  imports Canon
begin

text \<open>
  Package \<open>operator\<close> (src/operator/signer.go, src/operator/operator.go): the operator layer's signature
  seam and its three messages, each signed with two of the operator's seven keys over the same canonical
  bytes. \<open>error\<close> results are options of \<open>operator_error\<close>, \<open>None\<close> for nil; a registry of public keys is a
  map from Go \<open>int\<close> indices. Ranging over a Go map visits its entries in an unspecified order, so
  \<open>OperatorRotation_Verify\<close> takes the orders of its two range loops as arguments.
\<close>

section \<open>The signature seam (signer.go)\<close>

text \<open>The two interfaces of the seam, as records of their methods; a method may panic.\<close>

record Signer =
  sg_Sign :: "bytes \<Rightarrow> bytes go"

record Verifier =
  vf_Verify :: "bytes \<Rightarrow> bytes \<Rightarrow> bytes \<Rightarrow> bool go"

record Ed25519Signer =
  es_priv :: bytes

definition NewEd25519Signer :: "bytes \<Rightarrow> Ed25519Signer" where
  "NewEd25519Signer priv = \<lparr>es_priv = priv\<rparr>"

definition Ed25519Signer_Sign :: "ed25519 \<Rightarrow> Ed25519Signer \<Rightarrow> bytes \<Rightarrow> bytes go" where
  "Ed25519Signer_Sign E s msg = ed25519_Sign E (es_priv s) msg"

definition Ed25519Verifier_Verify :: "ed25519 \<Rightarrow> bytes \<Rightarrow> bytes \<Rightarrow> bytes \<Rightarrow> bool go" where
  "Ed25519Verifier_Verify E pub msg sig =
     go_and (length pub = PublicKeySize) (go_and (length sig = SignatureSize) (ed25519_Verify E pub msg sig))"

text \<open>The implementations, as values of the interfaces; \<open>Ed25519Verifier\<close> is an empty struct.\<close>

definition Ed25519Signer_Signer :: "ed25519 \<Rightarrow> Ed25519Signer \<Rightarrow> Signer" where
  "Ed25519Signer_Signer E s = \<lparr>sg_Sign = Ed25519Signer_Sign E s\<rparr>"

definition Ed25519Verifier :: "ed25519 \<Rightarrow> Verifier" where
  "Ed25519Verifier E = \<lparr>vf_Verify = Ed25519Verifier_Verify E\<rparr>"

definition AlgoEd25519 :: bytes where
  "AlgoEd25519 = lit ''ed25519''"

definition expectedSigLen :: "bytes \<Rightarrow> nat" where
  "expectedSigLen algo = (if algo = AlgoEd25519 then SignatureSize else 0)"

definition expectedPubLen :: "bytes \<Rightarrow> nat" where
  "expectedPubLen algo = (if algo = AlgoEd25519 then PublicKeySize else 0)"

section \<open>Messages and errors (operator.go)\<close>

definition MinNonceLen :: nat where "MinNonceLen = 16"
definition KeyIndexCount :: nat where "KeyIndexCount = 7"

definition domainTransmission :: bytes where "domainTransmission = lit ''sohocloud/operator/v0''"
definition domainRotation :: bytes where "domainRotation = lit ''sohocloud/operator-rotate/v0''"
definition domainConformance :: bytes where "domainConformance = lit ''sohocloud/operator-conformance/v0''"

datatype operator_error = ErrSameIndex | ErrNonceTooShort | ErrUnknownAlgo | ErrAlgoMismatch | ErrKeyMissing
  | ErrBadSignature | ErrBadSigLength | ErrIndexRange | ErrDuplicateSigningKey

record KeyRecord =
  key_PublicKey :: bytes
  key_Algo :: bytes

type_synonym keymap = "int64 \<rightharpoonup> KeyRecord"

record OperatorTransmission =
  ot_OperatorID :: bytes
  ot_TsUnixNano :: int64
  ot_Nonce :: bytes
  ot_Seq :: uint64
  ot_Algo :: bytes
  ot_Idx0 :: int64
  ot_Idx1 :: int64
  ot_Sig0 :: bytes
  ot_Sig1 :: bytes

record OperatorRotation =
  or_OperatorID :: bytes
  or_KeyIndex :: int64
  or_NewPublicKey :: bytes
  or_Algo :: bytes
  or_TsUnixNano :: int64
  or_Nonce :: bytes
  or_Seq :: uint64
  or_Idx0 :: int64
  or_Idx1 :: int64
  or_Sig0 :: bytes
  or_Sig1 :: bytes

record ConformanceResponse =
  cr_OperatorID :: bytes
  cr_Challenge :: bytes
  cr_Algo :: bytes
  cr_Idx0 :: int64
  cr_Idx1 :: int64
  cr_Sig0 :: bytes
  cr_Sig1 :: bytes

section \<open>Verification of a pair of signatures\<close>

text \<open>\<open>idx < 0 || idx >= KeyIndexCount\<close>\<close>

definition index_out_of_range :: "int64 \<Rightarrow> bool" where
  "index_out_of_range idx \<longleftrightarrow> sint idx < 0 \<or> int KeyIndexCount \<le> sint idx"

text \<open>\<open>if err := m; err != nil \{ return err \}\<close> followed by \<open>k\<close>.\<close>

definition err_then :: "'e option go \<Rightarrow> 'e option go \<Rightarrow> 'e option go" where
  "err_then m k = go_bind m (\<lambda>e. case e of Some err \<Rightarrow> Ret (Some err) | None \<Rightarrow> k)"

definition verifyAt :: "ed25519 \<Rightarrow> keymap \<Rightarrow> int64 \<Rightarrow> bytes \<Rightarrow> bytes \<Rightarrow> bytes \<Rightarrow> operator_error option go" where
  "verifyAt E keymap idx algo msg sig =
     (if index_out_of_range idx then Ret (Some ErrIndexRange)
      else case keymap idx of
        None \<Rightarrow> Ret (Some ErrKeyMissing)
      | Some rec \<Rightarrow>
          if key_Algo rec \<noteq> algo then Ret (Some ErrAlgoMismatch)
          else if length sig \<noteq> expectedSigLen algo then Ret (Some ErrBadSigLength)
          else if length (key_PublicKey rec) \<noteq> expectedPubLen algo then Ret (Some ErrKeyMissing)
          else go_bind (vf_Verify (Ed25519Verifier E) (key_PublicKey rec) msg sig)
                 (\<lambda>ok. if \<not> ok then Ret (Some ErrBadSignature) else Ret None))"

definition distinctKeysAt :: "keymap \<Rightarrow> int64 \<Rightarrow> int64 \<Rightarrow> operator_error option" where
  "distinctKeysAt keymap idx0 idx1 =
     (if index_out_of_range idx0 \<or> index_out_of_range idx1 then Some ErrIndexRange
      else case (keymap idx0, keymap idx1) of
        (Some rec0, Some rec1) \<Rightarrow>
          if key_PublicKey rec0 = key_PublicKey rec1 then Some ErrDuplicateSigningKey else None
      | _ \<Rightarrow> None)"

definition verifyPair ::
  "ed25519 \<Rightarrow> keymap \<Rightarrow> int64 \<Rightarrow> int64 \<Rightarrow> bytes \<Rightarrow> bytes \<Rightarrow> bytes \<Rightarrow> bytes \<Rightarrow> operator_error option go" where
  "verifyPair E keymap idx0 idx1 algo msg sig0 sig1 =
     (if idx0 = idx1 then Ret (Some ErrSameIndex)
      else err_then (Ret (distinctKeysAt keymap idx0 idx1))
        (err_then (verifyAt E keymap idx0 algo msg sig0)
          (err_then (verifyAt E keymap idx1 algo msg sig1)
            (Ret None))))"

section \<open>OperatorTransmission\<close>

definition OperatorTransmission_CanonicalBytes :: "OperatorTransmission \<Rightarrow> bytes" where
  "OperatorTransmission_CanonicalBytes t =
     (let b = canon_New domainTransmission;
          b = Buffer_String (ot_OperatorID t) b;
          b = Buffer_Int64 (ot_TsUnixNano t) b;
          b = Buffer_Bytes (ot_Nonce t) b;
          b = Buffer_Uint64 (ot_Seq t) b;
          b = Buffer_String (ot_Algo t) b;
          b = Buffer_Uint64 (ot_Idx0 t) b;
          b = Buffer_Uint64 (ot_Idx1 t) b
      in Buffer_Sum b)"

definition OperatorTransmission_Sign ::
  "ed25519 \<Rightarrow> bytes \<Rightarrow> bytes \<Rightarrow> int64 \<Rightarrow> int64 \<Rightarrow> OperatorTransmission \<Rightarrow> OperatorTransmission go" where
  "OperatorTransmission_Sign E priv0 priv1 idx0 idx1 t =
     (let t = t\<lparr>ot_Idx0 := idx0, ot_Idx1 := idx1\<rparr>;
          t = (if ot_Algo t = [] then t\<lparr>ot_Algo := AlgoEd25519\<rparr> else t);
          msg = OperatorTransmission_CanonicalBytes t
      in go_bind (ed25519_Sign E priv0 msg) (\<lambda>s0.
           let t = t\<lparr>ot_Sig0 := s0\<rparr>
           in go_bind (ed25519_Sign E priv1 msg) (\<lambda>s1. Ret (t\<lparr>ot_Sig1 := s1\<rparr>))))"

definition OperatorTransmission_Verify ::
  "ed25519 \<Rightarrow> keymap \<Rightarrow> OperatorTransmission \<Rightarrow> operator_error option go" where
  "OperatorTransmission_Verify E keymap t =
     (if length (ot_Nonce t) < MinNonceLen then Ret (Some ErrNonceTooShort)
      else if expectedSigLen (ot_Algo t) = 0 then Ret (Some ErrUnknownAlgo)
      else verifyPair E keymap (ot_Idx0 t) (ot_Idx1 t) (ot_Algo t) (OperatorTransmission_CanonicalBytes t)
             (ot_Sig0 t) (ot_Sig1 t))"

section \<open>OperatorRotation\<close>

definition OperatorRotation_CanonicalBytes :: "OperatorRotation \<Rightarrow> bytes" where
  "OperatorRotation_CanonicalBytes r =
     (let b = canon_New domainRotation;
          b = Buffer_String (or_OperatorID r) b;
          b = Buffer_Uint64 (or_KeyIndex r) b;
          b = Buffer_Bytes (or_NewPublicKey r) b;
          b = Buffer_String (or_Algo r) b;
          b = Buffer_Int64 (or_TsUnixNano r) b;
          b = Buffer_Bytes (or_Nonce r) b;
          b = Buffer_Uint64 (or_Seq r) b;
          b = Buffer_Uint64 (or_Idx0 r) b;
          b = Buffer_Uint64 (or_Idx1 r) b
      in Buffer_Sum b)"

definition OperatorRotation_Sign ::
  "ed25519 \<Rightarrow> bytes \<Rightarrow> bytes \<Rightarrow> int64 \<Rightarrow> int64 \<Rightarrow> OperatorRotation \<Rightarrow> OperatorRotation go" where
  "OperatorRotation_Sign E priv0 priv1 idx0 idx1 r =
     (let r = r\<lparr>or_Idx0 := idx0, or_Idx1 := idx1\<rparr>;
          r = (if or_Algo r = [] then r\<lparr>or_Algo := AlgoEd25519\<rparr> else r);
          msg = OperatorRotation_CanonicalBytes r
      in go_bind (ed25519_Sign E priv0 msg) (\<lambda>s0.
           let r = r\<lparr>or_Sig0 := s0\<rparr>
           in go_bind (ed25519_Sign E priv1 msg) (\<lambda>s1. Ret (r\<lparr>or_Sig1 := s1\<rparr>))))"

text \<open>The two range loops; the list is the order in which the map's entries are visited.\<close>

fun rotation_duplicate_loop :: "int64 \<Rightarrow> bytes \<Rightarrow> (int64 \<times> KeyRecord) list \<Rightarrow> operator_error option" where
  "rotation_duplicate_loop keyIndex newKey [] = None"
| "rotation_duplicate_loop keyIndex newKey ((idx, rec) # rest) =
     (if idx = keyIndex then rotation_duplicate_loop keyIndex newKey rest
      else if key_PublicKey rec = newKey then Some ErrDuplicateSigningKey
      else rotation_duplicate_loop keyIndex newKey rest)"

fun rotation_algo_loop :: "int64 \<Rightarrow> bytes \<Rightarrow> (int64 \<times> KeyRecord) list \<Rightarrow> operator_error option" where
  "rotation_algo_loop keyIndex algo [] = None"
| "rotation_algo_loop keyIndex algo ((idx, rec) # rest) =
     (if idx = keyIndex then rotation_algo_loop keyIndex algo rest
      else if key_Algo rec \<noteq> algo then Some ErrAlgoMismatch
      else rotation_algo_loop keyIndex algo rest)"

definition OperatorRotation_Verify ::
  "ed25519 \<Rightarrow> (int64 \<times> KeyRecord) list \<Rightarrow> (int64 \<times> KeyRecord) list \<Rightarrow> keymap \<Rightarrow> OperatorRotation
     \<Rightarrow> operator_error option go" where
  "OperatorRotation_Verify E order1 order2 keymap r =
     (if length (or_Nonce r) < MinNonceLen then Ret (Some ErrNonceTooShort)
      else if expectedSigLen (or_Algo r) = 0 then Ret (Some ErrUnknownAlgo)
      else if index_out_of_range (or_KeyIndex r) then Ret (Some ErrIndexRange)
      else if length (or_NewPublicKey r) \<noteq> expectedPubLen (or_Algo r) then Ret (Some ErrUnknownAlgo)
      else err_then (Ret (rotation_duplicate_loop (or_KeyIndex r) (or_NewPublicKey r) order1))
        (err_then (Ret (rotation_algo_loop (or_KeyIndex r) (or_Algo r) order2))
          (verifyPair E keymap (or_Idx0 r) (or_Idx1 r) (or_Algo r) (OperatorRotation_CanonicalBytes r)
             (or_Sig0 r) (or_Sig1 r))))"

section \<open>ConformanceResponse\<close>

definition ConformanceResponse_CanonicalBytes :: "ConformanceResponse \<Rightarrow> bytes" where
  "ConformanceResponse_CanonicalBytes c =
     (let b = canon_New domainConformance;
          b = Buffer_String (cr_OperatorID c) b;
          b = Buffer_Bytes (cr_Challenge c) b;
          b = Buffer_String (cr_Algo c) b;
          b = Buffer_Uint64 (cr_Idx0 c) b;
          b = Buffer_Uint64 (cr_Idx1 c) b
      in Buffer_Sum b)"

definition ConformanceResponse_Sign ::
  "ed25519 \<Rightarrow> bytes \<Rightarrow> bytes \<Rightarrow> int64 \<Rightarrow> int64 \<Rightarrow> ConformanceResponse \<Rightarrow> ConformanceResponse go" where
  "ConformanceResponse_Sign E priv0 priv1 idx0 idx1 c =
     (let c = c\<lparr>cr_Idx0 := idx0, cr_Idx1 := idx1\<rparr>;
          c = (if cr_Algo c = [] then c\<lparr>cr_Algo := AlgoEd25519\<rparr> else c);
          msg = ConformanceResponse_CanonicalBytes c
      in go_bind (ed25519_Sign E priv0 msg) (\<lambda>s0.
           let c = c\<lparr>cr_Sig0 := s0\<rparr>
           in go_bind (ed25519_Sign E priv1 msg) (\<lambda>s1. Ret (c\<lparr>cr_Sig1 := s1\<rparr>))))"

definition ConformanceResponse_Verify ::
  "ed25519 \<Rightarrow> keymap \<Rightarrow> ConformanceResponse \<Rightarrow> operator_error option go" where
  "ConformanceResponse_Verify E keymap c =
     (if expectedSigLen (cr_Algo c) = 0 then Ret (Some ErrUnknownAlgo)
      else verifyPair E keymap (cr_Idx0 c) (cr_Idx1 c) (cr_Algo c) (ConformanceResponse_CanonicalBytes c)
             (cr_Sig0 c) (cr_Sig1 c))"

end
