(* ===== verification/Operator_Protocol.thy ===== *)
theory Operator_Protocol
  imports Operator Signed_Messages
begin

text \<open>
  What package \<open>operator\<close> guarantees. \<open>pair_valid\<close> is the abstract 2-of-7 rule of
      SPEC.md section 11.0;
  \<open>verifyPair\<close> implements it. The locale \<open>two_key_message\<close> is the contract of messages signed
      with two keys
  (a prefix code without the two signatures, signing with two keys, verification by message checks
  followed by \<open>verifyPair\<close>), \<open>operator_message\<close> that of one message type with its domain tag;
      their lemmas are
  proved once and interpreted on each message. The key registry is in \<open>Registry\<close>.
\<close>

section \<open>The seam and the lengths\<close>

interpretation operator_verifier: panic_safe_verifier E "vf_Verify (Ed25519Verifier E)" for E
  by unfold_locales (auto simp: Ed25519Verifier_def Ed25519Verifier_Verify_def ed25519_Verify_def go_simps)

lemma AlgoEd25519_nonempty [simp]: "AlgoEd25519 \<noteq> []"
  by (simp add: AlgoEd25519_def lit_def)

lemma fits_AlgoEd25519 [simp]: "fits AlgoEd25519"
  by (simp add: AlgoEd25519_def fits_lit)

lemma expectedSigLen_0_iff [simp]: "expectedSigLen algo = 0 \<longleftrightarrow> algo \<noteq> AlgoEd25519"
  by (simp add: expectedSigLen_def key_sizes)

lemma err_then_Ret [simp]:
  "err_then (Ret e) k = (case e of Some err \<Rightarrow> Ret (Some err) | None \<Rightarrow> k)"
  by (simp add: err_then_def)

lemma err_then_no_panic: "m \<noteq> Panic \<Longrightarrow> k \<noteq> Panic \<Longrightarrow> err_then m k \<noteq> Panic"
  unfolding err_then_def by (rule go_bind_no_panic) (auto split: option.splits)

lemma err_then_ok: "err_then m k = Ret None \<longleftrightarrow> m = Ret None \<and> k = Ret None"
  unfolding err_then_def by (cases m) (auto split: option.splits)

section \<open>Verification of a pair\<close>

text \<open>One signature at one index, and the 2-of-7 rule: two distinct indices in range, holding two
  different public keys of the bound algorithm, each with a valid signature.\<close>

definition key_valid :: "ed25519 \<Rightarrow> keymap \<Rightarrow> int64 \<Rightarrow> bytes \<Rightarrow>
    bytes \<Rightarrow> bytes \<Rightarrow> bool" where
  "key_valid E keymap idx algo msg sig \<longleftrightarrow>
     (\<exists>rec. 0 \<le> sint idx \<and> sint idx < 7 \<and> keymap idx = Some rec \<and> key_Algo rec = algo \<and>
     algo = AlgoEd25519 \<and>
        length (key_PublicKey rec) = 32 \<and> length sig = 64 \<and> ed_verify E (key_PublicKey rec) msg sig)"

definition pair_valid ::
  "ed25519 \<Rightarrow> keymap \<Rightarrow> int64 \<Rightarrow> int64 \<Rightarrow> bytes \<Rightarrow>
      bytes \<Rightarrow> bytes \<Rightarrow> bytes \<Rightarrow> bool" where
  "pair_valid E keymap idx0 idx1 algo msg sig0 sig1 \<longleftrightarrow>
     idx0 \<noteq> idx1 \<and> map_option key_PublicKey (keymap idx0) \<noteq> map_option key_PublicKey (keymap idx1) \<and>
     key_valid E keymap idx0 algo msg sig0 \<and> key_valid E keymap idx1 algo msg sig1"

lemma verifyAt_no_panic: "verifyAt E keymap idx algo msg sig \<noteq> Panic"
  by (auto simp: verifyAt_def operator_verifier.verify_eq split: option.splits)

lemma verifyPair_no_panic: "verifyPair E keymap i j algo msg s0 s1 \<noteq> Panic"
  by (auto simp: verifyPair_def verifyAt_no_panic err_then_no_panic split: option.splits)

lemma verifyAt_ok_iff: "verifyAt E keymap idx algo msg sig = Ret None \<longleftrightarrow>
    key_valid E keymap idx algo msg sig"
  by (auto simp: verifyAt_def key_valid_def index_out_of_range_def KeyIndexCount_def expectedSigLen_def
      expectedPubLen_def operator_verifier.verify_eq key_sizes split: option.splits if_splits)

lemma distinctKeysAt_None_iff:
  "distinctKeysAt keymap i j = None \<longleftrightarrow> \<not> index_out_of_range i \<and>
      \<not> index_out_of_range j \<and>
     (\<forall>r0 r1. keymap i = Some r0 \<and> keymap j = Some r1 \<longrightarrow> key_PublicKey r0 \<noteq>
     key_PublicKey r1)"
  by (auto simp: distinctKeysAt_def split: option.splits)

lemma verifyPair_ok_iff:
  "verifyPair E keymap i j algo msg s0 s1 = Ret None \<longleftrightarrow> pair_valid E keymap i j algo msg s0 s1"
proof -
  have "verifyPair E keymap i j algo msg s0 s1 = Ret None \<longleftrightarrow>
      i \<noteq> j \<and> distinctKeysAt keymap i j = None \<and>
      key_valid E keymap i algo msg s0 \<and> key_valid E keymap j algo msg s1"
    by (auto simp: verifyPair_def err_then_ok verifyAt_ok_iff split: option.splits)
  also have "\<dots> \<longleftrightarrow> pair_valid E keymap i j algo msg s0 s1"
    by (auto simp: pair_valid_def distinctKeysAt_None_iff key_valid_def index_out_of_range_def KeyIndexCount_def)
  finally show ?thesis .
qed

section \<open>The contract of an operator message\<close>

locale two_key_message = prefix_code canon good payload
  for canon :: "'m \<Rightarrow> bytes" and good :: "'m \<Rightarrow> bool" and payload :: "'m \<Rightarrow> 'm" +
  fixes idx0 idx1 :: "'m \<Rightarrow> int64"
    and algo sig0 sig1 :: "'m \<Rightarrow> bytes"
    and prep :: "int64 \<Rightarrow> int64 \<Rightarrow> 'm \<Rightarrow> 'm"
    and put :: "bytes \<Rightarrow> bytes \<Rightarrow> 'm \<Rightarrow> 'm"
    and checks :: "keymap \<Rightarrow> 'm \<Rightarrow> operator_error option"
    and sign :: "ed25519 \<Rightarrow> bytes \<Rightarrow> bytes \<Rightarrow> int64 \<Rightarrow> int64 \<Rightarrow>
        'm \<Rightarrow> 'm go"
    and verify :: "ed25519 \<Rightarrow> keymap \<Rightarrow> 'm \<Rightarrow> operator_error option go"
  assumes canon_put: "canon (put s0 s1 m) = canon m"
    and put_fields: "idx0 (put s0 s1 m) = idx0 m" "idx1 (put s0 s1 m) = idx1 m" "algo (put s0 s1 m) = algo m"
      "sig0 (put s0 s1 m) = s0" "sig1 (put s0 s1 m) = s1" "checks km (put s0 s1 m) = checks km m"
      "payload (put s0 s1 m) = payload m"
    and prep_fields: "idx0 (prep i j m) = i" "idx1 (prep i j m) = j"
      "algo (prep i j m) = (if algo m = [] then AlgoEd25519 else algo m)"
    and checks_algo: "checks km m = None \<Longrightarrow> algo m = AlgoEd25519"
    and sign_eq: "sign E p0 p1 i j m =
        go_bind (ed25519_Sign E p0 (canon (prep i j m))) (\<lambda>s0.
          go_bind (ed25519_Sign E p1 (canon (prep i j m))) (\<lambda>s1. Ret (put s0 s1 (prep i j m))))"
    and verify_eq: "verify E km m = err_then (Ret (checks km m))
        (verifyPair E km (idx0 m) (idx1 m) (algo m) (canon m) (sig0 m) (sig1 m))"
begin

lemma verify_no_panic: "verify E km m \<noteq> Panic"
  by (auto simp: verify_eq verifyPair_no_panic split: option.splits)

lemma accepts_iff:
  "verify E km m = Ret None \<longleftrightarrow>
     checks km m = None \<and> pair_valid E km (idx0 m) (idx1 m) (algo m) (canon m) (sig0 m) (sig1 m)"
  by (auto simp: verify_eq verifyPair_ok_iff split: option.splits)

text \<open>An accepted message carries valid signatures by two different registered keys.\<close>

lemma two_keys:
  assumes "verify E km m = Ret None"
  shows "\<exists>r0 r1. km (idx0 m) = Some r0 \<and> km (idx1 m) = Some r1 \<and> idx0 m \<noteq> idx1 m \<and>
      key_PublicKey r0 \<noteq> key_PublicKey r1 \<and> key_Algo r0 = AlgoEd25519 \<and> key_Algo r1 = AlgoEd25519 \<and>
      ed_verify E (key_PublicKey r0) (canon m) (sig0 m) \<and> ed_verify E (key_PublicKey r1) (canon m) (sig1 m)"
  using assms by (auto simp: accepts_iff pair_valid_def key_valid_def)

text \<open>Signing with two different registered keys is accepted, whenever the message's own checks pass.\<close>

lemma sign_verify:
  assumes "ed25519_laws E" and "keypair E p0 k0" and "keypair E p1 k1" and "k0 \<noteq> k1" and "i \<noteq> j"
    and "0 \<le> sint i" and "sint i < 7" and "0 \<le> sint j" and "sint j < 7"
    and "km i = Some \<lparr>key_PublicKey = k0, key_Algo = AlgoEd25519\<rparr>"
    and "km j = Some \<lparr>key_PublicKey = k1, key_Algo = AlgoEd25519\<rparr>"
    and "checks km (prep i j m) = None"
  shows "\<exists>m'. sign E p0 p1 i j m = Ret m' \<and> payload m' = payload (prep i j m) \<and> verify E km m' = Ret None"
proof -
  let ?c = "canon (prep i j m)"
  let ?m = "put (ed_sign E p0 ?c) (ed_sign E p1 ?c) (prep i j m)"
  note k = keypair_length [OF assms(2)] keypair_length [OF assms(3)]
  have "sign E p0 p1 i j m = Ret ?m"
    by (simp add: sign_eq ed25519_Sign_keypair [OF assms(2)] ed25519_Sign_keypair [OF assms(3)])
  moreover have "algo (prep i j m) = AlgoEd25519" by (rule checks_algo) (rule assms(12))
  then have "verify E km ?m = Ret None"
    using assms k ed25519_laws_length [OF assms(1)] ed25519_laws_verify [OF assms(1)]
    by (simp add: accepts_iff put_fields canon_put prep_fields(1,2) pair_valid_def key_valid_def key_sizes)
  ultimately show ?thesis by (auto simp: put_fields)
qed

text \<open>And it is accepted in no other case: its own checks decide.\<close>

lemma sign_verify_iff:
  assumes "ed25519_laws E" and "keypair E p0 k0" and "keypair E p1 k1" and "k0 \<noteq> k1" and "i \<noteq> j"
    and "0 \<le> sint i" and "sint i < 7" and "0 \<le> sint j" and "sint j < 7"
    and "km i = Some \<lparr>key_PublicKey = k0, key_Algo = AlgoEd25519\<rparr>"
    and "km j = Some \<lparr>key_PublicKey = k1, key_Algo = AlgoEd25519\<rparr>"
  shows "\<exists>s0 s1. sign E p0 p1 i j m = Ret (put s0 s1 (prep i j m)) \<and>
    (verify E km (put s0 s1 (prep i j m)) = Ret None \<longleftrightarrow> checks km (prep i j m) = None)"
proof -
  let ?c = "canon (prep i j m)"
  let ?m = "put (ed_sign E p0 ?c) (ed_sign E p1 ?c) (prep i j m)"
  have sign: "sign E p0 p1 i j m = Ret ?m"
    by (simp add: sign_eq ed25519_Sign_keypair [OF assms(2)] ed25519_Sign_keypair [OF assms(3)])
  moreover have "verify E km ?m = Ret None" if "checks km (prep i j m) = None"
    using sign_verify [OF assms that] sign by auto
  moreover have "checks km (prep i j m) = None" if "verify E km ?m = Ret None"
    using that by (simp add: accepts_iff put_fields)
  ultimately show ?thesis
    by (intro exI [of _ "ed_sign E p0 ?c"] exI [of _ "ed_sign E p1 ?c"] conjI iffI) simp_all
qed

text \<open>An accepted message whose content a holder of one of the two keys never signed is a forgery under
  that key; so a valid message needs the consent of both holders.\<close>

lemma unsigned_content_is_forgery:
  assumes "verify E km m = Ret None" and "good m" and "\<forall>m' \<in> S. good m'" and "payload m \<notin> payload ` S"
  shows "\<exists>r0 r1. km (idx0 m) = Some r0 \<and> km (idx1 m) = Some r1 \<and>
      key_PublicKey r0 \<noteq> key_PublicKey r1 \<and>
      forgery E (key_PublicKey r0) (canon ` S) (canon m) (sig0 m) \<and>
      forgery E (key_PublicKey r1) (canon ` S) (canon m) (sig1 m)"
proof -
  have "canon m \<notin> canon ` S" using assms(2-4) enc_eq_iff by fastforce
  with two_keys [OF assms(1)] show ?thesis by (auto simp: forgery_def)
qed

end

text \<open>One message type: its bytes start with its own domain tag.\<close>

locale operator_message = two_key_message canon good payload idx0 idx1 algo sig0 sig1 prep put checks sign verify
  for canon :: "'m \<Rightarrow> bytes" and good payload idx0 idx1 algo sig0 sig1 prep put checks sign verify +
  fixes tag :: bytes and body :: "'m \<Rightarrow> bytes"
  assumes tag_fits: "fits tag"
    and canon_tag: "canon m = enc_string tag @ body m"
begin

lemma tag_separates:
  assumes "fits tag'" and "tag' \<noteq> tag"
  shows "canon m \<noteq> enc_string tag' @ b"
  using string_code.cancel [OF tag_fits assms(1)] assms(2) by (auto simp: canon_tag)

end

section \<open>The three messages\<close>

definition OperatorTransmission_good :: "OperatorTransmission \<Rightarrow> bool" where
  "OperatorTransmission_good t \<longleftrightarrow> fits (ot_OperatorID t) \<and> fits (ot_Nonce t) \<and> fits (ot_Algo t)"

definition OperatorTransmission_payload :: "OperatorTransmission \<Rightarrow> OperatorTransmission" where
  "OperatorTransmission_payload t = t\<lparr>ot_Sig0 := [], ot_Sig1 := []\<rparr>"

definition OperatorRotation_good :: "OperatorRotation \<Rightarrow> bool" where
  "OperatorRotation_good r \<longleftrightarrow> fits (or_OperatorID r) \<and> fits (or_NewPublicKey r) \<and>
      fits (or_Algo r) \<and> fits (or_Nonce r)"

definition OperatorRotation_payload :: "OperatorRotation \<Rightarrow> OperatorRotation" where
  "OperatorRotation_payload r = r\<lparr>or_Sig0 := [], or_Sig1 := []\<rparr>"

definition ConformanceResponse_good :: "ConformanceResponse \<Rightarrow> bool" where
  "ConformanceResponse_good c \<longleftrightarrow> fits (cr_OperatorID c) \<and> fits (cr_Challenge c) \<and>
      fits (cr_Algo c)"

definition ConformanceResponse_payload :: "ConformanceResponse \<Rightarrow> ConformanceResponse" where
  "ConformanceResponse_payload c = c\<lparr>cr_Sig0 := [], cr_Sig1 := []\<rparr>"

lemma domain_operator_fits [simp]: "fits domainTransmission" "fits domainRotation" "fits domainConformance"
  by (simp_all add: domainTransmission_def domainRotation_def domainConformance_def fits_lit)

named_theorems operator_simps \<open>the canonical bytes and the payload equality of the operator messages\<close>

lemma OperatorTransmission_canon [operator_simps]:
  "OperatorTransmission_CanonicalBytes t =
     enc_string domainTransmission @ enc_string (ot_OperatorID t) @ enc_uint64 (ot_TsUnixNano t) @
     enc_string (ot_Nonce t) @ enc_uint64 (ot_Seq t) @ enc_string (ot_Algo t) @
     enc_uint64 (ot_Idx0 t) @ enc_uint64 (ot_Idx1 t)"
  by (simp add: OperatorTransmission_CanonicalBytes_def Buffer_Sum_def Let_def buffer_simps)

lemma OperatorTransmission_payload_eq_iff [operator_simps]:
  "OperatorTransmission_payload x = OperatorTransmission_payload y \<longleftrightarrow> ot_OperatorID x =
      ot_OperatorID y \<and>
     ot_TsUnixNano x = ot_TsUnixNano y \<and> ot_Nonce x = ot_Nonce y \<and> ot_Seq x = ot_Seq y \<and>
     ot_Algo x = ot_Algo y \<and> ot_Idx0 x = ot_Idx0 y \<and> ot_Idx1 x = ot_Idx1 y"
  by (cases x; cases y) (auto simp: OperatorTransmission_payload_def)

definition transmission_checks :: "keymap \<Rightarrow> OperatorTransmission \<Rightarrow> operator_error option" where
  "transmission_checks km t =
     (if length (ot_Nonce t) < MinNonceLen then Some ErrNonceTooShort
      else if ot_Algo t \<noteq> AlgoEd25519 then Some ErrUnknownAlgo else None)"

definition transmission_prep :: "int64 \<Rightarrow> int64 \<Rightarrow> OperatorTransmission \<Rightarrow>
    OperatorTransmission" where
  "transmission_prep i j t = t\<lparr>ot_Idx0 := i, ot_Idx1 := j, ot_Algo := if ot_Algo t =
      [] then AlgoEd25519 else ot_Algo t\<rparr>"

interpretation transmission_msg: operator_message OperatorTransmission_CanonicalBytes OperatorTransmission_good
  OperatorTransmission_payload ot_Idx0 ot_Idx1 ot_Algo ot_Sig0 ot_Sig1
  transmission_prep "\<lambda>s0 s1 t. t\<lparr>ot_Sig0 := s0, ot_Sig1 := s1\<rparr>"
  transmission_checks OperatorTransmission_Sign OperatorTransmission_Verify domainTransmission
  "\<lambda>t. enc_string (ot_OperatorID t) @ enc_uint64 (ot_TsUnixNano t) @ enc_string (ot_Nonce t) @
     enc_uint64 (ot_Seq t) @ enc_string (ot_Algo t) @ enc_uint64 (ot_Idx0 t) @ enc_uint64 (ot_Idx1 t)"
  by unfold_locales (auto simp: operator_simps canon_cancel OperatorTransmission_good_def transmission_checks_def
      transmission_prep_def OperatorTransmission_Sign_def OperatorTransmission_Verify_def Let_def split: if_splits)

lemma OperatorRotation_canon [operator_simps]:
  "OperatorRotation_CanonicalBytes r =
     enc_string domainRotation @ enc_string (or_OperatorID r) @ enc_uint64 (or_KeyIndex r) @
     enc_string (or_NewPublicKey r) @ enc_string (or_Algo r) @ enc_uint64 (or_TsUnixNano r) @
     enc_string (or_Nonce r) @ enc_uint64 (or_Seq r) @ enc_uint64 (or_Idx0 r) @ enc_uint64 (or_Idx1 r)"
  by (simp add: OperatorRotation_CanonicalBytes_def Buffer_Sum_def Let_def buffer_simps)

lemma OperatorRotation_payload_eq_iff [operator_simps]:
  "OperatorRotation_payload x = OperatorRotation_payload y \<longleftrightarrow> or_OperatorID x = or_OperatorID y \<and>
     or_KeyIndex x = or_KeyIndex y \<and> or_NewPublicKey x = or_NewPublicKey y \<and> or_Algo x = or_Algo y \<and>
     or_TsUnixNano x = or_TsUnixNano y \<and> or_Nonce x = or_Nonce y \<and> or_Seq x = or_Seq y \<and>
     or_Idx0 x = or_Idx0 y \<and> or_Idx1 x = or_Idx1 y"
  by (cases x; cases y) (auto simp: OperatorRotation_payload_def)

definition rotation_checks ::
  "(int64 \<times> KeyRecord) list \<Rightarrow> (int64 \<times> KeyRecord) list \<Rightarrow> keymap \<Rightarrow>
      OperatorRotation \<Rightarrow> operator_error option" where
  "rotation_checks o1 o2 km r =
     (if length (or_Nonce r) < MinNonceLen then Some ErrNonceTooShort
      else if or_Algo r \<noteq> AlgoEd25519 then Some ErrUnknownAlgo
      else if index_out_of_range (or_KeyIndex r) then Some ErrIndexRange
      else if length (or_NewPublicKey r) \<noteq> expectedPubLen (or_Algo r) then Some ErrUnknownAlgo
      else case rotation_duplicate_loop (or_KeyIndex r) (or_NewPublicKey r) o1 of
          Some e \<Rightarrow> Some e
        | None \<Rightarrow> rotation_algo_loop (or_KeyIndex r) (or_Algo r) o2)"

definition rotation_prep :: "int64 \<Rightarrow> int64 \<Rightarrow> OperatorRotation \<Rightarrow> OperatorRotation" where
  "rotation_prep i j r = r\<lparr>or_Idx0 := i, or_Idx1 := j, or_Algo := if or_Algo r =
      [] then AlgoEd25519 else or_Algo r\<rparr>"

interpretation rotation_msg: operator_message OperatorRotation_CanonicalBytes OperatorRotation_good
  OperatorRotation_payload or_Idx0 or_Idx1 or_Algo or_Sig0 or_Sig1
  rotation_prep "\<lambda>s0 s1 r. r\<lparr>or_Sig0 := s0, or_Sig1 := s1\<rparr>"
  "rotation_checks o1 o2" OperatorRotation_Sign "\<lambda>E. OperatorRotation_Verify E o1 o2" domainRotation
  "\<lambda>r. enc_string (or_OperatorID r) @ enc_uint64 (or_KeyIndex r) @ enc_string (or_NewPublicKey r) @
     enc_string (or_Algo r) @ enc_uint64 (or_TsUnixNano r) @ enc_string (or_Nonce r) @ enc_uint64 (or_Seq r) @
     enc_uint64 (or_Idx0 r) @ enc_uint64 (or_Idx1 r)" for o1 o2
  by unfold_locales (auto simp: operator_simps canon_cancel OperatorRotation_good_def rotation_checks_def
      rotation_prep_def OperatorRotation_Sign_def OperatorRotation_Verify_def Let_def
      split: if_splits option.splits)

lemma ConformanceResponse_canon [operator_simps]:
  "ConformanceResponse_CanonicalBytes c =
     enc_string domainConformance @ enc_string (cr_OperatorID c) @ enc_string (cr_Challenge c) @
     enc_string (cr_Algo c) @ enc_uint64 (cr_Idx0 c) @ enc_uint64 (cr_Idx1 c)"
  by (simp add: ConformanceResponse_CanonicalBytes_def Buffer_Sum_def Let_def buffer_simps)

lemma ConformanceResponse_payload_eq_iff [operator_simps]:
  "ConformanceResponse_payload x = ConformanceResponse_payload y \<longleftrightarrow> cr_OperatorID x =
      cr_OperatorID y \<and>
     cr_Challenge x = cr_Challenge y \<and> cr_Algo x = cr_Algo y \<and> cr_Idx0 x = cr_Idx0 y \<and> cr_Idx1 x = cr_Idx1 y"
  by (cases x; cases y) (auto simp: ConformanceResponse_payload_def)

definition conformance_checks :: "keymap \<Rightarrow> ConformanceResponse \<Rightarrow> operator_error option" where
  "conformance_checks km c = (if cr_Algo c \<noteq> AlgoEd25519 then Some ErrUnknownAlgo else None)"

definition conformance_prep :: "int64 \<Rightarrow> int64 \<Rightarrow> ConformanceResponse \<Rightarrow>
    ConformanceResponse" where
  "conformance_prep i j c = c\<lparr>cr_Idx0 := i, cr_Idx1 := j, cr_Algo := if cr_Algo c =
      [] then AlgoEd25519 else cr_Algo c\<rparr>"

interpretation conformance_msg: operator_message ConformanceResponse_CanonicalBytes ConformanceResponse_good
  ConformanceResponse_payload cr_Idx0 cr_Idx1 cr_Algo cr_Sig0 cr_Sig1
  conformance_prep "\<lambda>s0 s1 c. c\<lparr>cr_Sig0 := s0, cr_Sig1 := s1\<rparr>"
  conformance_checks ConformanceResponse_Sign ConformanceResponse_Verify domainConformance
  "\<lambda>c. enc_string (cr_OperatorID c) @ enc_string (cr_Challenge c) @ enc_string (cr_Algo c) @
     enc_uint64 (cr_Idx0 c) @ enc_uint64 (cr_Idx1 c)"
  by unfold_locales (auto simp: operator_simps canon_cancel ConformanceResponse_good_def conformance_checks_def
      conformance_prep_def ConformanceResponse_Sign_def ConformanceResponse_Verify_def Let_def split: if_splits)

end
