(* ===== verification/Wire.thy ===== *)
theory Wire
  imports Listing Liveness Employment Identity Lease Operator_Protocol
begin

text \<open>
  All fifteen signed messages of the protocol in one type. \<open>node_message\<close> is the twelve signed with one
  key (SPEC.md sections 4.1 to 4.14), \<open>op_message\<close> the three signed with two operator keys (section 11);
  each operation of the sum dispatches to the operation of the message's own package. The contracts
  \<open>signed_payload\<close> and \<open>two_key_message\<close> are interpreted on the sums: across the whole
      protocol, equal
  bytes mean the same message type and the same content.
\<close>

section \<open>Messages signed with one key\<close>

datatype node_message =
    ListingMsg CapabilityListing
  | HeartbeatMsg Heartbeat
  | FeeMsg FeeDeclaration
  | AssignmentMsg Assignment
  | DeclineMsg Decline
  | JobReportMsg JobReport
  | KeyRotationMsg KeyRotation
  | KeyRevocationMsg KeyRevocation
  | LeaseMsg StorageLease
  | LeaseDeclineMsg LeaseDecline
  | LeaseReleaseMsg LeaseRelease
  | ProofMsg ProofResponse

fun nm_bytes :: "node_message \<Rightarrow> bytes" where
  "nm_bytes (ListingMsg m) = CapabilityListing_CanonicalBytes m"
| "nm_bytes (HeartbeatMsg m) = Heartbeat_CanonicalBytes m"
| "nm_bytes (FeeMsg m) = FeeDeclaration_CanonicalBytes m"
| "nm_bytes (AssignmentMsg m) = Assignment_CanonicalBytes m"
| "nm_bytes (DeclineMsg m) = Decline_CanonicalBytes m"
| "nm_bytes (JobReportMsg m) = JobReport_CanonicalBytes m"
| "nm_bytes (KeyRotationMsg m) = KeyRotation_CanonicalBytes m"
| "nm_bytes (KeyRevocationMsg m) = KeyRevocation_CanonicalBytes m"
| "nm_bytes (LeaseMsg m) = StorageLease_CanonicalBytes m"
| "nm_bytes (LeaseDeclineMsg m) = LeaseDecline_CanonicalBytes m"
| "nm_bytes (LeaseReleaseMsg m) = LeaseRelease_CanonicalBytes m"
| "nm_bytes (ProofMsg m) = ProofResponse_CanonicalBytes m"

fun nm_tag :: "node_message \<Rightarrow> bytes" where
  "nm_tag (ListingMsg m) = domainListing"
| "nm_tag (HeartbeatMsg m) = domainHeartbeat"
| "nm_tag (FeeMsg m) = domainFee"
| "nm_tag (AssignmentMsg m) = domainAssignment"
| "nm_tag (DeclineMsg m) = domainDecline"
| "nm_tag (JobReportMsg m) = domainJobReport"
| "nm_tag (KeyRotationMsg m) = domainRotate"
| "nm_tag (KeyRevocationMsg m) = domainRevoke"
| "nm_tag (LeaseMsg m) = domainLease"
| "nm_tag (LeaseDeclineMsg m) = domainLeaseDecline"
| "nm_tag (LeaseReleaseMsg m) = domainLeaseRelease"
| "nm_tag (ProofMsg m) = domainProof"

fun nm_good :: "node_message \<Rightarrow> bool" where
  "nm_good (ListingMsg m) = CapabilityListing_good m"
| "nm_good (HeartbeatMsg m) = Heartbeat_good m"
| "nm_good (FeeMsg m) = FeeDeclaration_good m"
| "nm_good (AssignmentMsg m) = Assignment_good m"
| "nm_good (DeclineMsg m) = Decline_good m"
| "nm_good (JobReportMsg m) = JobReport_good m"
| "nm_good (KeyRotationMsg m) = KeyRotation_good m"
| "nm_good (KeyRevocationMsg m) = KeyRevocation_good m"
| "nm_good (LeaseMsg m) = StorageLease_good m"
| "nm_good (LeaseDeclineMsg m) = LeaseDecline_good m"
| "nm_good (LeaseReleaseMsg m) = LeaseRelease_good m"
| "nm_good (ProofMsg m) = ProofResponse_good m"

fun nm_payload :: "node_message \<Rightarrow> node_message" where
  "nm_payload (ListingMsg m) = ListingMsg (CapabilityListing_payload m)"
| "nm_payload (HeartbeatMsg m) = HeartbeatMsg (Heartbeat_payload m)"
| "nm_payload (FeeMsg m) = FeeMsg (FeeDeclaration_payload m)"
| "nm_payload (AssignmentMsg m) = AssignmentMsg (Assignment_payload m)"
| "nm_payload (DeclineMsg m) = DeclineMsg (Decline_payload m)"
| "nm_payload (JobReportMsg m) = JobReportMsg (JobReport_payload m)"
| "nm_payload (KeyRotationMsg m) = KeyRotationMsg (KeyRotation_payload m)"
| "nm_payload (KeyRevocationMsg m) = KeyRevocationMsg (KeyRevocation_payload m)"
| "nm_payload (LeaseMsg m) = LeaseMsg (StorageLease_payload m)"
| "nm_payload (LeaseDeclineMsg m) = LeaseDeclineMsg (LeaseDecline_payload m)"
| "nm_payload (LeaseReleaseMsg m) = LeaseReleaseMsg (LeaseRelease_payload m)"
| "nm_payload (ProofMsg m) = ProofMsg (ProofResponse_payload m)"

fun nm_sig :: "node_message \<Rightarrow> bytes" where
  "nm_sig (ListingMsg m) = cl_Signature m"
| "nm_sig (HeartbeatMsg m) = hb_Signature m"
| "nm_sig (FeeMsg m) = fd_Signature m"
| "nm_sig (AssignmentMsg m) = as_Signature m"
| "nm_sig (DeclineMsg m) = dc_Signature m"
| "nm_sig (JobReportMsg m) = jr_Signature m"
| "nm_sig (KeyRotationMsg m) = kr_Signature m"
| "nm_sig (KeyRevocationMsg m) = kv_Signature m"
| "nm_sig (LeaseMsg m) = sl_Signature m"
| "nm_sig (LeaseDeclineMsg m) = ld_Signature m"
| "nm_sig (LeaseReleaseMsg m) = lr_Signature m"
| "nm_sig (ProofMsg m) = pr_Signature m"

fun nm_put :: "bytes \<Rightarrow> node_message \<Rightarrow> node_message" where
  "nm_put s (ListingMsg m) = ListingMsg (m\<lparr>cl_Signature := s\<rparr>)"
| "nm_put s (HeartbeatMsg m) = HeartbeatMsg (m\<lparr>hb_Signature := s\<rparr>)"
| "nm_put s (FeeMsg m) = FeeMsg (m\<lparr>fd_Signature := s\<rparr>)"
| "nm_put s (AssignmentMsg m) = AssignmentMsg (m\<lparr>as_Signature := s\<rparr>)"
| "nm_put s (DeclineMsg m) = DeclineMsg (m\<lparr>dc_Signature := s\<rparr>)"
| "nm_put s (JobReportMsg m) = JobReportMsg (m\<lparr>jr_Signature := s\<rparr>)"
| "nm_put s (KeyRotationMsg m) = KeyRotationMsg (m\<lparr>kr_Signature := s\<rparr>)"
| "nm_put s (KeyRevocationMsg m) = KeyRevocationMsg (m\<lparr>kv_Signature := s\<rparr>)"
| "nm_put s (LeaseMsg m) = LeaseMsg (m\<lparr>sl_Signature := s\<rparr>)"
| "nm_put s (LeaseDeclineMsg m) = LeaseDeclineMsg (m\<lparr>ld_Signature := s\<rparr>)"
| "nm_put s (LeaseReleaseMsg m) = LeaseReleaseMsg (m\<lparr>lr_Signature := s\<rparr>)"
| "nm_put s (ProofMsg m) = ProofMsg (m\<lparr>pr_Signature := s\<rparr>)"

text \<open>The checks a message's \<open>Verify\<close> makes beside the signature;
    only the key lifecycle messages have any.\<close>

fun nm_guard :: "bytes \<Rightarrow> node_message \<Rightarrow> bool" where
  "nm_guard pub (KeyRotationMsg m) = KeyRotation_guard pub m"
| "nm_guard pub (KeyRevocationMsg m) = KeyRevocation_guard pub m"
| "nm_guard pub _ = True"

fun nm_sign :: "ed25519 \<Rightarrow> bytes \<Rightarrow> node_message \<Rightarrow> node_message go" where
  "nm_sign E priv (ListingMsg m) = go_bind (CapabilityListing_Sign E priv m) (\<lambda>m. Ret (ListingMsg m))"
| "nm_sign E priv (HeartbeatMsg m) = go_bind (Heartbeat_Sign E priv m) (\<lambda>m. Ret (HeartbeatMsg m))"
| "nm_sign E priv (FeeMsg m) = go_bind (FeeDeclaration_Sign E priv m) (\<lambda>m. Ret (FeeMsg m))"
| "nm_sign E priv (AssignmentMsg m) = go_bind (Assignment_Sign E priv m) (\<lambda>m. Ret (AssignmentMsg m))"
| "nm_sign E priv (DeclineMsg m) = go_bind (Decline_Sign E priv m) (\<lambda>m. Ret (DeclineMsg m))"
| "nm_sign E priv (JobReportMsg m) = go_bind (JobReport_Sign E priv m) (\<lambda>m. Ret (JobReportMsg m))"
| "nm_sign E priv (KeyRotationMsg m) = go_bind (KeyRotation_Sign E priv m) (\<lambda>m. Ret (KeyRotationMsg m))"
| "nm_sign E priv (KeyRevocationMsg m) = go_bind (KeyRevocation_Sign E priv m) (\<lambda>m. Ret (KeyRevocationMsg m))"
| "nm_sign E priv (LeaseMsg m) = go_bind (StorageLease_Sign E priv m) (\<lambda>m. Ret (LeaseMsg m))"
| "nm_sign E priv (LeaseDeclineMsg m) = go_bind (LeaseDecline_Sign E priv m) (\<lambda>m. Ret (LeaseDeclineMsg m))"
| "nm_sign E priv (LeaseReleaseMsg m) = go_bind (LeaseRelease_Sign E priv m) (\<lambda>m. Ret (LeaseReleaseMsg m))"
| "nm_sign E priv (ProofMsg m) = go_bind (ProofResponse_Sign E priv m) (\<lambda>m. Ret (ProofMsg m))"

fun nm_verify :: "ed25519 \<Rightarrow> bytes \<Rightarrow> node_message \<Rightarrow> bool go" where
  "nm_verify E pub (ListingMsg m) = CapabilityListing_Verify E pub m"
| "nm_verify E pub (HeartbeatMsg m) = Heartbeat_Verify E pub m"
| "nm_verify E pub (FeeMsg m) = FeeDeclaration_Verify E pub m"
| "nm_verify E pub (AssignmentMsg m) = Assignment_Verify E pub m"
| "nm_verify E pub (DeclineMsg m) = Decline_Verify E pub m"
| "nm_verify E pub (JobReportMsg m) = JobReport_Verify E pub m"
| "nm_verify E pub (KeyRotationMsg m) = KeyRotation_Verify E pub m"
| "nm_verify E pub (KeyRevocationMsg m) = KeyRevocation_Verify E pub m"
| "nm_verify E pub (LeaseMsg m) = StorageLease_Verify E pub m"
| "nm_verify E pub (LeaseDeclineMsg m) = LeaseDecline_Verify E pub m"
| "nm_verify E pub (LeaseReleaseMsg m) = LeaseRelease_Verify E pub m"
| "nm_verify E pub (ProofMsg m) = ProofResponse_Verify E pub m"

text \<open>The facts of the twelve packages, one bundle per law of the contract.\<close>

lemmas node_canon_tag =
  CapabilityListing_msg.canon_tag Heartbeat_msg.canon_tag FeeDeclaration_msg.canon_tag
  Assignment_msg.canon_tag Decline_msg.canon_tag JobReport_msg.canon_tag
  KeyRotation_msg.canon_tag KeyRevocation_msg.canon_tag StorageLease_msg.canon_tag
  LeaseDecline_msg.canon_tag LeaseRelease_msg.canon_tag ProofResponse_msg.canon_tag

lemmas node_canon_put =
  CapabilityListing_msg.canon_put Heartbeat_msg.canon_put FeeDeclaration_msg.canon_put
  Assignment_msg.canon_put Decline_msg.canon_put JobReport_msg.canon_put
  KeyRotation_msg.canon_put KeyRevocation_msg.canon_put StorageLease_msg.canon_put
  LeaseDecline_msg.canon_put LeaseRelease_msg.canon_put ProofResponse_msg.canon_put

lemmas node_payload_put =
  CapabilityListing_msg.payload_put Heartbeat_msg.payload_put FeeDeclaration_msg.payload_put
  Assignment_msg.payload_put Decline_msg.payload_put JobReport_msg.payload_put
  KeyRotation_msg.payload_put KeyRevocation_msg.payload_put StorageLease_msg.payload_put
  LeaseDecline_msg.payload_put LeaseRelease_msg.payload_put ProofResponse_msg.payload_put

lemmas node_sign_eq =
  CapabilityListing_msg.sign_eq Heartbeat_msg.sign_eq FeeDeclaration_msg.sign_eq
  Assignment_msg.sign_eq Decline_msg.sign_eq JobReport_msg.sign_eq
  KeyRotation_msg.sign_eq KeyRevocation_msg.sign_eq StorageLease_msg.sign_eq
  LeaseDecline_msg.sign_eq LeaseRelease_msg.sign_eq ProofResponse_msg.sign_eq

lemmas node_verify_eq =
  CapabilityListing_msg.verify_eq Heartbeat_msg.verify_eq FeeDeclaration_msg.verify_eq
  Assignment_msg.verify_eq Decline_msg.verify_eq JobReport_msg.verify_eq
  KeyRotation_msg.verify_eq KeyRevocation_msg.verify_eq StorageLease_msg.verify_eq
  LeaseDecline_msg.verify_eq LeaseRelease_msg.verify_eq ProofResponse_msg.verify_eq

lemmas node_cancel =
  CapabilityListing_msg.cancel Heartbeat_msg.cancel FeeDeclaration_msg.cancel
  Assignment_msg.cancel Decline_msg.cancel JobReport_msg.cancel
  KeyRotation_msg.cancel KeyRevocation_msg.cancel StorageLease_msg.cancel
  LeaseDecline_msg.cancel LeaseRelease_msg.cancel ProofResponse_msg.cancel

lemmas node_enc_view =
  CapabilityListing_msg.enc_view Heartbeat_msg.enc_view FeeDeclaration_msg.enc_view
  Assignment_msg.enc_view Decline_msg.enc_view JobReport_msg.enc_view
  KeyRotation_msg.enc_view KeyRevocation_msg.enc_view StorageLease_msg.enc_view
  LeaseDecline_msg.enc_view LeaseRelease_msg.enc_view ProofResponse_msg.enc_view

lemmas node_domains =
  domainListing_def domainHeartbeat_def domainFee_def domainAssignment_def
  domainDecline_def domainJobReport_def domainRotate_def domainRevoke_def
  domainLease_def domainLeaseDecline_def domainLeaseRelease_def domainProof_def

lemma nm_bytes_tag: "\<exists>b. nm_bytes m = enc_string (nm_tag m) @ b"
  by (cases m) (simp_all add: node_canon_tag)

lemma nm_tag_fits [simp]: "fits (nm_tag m)"
  by (cases m) simp_all

text \<open>Each message type has its own tag.\<close>

fun nm_kind :: "node_message \<Rightarrow> nat" where
  "nm_kind (ListingMsg _) = 0"
| "nm_kind (HeartbeatMsg _) = 1"
| "nm_kind (FeeMsg _) = 2"
| "nm_kind (AssignmentMsg _) = 3"
| "nm_kind (DeclineMsg _) = 4"
| "nm_kind (JobReportMsg _) = 5"
| "nm_kind (KeyRotationMsg _) = 6"
| "nm_kind (KeyRevocationMsg _) = 7"
| "nm_kind (LeaseMsg _) = 8"
| "nm_kind (LeaseDeclineMsg _) = 9"
| "nm_kind (LeaseReleaseMsg _) = 10"
| "nm_kind (ProofMsg _) = 11"

lemma nm_tag_kind: "nm_tag x = nm_tag y \<Longrightarrow> nm_kind x = nm_kind y"
  by (cases x; cases y) (simp_all add: node_domains)

lemma nm_bytes_kind:
  assumes "nm_bytes x @ r = nm_bytes y @ s"
  shows "nm_kind x = nm_kind y"
proof -
  obtain b c where "nm_bytes x = enc_string (nm_tag x) @ b" "nm_bytes y = enc_string (nm_tag y) @ c"
    using nm_bytes_tag by blast
  with assms have "nm_tag x = nm_tag y"
    using string_code.cancel [of "nm_tag x" "nm_tag y" "b @ r" "c @ s"] by simp
  then show ?thesis by (rule nm_tag_kind)
qed

text \<open>Two messages of the same type, constructor by constructor.\<close>

lemma nm_kind_cases:
  assumes "nm_kind x = nm_kind y"
    and "\<And>a b. P (ListingMsg a) (ListingMsg b)"
    and "\<And>a b. P (HeartbeatMsg a) (HeartbeatMsg b)"
    and "\<And>a b. P (FeeMsg a) (FeeMsg b)"
    and "\<And>a b. P (AssignmentMsg a) (AssignmentMsg b)"
    and "\<And>a b. P (DeclineMsg a) (DeclineMsg b)"
    and "\<And>a b. P (JobReportMsg a) (JobReportMsg b)"
    and "\<And>a b. P (KeyRotationMsg a) (KeyRotationMsg b)"
    and "\<And>a b. P (KeyRevocationMsg a) (KeyRevocationMsg b)"
    and "\<And>a b. P (LeaseMsg a) (LeaseMsg b)"
    and "\<And>a b. P (LeaseDeclineMsg a) (LeaseDeclineMsg b)"
    and "\<And>a b. P (LeaseReleaseMsg a) (LeaseReleaseMsg b)"
    and "\<And>a b. P (ProofMsg a) (ProofMsg b)"
  shows "P x y"
  using assms by (cases x; cases y) simp_all

lemma nm_payload_kind: "nm_payload x = nm_payload y \<Longrightarrow> nm_kind x = nm_kind y"
  by (cases x; cases y) simp_all

lemma nm_enc_view:
  assumes "nm_good x" and "nm_good y" and "nm_payload x = nm_payload y"
  shows "nm_bytes x = nm_bytes y"
proof -
  have "nm_good x \<longrightarrow> nm_good y \<longrightarrow> nm_payload x =
      nm_payload y \<longrightarrow> nm_bytes x = nm_bytes y"
    by (rule nm_kind_cases [OF nm_payload_kind [OF assms(3)]]) (auto dest: node_enc_view)
  with assms show ?thesis by blast
qed

lemma nm_cancel:
  assumes "nm_good x" and "nm_good y" and "nm_bytes x @ r = nm_bytes y @ s"
  shows "nm_payload x = nm_payload y \<and> r = s"
proof -
  have "nm_good x \<longrightarrow> nm_good y \<longrightarrow> nm_bytes x @ r = nm_bytes y @
      s \<longrightarrow> nm_payload x = nm_payload y \<and> r = s"
    by (rule nm_kind_cases [OF nm_bytes_kind [OF assms(3)]]) (auto dest: node_cancel)
  with assms show ?thesis by blast
qed

interpretation node_msg: signed_payload nm_bytes nm_good nm_payload nm_sig nm_put nm_guard nm_sign nm_verify
proof (unfold_locales, goal_cases)
  case (1 x y)
  then show ?case by (rule nm_enc_view)
next
  case (2 x y r s)
  then show ?case by (rule nm_cancel)
next
  case (3 s m)
  show ?case by (cases m) (simp_all add: node_canon_put)
next
  case (4 s m)
  show ?case by (cases m) simp_all
next
  case (5 s m)
  show ?case by (cases m) (simp_all add: node_payload_put)
next
  case (6 pub s m)
  show ?case by (cases m) (simp_all add: KeyRotation_msg.guard_put KeyRevocation_msg.guard_put)
next
  case (7 E priv m)
  show ?case by (cases m) (simp_all add: node_sign_eq go_bind_assoc)
next
  case (8 E pub m)
  show ?case by (cases m) (simp_all add: node_verify_eq)
qed

section \<open>Messages signed with two operator keys\<close>

datatype op_message =
    TransmissionMsg OperatorTransmission
  | RotationMsg OperatorRotation
  | ConformanceMsg ConformanceResponse

fun om_bytes :: "op_message \<Rightarrow> bytes" where
  "om_bytes (TransmissionMsg m) = OperatorTransmission_CanonicalBytes m"
| "om_bytes (RotationMsg m) = OperatorRotation_CanonicalBytes m"
| "om_bytes (ConformanceMsg m) = ConformanceResponse_CanonicalBytes m"

fun om_tag :: "op_message \<Rightarrow> bytes" where
  "om_tag (TransmissionMsg m) = domainTransmission"
| "om_tag (RotationMsg m) = domainRotation"
| "om_tag (ConformanceMsg m) = domainConformance"

fun om_good :: "op_message \<Rightarrow> bool" where
  "om_good (TransmissionMsg m) = OperatorTransmission_good m"
| "om_good (RotationMsg m) = OperatorRotation_good m"
| "om_good (ConformanceMsg m) = ConformanceResponse_good m"

fun om_payload :: "op_message \<Rightarrow> op_message" where
  "om_payload (TransmissionMsg m) = TransmissionMsg (OperatorTransmission_payload m)"
| "om_payload (RotationMsg m) = RotationMsg (OperatorRotation_payload m)"
| "om_payload (ConformanceMsg m) = ConformanceMsg (ConformanceResponse_payload m)"

fun om_idx0 :: "op_message \<Rightarrow> int64" where
  "om_idx0 (TransmissionMsg m) = ot_Idx0 m"
| "om_idx0 (RotationMsg m) = or_Idx0 m"
| "om_idx0 (ConformanceMsg m) = cr_Idx0 m"

fun om_idx1 :: "op_message \<Rightarrow> int64" where
  "om_idx1 (TransmissionMsg m) = ot_Idx1 m"
| "om_idx1 (RotationMsg m) = or_Idx1 m"
| "om_idx1 (ConformanceMsg m) = cr_Idx1 m"

fun om_algo :: "op_message \<Rightarrow> bytes" where
  "om_algo (TransmissionMsg m) = ot_Algo m"
| "om_algo (RotationMsg m) = or_Algo m"
| "om_algo (ConformanceMsg m) = cr_Algo m"

fun om_sig0 :: "op_message \<Rightarrow> bytes" where
  "om_sig0 (TransmissionMsg m) = ot_Sig0 m"
| "om_sig0 (RotationMsg m) = or_Sig0 m"
| "om_sig0 (ConformanceMsg m) = cr_Sig0 m"

fun om_sig1 :: "op_message \<Rightarrow> bytes" where
  "om_sig1 (TransmissionMsg m) = ot_Sig1 m"
| "om_sig1 (RotationMsg m) = or_Sig1 m"
| "om_sig1 (ConformanceMsg m) = cr_Sig1 m"

fun om_prep :: "int64 \<Rightarrow> int64 \<Rightarrow> op_message \<Rightarrow> op_message" where
  "om_prep i j (TransmissionMsg m) = TransmissionMsg (transmission_prep i j m)"
| "om_prep i j (RotationMsg m) = RotationMsg (rotation_prep i j m)"
| "om_prep i j (ConformanceMsg m) = ConformanceMsg (conformance_prep i j m)"

fun om_put :: "bytes \<Rightarrow> bytes \<Rightarrow> op_message \<Rightarrow> op_message" where
  "om_put s0 s1 (TransmissionMsg m) = TransmissionMsg (m\<lparr>ot_Sig0 := s0, ot_Sig1 := s1\<rparr>)"
| "om_put s0 s1 (RotationMsg m) = RotationMsg (m\<lparr>or_Sig0 := s0, or_Sig1 := s1\<rparr>)"
| "om_put s0 s1 (ConformanceMsg m) = ConformanceMsg (m\<lparr>cr_Sig0 := s0, cr_Sig1 := s1\<rparr>)"

fun om_sign :: "ed25519 \<Rightarrow> bytes \<Rightarrow> bytes \<Rightarrow> int64 \<Rightarrow> int64 \<Rightarrow>
    op_message \<Rightarrow> op_message go" where
  "om_sign E p0 p1 i j (TransmissionMsg m) =
     go_bind (OperatorTransmission_Sign E p0 p1 i j m) (\<lambda>m. Ret (TransmissionMsg m))"
| "om_sign E p0 p1 i j (RotationMsg m) =
     go_bind (OperatorRotation_Sign E p0 p1 i j m) (\<lambda>m. Ret (RotationMsg m))"
| "om_sign E p0 p1 i j (ConformanceMsg m) =
     go_bind (ConformanceResponse_Sign E p0 p1 i j m) (\<lambda>m. Ret (ConformanceMsg m))"

text \<open>The lists are the visiting orders of the two range loops of a rotation's verification.\<close>

fun om_verify :: "ed25519 \<Rightarrow> (int64 \<times> KeyRecord) list \<Rightarrow> (int64 \<times>
    KeyRecord) list \<Rightarrow> keymap \<Rightarrow> op_message
    \<Rightarrow> operator_error option go" where
  "om_verify E o1 o2 km (TransmissionMsg m) = OperatorTransmission_Verify E km m"
| "om_verify E o1 o2 km (RotationMsg m) = OperatorRotation_Verify E o1 o2 km m"
| "om_verify E o1 o2 km (ConformanceMsg m) = ConformanceResponse_Verify E km m"

fun om_checks :: "(int64 \<times> KeyRecord) list \<Rightarrow> (int64 \<times> KeyRecord) list \<Rightarrow>
    keymap \<Rightarrow> op_message
    \<Rightarrow> operator_error option" where
  "om_checks o1 o2 km (TransmissionMsg m) = transmission_checks km m"
| "om_checks o1 o2 km (RotationMsg m) = rotation_checks o1 o2 km m"
| "om_checks o1 o2 km (ConformanceMsg m) = conformance_checks km m"

lemmas op_canon_tag = transmission_msg.canon_tag rotation_msg.canon_tag conformance_msg.canon_tag
lemmas op_domains = domainTransmission_def domainRotation_def domainConformance_def

lemma om_bytes_tag: "\<exists>b. om_bytes m = enc_string (om_tag m) @ b"
  by (cases m) (simp_all add: op_canon_tag)

lemma om_tag_fits [simp]: "fits (om_tag m)"
  by (cases m) simp_all

lemma om_enc_view: "om_payload x = om_payload y \<Longrightarrow> om_bytes x = om_bytes y"
  by (cases x; cases y) (simp_all add: operator_simps)

lemma om_cancel:
  assumes "om_good x" and "om_good y" and "om_bytes x @ r = om_bytes y @ s"
  shows "om_payload x = om_payload y \<and> r = s"
proof -
  obtain b c where "om_bytes x = enc_string (om_tag x) @ b" "om_bytes y = enc_string (om_tag y) @ c"
    using om_bytes_tag by blast
  with assms(3) have "om_tag x = om_tag y"
    using string_code.cancel [of "om_tag x" "om_tag y" "b @ r" "c @ s"] by simp
  with assms show ?thesis
    by (cases x; cases y)
      (auto simp: op_domains dest: transmission_msg.cancel rotation_msg.cancel conformance_msg.cancel)
qed

lemmas op_laws = transmission_msg.canon_put rotation_msg.canon_put conformance_msg.canon_put
  transmission_msg.put_fields rotation_msg.put_fields conformance_msg.put_fields
  transmission_msg.prep_fields rotation_msg.prep_fields conformance_msg.prep_fields

lemmas op_sign_eq = transmission_msg.sign_eq rotation_msg.sign_eq conformance_msg.sign_eq
lemmas op_verify_eq = transmission_msg.verify_eq rotation_msg.verify_eq conformance_msg.verify_eq

interpretation op_msg: two_key_message om_bytes om_good om_payload om_idx0 om_idx1 om_algo om_sig0 om_sig1
  om_prep om_put "om_checks o1 o2" om_sign "\<lambda>E. om_verify E o1 o2" for o1 o2
proof (unfold_locales, goal_cases)
  case (1 x y)
  then show ?case by (intro om_enc_view)
next
  case (2 x y r s)
  then show ?case by (rule om_cancel)
next
  case (14 km m)
  then show ?case
    using transmission_msg.checks_algo rotation_msg.checks_algo conformance_msg.checks_algo by (cases m) auto
next
  case (15 E p0 p1 i j m)
  show ?case by (cases m) (simp_all add: op_sign_eq go_bind_assoc)
next
  case (16 E km m)
  show ?case by (cases m) (simp_all add: op_verify_eq)
next
  case (3 s0 s1 m)
  show ?case by (cases m) (simp_all add: op_laws)
qed ((rename_tac m, case_tac m; simp add: op_laws)+)

section \<open>The whole protocol\<close>

datatype wire_msg = NodeMsg node_message | OpMsg op_message

fun wire_bytes :: "wire_msg \<Rightarrow> bytes" where
  "wire_bytes (NodeMsg m) = nm_bytes m"
| "wire_bytes (OpMsg m) = om_bytes m"

fun wire_tag :: "wire_msg \<Rightarrow> bytes" where
  "wire_tag (NodeMsg m) = nm_tag m"
| "wire_tag (OpMsg m) = om_tag m"

text \<open>A message SPEC.md section 3 lets a party sign: every time is in the representable range (the other
  conjuncts hold of every Go value).\<close>

fun wire_good :: "wire_msg \<Rightarrow> bool" where
  "wire_good (NodeMsg m) = nm_good m"
| "wire_good (OpMsg m) = om_good m"

text \<open>What a message says: every field but the signatures, times in UTC.\<close>

fun wire_payload :: "wire_msg \<Rightarrow> wire_msg" where
  "wire_payload (NodeMsg m) = NodeMsg (nm_payload m)"
| "wire_payload (OpMsg m) = OpMsg (om_payload m)"

text \<open>The message type.\<close>

fun wire_kind :: "wire_msg \<Rightarrow> nat" where
  "wire_kind (NodeMsg m) = nm_kind m"
| "wire_kind (OpMsg (TransmissionMsg m)) = 12"
| "wire_kind (OpMsg (RotationMsg m)) = 13"
| "wire_kind (OpMsg (ConformanceMsg m)) = 14"

lemma wire_bytes_tag: "\<exists>b. wire_bytes m = enc_string (wire_tag m) @ b"
  using nm_bytes_tag om_bytes_tag by (cases m) simp_all

lemma wire_tag_fits [simp]: "fits (wire_tag m)"
  by (cases m) simp_all

lemma node_op_tags: "nm_tag m \<noteq> om_tag m'"
  by (cases m; cases m') (simp_all add: node_domains op_domains)

lemma node_op_domains:
  "nm_tag m \<noteq> domainTransmission" "nm_tag m \<noteq> domainRotation" "nm_tag m \<noteq> domainConformance"
  by (cases m; simp add: node_domains op_domains)+

lemma op_domains_distinct:
  "domainTransmission \<noteq> domainRotation" "domainTransmission \<noteq> domainConformance"
  "domainRotation \<noteq> domainConformance"
  by (simp_all add: op_domains)

lemma wire_tag_eq:
  assumes "wire_bytes x @ r = wire_bytes y @ s"
  shows "wire_tag x = wire_tag y"
proof -
  obtain b c where "wire_bytes x = enc_string (wire_tag x) @ b" "wire_bytes y = enc_string (wire_tag y) @ c"
    using wire_bytes_tag by blast
  with assms show ?thesis
    using string_code.cancel [of "wire_tag x" "wire_tag y" "b @ r" "c @ s"] by simp
qed

lemma wire_tag_kind: "wire_tag x = wire_tag y \<Longrightarrow> wire_kind x = wire_kind y"
  by (cases x rule: wire_kind.cases; cases y rule: wire_kind.cases)
    (auto simp: node_op_domains node_op_domains [symmetric] op_domains_distinct op_domains_distinct [symmetric]
      dest: nm_tag_kind)

interpretation wire_code: prefix_code wire_bytes wire_good wire_payload
proof (unfold_locales, goal_cases)
  case (1 x y)
  then show ?case
    by (cases x; cases y) (auto intro: nm_enc_view om_enc_view)
next
  case (2 x y r s)
  then show ?case
    using wire_tag_eq [OF "2"(3)]
    by (cases x; cases y) (auto simp: node_op_tags node_op_tags [symmetric] dest: nm_cancel om_cancel)
qed

end
