(* ===== verification/Version.thy ===== *)
theory Version
  imports Go_Prelude
begin

text \<open>The root package (src/version.go): the protocol version.\<close>

definition Version :: bytes where "Version = lit ''v0''"

end
