(* ===== verification/Wire_Format.thy ===== *)
theory Wire_Format
  imports Wire Spec_Encoding Version
begin

text \<open>
  The \<open>Order:\<close> clauses of SPEC.md sections 4 and 11: \<open>wire_order\<close> lists the fields of each
      message in
  canonical order. With the primitive rules of \<open>Spec_Encoding\<close> they give the bytes a conforming
  implementation must sign; the fifteen \<open>CanonicalBytes\<close> of the code refine them.
\<close>

fun nm_order :: "node_message \<Rightarrow> field list" where
  "nm_order (ListingMsg l) =
     [FString (cl_NodeID l), FString (cl_Class l),
      FRepeated (map (\<lambda>p. [FString (pc_Kind p), FString (pc_Model p)]) (cl_Printers l)),
      FRepeated (map (\<lambda>g. [FString (gc_API g), FString (gc_Model g), FInt64 (sint (gc_VRAMMB g))]) (cl_GPUs l)),
      FInt64 (sint (ca_VCPUs (cl_Capacity l))), FInt64 (sint (ca_MemMB (cl_Capacity l))),
      FInt64 (sint (ca_DiskMB (cl_Capacity l))), FInt64 (sint (ca_StorageCommitMB (cl_Capacity l))),
      FInt64 (sint (ca_PrintQPS (cl_Capacity l))), FBool (oi_Compute (cl_OptIn l)), FBool (oi_Print (cl_OptIn l)),
      FBool (oi_Storage (cl_OptIn l)), FTime (instant_ns (cl_IssuedAt l)), FUint64 (uint (cl_Seq l))]"
| "nm_order (HeartbeatMsg h) =
     [FString (hb_NodeID h), FTime (instant_ns (hb_SentAt h)), FUint64 (uint (hb_Seq h))]"
| "nm_order (FeeMsg f) =
     [FString (fd_CoordinatorID f), FInt64 (sint (ft_ContributorShareBps (fd_Terms f))),
      FInt64 (sint (ft_PlatformFeeBps (fd_Terms f))), FTime (instant_ns (fd_EffectiveAt f)),
      FUint64 (uint (fd_Seq f))]"
| "nm_order (AssignmentMsg a) =
     [FString (as_JobID a), FString (as_NodeID a), FString (js_Workload (as_Spec a)), FString (js_Image (as_Spec a)),
      FRepeated (map (\<lambda>arg. [FString arg]) (js_Args (as_Spec a))), FString (js_PrinterKind (as_Spec a)),
      FString (js_GPUAPI (as_Spec a)), FInt64 (sint (js_GPUMinVRAMMB (as_Spec a))),
      FInt64 (sint (ft_ContributorShareBps (as_Fee a))), FInt64 (sint (ft_PlatformFeeBps (as_Fee a))),
      FTime (instant_ns (as_OfferedAt a))]"
| "nm_order (DeclineMsg d) =
     [FString (dc_JobID d), FString (dc_NodeID d), FString (dc_Reason d), FTime (instant_ns (dc_DeclinedAt d))]"
| "nm_order (JobReportMsg r) =
     [FString (jr_JobID r), FString (jr_NodeID r), FInt64 (sint (jr_ExitCode r)), FString (jr_FailureCause r),
      FBool (jr_TmpfsExhausted r), FTime (instant_ns (jr_StartedAt r)), FTime (instant_ns (jr_FinishedAt r))]"
| "nm_order (KeyRotationMsg k) =
     [FString (kr_NodeID k), FBytes (kr_NewPublicKey k), FString (kr_Algo k), FTime (instant_ns (kr_RotatedAt k)),
      FUint64 (uint (kr_Seq k))]"
| "nm_order (KeyRevocationMsg k) =
     [FString (kv_NodeID k), FBytes (kv_RevokedPublicKey k), FTime (instant_ns (kv_RevokedAt k)),
      FUint64 (uint (kv_Seq k))]"
| "nm_order (LeaseMsg l) =
     [FString (sl_LeaseID l), FString (sl_NodeID l), FBytes (sl_ShardRef l), FInt64 (sint (sl_SizeClass l)),
      FInt64 (sint (ft_ContributorShareBps (sl_Fee l))), FInt64 (sint (ft_PlatformFeeBps (sl_Fee l))),
      FTime (instant_ns (sl_IssuedAt l)), FTime (instant_ns (sl_ExpiresAt l)), FUint64 (uint (sl_Seq l))]"
| "nm_order (LeaseDeclineMsg d) =
     [FString (ld_LeaseID d), FString (ld_NodeID d), FString (ld_Reason d), FTime (instant_ns (ld_DeclinedAt d))]"
| "nm_order (LeaseReleaseMsg r) =
     [FString (lr_LeaseID r), FString (lr_NodeID r), FTime (instant_ns (lr_ReleasedAt r))]"
| "nm_order (ProofMsg p) =
     [FString (pr_LeaseID p), FString (pr_NodeID p), FInt64 (sint (pr_Offset p)), FInt64 (sint (pr_Length p)),
      FBytes (pr_Nonce p), FBytes (pr_Digest p), FTime (instant_ns (pr_RespondedAt p))]"

fun om_order :: "op_message \<Rightarrow> field list" where
  "om_order (TransmissionMsg t) =
     [FString (ot_OperatorID t), FInt64 (sint (ot_TsUnixNano t)), FBytes (ot_Nonce t), FUint64 (uint (ot_Seq t)),
      FString (ot_Algo t), FUint64 (uint (ot_Idx0 t)), FUint64 (uint (ot_Idx1 t))]"
| "om_order (RotationMsg r) =
     [FString (or_OperatorID r), FUint64 (uint (or_KeyIndex r)), FBytes (or_NewPublicKey r), FString (or_Algo r),
      FInt64 (sint (or_TsUnixNano r)), FBytes (or_Nonce r), FUint64 (uint (or_Seq r)),
      FUint64 (uint (or_Idx0 r)), FUint64 (uint (or_Idx1 r))]"
| "om_order (ConformanceMsg c) =
     [FString (cr_OperatorID c), FBytes (cr_Challenge c), FString (cr_Algo c), FUint64 (uint (cr_Idx0 c)),
      FUint64 (uint (cr_Idx1 c))]"

fun wire_order :: "wire_msg \<Rightarrow> field list" where
  "wire_order (NodeMsg m) = nm_order m"
| "wire_order (OpMsg m) = om_order m"

section \<open>Refinement\<close>

text \<open>Each primitive rule, on a value of the code's type, is the code's encoding.\<close>

named_theorems spec_code \<open>the primitive rules as encodings of the code\<close>

lemma spec_field_code [spec_code]:
  "fits s \<Longrightarrow> spec_field (FString s) = enc_string s"
  "fits s \<Longrightarrow> spec_field (FBytes s) = enc_string s"
  "spec_field (FBool v) = enc_bool v"
  "spec_field (FInt64 (sint w)) = enc_uint64 w"
  "spec_field (FUint64 (uint w)) = enc_uint64 w"
  "wf_time t \<Longrightarrow> ValidTime t \<Longrightarrow> spec_field (FTime (instant_ns t)) = enc_time t"
  by (simp_all add: enc_string_spec enc_bool_def enc_int64_spec [symmetric] enc_uint64_spec [symmetric] enc_time_spec)

lemma spec_repeated:
  assumes "fits xs" and "\<And>x. x \<in> set xs \<Longrightarrow> concat (map spec_field (f x)) = enc x"
  shows "spec_field (FRepeated (map f xs)) = enc_repeated enc_count enc xs"
proof -
  have "map (\<lambda>x. concat (map spec_field (f x))) xs = map enc xs" using assms(2) by simp
  then show ?thesis using assms(1)
    by (simp add: enc_repeated_def enc_count_spec fits_def comp_def del: map_eq_conv)
qed

lemma spec_printers [spec_code]:
  "fits ps \<Longrightarrow> list_all printer_good ps \<Longrightarrow>
    spec_field (FRepeated (map (\<lambda>p. [FString (pc_Kind p), FString (pc_Model p)]) ps)) =
      enc_repeated enc_count enc_printer ps"
  by (rule spec_repeated)
    (auto simp: list_all_iff printer_good_def enc_printer_def spec_field_code simp del: spec_field.simps)

lemma spec_gpus [spec_code]:
  "fits gs \<Longrightarrow> list_all gpu_good gs \<Longrightarrow>
    spec_field (FRepeated (map (\<lambda>g. [FString (gc_API g), FString (gc_Model g), FInt64 (sint (gc_VRAMMB g))]) gs)) =
      enc_repeated enc_count enc_gpu gs"
  by (rule spec_repeated)
    (auto simp: list_all_iff gpu_good_def enc_gpu_def spec_field_code simp del: spec_field.simps)

lemma spec_args [spec_code]:
  "fits args \<Longrightarrow> list_all fits args \<Longrightarrow>
    spec_field (FRepeated (map (\<lambda>arg. [FString arg]) args)) = enc_repeated enc_count enc_string args"
  by (rule spec_repeated) (auto simp: list_all_iff spec_field_code simp del: spec_field.simps)

lemmas part_defs = enc_capacity_def enc_optin_def enc_jobspec_def enc_terms_def

lemmas nm_good_defs = CapabilityListing_good_def Heartbeat_good_def FeeDeclaration_good_def Assignment_good_def
  Decline_good_def JobReport_good_def KeyRotation_good_def KeyRevocation_good_def StorageLease_good_def
  LeaseDecline_good_def LeaseRelease_good_def ProofResponse_good_def jobspec_good_def

lemmas om_good_defs = OperatorTransmission_good_def OperatorRotation_good_def ConformanceResponse_good_def

lemma nm_spec: "nm_good m \<Longrightarrow> spec_message (nm_tag m) (nm_order m) = nm_bytes m"
  by (cases m) (simp_all add: spec_message_def spec_code nm_good_defs message_simps part_defs fits_array
      del: spec_field.simps)

lemma om_spec: "om_good m \<Longrightarrow> spec_message (om_tag m) (om_order m) = om_bytes m"
  by (cases m) (simp_all add: spec_message_def spec_code om_good_defs operator_simps del: spec_field.simps)

lemma wire_spec: "wire_good m \<Longrightarrow> spec_message (wire_tag m) (wire_order m) = wire_bytes m"
  by (cases m) (simp_all add: nm_spec om_spec)

text \<open>Every domain tag is of this protocol and of this version.\<close>

lemma wire_tag_version:
  "wire_tag m = lit ''sohocloud/'' @ drop 10 (take (length (wire_tag m) - 3) (wire_tag m)) @ lit ''/'' @ Version"
proof (cases m)
  case (NodeMsg x)
  then show ?thesis by (cases x) (simp_all add: node_domains Version_def lit_def)
next
  case (OpMsg x)
  then show ?thesis by (cases x) (simp_all add: op_domains Version_def lit_def)
qed

end
