(* ===== verification/Registry.thy ===== *)
theory Registry
  imports Operator_Protocol
begin

text \<open>
  The registry of an operator's public keys across rotations. \<open>visits order km\<close> says that a range over
  the Go map \<open>km\<close> may visit its entries in \<open>order\<close>;
      the verdict of a rotation does not depend on it.
  \<open>registry_step\<close> is the transition the comment at src/operator/operator.go:253-257 gives the
  coordinator: the registry changes only by a rotation whose verification returned nil, and then only at
  the rotation's index. Its invariant is what makes two indices mean two keys.
\<close>

section \<open>Ranging over a Go map\<close>

definition visits :: "(int64 \<times> KeyRecord) list \<Rightarrow> keymap \<Rightarrow> bool" where
  "visits order km \<longleftrightarrow> distinct (map fst order) \<and> map_of order = km"

lemma visits_set: "visits order km \<Longrightarrow> (i, rec) \<in> set order \<longleftrightarrow> km i = Some rec"
  unfolding visits_def by (auto simp: map_of_eq_Some_iff)

lemma rotation_duplicate_loop_eq:
  "rotation_duplicate_loop k key order =
     (if \<exists>(i, rec) \<in> set order. i \<noteq> k \<and> key_PublicKey rec =
     key then Some ErrDuplicateSigningKey else None)"
  by (induction k key order rule: rotation_duplicate_loop.induct) auto

lemma rotation_algo_loop_eq:
  "rotation_algo_loop k algo order =
     (if \<exists>(i, rec) \<in> set order. i \<noteq> k \<and>
     key_Algo rec \<noteq> algo then Some ErrAlgoMismatch else None)"
  by (induction k algo order rule: rotation_algo_loop.induct) auto

text \<open>What the two loops decide, on the registry itself.\<close>

definition key_elsewhere :: "keymap \<Rightarrow> int64 \<Rightarrow> bytes \<Rightarrow> bool" where
  "key_elsewhere km k key \<longleftrightarrow> (\<exists>i rec. km i = Some rec \<and> i \<noteq> k \<and>
      key_PublicKey rec = key)"

definition algo_elsewhere :: "keymap \<Rightarrow> int64 \<Rightarrow> bytes \<Rightarrow> bool" where
  "algo_elsewhere km k algo \<longleftrightarrow> (\<exists>i rec. km i = Some rec \<and> i \<noteq> k \<and>
      key_Algo rec \<noteq> algo)"

lemma duplicate_loop_visits:
  assumes "visits order km"
  shows "rotation_duplicate_loop k key order =
     (if key_elsewhere km k key then Some ErrDuplicateSigningKey else None)"
  using visits_set [OF assms] by (auto simp: rotation_duplicate_loop_eq key_elsewhere_def)

lemma algo_loop_visits:
  assumes "visits order km"
  shows "rotation_algo_loop k algo order = (if algo_elsewhere km k algo then Some ErrAlgoMismatch else None)"
  using visits_set [OF assms] by (auto simp: rotation_algo_loop_eq algo_elsewhere_def)

text \<open>The verification of a rotation with the loops resolved.\<close>

lemma OperatorRotation_Verify_visits:
  assumes "visits o1 km" and "visits o2 km"
  shows "OperatorRotation_Verify E o1 o2 km r =
     (if length (or_Nonce r) < 16 then Ret (Some ErrNonceTooShort)
      else if or_Algo r \<noteq> AlgoEd25519 then Ret (Some ErrUnknownAlgo)
      else if index_out_of_range (or_KeyIndex r) then Ret (Some ErrIndexRange)
      else if length (or_NewPublicKey r) \<noteq> 32 then Ret (Some ErrUnknownAlgo)
      else if key_elsewhere km (or_KeyIndex r) (or_NewPublicKey r) then Ret (Some ErrDuplicateSigningKey)
      else if algo_elsewhere km (or_KeyIndex r) (or_Algo r) then Ret (Some ErrAlgoMismatch)
      else verifyPair E km (or_Idx0 r) (or_Idx1 r) (or_Algo r) (OperatorRotation_CanonicalBytes r)
             (or_Sig0 r) (or_Sig1 r))"
  by (simp add: OperatorRotation_Verify_def duplicate_loop_visits [OF assms(1)] algo_loop_visits [OF assms(2)]
      MinNonceLen_def expectedPubLen_def PublicKeySize_def)

lemma OperatorRotation_accepts:
  assumes "visits o1 km" and "visits o2 km"
  shows "OperatorRotation_Verify E o1 o2 km r = Ret None \<longleftrightarrow>
     16 \<le> length (or_Nonce r) \<and> or_Algo r = AlgoEd25519 \<and> 0 \<le> sint (or_KeyIndex r) \<and>
     sint (or_KeyIndex r) < 7 \<and>
     length (or_NewPublicKey r) = 32 \<and> \<not> key_elsewhere km (or_KeyIndex r) (or_NewPublicKey r) \<and>
     \<not> algo_elsewhere km (or_KeyIndex r) AlgoEd25519 \<and>
     pair_valid E km (or_Idx0 r) (or_Idx1 r) AlgoEd25519 (OperatorRotation_CanonicalBytes r) (or_Sig0 r) (or_Sig1 r)"
  by (auto simp: OperatorRotation_Verify_visits [OF assms] verifyPair_ok_iff index_out_of_range_def
      KeyIndexCount_def not_less)

section \<open>The registry under rotations\<close>

text \<open>Every index is in range and holds a well-formed ed25519 key, and no key stands at two indices.\<close>

definition registry_ok :: "keymap \<Rightarrow> bool" where
  "registry_ok km \<longleftrightarrow>
     (\<forall>i rec. km i = Some rec \<longrightarrow>
        0 \<le> sint i \<and> sint i < 7 \<and> length (key_PublicKey rec) = 32 \<and> key_Algo rec = AlgoEd25519) \<and>
     (\<forall>i j ri rj. km i = Some ri \<longrightarrow> km j =
     Some rj \<longrightarrow> i \<noteq> j \<longrightarrow> key_PublicKey ri \<noteq> key_PublicKey rj)"

definition apply_rotation :: "keymap \<Rightarrow> OperatorRotation \<Rightarrow> keymap" where
  "apply_rotation km r = km(or_KeyIndex r \<mapsto> \<lparr>key_PublicKey = or_NewPublicKey r, key_Algo = or_Algo r\<rparr>)"

inductive registry_step :: "ed25519 \<Rightarrow> keymap \<Rightarrow> keymap \<Rightarrow> bool" for E where
  rotate: "visits o1 km \<Longrightarrow> visits o2 km \<Longrightarrow> OperatorRotation_Verify E o1 o2 km r = Ret None
    \<Longrightarrow> registry_step E km (apply_rotation km r)"

inductive_cases registry_stepE: "registry_step E km km'"

lemma registry_ok_update:
  assumes "registry_ok km" and "\<not> key_elsewhere km k (key_PublicKey new)"
    and "0 \<le> sint k" and "sint k < 7" and "length (key_PublicKey new) = 32" and "key_Algo new = AlgoEd25519"
  shows "registry_ok (km(k \<mapsto> new))"
proof -
  have fresh: "km i = Some rec \<Longrightarrow> i \<noteq> k \<Longrightarrow>
      key_PublicKey rec \<noteq> key_PublicKey new" for i rec
    using assms(2) unfolding key_elsewhere_def by blast
  have wf: "(km(k \<mapsto> new)) i = Some rec \<Longrightarrow>
      0 \<le> sint i \<and> sint i < 7 \<and> length (key_PublicKey rec) = 32 \<and> key_Algo rec = AlgoEd25519" for i rec
    using assms(1,3-6) by (auto simp: registry_ok_def split: if_splits)
  have "(km(k \<mapsto> new)) i = Some ri \<Longrightarrow> (km(k \<mapsto> new)) j = Some rj \<Longrightarrow>
      i \<noteq> j \<Longrightarrow>
      key_PublicKey ri \<noteq> key_PublicKey rj" for i j ri rj
    using assms(1) fresh [of i ri] fresh [of j rj] unfolding registry_ok_def
    by (cases "i = k"; cases "j = k") auto
  with wf show ?thesis unfolding registry_ok_def by blast
qed

lemma registry_step_ok:
  assumes "registry_step E km km'" and "registry_ok km"
  shows "registry_ok km'"
proof -
  from assms(1) obtain o1 o2 r where v: "visits o1 km" "visits o2 km"
    and a: "OperatorRotation_Verify E o1 o2 km r = Ret None" and km': "km' = apply_rotation km r"
    by (elim registry_stepE)
  from a have "0 \<le> sint (or_KeyIndex r)" "sint (or_KeyIndex r) < 7" "length (or_NewPublicKey r) = 32"
    "or_Algo r = AlgoEd25519" "\<not> key_elsewhere km (or_KeyIndex r) (or_NewPublicKey r)"
    by (simp_all add: OperatorRotation_accepts [OF v])
  with assms(2) show ?thesis
    unfolding km' apply_rotation_def by (intro registry_ok_update) simp_all
qed

lemma registry_steps_ok: "(registry_step E)\<^sup>*\<^sup>* km km' \<Longrightarrow> registry_ok km \<Longrightarrow>
    registry_ok km'"
  by (induction rule: rtranclp_induct) (auto intro: registry_step_ok)

lemma registry_step_dom: "registry_step E km km' \<Longrightarrow> dom km \<subseteq> dom km'"
  by (elim registry_stepE) (auto simp: apply_rotation_def)

text \<open>In a well-formed registry, distinct indices that hold keys hold distinct keys.\<close>

lemma pair_valid_registry:
  assumes "registry_ok km"
  shows "pair_valid E km i j algo msg s0 s1 \<longleftrightarrow>
     i \<noteq> j \<and> key_valid E km i algo msg s0 \<and> key_valid E km j algo msg s1"
  using assms unfolding pair_valid_def key_valid_def registry_ok_def by auto

text \<open>A step changes one index, with the consent of the holders of two different registered keys.\<close>

lemma registry_step_consent:
  assumes "registry_step E km km'"
  shows "\<exists>r r0 r1. km' = apply_rotation km r \<and> km (or_Idx0 r) = Some r0 \<and> km (or_Idx1 r) = Some r1 \<and>
     key_PublicKey r0 \<noteq> key_PublicKey r1 \<and>
     ed_verify E (key_PublicKey r0) (OperatorRotation_CanonicalBytes r) (or_Sig0 r) \<and>
     ed_verify E (key_PublicKey r1) (OperatorRotation_CanonicalBytes r) (or_Sig1 r)"
proof -
  from assms obtain o1 o2 r where a: "OperatorRotation_Verify E o1 o2 km r = Ret None"
    and km': "km' = apply_rotation km r" by (elim registry_stepE)
  from rotation_msg.two_keys [OF a] km' show ?thesis by blast
qed

end
