(* ===== verification/Crypto_Instance.thy ===== *)
theory Crypto_Instance
  imports Go_Crypto Go_Sha256
begin

text \<open>
  A concrete, executable value of the parameter type \<open>ed25519\<close>, used by the witnesses: it satisfies
  \<open>ed25519_laws\<close>, so the hypotheses of the theorems can hold. It is not Ed25519 (its signatures are the
  public key followed by a SHA-256 digest) and nothing is proved about the program from it.
\<close>

definition hash_signatures :: ed25519 where
  "hash_signatures =
     \<lparr>ed_pub = (\<lambda>seed. seed),
      ed_sign = (\<lambda>priv msg. drop 32 priv @ sha256 msg),
      ed_verify = (\<lambda>pub msg sig. sig = pub @ sha256 msg)\<rparr>"

definition demo_priv :: "byte \<Rightarrow> bytes" where "demo_priv k = replicate 64 k"
definition demo_pub :: "byte \<Rightarrow> bytes" where "demo_pub k = replicate 32 k"

lemma hash_signatures_laws [simp]: "ed25519_laws hash_signatures"
  by (simp add: ed25519_laws_def hash_signatures_def keypair_def key_sizes)

lemma demo_keypair [simp]: "keypair hash_signatures (demo_priv k) (demo_pub k)"
  by (simp add: keypair_def hash_signatures_def demo_priv_def demo_pub_def key_sizes)

lemma demo_pub_inject [simp]: "demo_pub j = demo_pub k \<longleftrightarrow> j = k"
  by (simp add: demo_pub_def)

lemma demo_pub_length [simp]: "length (demo_pub k) = 32"
  by (simp add: demo_pub_def)

text \<open>A scheme that accepts everything, under which every message is forged.\<close>

definition accept_all :: ed25519 where
  "accept_all = hash_signatures\<lparr>ed_verify := (\<lambda>pub msg sig. True)\<rparr>"

lemma accept_all_verify [simp]: "ed_verify accept_all pub msg sig"
  by (simp add: accept_all_def)

end
