(* ===== verification/Operator_Properties.thy ===== *)
theory Operator_Properties
  imports Registry Crypto_Instance
begin

text \<open>
  The properties of package \<open>operator\<close>: the exact acceptance conditions of the three messages (SPEC.md
  section 11.0), the errors of the pair verification, and the registry under rotations. The witnesses use
  a registry whose seven keys are the demonstration keys of \<open>Crypto_Instance\<close>.
\<close>

section \<open>A demonstration registry\<close>

definition demo_record :: "byte \<Rightarrow> KeyRecord" where
  "demo_record k = \<lparr>key_PublicKey = demo_pub k, key_Algo = AlgoEd25519\<rparr>"

definition demo_order :: "(int64 \<times> KeyRecord) list" where
  "demo_order = map (\<lambda>k. (word_of_nat k, demo_record (word_of_nat k))) [0, 1, 2, 3, 4, 5, 6]"

definition demo_registry :: keymap where "demo_registry = map_of demo_order"

lemma demo_order_distinct: "distinct (map fst demo_order)"
  by (simp add: demo_order_def)

lemma demo_visits [simp]: "visits demo_order demo_registry" "visits (rev demo_order) demo_registry"
  using demo_order_distinct map_of_inject_set [of "rev demo_order" demo_order]
  by (simp_all add: visits_def demo_registry_def rev_map [symmetric])

lemma demo_registry_at:
  "demo_registry 0 = Some (demo_record 0)" "demo_registry 1 = Some (demo_record 1)"
  by (simp_all add: demo_registry_def demo_order_def)

lemma demo_registry_keys:
  "demo_registry i = Some rec \<Longrightarrow> key_Algo rec = AlgoEd25519 \<and> key_PublicKey rec \<noteq> demo_pub 9"
  by (auto simp: demo_registry_def demo_order_def demo_record_def split: if_splits)

lemma demo_registry_ok [simp]: "registry_ok demo_registry"
  by (auto simp: registry_ok_def demo_registry_def demo_order_def demo_record_def split: if_splits)


section \<open>Acceptance\<close>

text \<open>A key that may sign at an index: in range, registered there, well formed and of the bound algorithm.\<close>

definition registered :: "keymap \<Rightarrow> int64 \<Rightarrow> KeyRecord \<Rightarrow> bool" where
  "registered km i rec \<longleftrightarrow> 0 \<le> sint i \<and> sint i < 7 \<and> km i = Some rec \<and>
      key_Algo rec = AlgoEd25519 \<and>
     length (key_PublicKey rec) = 32"

text \<open>Two signatures by two different registered keys at two different indices.\<close>

definition two_of_seven ::
  "ed25519 \<Rightarrow> keymap \<Rightarrow> int64 \<Rightarrow> int64 \<Rightarrow> bytes \<Rightarrow>
      bytes \<Rightarrow> bytes \<Rightarrow> bool" where
  "two_of_seven E km i j msg s0 s1 \<longleftrightarrow> i \<noteq> j \<and>
     (\<exists>r0 r1. registered km i r0 \<and> registered km j r1 \<and> key_PublicKey r0 \<noteq> key_PublicKey r1 \<and>
        length s0 = 64 \<and> length s1 = 64 \<and> ed_verify E (key_PublicKey r0) msg s0 \<and>
        ed_verify E (key_PublicKey r1) msg s1)"

lemma pair_valid_two_of_seven:
  "pair_valid E km i j algo msg s0 s1 \<longleftrightarrow> algo = AlgoEd25519 \<and> two_of_seven E km i j msg s0 s1"
  by (auto simp: pair_valid_def key_valid_def two_of_seven_def registered_def)

text \<open>An \<open>OperatorTransmission\<close> is accepted exactly when it meets SPEC.md section 11.0: a nonce of at
    least
  16 bytes, the algorithm \<open>ed25519\<close>, and over its canonical bytes two valid 64-byte signatures by two
  different registered keys at two different indices in 0..6.\<close>

theorem transmission_accepts:
  "OperatorTransmission_Verify E km t = Ret None \<longleftrightarrow>
     16 \<le> length (ot_Nonce t) \<and> ot_Algo t = AlgoEd25519 \<and>
     two_of_seven E km (ot_Idx0 t) (ot_Idx1 t) (OperatorTransmission_CanonicalBytes t) (ot_Sig0 t) (ot_Sig1 t)"
  by (auto simp: transmission_msg.accepts_iff transmission_checks_def MinNonceLen_def pair_valid_two_of_seven)

text \<open>A \<open>ConformanceResponse\<close> is accepted exactly under the same 2-of-7 rule over its own canonical
  bytes, without a nonce.\<close>

theorem conformance_accepts:
  "ConformanceResponse_Verify E km c = Ret None \<longleftrightarrow> cr_Algo c = AlgoEd25519 \<and>
     two_of_seven E km (cr_Idx0 c) (cr_Idx1 c) (ConformanceResponse_CanonicalBytes c) (cr_Sig0 c) (cr_Sig1 c)"
  by (auto simp: conformance_msg.accepts_iff conformance_checks_def pair_valid_two_of_seven)

text \<open>C8: an \<open>OperatorRotation\<close> is accepted exactly when the nonce is long enough,
    the replaced index is in
  range, the new key is a well-formed ed25519 key that no other index holds, every other registered key
  is an ed25519 key, and two different registered keys at two different indices signed its canonical
  bytes (SPEC.md sections 11.0 and 11.2); re-registering a key at its own index is permitted.\<close>

theorem rotation_accepts:
  assumes "visits o1 km" and "visits o2 km"
  shows "OperatorRotation_Verify E o1 o2 km r = Ret None \<longleftrightarrow>
     16 \<le> length (or_Nonce r) \<and> or_Algo r = AlgoEd25519 \<and> 0 \<le> sint (or_KeyIndex r) \<and>
     sint (or_KeyIndex r) < 7 \<and>
     length (or_NewPublicKey r) = 32 \<and>
     (\<forall>i rec. km i = Some rec \<and> i \<noteq> or_KeyIndex r \<longrightarrow>
        key_PublicKey rec \<noteq> or_NewPublicKey r \<and> key_Algo rec = AlgoEd25519) \<and>
     two_of_seven E km (or_Idx0 r) (or_Idx1 r) (OperatorRotation_CanonicalBytes r) (or_Sig0 r) (or_Sig1 r)"
  unfolding OperatorRotation_accepts [OF assms] pair_valid_two_of_seven key_elsewhere_def algo_elsewhere_def
  by blast

definition demo_rotation :: "bytes \<Rightarrow> OperatorRotation" where
  "demo_rotation newKey =
     \<lparr>or_OperatorID = lit ''cloudy'', or_KeyIndex = 4, or_NewPublicKey = newKey, or_Algo = AlgoEd25519,
      or_TsUnixNano = 0, or_Nonce = replicate 16 1, or_Seq = 1, or_Idx0 = 0, or_Idx1 = 1,
      or_Sig0 = replicate 64 0, or_Sig1 = replicate 64 0\<rparr>"

lemma rotation_accepts_witness:
  "OperatorRotation_Verify accept_all demo_order (rev demo_order) demo_registry (demo_rotation (demo_pub 9)) =
      Ret None \<and>
   OperatorRotation_Verify accept_all demo_order (rev demo_order) demo_registry (demo_rotation (demo_pub 6)) \<noteq>
       Ret None"
proof -
  have six: "demo_registry 6 = Some (demo_record 6)" by (simp add: demo_registry_def demo_order_def)
  have two: "two_of_seven accept_all demo_registry 0 1 msg (replicate 64 0) (replicate 64 0)" for msg
    by (simp add: two_of_seven_def registered_def demo_registry_at demo_record_def)
  show ?thesis
  proof (intro conjI notI)
    show "OperatorRotation_Verify accept_all demo_order (rev demo_order) demo_registry (demo_rotation (demo_pub 9)) =
        Ret None"
      using two demo_registry_keys by (auto simp: rotation_accepts demo_rotation_def)
    assume "OperatorRotation_Verify accept_all demo_order (rev demo_order) demo_registry (demo_rotation (demo_pub 6)) =
        Ret None"
    then have "\<forall>i rec. demo_registry i = Some rec \<and>
        i \<noteq> 4 \<longrightarrow> key_PublicKey rec \<noteq> demo_pub 6"
      by (simp add: rotation_accepts demo_rotation_def)
    then have "key_PublicKey (demo_record 6) \<noteq> demo_pub 6" using six by (elim allE [of _ 6]) simp
    then show False by (simp add: demo_record_def)
  qed
qed

text \<open>The verdict of a rotation, error included, does not depend on the order in which Go visits the
  entries of the registry map in the two range loops.\<close>

theorem rotation_order_independent:
  assumes "visits o1 km" and "visits o2 km" and "visits o1' km" and "visits o2' km"
  shows "OperatorRotation_Verify E o1 o2 km r = OperatorRotation_Verify E o1' o2' km r"
  by (simp add: OperatorRotation_Verify_visits [OF assms(1,2)] OperatorRotation_Verify_visits [OF assms(3,4)])

lemma rotation_order_independent_witness:
  "OperatorRotation_Verify accept_all demo_order demo_order demo_registry (demo_rotation []) =
   OperatorRotation_Verify accept_all (rev demo_order) (rev demo_order) demo_registry (demo_rotation [])"
  by (rule rotation_order_independent) simp_all


section \<open>Errors of the pair verification\<close>

text \<open>Two indices that hold the same public key are always refused with \<open>ErrDuplicateSigningKey\<close>, before
  any signature is looked at and whatever the algorithms, and that error has no other cause: the 2-of-7
  rule cannot degrade to one key (SPEC.md section 11.0, rule 5a).\<close>

theorem verifyPair_duplicate_iff:
  "verifyPair E km i j algo msg s0 s1 = Ret (Some ErrDuplicateSigningKey) \<longleftrightarrow>
     i \<noteq> j \<and> 0 \<le> sint i \<and> sint i < 7 \<and> 0 \<le> sint j \<and> sint j < 7 \<and>
     (\<exists>r0 r1. km i = Some r0 \<and> km j = Some r1 \<and> key_PublicKey r0 = key_PublicKey r1)"
proof -
  have at: "verifyAt E km k algo msg s \<noteq> Ret (Some ErrDuplicateSigningKey)" for k s
    by (auto simp: verifyAt_def operator_verifier.verify_eq split: option.splits)
  have seq: "err_then (verifyAt E km i algo msg s0) (err_then (verifyAt E km j algo msg s1) (Ret None))
      \<noteq> Ret (Some ErrDuplicateSigningKey)"
    using at unfolding err_then_def by (auto split: option.splits)
  have "distinctKeysAt km i j = Some ErrDuplicateSigningKey \<longleftrightarrow>
      0 \<le> sint i \<and> sint i < 7 \<and> 0 \<le> sint j \<and> sint j < 7 \<and>
      (\<exists>r0 r1. km i = Some r0 \<and> km j = Some r1 \<and> key_PublicKey r0 = key_PublicKey r1)"
    by (auto simp: distinctKeysAt_def index_out_of_range_def KeyIndexCount_def split: option.splits)
  with seq show ?thesis by (auto simp: verifyPair_def split: option.splits)
qed

text \<open>One signature that fails, everything else about its index being in order.\<close>

definition wrong_signature :: "ed25519 \<Rightarrow> keymap \<Rightarrow> int64 \<Rightarrow> bytes \<Rightarrow>
    bytes \<Rightarrow> bool" where
  "wrong_signature E km i msg s \<longleftrightarrow>
     (\<exists>rec. registered km i rec \<and> length s = 64 \<and> \<not> ed_verify E (key_PublicKey rec) msg s)"

lemma verifyAt_bad_iff:
  "verifyAt E km i AlgoEd25519 msg s = Ret (Some ErrBadSignature) \<longleftrightarrow> wrong_signature E km i msg s"
  by (auto simp: verifyAt_def wrong_signature_def registered_def operator_verifier.verify_eq expectedSigLen_def
      expectedPubLen_def key_sizes index_out_of_range_def KeyIndexCount_def split: option.splits if_splits)

text \<open>For the one algorithm of this version, \<open>ErrBadSignature\<close> is returned exactly when the indices and
  the two keys are distinct and in order, and the first signature is wrong, or the first is valid and
  the second is wrong. A missing, malformed or foreign-algorithm key, an index out of range and a
  signature of the wrong length are never reported as a bad signature.\<close>

theorem verifyPair_bad_signature_iff:
  "verifyPair E km i j AlgoEd25519 msg s0 s1 = Ret (Some ErrBadSignature) \<longleftrightarrow>
     i \<noteq> j \<and> 0 \<le> sint j \<and> sint j < 7 \<and>
     map_option key_PublicKey (km i) \<noteq> map_option key_PublicKey (km j) \<and>
     (wrong_signature E km i msg s0 \<or> key_valid E km i AlgoEd25519 msg s0 \<and> wrong_signature E km j msg s1)"
proof -
  have pair: "verifyPair E km i j AlgoEd25519 msg s0 s1 = Ret (Some ErrBadSignature) \<longleftrightarrow>
      i \<noteq> j \<and> distinctKeysAt km i j = None \<and>
      (wrong_signature E km i msg s0 \<or> key_valid E km i AlgoEd25519 msg s0 \<and> wrong_signature E km j msg s1)"
  proof -
    have "distinctKeysAt km i j \<noteq> Some ErrBadSignature"
      by (auto simp: distinctKeysAt_def split: option.splits)
    moreover have "err_then m (err_then n (Ret None)) = Ret (Some ErrBadSignature) \<longleftrightarrow>
        m = Ret (Some ErrBadSignature) \<or> m = Ret None \<and> n = Ret (Some ErrBadSignature)"
      for m n :: "operator_error option go"
      unfolding err_then_def by (auto split: option.splits)
    ultimately show ?thesis
      by (auto simp: verifyPair_def verifyAt_bad_iff verifyAt_ok_iff split: option.splits)
  qed
  have "wrong_signature E km i msg s0 \<or> key_valid E km i AlgoEd25519 msg s0 \<Longrightarrow>
      \<exists>rec. km i = Some rec \<and> \<not> index_out_of_range i"
    by (auto simp: wrong_signature_def registered_def key_valid_def index_out_of_range_def KeyIndexCount_def)
  then show ?thesis
    unfolding pair distinctKeysAt_None_iff
    by (cases "km j") (auto simp: index_out_of_range_def KeyIndexCount_def)
qed

section \<open>The signature seam\<close>

text \<open>The operator layer's seam is the direct path: \<open>Ed25519Signer.Sign\<close> is
    \<open>ed25519.Sign\<close> and
  \<open>Ed25519Verifier.Verify\<close> is \<open>canon.VerifySig\<close>, on every key, message and signature,
      malformed ones included;
  so what the Signer of a key pair signs the Verifier accepts, and the two layers never disagree.\<close>

theorem seam_is_direct:
  "sg_Sign (Ed25519Signer_Signer E (NewEd25519Signer priv)) msg = ed25519_Sign E priv msg \<and>
   vf_Verify (Ed25519Verifier E) pub msg sig = VerifySig E pub msg sig \<and>
   (ed25519_laws E \<and> keypair E priv pub \<longrightarrow>
      go_bind (sg_Sign (Ed25519Signer_Signer E (NewEd25519Signer priv)) msg) (vf_Verify (Ed25519Verifier E) pub msg) =
      Ret True)"
  by (auto simp: Ed25519Signer_Signer_def Ed25519Signer_Sign_def NewEd25519Signer_def operator_verifier.verify_eq
      canon_verifier.verify_eq ed25519_Sign_keypair ed25519_laws_verify ed25519_laws_length keypair_length [THEN
      conjunct1] keypair_length [THEN conjunct2])

lemma seam_is_direct_witness:
  "go_bind (sg_Sign (Ed25519Signer_Signer hash_signatures (NewEd25519Signer (demo_priv 3))) [1, 2])
     (vf_Verify (Ed25519Verifier hash_signatures) (demo_pub 3) [1, 2]) = Ret True"
  using seam_is_direct [of hash_signatures "demo_priv 3" "[1, 2]" "demo_pub 3" "[]"]
    hash_signatures_laws demo_keypair by blast

section \<open>Safety of the 2-of-7 rule\<close>

text \<open>C9: the registry stays well formed (indices 0..6, well-formed ed25519 keys, no key at two indices)
  along every sequence of rotations a coordinator applies after successful verification, no index ever
  loses its key, and so distinct indices keep meaning distinct keys.\<close>

theorem registry_invariant:
  assumes "registry_ok km" and "(registry_step E)\<^sup>*\<^sup>* km km'"
  shows "registry_ok km' \<and> dom km \<subseteq> dom km'"
proof
  show "registry_ok km'" using registry_steps_ok [OF assms(2,1)] .
  from assms(2) show "dom km \<subseteq> dom km'"
    by (induction rule: rtranclp_induct) (use registry_step_dom in blast)+
qed

lemma demo_step:
  "registry_step accept_all demo_registry (apply_rotation demo_registry (demo_rotation (demo_pub 9)))"
proof (rule rotate)
  have "two_of_seven accept_all demo_registry 0 1 msg (replicate 64 0) (replicate 64 0)" for msg
    by (simp add: two_of_seven_def registered_def demo_registry_at demo_record_def)
  then have "pair_valid accept_all demo_registry 0 1 AlgoEd25519 msg (replicate 64 0) (replicate 64 0)" for msg
    by (simp add: pair_valid_two_of_seven)
  moreover have "\<not> key_elsewhere demo_registry 4 (demo_pub 9)" "\<not> algo_elsewhere demo_registry 4 AlgoEd25519"
    using demo_registry_keys by (auto simp: key_elsewhere_def algo_elsewhere_def)
  ultimately show "OperatorRotation_Verify accept_all demo_order demo_order demo_registry (demo_rotation (demo_pub 9)) =
      Ret None"
    by (simp add: OperatorRotation_accepts demo_rotation_def)
qed simp_all

lemma registry_invariant_witness:
  "registry_ok (apply_rotation demo_registry (demo_rotation (demo_pub 9))) \<and>
   dom demo_registry \<subseteq> dom (apply_rotation demo_registry (demo_rotation (demo_pub 9)))"
  by (rule registry_invariant [of demo_registry accept_all]) (use demo_step in auto)

text \<open>C10: every registry change was signed, over bytes that contain the new key, by two different keys
  registered before the change, and touches only the rotation's own index; the holder of one key alone
  can therefore never change the registry.\<close>

theorem registry_change_needs_two_keys:
  assumes "registry_step E km km'"
  shows "\<exists>r. two_of_seven E km (or_Idx0 r) (or_Idx1 r) (OperatorRotation_CanonicalBytes r) (or_Sig0 r) (or_Sig1
      r) \<and>
     km' (or_KeyIndex r) = Some \<lparr>key_PublicKey = or_NewPublicKey r, key_Algo = AlgoEd25519\<rparr> \<and>
     (\<forall>i. i \<noteq> or_KeyIndex r \<longrightarrow> km' i = km i)"
proof -
  from assms obtain o1 o2 r where v: "visits o1 km" "visits o2 km"
    and a: "OperatorRotation_Verify E o1 o2 km r = Ret None" and km': "km' = apply_rotation km r"
    by (elim registry_stepE)
  from a have "or_Algo r = AlgoEd25519" and
    "two_of_seven E km (or_Idx0 r) (or_Idx1 r) (OperatorRotation_CanonicalBytes r) (or_Sig0 r) (or_Sig1 r)"
    by (simp_all add: OperatorRotation_accepts [OF v] pair_valid_two_of_seven)
  with km' show ?thesis by (auto simp: apply_rotation_def)
qed

lemma registry_change_needs_two_keys_witness:
  "\<exists>r. two_of_seven accept_all demo_registry (or_Idx0 r) (or_Idx1 r) (OperatorRotation_CanonicalBytes r)
     (or_Sig0 r) (or_Sig1 r)"
  using registry_change_needs_two_keys [OF demo_step] by blast

text \<open>An operator whose registry holds one key at every registered index gets no message of any kind
  accepted, whatever is signed and however the map is visited.\<close>

theorem single_key_never_accepted:
  assumes "\<And>i j ri rj. km i = Some ri \<Longrightarrow> km j = Some rj \<Longrightarrow> key_PublicKey ri =
      key_PublicKey rj"
  shows "OperatorTransmission_Verify E km t \<noteq> Ret None \<and>
      OperatorRotation_Verify E o1 o2 km r \<noteq> Ret None \<and>
     ConformanceResponse_Verify E km c \<noteq> Ret None"
  using assms transmission_msg.two_keys [of E km t] rotation_msg.two_keys [of E o1 o2 km r]
    conformance_msg.two_keys [of E km c] by blast


definition one_key_registry :: keymap where
  "one_key_registry = [0 \<mapsto> demo_record 3, 1 \<mapsto> demo_record 3]"

lemma single_key_never_accepted_witness:
  "OperatorRotation_Verify accept_all [(0, demo_record 3), (1, demo_record 3)] [(0, demo_record 3), (1, demo_record 3)]
     one_key_registry (demo_rotation (demo_pub 9)) \<noteq> Ret None"
proof -
  have "one_key_registry i = Some rec \<Longrightarrow> rec = demo_record 3" for i rec
    by (auto simp: one_key_registry_def split: if_splits)
  then show ?thesis using single_key_never_accepted [of one_key_registry accept_all] by blast
qed

text \<open>C15: rotation is always possible: in a well-formed registry, the holders of any two keys can replace any
  index's key by any well-formed key that no other index holds. Signed by \<open>Sign\<close>, the rotation is
  accepted by \<open>Verify\<close>, the registry takes the step, and it then holds the new key at the index.\<close>

theorem rotation_sign_accepted:
  assumes "ed25519_laws E" and "keypair E p0 k0" and "keypair E p1 k1" and "registry_ok km" and "visits o1 km"
    and "km i = Some \<lparr>key_PublicKey = k0, key_Algo = AlgoEd25519\<rparr>"
    and "km j = Some \<lparr>key_PublicKey = k1, key_Algo = AlgoEd25519\<rparr>" and "i \<noteq> j"
    and "16 \<le> length (or_Nonce r)" and "or_Algo r = [] \<or> or_Algo r = AlgoEd25519"
    and "0 \<le> sint (or_KeyIndex r)" and "sint (or_KeyIndex r) < 7" and "length (or_NewPublicKey r) = 32"
    and "\<not> key_elsewhere km (or_KeyIndex r) (or_NewPublicKey r)"
  shows "\<exists>r'. OperatorRotation_Sign E p0 p1 i j r = Ret r' \<and> OperatorRotation_Verify E o1 o1 km r' =
      Ret None \<and>
     registry_step E km (apply_rotation km r') \<and>
     map_option key_PublicKey (apply_rotation km r' (or_KeyIndex r)) = Some (or_NewPublicKey r)"
proof -
  note reg = assms(4) [unfolded registry_ok_def]
  have k: "k0 \<noteq> k1" "0 \<le> sint i" "sint i < 7" "0 \<le> sint j" "sint j < 7"
    using reg assms(6-8) by force+
  have "\<not> algo_elsewhere km (or_KeyIndex r) AlgoEd25519"
    using reg by (auto simp: algo_elsewhere_def)
  then have "rotation_checks o1 o1 km (rotation_prep i j r) = None"
    using assms(9-14) by (auto simp: rotation_checks_def rotation_prep_def duplicate_loop_visits [OF assms(5)]
        algo_loop_visits [OF assms(5)] MinNonceLen_def index_out_of_range_def KeyIndexCount_def
        expectedPubLen_def PublicKeySize_def)
  from rotation_msg.sign_verify [OF assms(1-3) k(1) assms(8) k(2-5) assms(6,7) this]
  obtain r' where r': "OperatorRotation_Sign E p0 p1 i j r = Ret r'"
    "OperatorRotation_payload r' = OperatorRotation_payload (rotation_prep i j r)"
    "OperatorRotation_Verify E o1 o1 km r' = Ret None" by blast
  from r'(2) have "or_KeyIndex r' = or_KeyIndex r" "or_NewPublicKey r' = or_NewPublicKey r"
    by (simp_all add: operator_simps rotation_prep_def)
  moreover have "registry_step E km (apply_rotation km r')"
    using assms(5) assms(5) r'(3) by (rule rotate)
  ultimately show ?thesis using r' by (auto simp: apply_rotation_def)
qed

lemma rotation_sign_accepted_witness:
  "\<exists>r'. OperatorRotation_Sign hash_signatures (demo_priv 0) (demo_priv 1) 0 1 (demo_rotation (demo_pub 9)) =
      Ret r' \<and>
     OperatorRotation_Verify hash_signatures demo_order demo_order demo_registry r' = Ret None"
proof -
  have "\<not> key_elsewhere demo_registry 4 (demo_pub 9)"
    using demo_registry_keys by (auto simp: key_elsewhere_def)
  then show ?thesis
    using rotation_sign_accepted [of hash_signatures "demo_priv 0" "demo_pub 0" "demo_priv 1" "demo_pub 1"
        demo_registry demo_order 0 1 "demo_rotation (demo_pub 9)"]
    by (auto simp: demo_registry_at demo_record_def demo_rotation_def)
qed


text \<open>C16: in a well-formed registry, \<open>Sign\<close> of a transmission or a conformance response with the private keys of any two
  registered indices returns it with the indices, with the algorithm when that was empty, and with the two
  signatures, nothing else changed; and \<open>Verify\<close> accepts the result exactly when the nonce of the transmission has at
  least 16 bytes and the algorithm was left empty or is \<open>ed25519\<close>. \<open>Sign\<close> itself checks neither: a short nonce or
  another algorithm is signed and then refused.\<close>

theorem operator_sign_accepted:
  assumes "ed25519_laws E" and "keypair E p0 k0" and "keypair E p1 k1" and "registry_ok km"
    and "km i = Some \<lparr>key_PublicKey = k0, key_Algo = AlgoEd25519\<rparr>"
    and "km j = Some \<lparr>key_PublicKey = k1, key_Algo = AlgoEd25519\<rparr>" and "i \<noteq> j"
  shows "(\<exists>s0 s1. let t' = t\<lparr>ot_Idx0 := i, ot_Idx1 := j, ot_Algo := if ot_Algo t = [] then AlgoEd25519 else ot_Algo t,
        ot_Sig0 := s0, ot_Sig1 := s1\<rparr>
      in OperatorTransmission_Sign E p0 p1 i j t = Ret t' \<and>
        (OperatorTransmission_Verify E km t' = Ret None \<longleftrightarrow>
          16 \<le> length (ot_Nonce t) \<and> ot_Algo t \<in> {[], AlgoEd25519})) \<and>
    (\<exists>s0 s1. let c' = c\<lparr>cr_Idx0 := i, cr_Idx1 := j, cr_Algo := if cr_Algo c = [] then AlgoEd25519 else cr_Algo c,
        cr_Sig0 := s0, cr_Sig1 := s1\<rparr>
      in ConformanceResponse_Sign E p0 p1 i j c = Ret c' \<and>
        (ConformanceResponse_Verify E km c' = Ret None \<longleftrightarrow> cr_Algo c \<in> {[], AlgoEd25519}))"
proof -
  note reg = assms(4) [unfolded registry_ok_def]
  have k: "k0 \<noteq> k1" "0 \<le> sint i" "sint i < 7" "0 \<le> sint j" "sint j < 7"
    using reg assms(5-7) by force+
  have "transmission_checks km (transmission_prep i j t) = None \<longleftrightarrow>
      16 \<le> length (ot_Nonce t) \<and> ot_Algo t \<in> {[], AlgoEd25519}"
    by (auto simp: transmission_checks_def transmission_prep_def MinNonceLen_def)
  moreover have "conformance_checks km (conformance_prep i j c) = None \<longleftrightarrow> cr_Algo c \<in> {[], AlgoEd25519}"
    by (auto simp: conformance_checks_def conformance_prep_def)
  ultimately show ?thesis
    using transmission_msg.sign_verify_iff [OF assms(1-3) k(1) assms(7) k(2-5) assms(5,6), of t]
      conformance_msg.sign_verify_iff [OF assms(1-3) k(1) assms(7) k(2-5) assms(5,6), of c]
    by (simp add: transmission_prep_def conformance_prep_def Let_def)
qed

definition unsigned_transmission :: OperatorTransmission where
  "unsigned_transmission =
     \<lparr>ot_OperatorID = lit ''cloudy'', ot_TsUnixNano = 0, ot_Nonce = replicate 16 1, ot_Seq = 1, ot_Algo = [],
      ot_Idx0 = 0, ot_Idx1 = 0, ot_Sig0 = [], ot_Sig1 = []\<rparr>"

definition unsigned_conformance :: ConformanceResponse where
  "unsigned_conformance =
     \<lparr>cr_OperatorID = lit ''cloudy'', cr_Challenge = [1, 2, 3], cr_Algo = [], cr_Idx0 = 0, cr_Idx1 = 0,
      cr_Sig0 = [], cr_Sig1 = []\<rparr>"

lemma operator_sign_accepted_witness:
  "(\<exists>t'. OperatorTransmission_Sign hash_signatures (demo_priv 0) (demo_priv 1) 0 1 unsigned_transmission = Ret t' \<and>
     OperatorTransmission_Verify hash_signatures demo_registry t' = Ret None \<and> ot_Algo t' = AlgoEd25519) \<and>
   (\<exists>t'. OperatorTransmission_Sign hash_signatures (demo_priv 0) (demo_priv 1) 0 1
       (unsigned_transmission\<lparr>ot_Nonce := [1]\<rparr>) = Ret t' \<and>
     OperatorTransmission_Verify hash_signatures demo_registry t' \<noteq> Ret None)"
proof -
  note signed = operator_sign_accepted [of hash_signatures "demo_priv 0" "demo_pub 0" "demo_priv 1" "demo_pub 1"
      demo_registry 0 1 _ unsigned_conformance, THEN conjunct1]
  show ?thesis
    using signed [of unsigned_transmission] signed [of "unsigned_transmission\<lparr>ot_Nonce := [1]\<rparr>"]
    by (fastforce simp: demo_registry_at demo_record_def unsigned_transmission_def Let_def)
qed

end
