(* ===== verification/Coordinator.thy ===== *)
theory Coordinator
  imports Listing Liveness Fees Employment Identity Lease
begin

text \<open>
  Package \<open>coordinator\<close> (src/coordinator/coordinator.go): its three interfaces, as records of their methods.
  An implementation is outside the repository; it keeps a state of its own, so a method is a function on
  a state \<open>'s\<close> that returns its results and the new state. A Go \<open>error\<close> is its text,
      \<open>None\<close> for nil. The
  context argument (cancellation, deadlines) is left out.
\<close>

record 's Coordinator =
  co_SubmitListing :: "CapabilityListing \<Rightarrow> ('s, go_error option) proc"
  co_Heartbeat :: "Heartbeat \<Rightarrow> ('s, go_error option) proc"
  co_PollJobs :: "NodeID \<Rightarrow> ('s, Assignment list \<times> go_error option) proc"
  co_Decline :: "Decline \<Rightarrow> ('s, go_error option) proc"
  co_ReportJob :: "JobReport \<Rightarrow> ('s, go_error option) proc"
  co_Fees :: "('s, FeeDeclaration \<times> go_error option) proc"

record 's StorageCoordinator =
  sc_PollLeases :: "NodeID \<Rightarrow> ('s, StorageLease list \<times> ProofChallenge list \<times> go_error option) proc"
  sc_DeclineLease :: "LeaseDecline \<Rightarrow> ('s, go_error option) proc"
  sc_ReleaseLease :: "LeaseRelease \<Rightarrow> ('s, go_error option) proc"
  sc_SubmitProof :: "ProofResponse \<Rightarrow> ('s, go_error option) proc"

record 's KeyLifecycleCoordinator =
  kc_RotateKey :: "KeyRotation \<Rightarrow> ('s, go_error option) proc"
  kc_RevokeKey :: "KeyRevocation \<Rightarrow> ('s, go_error option) proc"

end
