(* ===== verification/Go_Url.thy ===== *)
theory Go_Url
  imports Go_Prelude
begin

unbundle bit_operations_syntax

text \<open>
  The functions of Go's \<open>net/url\<close> that the reference transport uses: \<open>QueryEscape\<close>, and
      \<open>URL.Query().Get\<close>
  (\<open>ParseQuery\<close>, errors ignored, then the first value of the key).
\<close>

definition upperhex :: "byte \<Rightarrow> byte" where
  "upperhex n = (if n < 10 then 0x30 + n else 0x37 + n)"

definition ishex :: "byte \<Rightarrow> bool" where
  "ishex c \<longleftrightarrow> 0x30 \<le> c \<and> c \<le> 0x39 \<or> 0x61 \<le> c \<and>
      c \<le> 0x66 \<or> 0x41 \<le> c \<and> c \<le> 0x46"

definition unhex :: "byte \<Rightarrow> byte" where
  "unhex c = (if 0x30 \<le> c \<and> c \<le> 0x39 then c - 0x30
     else if 0x61 \<le> c \<and> c \<le> 0x66 then c - 0x57
     else if 0x41 \<le> c \<and> c \<le> 0x46 then c - 0x37 else 0)"

text \<open>Letters, digits and \<open>- _ . ~\<close> stand for themselves.\<close>

definition unreserved :: "byte \<Rightarrow> bool" where
  "unreserved c \<longleftrightarrow> 0x61 \<le> c \<and> c \<le> 0x7A \<or> 0x41 \<le> c \<and>
      c \<le> 0x5A \<or> 0x30 \<le> c \<and> c \<le> 0x39 \<or>
     c = 0x2D \<or> c = 0x5F \<or> c = 0x2E \<or> c = 0x7E"

definition escape_byte :: "byte \<Rightarrow> bytes" where
  "escape_byte c = (if unreserved c then [c] else if c = 0x20 then [0x2B]
     else [0x25, upperhex (drop_bit 4 c), upperhex (c AND 0xF)])"

definition QueryEscape :: "bytes \<Rightarrow> bytes" where
  "QueryEscape s = concat (map escape_byte s)"

fun QueryUnescape :: "bytes \<Rightarrow> bytes option" where
  "QueryUnescape [] = Some []"
| "QueryUnescape (c # r) =
     (if c = 0x25
      then (case r of
          a # b # r' \<Rightarrow> if ishex a \<and> ishex b
            then map_option (Cons (push_bit 4 (unhex a) OR unhex b)) (QueryUnescape r') else None
        | _ \<Rightarrow> None)
      else map_option (Cons (if c = 0x2B then 0x20 else c)) (QueryUnescape r))"

text \<open>\<open>strings.Cut\<close> at one separator byte: what is before it, and what is after it.\<close>

definition cut_before :: "byte \<Rightarrow> bytes \<Rightarrow> bytes" where "cut_before sep s =
    takeWhile (\<lambda>c. c \<noteq> sep) s"
definition cut_after :: "byte \<Rightarrow> bytes \<Rightarrow> bytes" where "cut_after sep s =
    drop 1 (dropWhile (\<lambda>c. c \<noteq> sep) s)"

function query_values :: "bytes \<Rightarrow> (bytes \<times> bytes) list" where
  "query_values q =
     (if q = [] then []
      else let pair = cut_before 0x26 q; rest = query_values (cut_after 0x26 q)
        in if 0x3B \<in> set pair \<or> pair = [] then rest
           else case (QueryUnescape (cut_before 0x3D pair), QueryUnescape (cut_after 0x3D pair)) of
               (Some k, Some v) \<Rightarrow> (k, v) # rest
             | _ \<Rightarrow> rest)"
  by pat_completeness auto

lemma cut_after_less: "q \<noteq> [] \<Longrightarrow> length (cut_after sep q) < length q"
  using length_dropWhile_le [of "\<lambda>c. c \<noteq> sep" q] by (cases q) (auto simp: cut_after_def)

termination query_values
  by (relation "measure length") (auto simp: cut_after_less)

declare query_values.simps [simp del]

definition Query_Get :: "bytes \<Rightarrow> bytes \<Rightarrow> bytes" where
  "Query_Get q key = (case find (\<lambda>(k, v). k = key) (query_values q) of Some (k, v) \<Rightarrow>
      v | None \<Rightarrow> [])"

section \<open>Escaping and parsing are inverse\<close>

text \<open>The sixteen hexadecimal digits.\<close>

lemma nibble_cases: "list_all (\<lambda>n. P (word_of_nat n)) [0..<16] \<Longrightarrow>
    (c :: byte) < 16 \<Longrightarrow> P c"
proof -
  assume a: "list_all (\<lambda>n. P (word_of_nat n)) [0..<16]" and "c < 16"
  then have "unat c \<in> set [0..<16]" by (simp add: word_less_nat_alt)
  with a have "P (word_of_nat (unat c))" unfolding list_all_iff by blast
  moreover have "word_of_nat (unat c) = c" by simp
  ultimately show ?thesis by simp
qed

definition digit_ok :: "byte \<Rightarrow> bool" where
  "digit_ok c \<longleftrightarrow> ishex (upperhex c) \<and> unhex (upperhex c) = c \<and>
     upperhex c \<noteq> 0x26 \<and> upperhex c \<noteq> 0x3B \<and> upperhex c \<noteq> 0x3D"

lemma all_digits_ok: "list_all (\<lambda>n. digit_ok (word_of_nat n)) [0..<16]"
  by code_simp

lemma hex_digit:
  assumes "c < 16"
  shows "ishex (upperhex c) \<and> unhex (upperhex c) = c \<and>
     upperhex c \<noteq> 0x26 \<and> upperhex c \<noteq> 0x3B \<and> upperhex c \<noteq> 0x3D"
  using nibble_cases [OF all_digits_ok assms] unfolding digit_ok_def .

lemma nibbles: "drop_bit 4 (c :: byte) < 16 \<and> c AND 0xF < 16 \<and> push_bit 4 (drop_bit 4 c) OR (c AND 0xF) = c"
proof -
  have m: "(0xF :: byte) = mask 4" by (simp add: mask_numeral)
  have "drop_bit 4 c < 16"
  proof -
    have "unat (drop_bit 4 c) = drop_bit 4 (unat c)" by (simp only: unat_drop_bit_eq)
    then have "unat (drop_bit 4 c) = unat c div 16" by (simp only: drop_bit_eq_div) simp
    moreover have "unat c < 256" using unsigned_less [of c] by simp
    ultimately show ?thesis by (simp add: word_less_nat_alt)
  qed
  moreover have "c AND mask 4 < 16"
  proof -
    have "unat (c AND mask 4) = take_bit 4 (unat c)"
      by (simp only: take_bit_eq_mask [symmetric] unsigned_take_bit_eq)
    then have "unat (c AND mask 4) = unat c mod 16" by (simp only: take_bit_eq_mod) simp
    then show ?thesis by (simp add: word_less_nat_alt)
  qed
  moreover have "push_bit 4 (drop_bit 4 c) OR (c AND mask 4) = c"
    by (rule bit_word_eqI) (auto simp: bit_simps)
  ultimately show ?thesis unfolding m by blast
qed

lemma escaped_hex:
  "ishex (upperhex (drop_bit 4 c)) \<and> ishex (upperhex (c AND 0xF)) \<and>
   push_bit 4 (unhex (upperhex (drop_bit 4 c))) OR unhex (upperhex (c AND 0xF)) = (c :: byte)"
  using nibbles [of c] hex_digit [of "drop_bit 4 c"] hex_digit [of "c AND 0xF"] by simp

lemma escape_byte_clean: "0x26 \<notin> set (escape_byte c) \<and> 0x3B \<notin> set (escape_byte c) \<and>
    0x3D \<notin> set (escape_byte c)"
  using nibbles [of c] hex_digit [of "drop_bit 4 c"] hex_digit [of "c AND 0xF"]
  by (auto simp: escape_byte_def unreserved_def)

lemma unreserved_plain: "unreserved c \<Longrightarrow> c \<noteq> 0x25 \<and> c \<noteq> 0x2B"
  by (auto simp: unreserved_def)

lemma QueryUnescape_escape_byte: "QueryUnescape (escape_byte c @ r) = map_option (Cons c) (QueryUnescape r)"
  using unreserved_plain [of c] escaped_hex [of c] by (auto simp: escape_byte_def)

lemma QueryUnescape_QueryEscape: "QueryUnescape (QueryEscape s) = Some s"
  by (induction s) (simp_all add: QueryEscape_def QueryUnescape_escape_byte)

lemma QueryEscape_clean: "0x26 \<notin> set (QueryEscape s) \<and> 0x3B \<notin> set (QueryEscape s) \<and>
    0x3D \<notin> set (QueryEscape s)"
  using escape_byte_clean by (auto simp: QueryEscape_def)

lemma cut_clean: "sep \<notin> set s \<Longrightarrow> cut_before sep s = s \<and> cut_after sep s = []"
  by (induction s) (auto simp: cut_before_def cut_after_def)

lemma cut_at: "sep \<notin> set a \<Longrightarrow> cut_before sep (a @ sep # b) = a \<and> cut_after sep (a @ sep # b) = b"
  by (induction a) (auto simp: cut_before_def cut_after_def)

text \<open>A query with one pair, its value escaped, gives the value back.\<close>

lemma Query_Get_single:
  assumes "key \<noteq> []" and "list_all unreserved key"
  shows "Query_Get (key @ 0x3D # QueryEscape v) key = v"
proof -
  have plain: "unreserved c \<Longrightarrow> c \<noteq> 0x26 \<and> c \<noteq> 0x3B \<and> c \<noteq> 0x3D" for c
    by (auto simp: unreserved_def)
  with assms(2) have key: "0x26 \<notin> set key" "0x3B \<notin> set key" "0x3D \<notin> set key"
    by (auto simp: list_all_iff)
  have "QueryEscape key = key" using assms(2)
    by (induction key) (simp_all add: QueryEscape_def escape_byte_def)
  then have k: "QueryUnescape key = Some key" using QueryUnescape_QueryEscape [of key] by simp
  let ?q = "key @ 0x3D # QueryEscape v"
  have "0x26 \<notin> set ?q" using key QueryEscape_clean [of v] by simp
  then have "cut_before 0x26 ?q = ?q" "cut_after 0x26 ?q = []" using cut_clean by blast+
  moreover have "0x3B \<notin> set ?q" using key QueryEscape_clean [of v] by simp
  moreover have "query_values [] = []" by (simp add: query_values.simps)
  ultimately have "query_values ?q = [(key, v)]"
    using cut_at [OF key(3), of "QueryEscape v"]
    by (simp add: query_values.simps [of ?q] k QueryUnescape_QueryEscape Let_def)
  then show ?thesis by (simp add: Query_Get_def)
qed

end
