(* ===== verification/Go_Url_Parse.thy ===== *)
theory Go_Url_Parse
  imports Go_Url "HOL-Library.Sublist"
begin

unbundle bit_operations_syntax

text \<open>
  \<open>url.Parse\<close> of Go 1.22 (the version of src/go.mod), the escaping it rests on, and the request URI a client
  sends for a parsed URL. The client of \<open>httpjson\<close> parses its base URL and a route
  (\<open>http.NewRequestWithContext\<close>), the server parses the request URI.
\<close>

section \<open>Escaping\<close>

datatype url_mode = EncodePath | EncodeHost | EncodeZone | EncodeUserPassword | EncodeFragment

definition alphanum :: "byte \<Rightarrow> bool" where
  "alphanum c \<longleftrightarrow> 0x61 \<le> c \<and> c \<le> 0x7A \<or> 0x41 \<le> c \<and> c \<le> 0x5A \<or> 0x30 \<le> c \<and> c \<le> 0x39"

definition shouldEscape :: "url_mode \<Rightarrow> byte \<Rightarrow> bool" where
  "shouldEscape mode c =
     (if alphanum c then False
      else if (mode = EncodeHost \<or> mode = EncodeZone) \<and> c \<in> set (lit ''!$&()*+,;=:[]<>'' @ [0x22, 0x27]) then False
      else if c \<in> set (lit ''-_.~'') then False
      else if c \<in> set (lit ''$&+,/:;=?@'') then
        (case mode of
           EncodePath \<Rightarrow> c = 0x3F
         | EncodeUserPassword \<Rightarrow> c \<in> set (lit ''@/?:'')
         | EncodeFragment \<Rightarrow> False
         | _ \<Rightarrow> True)
      else \<not> (mode = EncodeFragment \<and> c \<in> set (lit ''!()*'')))"

definition escape_with :: "url_mode \<Rightarrow> bytes \<Rightarrow> bytes" where
  "escape_with mode s =
     concat (map (\<lambda>c. if shouldEscape mode c then [0x25, upperhex (drop_bit 4 c), upperhex (c AND 0xF)] else [c]) s)"

text \<open>Hexadecimal digits in lower case.\<close>

definition lowerhex :: "byte \<Rightarrow> byte" where
  "lowerhex n = (if n < 10 then 0x30 + n else 0x57 + n)"

datatype url_error = UrlControl | UrlNoScheme | UrlColon | UrlEscape bytes | UrlInvalidHost bytes |
  UrlUserinfo | UrlBracket | UrlPort bytes | UrlEmpty | UrlRequest

fun unescape_with :: "url_mode \<Rightarrow> bytes \<Rightarrow> url_error + bytes" where
  "unescape_with mode [] = Inr []"
| "unescape_with mode (c # r) =
     (if c = 0x25 then
        (case r of
           a # b # r' \<Rightarrow>
             if \<not> (ishex a \<and> ishex b) then Inl (UrlEscape [c, a, b])
             else if mode = EncodeHost \<and> unhex a < 8 \<and> [a, b] \<noteq> lit ''25'' then Inl (UrlEscape [c, a, b])
             else if mode = EncodeZone \<and> [a, b] \<noteq> lit ''25'' \<and> push_bit 4 (unhex a) OR unhex b \<noteq> 0x20 \<and>
               shouldEscape EncodeHost (push_bit 4 (unhex a) OR unhex b) then Inl (UrlEscape [c, a, b])
             else map_sum id (Cons (push_bit 4 (unhex a) OR unhex b)) (unescape_with mode r')
         | _ \<Rightarrow> Inl (UrlEscape (c # r)))
      else if (mode = EncodeHost \<or> mode = EncodeZone) \<and> c < 0x80 \<and> shouldEscape mode c then Inl (UrlInvalidHost [c])
      else map_sum id (Cons c) (unescape_with mode r))"

section \<open>The parts of a URL\<close>

text \<open>A parsed URL; \<open>url_User\<close> holds the user name and, if there is one, the password.\<close>

record go_url =
  url_Scheme :: bytes
  url_Opaque :: bytes
  url_User :: "(bytes \<times> bytes option) option"
  url_Host :: bytes
  url_Path :: bytes
  url_RawPath :: bytes
  url_OmitHost :: bool
  url_ForceQuery :: bool
  url_RawQuery :: bytes
  url_Fragment :: bytes
  url_RawFragment :: bytes

definition zero_url :: go_url where
  "zero_url = \<lparr>url_Scheme = [], url_Opaque = [], url_User = None, url_Host = [], url_Path = [], url_RawPath = [],
     url_OmitHost = False, url_ForceQuery = False, url_RawQuery = [], url_Fragment = [], url_RawFragment = []\<rparr>"

definition letter :: "byte \<Rightarrow> bool" where
  "letter c \<longleftrightarrow> 0x61 \<le> c \<and> c \<le> 0x7A \<or> 0x41 \<le> c \<and> c \<le> 0x5A"

definition digit :: "byte \<Rightarrow> bool" where
  "digit c \<longleftrightarrow> 0x30 \<le> c \<and> c \<le> 0x39"

text \<open>\<open>getScheme\<close>: the loop over the bytes, \<open>seen\<close> being those before the current one. \<open>None\<close> is no scheme.\<close>

fun scheme_loop :: "bytes \<Rightarrow> bytes \<Rightarrow> url_error + (bytes \<times> bytes) option" where
  "scheme_loop seen [] = Inr None"
| "scheme_loop seen (c # r) =
     (if letter c then scheme_loop (seen @ [c]) r
      else if digit c \<or> c \<in> set (lit ''+-.'') then (if seen = [] then Inr None else scheme_loop (seen @ [c]) r)
      else if c = 0x3A then (if seen = [] then Inl UrlNoScheme else Inr (Some (seen, r)))
      else Inr None)"

definition getScheme :: "bytes \<Rightarrow> url_error + bytes \<times> bytes" where
  "getScheme s = map_sum id (\<lambda>x. case x of None \<Rightarrow> ([], s) | Some p \<Rightarrow> p) (scheme_loop [] s)"

definition to_lower :: "bytes \<Rightarrow> bytes" where
  "to_lower s = map (\<lambda>c. if 0x41 \<le> c \<and> c \<le> 0x5A then c + 0x20 else c) s"

text \<open>The parts before and after the last occurrence of a byte, the byte kept with the latter.\<close>

definition before_last :: "byte \<Rightarrow> bytes \<Rightarrow> bytes" where
  "before_last c s = rev (cut_after c (rev s))"

definition from_last :: "byte \<Rightarrow> bytes \<Rightarrow> bytes" where
  "from_last c s = drop (length (before_last c s)) s"

definition validOptionalPort :: "bytes \<Rightarrow> bool" where
  "validOptionalPort s \<longleftrightarrow> s = [] \<or> hd s = 0x3A \<and> list_all digit (tl s)"

text \<open>The first position of a literal in a byte string, as \<open>strings.Index\<close>.\<close>

fun index_of :: "bytes \<Rightarrow> bytes \<Rightarrow> nat option" where
  "index_of t s = (if prefix t s then Some 0 else case s of [] \<Rightarrow> None | _ # r \<Rightarrow> map_option Suc (index_of t r))"

declare index_of.simps [simp del]

definition try_bind :: "'e + 'a \<Rightarrow> ('a \<Rightarrow> 'e + 'b) \<Rightarrow> 'e + 'b" where
  "try_bind m f = (case m of Inl e \<Rightarrow> Inl e | Inr x \<Rightarrow> f x)"

definition parseHost :: "bytes \<Rightarrow> url_error + bytes" where
  "parseHost host =
     (if prefix (lit ''['') host then
        (if 0x5D \<notin> set host then Inl UrlBracket
         else let literal = before_last 0x5D host; colonPort = tl (from_last 0x5D host) in
           if \<not> validOptionalPort colonPort then Inl (UrlPort colonPort)
           else case index_of (lit ''%25'') literal of
             Some zone \<Rightarrow>
               try_bind (unescape_with EncodeHost (take zone host)) (\<lambda>host1.
               try_bind (unescape_with EncodeZone (drop zone literal)) (\<lambda>host2.
               try_bind (unescape_with EncodeHost (drop (length literal) host)) (\<lambda>host3.
               Inr (host1 @ host2 @ host3))))
           | None \<Rightarrow> unescape_with EncodeHost host)
      else if 0x3A \<in> set host \<and> \<not> validOptionalPort (from_last 0x3A host) then Inl (UrlPort (from_last 0x3A host))
      else unescape_with EncodeHost host)"

definition validUserinfo :: "bytes \<Rightarrow> bool" where
  "validUserinfo s \<longleftrightarrow> list_all (\<lambda>c. alphanum c \<or> c \<in> set (lit ''-._:~!$&()*+,;=%@'' @ [0x27])) s"

definition parseUser :: "bytes \<Rightarrow> url_error + bytes \<times> bytes option" where
  "parseUser userinfo =
     (if \<not> validUserinfo userinfo then Inl UrlUserinfo
      else if 0x3A \<notin> set userinfo then
        try_bind (unescape_with EncodeUserPassword userinfo) (\<lambda>user. Inr (user, None))
      else
        try_bind (unescape_with EncodeUserPassword (cut_before 0x3A userinfo)) (\<lambda>user.
        try_bind (unescape_with EncodeUserPassword (cut_after 0x3A userinfo)) (\<lambda>password.
        Inr (user, Some password))))"

definition parseAuthority :: "bytes \<Rightarrow> url_error + (bytes \<times> bytes option) option \<times> bytes" where
  "parseAuthority authority =
     (if 0x40 \<notin> set authority then try_bind (parseHost authority) (\<lambda>host. Inr (None, host))
      else
        try_bind (parseHost (tl (from_last 0x40 authority))) (\<lambda>host.
        try_bind (parseUser (before_last 0x40 authority)) (\<lambda>user. Inr (Some user, host))))"

section \<open>Parsing\<close>

definition setPath :: "bytes \<Rightarrow> go_url \<Rightarrow> url_error + go_url" where
  "setPath p u =
     try_bind (unescape_with EncodePath p) (\<lambda>path.
       Inr (u\<lparr>url_Path := path, url_RawPath := (if p = escape_with EncodePath path then [] else p)\<rparr>))"

definition control_byte :: "byte \<Rightarrow> bool" where
  "control_byte c \<longleftrightarrow> c < 0x20 \<or> c = 0x7F"

text \<open>The query: a lone final question mark is remembered as \<open>ForceQuery\<close>.\<close>

definition split_query :: "bytes \<Rightarrow> bytes \<times> bool \<times> bytes" where
  "split_query rest =
     (if rest \<noteq> [] \<and> last rest = 0x3F \<and> count_list rest 0x3F = 1 then (butlast rest, True, [])
      else (cut_before 0x3F rest, False, cut_after 0x3F rest))"

text \<open>The authority and the path, once scheme and query are cut off.\<close>

definition parse_hier :: "bool \<Rightarrow> bytes \<Rightarrow> go_url \<Rightarrow> url_error + go_url" where
  "parse_hier viaRequest rest url =
     (if (url_Scheme url \<noteq> [] \<or> \<not> viaRequest \<and> \<not> prefix (lit ''///'') rest) \<and> prefix (lit ''//'') rest then
        (let authority = cut_before 0x2F (drop 2 rest); path = dropWhile (\<lambda>c. c \<noteq> 0x2F) (drop 2 rest) in
          try_bind (parseAuthority authority) (\<lambda>(user, host).
          setPath path (url\<lparr>url_User := user, url_Host := host\<rparr>)))
      else if url_Scheme url \<noteq> [] \<and> prefix (lit ''/'') rest then setPath rest (url\<lparr>url_OmitHost := True\<rparr>)
      else setPath rest url)"

definition parse_url :: "bool \<Rightarrow> bytes \<Rightarrow> url_error + go_url" where
  "parse_url viaRequest rawURL =
     (if list_ex control_byte rawURL then Inl UrlControl
      else if rawURL = [] \<and> viaRequest then Inl UrlEmpty
      else if rawURL = lit ''*'' then Inr (zero_url\<lparr>url_Path := lit ''*''\<rparr>)
      else try_bind (getScheme rawURL) (\<lambda>(scheme, rest0).
        let (rest, force, query) = split_query rest0;
            url = zero_url\<lparr>url_Scheme := to_lower scheme, url_ForceQuery := force, url_RawQuery := query\<rparr>
        in if \<not> prefix (lit ''/'') rest \<and> url_Scheme url \<noteq> [] then Inr (url\<lparr>url_Opaque := rest\<rparr>)
           else if \<not> prefix (lit ''/'') rest \<and> viaRequest then Inl UrlRequest
           else if \<not> prefix (lit ''/'') rest \<and> 0x3A \<in> set (cut_before 0x2F rest) then Inl UrlColon
           else parse_hier viaRequest rest url))"

definition setFragment :: "bytes \<Rightarrow> go_url \<Rightarrow> url_error + go_url" where
  "setFragment f u =
     try_bind (unescape_with EncodeFragment f) (\<lambda>frag.
       Inr (u\<lparr>url_Fragment := frag, url_RawFragment := (if f = escape_with EncodeFragment frag then [] else f)\<rparr>))"

text \<open>\<open>url.Parse\<close> and \<open>url.ParseRequestURI\<close>; the error of the former names the text it is about.\<close>

definition url_Parse :: "bytes \<Rightarrow> bytes \<times> url_error + go_url" where
  "url_Parse rawURL =
     try_bind (map_sum (Pair (cut_before 0x23 rawURL)) id (parse_url False (cut_before 0x23 rawURL))) (\<lambda>url.
       if cut_after 0x23 rawURL = [] then Inr url
       else map_sum (Pair rawURL) id (setFragment (cut_after 0x23 rawURL) url))"

definition url_ParseRequestURI :: "bytes \<Rightarrow> url_error + go_url" where
  "url_ParseRequestURI rawURL = parse_url True rawURL"

section \<open>Back to text\<close>

definition validEncoded :: "url_mode \<Rightarrow> bytes \<Rightarrow> bool" where
  "validEncoded mode s \<longleftrightarrow>
     list_all (\<lambda>c. c \<in> set (lit ''!$&()*+,;=:@[]%'' @ [0x27]) \<or> \<not> shouldEscape mode c) s"

definition EscapedPath :: "go_url \<Rightarrow> bytes" where
  "EscapedPath u =
     (if url_RawPath u \<noteq> [] \<and> validEncoded EncodePath (url_RawPath u) \<and>
         unescape_with EncodePath (url_RawPath u) = Inr (url_Path u) then url_RawPath u
      else if url_Path u = lit ''*'' then lit ''*''
      else escape_with EncodePath (url_Path u))"

definition RequestURI :: "go_url \<Rightarrow> bytes" where
  "RequestURI u =
     (if url_Opaque u = [] then (if EscapedPath u = [] then lit ''/'' else EscapedPath u)
      else if prefix (lit ''//'') (url_Opaque u) then url_Scheme u @ lit '':'' @ url_Opaque u
      else url_Opaque u) @
     (if url_ForceQuery u \<or> url_RawQuery u \<noteq> [] then 0x3F # url_RawQuery u else [])"

definition EscapedFragment :: "go_url \<Rightarrow> bytes" where
  "EscapedFragment u =
     (if url_RawFragment u \<noteq> [] \<and> validEncoded EncodeFragment (url_RawFragment u) \<and>
         unescape_with EncodeFragment (url_RawFragment u) = Inr (url_Fragment u) then url_RawFragment u
      else escape_with EncodeFragment (url_Fragment u))"

definition Userinfo_String :: "bytes \<times> bytes option \<Rightarrow> bytes" where
  "Userinfo_String ui = escape_with EncodeUserPassword (fst ui) @
     (case snd ui of None \<Rightarrow> [] | Some password \<Rightarrow> 0x3A # escape_with EncodeUserPassword password)"

text \<open>\<open>URL.String\<close>.\<close>

definition url_authority_text :: "go_url \<Rightarrow> bytes" where
  "url_authority_text u =
     (if url_Scheme u = [] \<and> url_Host u = [] \<and> url_User u = None \<or>
         url_OmitHost u \<and> url_Host u = [] \<and> url_User u = None then []
      else (if url_Host u \<noteq> [] \<or> url_Path u \<noteq> [] \<or> url_User u \<noteq> None then lit ''//'' else []) @
        (case url_User u of None \<Rightarrow> [] | Some ui \<Rightarrow> Userinfo_String ui @ lit ''@'') @
        escape_with EncodeHost (url_Host u))"

definition URL_String :: "go_url \<Rightarrow> bytes" where
  "URL_String u =
     (let scheme = (if url_Scheme u = [] then [] else url_Scheme u @ lit '':''); path = EscapedPath u;
          front = scheme @ url_authority_text u @
            (if path \<noteq> [] \<and> hd path \<noteq> 0x2F \<and> url_Host u \<noteq> [] then lit ''/'' else [])
      in (if url_Opaque u \<noteq> [] then scheme @ url_Opaque u
          else front @ (if front = [] \<and> 0x3A \<in> set (cut_before 0x2F path) then lit ''./'' else []) @ path) @
         (if url_ForceQuery u \<or> url_RawQuery u \<noteq> [] then 0x3F # url_RawQuery u else []) @
         (if url_Fragment u \<noteq> [] then 0x23 # EscapedFragment u else []))"

section \<open>References\<close>

text \<open>The pieces between the separators.\<close>

fun split_on :: "byte \<Rightarrow> bytes \<Rightarrow> bytes list" where
  "split_on sep [] = [[]]"
| "split_on sep (c # r) =
     (if c = sep then [] # split_on sep r
      else case split_on sep r of h # t \<Rightarrow> (c # h) # t | [] \<Rightarrow> [[c]])"

text \<open>\<open>resolvePath\<close>: the loop over the elements of the full path, with the text written so far (its first slash
  included) and whether the next element is the first.\<close>

fun resolve_elems :: "bytes \<Rightarrow> bool \<Rightarrow> bytes list \<Rightarrow> bytes" where
  "resolve_elems dst first [] = dst"
| "resolve_elems dst first (elem # elems) =
     (if elem = lit ''.'' then resolve_elems dst False elems
      else if elem = lit ''..'' then
        (if 0x2F \<notin> set (tl dst) then resolve_elems (lit ''/'') True elems
         else resolve_elems (0x2F # before_last 0x2F (tl dst)) first elems)
      else resolve_elems (dst @ (if first then [] else lit ''/'') @ elem) False elems)"

definition resolvePath :: "bytes \<Rightarrow> bytes \<Rightarrow> bytes" where
  "resolvePath base ref =
     (let full = (if ref = [] then base
          else if hd ref \<noteq> 0x2F then (if 0x2F \<in> set base then before_last 0x2F base @ lit ''/'' else []) @ ref
          else ref)
      in if full = [] then []
         else let elems = split_on 0x2F full; dst = resolve_elems (lit ''/'') True elems;
             r = (if last elems = lit ''.'' \<or> last elems = lit ''..'' then dst @ lit ''/'' else dst)
           in if prefix (lit ''//'') r then tl r else r)"

text \<open>\<open>URL.ResolveReference\<close>; the path given to \<open>setPath\<close> is validly escaped, and its error is ignored as in Go.\<close>

definition set_resolved :: "bytes \<Rightarrow> go_url \<Rightarrow> go_url" where
  "set_resolved p u = (case setPath p u of Inr v \<Rightarrow> v | Inl e \<Rightarrow> u)"

definition ResolveReference :: "go_url \<Rightarrow> go_url \<Rightarrow> go_url" where
  "ResolveReference u ref =
     (let url = (if url_Scheme ref = [] then ref\<lparr>url_Scheme := url_Scheme u\<rparr> else ref)
      in if url_Scheme ref \<noteq> [] \<or> url_Host ref \<noteq> [] \<or> url_User ref \<noteq> None
         then set_resolved (resolvePath (EscapedPath ref) []) url
         else if url_Opaque ref \<noteq> [] then url\<lparr>url_User := None, url_Host := [], url_Path := []\<rparr>
         else
           let bare = url_Path ref = [] \<and> \<not> url_ForceQuery ref \<and> url_RawQuery ref = [];
               url1 = (if bare then url\<lparr>url_RawQuery := url_RawQuery u\<rparr> else url);
               url2 = (if bare \<and> url_Fragment ref = []
                 then url1\<lparr>url_Fragment := url_Fragment u, url_RawFragment := url_RawFragment u\<rparr> else url1)
           in set_resolved (resolvePath (EscapedPath u) (EscapedPath ref))
             (url2\<lparr>url_Host := url_Host u, url_User := url_User u\<rparr>))"

definition URL_Parse :: "go_url \<Rightarrow> bytes \<Rightarrow> bytes \<times> url_error + go_url" where
  "URL_Parse u text = map_sum id (ResolveReference u) (url_Parse text)"

section \<open>Facts about escaping\<close>

lemma try_bind_simps [simp]: "try_bind (Inl e) f = Inl e" "try_bind (Inr x) f = f x"
  by (simp_all add: try_bind_def)

lemma try_bind_Inr [simp]: "try_bind m f = Inr y \<longleftrightarrow> (\<exists>x. m = Inr x \<and> f x = Inr y)"
  by (cases m) simp_all

lemma map_sum_Inr [simp]: "map_sum f g m = Inr y \<longleftrightarrow> (\<exists>x. m = Inr x \<and> g x = y)"
  by (cases m) auto

lemma unescape_path_Nil: "unescape_with EncodePath [] = Inr []" by simp

lemma unescape_path_Cons:
  "c \<noteq> 0x25 \<Longrightarrow> unescape_with EncodePath (c # r) = map_sum id (Cons c) (unescape_with EncodePath r)"
  by simp

lemma unescape_path_hex:
  "ishex a \<Longrightarrow> ishex b \<Longrightarrow> unescape_with EncodePath (0x25 # a # b # r) =
     map_sum id (Cons (push_bit 4 (unhex a) OR unhex b)) (unescape_with EncodePath r)"
  by simp

lemma unescape_path_hexD:
  "unescape_with EncodePath (0x25 # r) = Inr p \<Longrightarrow> \<exists>a b r' p'. r = a # b # r' \<and> ishex a \<and> ishex b \<and>
     unescape_with EncodePath r' = Inr p' \<and> p = (push_bit 4 (unhex a) OR unhex b) # p'"
  by (auto split: list.splits if_splits)

declare unescape_with.simps [simp del]

lemma unescape_path_plain: "0x25 \<notin> set s \<Longrightarrow> unescape_with EncodePath s = Inr s"
  by (induction s) (auto simp: unescape_path_Cons unescape_path_Nil)

lemma unescape_path_append:
  "unescape_with EncodePath s = Inr p \<Longrightarrow> 0x25 \<notin> set x \<Longrightarrow> unescape_with EncodePath (s @ x) = Inr (p @ x)"
proof (induction s arbitrary: p rule: length_induct)
  case (1 s)
  show ?case
  proof (cases s)
    case Nil
    with 1 show ?thesis by (simp add: unescape_path_Nil unescape_path_plain)
  next
    case (Cons c r)
    show ?thesis
    proof (cases "c = 0x25")
      case True
      with 1(2) Cons obtain a b r' p' where r: "r = a # b # r'" "ishex a" "ishex b" "unescape_with EncodePath r' = Inr p'"
          "p = (push_bit 4 (unhex a) OR unhex b) # p'"
        using unescape_path_hexD by blast
      with 1(1) Cons 1(3) have "unescape_with EncodePath (r' @ x) = Inr (p' @ x)" by simp
      with r Cons True show ?thesis by (simp add: unescape_path_hex)
    next
      case False
      with 1 Cons show ?thesis by (auto simp: unescape_path_Cons)
    qed
  qed
qed

lemma escape_append: "escape_with m (s @ t) = escape_with m s @ escape_with m t"
  by (simp add: escape_with_def)

lemma escape_plain: "list_all (\<lambda>c. \<not> shouldEscape m c) s \<Longrightarrow> escape_with m s = s"
  by (induction s) (auto simp: escape_with_def)

lemma percent_escaped: "shouldEscape m 0x25"
  by (cases m) (simp_all add: shouldEscape_def alphanum_def lit_def)

lemma unescape_path_escape: "unescape_with EncodePath (escape_with EncodePath s @ r) = map_sum id ((@) s) (unescape_with EncodePath r)"
proof (induction s)
  case Nil
  then show ?case by (cases "unescape_with EncodePath r") (simp_all add: escape_with_def)
next
  case (Cons c s)
  show ?case
  proof (cases "shouldEscape EncodePath c")
    case True
    then show ?thesis using Cons escaped_hex [of c]
      by (cases "unescape_with EncodePath r") (simp_all add: escape_with_def unescape_path_hex)
  next
    case False
    then have "c \<noteq> 0x25" using percent_escaped by metis
    then show ?thesis using Cons False
      by (cases "unescape_with EncodePath r") (simp_all add: escape_with_def unescape_path_Cons)
  qed
qed



section \<open>A base URL and what is appended to it\<close>

lemma scheme_loop_append:
  "scheme_loop seen s = Inr (Some (scheme, rest)) \<Longrightarrow> scheme_loop seen (s @ x) = Inr (Some (scheme, rest @ x))"
  by (induction seen s rule: scheme_loop.induct) (auto split: if_splits)

lemma scheme_loop_rest:
  "scheme_loop seen s = Inr (Some (scheme, rest)) \<Longrightarrow> set rest \<subseteq> set s \<and> scheme \<noteq> []"
  by (induction seen s rule: scheme_loop.induct) (auto split: if_splits)

lemma to_lower_Nil [simp]: "to_lower s = [] \<longleftrightarrow> s = []"
  by (simp add: to_lower_def)

lemma split_query_plain: "0x3F \<notin> set s \<Longrightarrow> split_query s = (s, False, [])"
  by (cases "s = []") (auto simp: split_query_def cut_clean)

definition query_text :: "bytes \<Rightarrow> bytes" where
  "query_text q = (if q = [] then [] else 0x3F # q)"

lemma query_text_Nil [simp]: "query_text [] = []"
  by (simp add: query_text_def)

lemma split_query_text: "0x3F \<notin> set s \<Longrightarrow> split_query (s @ query_text q) = (s, False, q)"
proof (cases "q = []")
  case False
  assume s: "0x3F \<notin> set s"
  have "last q = 0x3F \<Longrightarrow> count_list q 0x3F \<noteq> 0" using False by (metis count_list_0_iff last_in_set)
  moreover have "cut_before 0x3F (s @ 0x3F # q) = s \<and> cut_after 0x3F (s @ 0x3F # q) = q" by (rule cut_at [OF s])
  ultimately show ?thesis using False s by (auto simp: split_query_def query_text_def)
qed (simp add: query_text_def split_query_plain)

definition raw_path :: "go_url \<Rightarrow> bytes" where
  "raw_path u = (if url_RawPath u = [] then escape_with EncodePath (url_Path u) else url_RawPath u)"

lemma setPath_raw_path:
  assumes "setPath p v = Inr u"
  shows "raw_path u = p" and "unescape_with EncodePath p = Inr (url_Path u)"
    and "u = v\<lparr>url_Path := url_Path u, url_RawPath := url_RawPath u\<rparr>"
proof -
  from assms obtain path where a: "unescape_with EncodePath p = Inr path"
      "u = v\<lparr>url_Path := path, url_RawPath := (if p = escape_with EncodePath path then [] else p)\<rparr>"
    by (auto simp: setPath_def)
  then have u: "url_Path u = path" "url_RawPath u = (if p = escape_with EncodePath path then [] else p)" by simp_all
  show "unescape_with EncodePath p = Inr (url_Path u)" using a(1) u(1) by simp
  show "u = v\<lparr>url_Path := url_Path u, url_RawPath := url_RawPath u\<rparr>" unfolding u by (rule a(2))
  have "p = [] \<Longrightarrow> path = []" using a(1) by (simp add: unescape_path_Nil)
  then have "p = [] \<Longrightarrow> p = escape_with EncodePath path" by (simp add: escape_with_def)
  then show "raw_path u = p" unfolding raw_path_def u by (cases "p = escape_with EncodePath path") auto
qed

lemma setPath_keeps: "setPath p v = Inr u \<Longrightarrow> url_User u = url_User v \<and> url_Host u = url_Host v \<and>
    url_Opaque u = url_Opaque v \<and> url_ForceQuery u = url_ForceQuery v \<and> url_RawQuery u = url_RawQuery v"
  by (auto simp: setPath_def)

lemma setPath_append:
  assumes "setPath p v = Inr u" and "list_all (\<lambda>c. \<not> shouldEscape EncodePath c) x"
  shows "setPath (p @ x) v = Inr (u\<lparr>url_Path := url_Path u @ x,
     url_RawPath := if url_RawPath u = [] then [] else url_RawPath u @ x\<rparr>)"
proof -
  have "0x25 \<notin> set x" using assms(2) percent_escaped [of EncodePath] by (auto simp: list_all_iff)
  then have "unescape_with EncodePath (p @ x) = Inr (url_Path u @ x)"
    using setPath_raw_path(2) [OF assms(1)] by (rule unescape_path_append [rotated])
  moreover have "u = v\<lparr>url_Path := url_Path u, url_RawPath := if p = escape_with EncodePath (url_Path u) then [] else p\<rparr>"
    using assms(1) by (auto simp: setPath_def)
  ultimately show ?thesis using assms(2)
    using setPath_raw_path(1) [OF assms(1)] raw_path_def [of u]
    by (cases u; cases v) (auto simp: setPath_def escape_append escape_plain)
qed

lemma parse_url_rooted:
  assumes "\<not> list_ex control_byte s" and "s \<noteq> lit ''*''" and "s \<noteq> []" and "getScheme s = Inr (scheme, rest0)"
    and "split_query rest0 = (rest, force, query)"
  shows "parse_url via s =
    (let url = zero_url\<lparr>url_Scheme := to_lower scheme, url_ForceQuery := force, url_RawQuery := query\<rparr> in
     if prefix (lit ''/'') rest then parse_hier via rest url
     else if scheme \<noteq> [] then Inr (url\<lparr>url_Opaque := rest\<rparr>)
     else if via then Inl UrlRequest
     else if 0x3A \<in> set (cut_before 0x2F rest) then Inl UrlColon
     else parse_hier via rest url)"
  using assms by (simp add: parse_url_def Let_def zero_url_def)

text \<open>A base URL: scheme and host, no query and no fragment; its path may be anything.\<close>

definition base_url :: "bytes \<Rightarrow> go_url \<Rightarrow> bool" where
  "base_url b u \<longleftrightarrow> url_Parse b = Inr u \<and> url_Scheme u \<noteq> [] \<and> url_Host u \<noteq> [] \<and> 0x3F \<notin> set b \<and> 0x23 \<notin> set b"

lemma base_url_parts:
  assumes "base_url b u"
  obtains scheme rest path where "scheme_loop [] b = Inr (Some (scheme, 0x2F # 0x2F # rest))"
    and "set rest \<subseteq> set b" and "path = dropWhile (\<lambda>c. c \<noteq> 0x2F) rest"
    and "parseAuthority (cut_before 0x2F rest) = Inr (url_User u, url_Host u)"
    and "setPath path (zero_url\<lparr>url_Scheme := to_lower scheme, url_User := url_User u, url_Host := url_Host u\<rparr>) = Inr u"
    and "\<not> list_ex control_byte b"
proof -
  have clean: "0x3F \<notin> set b" "0x23 \<notin> set b" using assms by (simp_all add: base_url_def)
  have p: "parse_url False b = Inr u"
    using assms cut_clean [OF clean(2)] by (auto simp: base_url_def url_Parse_def)
  then have ctl: "\<not> list_ex control_byte b" by (auto simp: parse_url_def split: if_splits)
  have "\<not> list_ex control_byte (lit ''*'')" by (simp add: lit_def control_byte_def)
  then have "b \<noteq> lit ''*''" using p assms by (auto simp: parse_url_def base_url_def zero_url_def)
  have nonempty: "b \<noteq> []" using assms by (auto simp: base_url_def url_Parse_def parse_url_def cut_before_def cut_after_def
    getScheme_def split_query_def lit_def parse_hier_def setPath_def zero_url_def)
  from p ctl \<open>b \<noteq> lit ''*''\<close> obtain scheme rest where s: "getScheme b = Inr (scheme, rest)" by (auto simp: parse_url_def)
  have sub: "set rest \<subseteq> set b" using s scheme_loop_rest [of "[]" b]
    by (auto simp: getScheme_def split: option.splits)
  with clean have q: "split_query rest = (rest, False, [])" by (intro split_query_plain) auto
  let ?v = "zero_url\<lparr>url_Scheme := to_lower scheme, url_ForceQuery := False, url_RawQuery := []\<rparr>"
  note parse = parse_url_rooted [OF ctl \<open>b \<noteq> lit ''*''\<close> nonempty s q, of False]
  have slash: "prefix (lit ''/'') rest"
  proof (rule ccontr)
    assume "\<not> prefix (lit ''/'') rest"
    moreover from this have "\<not> prefix (lit ''//'') rest" by (cases rest) (auto simp: lit_def)
    ultimately show False using p parse assms
      by (auto simp: base_url_def zero_url_def parse_hier_def setPath_def Let_def split: if_splits)
  qed
  with p parse have h: "parse_hier False rest ?v = Inr u" by (simp add: Let_def)
  have "to_lower [] = []" by (simp add: to_lower_def)
  with h assms have scheme: "scheme \<noteq> []"
    by (auto simp: parse_hier_def base_url_def setPath_def zero_url_def Let_def split: if_splits prod.splits)
  have two: "prefix (lit ''//'') rest" using h assms
    by (auto simp: parse_hier_def base_url_def setPath_def zero_url_def split: if_splits)
  then obtain rest2 where r: "rest = 0x2F # 0x2F # rest2" by (auto simp: prefix_def lit_def)
  show thesis
  proof (rule that [of scheme rest2 "dropWhile (\<lambda>c. c \<noteq> 0x2F) rest2"])
    show "scheme_loop [] b = Inr (Some (scheme, 0x2F # 0x2F # rest2))"
      using s scheme r by (auto simp: getScheme_def split: option.splits)
    show "set rest2 \<subseteq> set b" using sub r by auto
    obtain user host where a: "parseAuthority (cut_before 0x2F rest2) = Inr (user, host)"
        "setPath (dropWhile (\<lambda>c. c \<noteq> 0x2F) rest2) (?v\<lparr>url_User := user, url_Host := host\<rparr>) = Inr u"
      using h two r scheme by (auto simp: parse_hier_def zero_url_def split: if_splits)
    then have "url_User u = user" "url_Host u = host"
      using setPath_keeps [OF a(2)] by simp_all
    with a show "parseAuthority (cut_before 0x2F rest2) = Inr (url_User u, url_Host u)"
      "setPath (dropWhile (\<lambda>c. c \<noteq> 0x2F) rest2) (zero_url\<lparr>url_Scheme := to_lower scheme,
         url_User := url_User u, url_Host := url_Host u\<rparr>) = Inr u"
      by (simp_all add: zero_url_def)
  qed (use ctl in simp_all)
qed


lemma takeWhile_tail_slash: "takeWhile (\<lambda>c. c \<noteq> a) (s @ a # x) = takeWhile (\<lambda>c. c \<noteq> a) s"
  by (induction s) simp_all

lemma dropWhile_tail_slash: "dropWhile (\<lambda>c. c \<noteq> a) (s @ a # x) = dropWhile (\<lambda>c. c \<noteq> a) s @ a # x"
  by (induction s) simp_all

lemma raw_path_root: "url_Path u = [] \<Longrightarrow> setPath p v = Inr u \<Longrightarrow> p = [] \<and> url_RawPath u = []"
proof -
  assume u: "url_Path u = []" and "setPath p v = Inr u"
  then have p: "unescape_with EncodePath p = Inr []" "raw_path u = p" using setPath_raw_path [of p v u] by simp_all
  have "p = []"
  proof (cases p)
    case (Cons c r)
    with p(1) show ?thesis
      by (cases "c = 0x25") (auto simp: unescape_path_Cons dest: unescape_path_hexD)
  qed simp
  with p(2) show ?thesis by (auto simp: raw_path_def split: if_splits)
qed

text \<open>The URL of a route: the path goes to the end of the base's path, the query is kept as it is.\<close>

theorem url_Parse_route:
  assumes "base_url b u" and "list_all (\<lambda>c. \<not> shouldEscape EncodePath c \<and> c \<noteq> 0x23 \<and> c \<noteq> 0x3F) (0x2F # x)"
    and "0x23 \<notin> set q" and "\<not> list_ex control_byte (x @ q)"
  shows "url_Parse (b @ 0x2F # x @ query_text q) = Inr (u\<lparr>url_Path := url_Path u @ 0x2F # x,
     url_RawPath := (if url_RawPath u = [] then [] else url_RawPath u @ 0x2F # x), url_RawQuery := q\<rparr>)"
proof -
  let ?x = "0x2F # x"
  from assms(1) obtain scheme rest path where b: "scheme_loop [] b = Inr (Some (scheme, 0x2F # 0x2F # rest))"
      "set rest \<subseteq> set b" "path = dropWhile (\<lambda>c. c \<noteq> 0x2F) rest"
      "parseAuthority (cut_before 0x2F rest) = Inr (url_User u, url_Host u)"
      "setPath path (zero_url\<lparr>url_Scheme := to_lower scheme, url_User := url_User u, url_Host := url_Host u\<rparr>) = Inr u"
      "\<not> list_ex control_byte b"
    by (rule base_url_parts)
  have clean: "0x3F \<notin> set b" "0x23 \<notin> set b" using assms(1) by (simp_all add: base_url_def)
  let ?t = "b @ ?x @ query_text q"
  have "0x23 \<notin> set ?t" using clean assms(2,3) by (auto simp: query_text_def list_all_iff)
  then have cut: "cut_before 0x23 ?t = ?t" "cut_after 0x23 ?t = []" using cut_clean by blast+
  have ctl: "\<not> list_ex control_byte ?t" using b(6) assms(4) by (auto simp: query_text_def control_byte_def)
  have star: "?t \<noteq> lit ''*''"
  proof
    assume "?t = lit ''*''"
    then have "length ?t = 1" by simp
    then have "b = []" by simp
    with b(1) show False by simp
  qed
  have gs: "getScheme ?t = Inr (scheme, 0x2F # 0x2F # rest @ ?x @ query_text q)"
    using scheme_loop_append [OF b(1), of "?x @ query_text q"] by (simp add: getScheme_def)
  have scheme: "scheme \<noteq> []" using scheme_loop_rest [OF b(1)] by simp
  have sq: "split_query (0x2F # 0x2F # rest @ ?x @ query_text q) = (0x2F # 0x2F # rest @ ?x, False, q)"
  proof -
    have "0x3F \<notin> set (0x2F # 0x2F # rest @ ?x)" using clean(1) b(2) assms(2) by (auto simp: list_all_iff)
    from split_query_text [OF this] show ?thesis by simp
  qed
  have "?t \<noteq> []" by simp
  note rooted = parse_url_rooted [OF ctl star this gs sq, of False]
  have "cut_before 0x2F (rest @ ?x) = cut_before 0x2F rest"
      "dropWhile (\<lambda>c. c \<noteq> 0x2F) (rest @ ?x) = path @ ?x"
    by (simp_all add: cut_before_def b(3) takeWhile_tail_slash dropWhile_tail_slash)
  then have "parse_url False ?t = setPath (path @ ?x) (zero_url\<lparr>url_Scheme := to_lower scheme, url_RawQuery := q,
      url_User := url_User u, url_Host := url_Host u\<rparr>)"
    using b(4) scheme unfolding rooted by (simp add: parse_hier_def lit_def zero_url_def Let_def)
  also have "\<dots> = map_sum id (url_RawQuery_update (\<lambda>_. q)) (setPath (path @ ?x)
      (zero_url\<lparr>url_Scheme := to_lower scheme, url_User := url_User u, url_Host := url_Host u\<rparr>))"
    by (simp add: setPath_def try_bind_def zero_url_def split: sum.split)
  also have "setPath (path @ ?x) (zero_url\<lparr>url_Scheme := to_lower scheme, url_User := url_User u, url_Host := url_Host u\<rparr>) =
      Inr (u\<lparr>url_Path := url_Path u @ ?x, url_RawPath := if url_RawPath u = [] then [] else url_RawPath u @ ?x\<rparr>)"
    using assms(2) by (intro setPath_append [OF b(5)]) (auto simp: list_all_iff)
  finally show ?thesis using cut by (simp add: url_Parse_def)
qed

section \<open>The request URI\<close>

definition uri_byte :: "byte \<Rightarrow> bool" where
  "uri_byte c \<longleftrightarrow> \<not> control_byte c \<and> c \<noteq> 0x3F \<and> c \<noteq> 0x23"

lemma alphanum_uri: "alphanum c \<Longrightarrow> uri_byte c"
  by (auto simp: alphanum_def uri_byte_def control_byte_def word_le_nat_alt word_less_nat_alt)

lemma path_byte_uri: "\<not> shouldEscape EncodePath c \<Longrightarrow> uri_byte c"
  using alphanum_uri [of c]
  by (cases "alphanum c") (auto simp: shouldEscape_def uri_byte_def control_byte_def lit_def split: if_splits)

lemma hex_byte_uri: "c < 16 \<Longrightarrow> uri_byte (upperhex c) \<and> upperhex c \<noteq> 0x2F"
proof -
  have "list_all (\<lambda>n. uri_byte (upperhex (word_of_nat n)) \<and> upperhex (word_of_nat n) \<noteq> 0x2F) [0..<16]" by code_simp
  then show "c < 16 \<Longrightarrow> uri_byte (upperhex c) \<and> upperhex c \<noteq> 0x2F" by (rule nibble_cases)
qed

lemma escaped_path_uri: "list_all uri_byte (escape_with EncodePath s)"
proof -
  have "uri_byte 0x25" by (simp add: uri_byte_def control_byte_def)
  then show ?thesis using hex_byte_uri nibbles path_byte_uri by (induction s) (auto simp: escape_with_def)
qed

lemma valid_path_uri: "validEncoded EncodePath s \<Longrightarrow> list_all uri_byte s"
proof -
  have "list_all uri_byte (lit ''!$&()*+,;=:@[]%'' @ [0x27])" by code_simp
  then show "validEncoded EncodePath s \<Longrightarrow> list_all uri_byte s"
    using path_byte_uri unfolding validEncoded_def list_all_iff by blast
qed

lemma EscapedPath_uri: "list_all uri_byte (EscapedPath u)"
  using escaped_path_uri valid_path_uri by (auto simp: EscapedPath_def uri_byte_def control_byte_def lit_def)

lemma unescape_path_escaped: "unescape_with EncodePath (escape_with EncodePath s) = Inr s"
  using unescape_path_escape [of s "[]"] by (simp add: unescape_path_Nil)

lemma slash_path_byte: "\<not> shouldEscape EncodePath 0x2F"
  by (simp add: shouldEscape_def alphanum_def lit_def)

lemma escape_slash: "escape_with EncodePath (0x2F # s) = 0x2F # escape_with EncodePath s"
  by (simp add: escape_with_def slash_path_byte)

text \<open>The escaped path of a rooted path: what the client sends and the server reads back.\<close>

lemma EscapedPath_rooted:
  assumes "url_Path u = 0x2F # r" and "raw_path u = 0x2F # r'"
  shows "\<exists>e. EscapedPath u = 0x2F # e" and "unescape_with EncodePath (EscapedPath u) = Inr (url_Path u)"
  using assms unescape_path_escaped [of "url_Path u"]
  by (auto simp: EscapedPath_def raw_path_def lit_def escape_slash split: if_splits)

lemma query_text_control: "list_ex control_byte (query_text q) \<longleftrightarrow> list_ex control_byte q"
  by (simp add: query_text_def control_byte_def)

lemma ParseRequestURI_rooted:
  assumes "list_all uri_byte (0x2F # r)" and "\<not> list_ex control_byte q"
  shows "url_ParseRequestURI ((0x2F # r) @ query_text q) = setPath (0x2F # r) (zero_url\<lparr>url_RawQuery := q\<rparr>)"
proof -
  let ?s = "(0x2F # r) @ query_text q"
  have "\<not> list_ex control_byte (0x2F # r)" using assms(1) by (auto simp: uri_byte_def list_all_iff list_ex_iff)
  then have ctl: "\<not> list_ex control_byte ?s" using assms(2) by (simp add: query_text_control)
  have star: "?s \<noteq> lit ''*''" by (simp add: lit_def)
  have ne: "?s \<noteq> []" by simp
  have "getScheme ?s = Inr ([], ?s)" by (simp add: getScheme_def letter_def digit_def lit_def)
  note rooted = parse_url_rooted [OF ctl star ne this, of "0x2F # r" False q True]
  have "0x3F \<notin> set (0x2F # r)" using assms(1) by (auto simp: uri_byte_def list_all_iff)
  from split_query_text [OF this] show ?thesis
    by (simp add: url_ParseRequestURI_def rooted [simplified] parse_hier_def lit_def zero_url_def to_lower_def)
qed

lemma setPath_total: "unescape_with EncodePath p = Inr q \<Longrightarrow> \<exists>u. setPath p v = Inr u \<and> url_Path u = q"
  by (simp add: setPath_def)

text \<open>A request for a rooted path reaches the server with the path and query it was made with.\<close>

lemma request_on_the_wire:
  assumes "url_Path u = 0x2F # r" and "raw_path u = 0x2F # r'" and "url_Opaque u = []" and "\<not> url_ForceQuery u"
    and "\<not> list_ex control_byte (url_RawQuery u)"
  shows "\<exists>v. url_ParseRequestURI (RequestURI u) = Inr v \<and> url_Path v = url_Path u \<and>
    EscapedPath v = EscapedPath u \<and> url_RawQuery v = url_RawQuery u \<and> url_Opaque v = []"
proof -
  obtain e where e: "EscapedPath u = 0x2F # e" "unescape_with EncodePath (0x2F # e) = Inr (url_Path u)"
    using EscapedPath_rooted [OF assms(1,2)] by auto
  have uri: "list_all uri_byte (0x2F # e)" using EscapedPath_uri [of u] unfolding e(1) .
  obtain v where v: "setPath (0x2F # e) (zero_url\<lparr>url_RawQuery := url_RawQuery u\<rparr>) = Inr v" "url_Path v = url_Path u"
    using setPath_total [OF e(2)] by blast
  have "RequestURI u = (0x2F # e) @ query_text (url_RawQuery u)"
    using assms(3,4) e(1) by (simp add: RequestURI_def query_text_def)
  then have "url_ParseRequestURI (RequestURI u) = Inr v" using ParseRequestURI_rooted [OF uri assms(5)] v(1) by simp
  moreover have "url_RawQuery v = url_RawQuery u" "url_Opaque v = []"
    using setPath_keeps [OF v(1)] by (simp_all add: zero_url_def)
  moreover have "EscapedPath v = EscapedPath u"
  proof (cases "url_RawPath v = []")
    case True
    then have "escape_with EncodePath (url_Path u) = 0x2F # e"
      using setPath_raw_path(1) [OF v(1)] v(2) by (simp add: raw_path_def)
    then show ?thesis using True v(2) e(1) assms(1) by (simp add: EscapedPath_def lit_def)
  next
    case False
    then have raw: "url_RawPath v = 0x2F # e" using setPath_raw_path(1) [OF v(1)] by (simp add: raw_path_def)
    show ?thesis
    proof (cases "validEncoded EncodePath (0x2F # e)")
      case True
      then show ?thesis using raw e v(2) by (simp add: EscapedPath_def)
    next
      case f: False
      then have "EscapedPath u = escape_with EncodePath (url_Path u)"
        using e(1) assms(1) by (auto simp: EscapedPath_def lit_def split: if_splits)
      then show ?thesis using f raw v(2) assms(1) by (simp add: EscapedPath_def lit_def)
    qed
  qed
  ultimately show ?thesis using v(2) by blast
qed

text \<open>Escaping and unescaping never lose a slash.\<close>

lemma count_escape: "count_list s 0x2F \<le> count_list (escape_with EncodePath s) 0x2F"
  using slash_path_byte by (induction s) (auto simp: escape_with_def)

lemma count_unescape: "unescape_with EncodePath s = Inr p \<Longrightarrow> count_list s 0x2F \<le> count_list p 0x2F"
proof (induction s arbitrary: p rule: length_induct)
  case (1 s)
  show ?case
  proof (cases s)
    case Nil
    then show ?thesis by simp
  next
    case (Cons c r)
    show ?thesis
    proof (cases "c = 0x25")
      case True
      with 1(2) Cons obtain a b r' p' where r: "r = a # b # r'" "ishex a" "ishex b" "unescape_with EncodePath r' = Inr p'"
          "p = (push_bit 4 (unhex a) OR unhex b) # p'"
        using unescape_path_hexD by blast
      moreover have "\<not> ishex 0x2F" by (simp add: ishex_def)
      ultimately have "count_list s 0x2F = count_list r' 0x2F" using Cons True by auto
      also have "\<dots> \<le> count_list p' 0x2F" using 1(1) r(1,4) Cons by simp
      finally show ?thesis using r(5) by simp
    next
      case False
      with 1 Cons show ?thesis by (fastforce simp: unescape_path_Cons)
    qed
  qed
qed

lemma count_EscapedPath:
  assumes "unescape_with EncodePath (raw_path u) = Inr (url_Path u)" and "url_Path u = 0x2F # r"
  shows "count_list (raw_path u) 0x2F \<le> count_list (EscapedPath u) 0x2F"
  using count_unescape [OF assms(1)] count_escape [of "url_Path u"] assms(2)
  by (auto simp: EscapedPath_def raw_path_def lit_def split: if_splits)

end
