(* ===== verification/Go_Mux.thy ===== *)
theory Go_Mux
  imports Go_Url_Parse
begin

text \<open>
  How \<open>http.ServeMux\<close> of Go 1.22 routes a request (\<open>findHandler\<close>), for patterns that are plain paths without
  a trailing slash, as the six of \<open>httpjson.Handler\<close>: the escaped path is cleaned; a path that cleaning
  changes is redirected; else the path matches a pattern when its unescaped segments are the pattern's.
\<close>

section \<open>Paths\<close>

text \<open>\<open>path.Clean\<close> on a rooted path: empty segments and \<open>.\<close> go, \<open>..\<close> takes the segment before it away.\<close>

fun clean_segments :: "bytes list \<Rightarrow> bytes list \<Rightarrow> bytes list" where
  "clean_segments done [] = rev done"
| "clean_segments done (seg # segs) =
     (if seg = [] \<or> seg = lit ''.'' then clean_segments done segs
      else if seg = lit ''..'' then clean_segments (tl done) segs
      else clean_segments (seg # done) segs)"

definition path_Clean :: "bytes \<Rightarrow> bytes" where
  "path_Clean p =
     (case clean_segments [] (split_on 0x2F p) of
        [] \<Rightarrow> lit ''/''
      | segs \<Rightarrow> concat (map (Cons 0x2F) segs))"

definition cleanPath :: "bytes \<Rightarrow> bytes" where
  "cleanPath path =
     (if path = [] then lit ''/''
      else let p = (if hd path = 0x2F then path else 0x2F # path); np = path_Clean p
        in if last p = 0x2F \<and> np \<noteq> lit ''/'' then np @ [0x2F] else np)"

text \<open>The segments \<open>firstSegment\<close> cuts off one after the other; a final slash is a segment of its own.\<close>

definition pathUnescape :: "bytes \<Rightarrow> bytes" where
  "pathUnescape s = (case unescape_with EncodePath s of Inr t \<Rightarrow> t | Inl e \<Rightarrow> s)"

function mux_segments :: "bytes \<Rightarrow> bytes list" where
  "mux_segments [] = []"
| "mux_segments (c # r) =
     (if c # r = lit ''/'' then [lit ''/'']
      else pathUnescape (takeWhile (\<lambda>c. c \<noteq> 0x2F) r) # mux_segments (dropWhile (\<lambda>c. c \<noteq> 0x2F) r))"
  by pat_completeness auto

termination mux_segments
  by (relation "measure length") (simp_all add: length_dropWhile_le le_imp_less_Suc)

declare mux_segments.simps [simp del]

section \<open>Routing\<close>

datatype mux_route = Matched bytes | Redirected bytes | Unmatched

definition mux_match :: "bytes list \<Rightarrow> bytes \<Rightarrow> bytes option" where
  "mux_match patterns path = find (\<lambda>p. mux_segments p = mux_segments path) patterns"

text \<open>The target of a redirect is the text of the cleaned path, escaped once more, and the query;
  \<open>http.Redirect\<close> has nothing left to clean in it.\<close>

definition redirect_url :: "bytes \<Rightarrow> bytes \<Rightarrow> bytes" where
  "redirect_url path query = escape_with EncodePath path @ query_text query"

definition findHandler :: "bytes list \<Rightarrow> bytes \<Rightarrow> go_url \<Rightarrow> mux_route" where
  "findHandler patterns meth u =
     (let escapedPath = EscapedPath u; path = (if meth = lit ''CONNECT'' then escapedPath else cleanPath escapedPath)
      in if path \<noteq> escapedPath then Redirected (redirect_url path (url_RawQuery u))
         else case mux_match patterns path of Some p \<Rightarrow> Matched p | None \<Rightarrow> Unmatched)"

section \<open>What is routed where\<close>

lemma count_list_append: "count_list (xs @ ys) c = count_list xs c + count_list ys c"
  by (induction xs) simp_all

lemma count_takeWhile: "count_list (takeWhile (\<lambda>x. x \<noteq> c) s) c = 0"
  by (induction s) simp_all

lemma count_dropWhile: "count_list (dropWhile (\<lambda>x. x \<noteq> c) s) c = count_list s c"
  by (induction s) simp_all

lemma dropWhile_rooted: "dropWhile (\<lambda>c. c \<noteq> a) s = [] \<or> (\<exists>r. dropWhile (\<lambda>c. c \<noteq> a) s = a # r)"
  by (induction s) simp_all

lemma length_mux_segments: "p = [] \<or> (\<exists>r. p = 0x2F # r) \<Longrightarrow> length (mux_segments p) = count_list p 0x2F"
proof (induction p rule: mux_segments.induct)
  case 1
  then show ?case by (simp add: mux_segments.simps)
next
  case (2 c r)
  then have c: "c = 0x2F" by simp
  show ?case
  proof (cases "r = []")
    case True
    with c show ?thesis by (simp add: mux_segments.simps lit_def)
  next
    case False
    have "length (mux_segments (dropWhile (\<lambda>c. c \<noteq> 0x2F) r)) = count_list r 0x2F"
      using 2(1) dropWhile_rooted [of "0x2F" r] False by (auto simp: lit_def count_dropWhile)
    with False c show ?thesis by (simp add: mux_segments.simps lit_def)
  qed
qed

lemma find_SomeD: "find P xs = Some x \<Longrightarrow> x \<in> set xs \<and> P x"
  by (auto simp: find_Some_iff)

lemma findHandler_deep:
  assumes "EscapedPath u = 0x2F # r" and "\<forall>p \<in> set patterns. length (mux_segments p) < count_list (EscapedPath u) 0x2F"
  shows "findHandler patterns meth u \<in> {Unmatched} \<union> range Redirected"
proof -
  have "length (mux_segments (EscapedPath u)) = count_list (EscapedPath u) 0x2F"
    using assms(1) by (intro length_mux_segments) simp
  with assms(2) have "mux_match patterns (EscapedPath u) = None"
    by (auto simp: mux_match_def find_None_iff)
  then show ?thesis by (auto simp: findHandler_def Let_def)
qed

text \<open>A path that is a pattern is routed to it.\<close>

lemma findHandler_pattern:
  assumes "EscapedPath u = p" and "cleanPath p = p" and "p \<in> set patterns" and "distinct (map mux_segments patterns)"
  shows "findHandler patterns meth u = Matched p"
proof -
  have "inj_on mux_segments (set patterns)" using assms(4) by (simp add: distinct_map)
  then have "mux_match patterns p = Some p"
    using assms(3,4) unfolding mux_match_def
    by (cases "find (\<lambda>q. mux_segments q = mux_segments p) patterns")
      (auto simp: find_None_iff dest: find_SomeD inj_onD)
  with assms(1,2) show ?thesis by (auto simp: findHandler_def Let_def)
qed

end
