(* ===== verification/Go_Http.thy ===== *)
theory Go_Http
  imports Go_Mux
begin

text \<open>
  \<open>net/http\<close> of Go 1.22, as far as the transport uses it: requests and responses as records of the parts the
  code reads and writes, \<open>http.Error\<close>, \<open>http.Redirect\<close>, the mux and the exchange of a request for a response on
  the server's side; \<open>http.NewRequest\<close> and \<open>Client.Do\<close>, which follows redirects, on the client's side. What goes
  over the network is a parameter: the \<open>Transport\<close> of an \<open>http.Client\<close>, and the default one.
\<close>

unbundle bit_operations_syntax

section \<open>Requests and responses\<close>

record http_request =
  rq_Method :: bytes
  rq_URL :: go_url
  rq_ContentType :: bytes
  rq_Body :: bytes

record http_response =
  rs_Status :: nat
  rs_ContentType :: bytes
  rs_Location :: bytes
  rs_Body :: bytes

type_synonym 's handler = "http_request \<Rightarrow> 's \<Rightarrow> http_response \<times> 's"
type_synonym 's doer = "http_request \<Rightarrow> ('s, go_error + http_response) proc"

definition MethodGet :: bytes where "MethodGet = lit ''GET''"
definition MethodPost :: bytes where "MethodPost = lit ''POST''"

text \<open>\<open>http.Error\<close>: a plain-text response, the message followed by a newline.\<close>

definition http_Error :: "bytes \<Rightarrow> nat \<Rightarrow> http_response" where
  "http_Error msg code =
     \<lparr>rs_Status = code, rs_ContentType = lit ''text/plain; charset=utf-8'', rs_Location = [],
      rs_Body = msg @ [0x0A]\<rparr>"

text \<open>A response with nothing but its status.\<close>

definition empty_response :: "nat \<Rightarrow> http_response" where
  "empty_response code = \<lparr>rs_Status = code, rs_ContentType = [], rs_Location = [], rs_Body = []\<rparr>"

section \<open>The mux\<close>

definition hexEscapeNonASCII :: "bytes \<Rightarrow> bytes" where
  "hexEscapeNonASCII s = concat (map (\<lambda>c. if c < 0x80 then [c]
     else [0x25, lowerhex (drop_bit 4 c), lowerhex (c AND 0xF)]) s)"

definition htmlEscape :: "bytes \<Rightarrow> bytes" where
  "htmlEscape s = concat (map (\<lambda>c. if c = 0x26 then lit ''&amp;'' else if c = 0x3C then lit ''&lt;''
     else if c = 0x3E then lit ''&gt;'' else if c = 0x22 then lit ''&#34;'' else if c = 0x27 then lit ''&#39;''
     else [c]) s)"

text \<open>\<open>http.Redirect\<close> with status 301; the short HTML body goes only to a GET.\<close>

definition http_Moved :: "http_request \<Rightarrow> bytes \<Rightarrow> http_response" where
  "http_Moved r url =
     \<lparr>rs_Status = 301,
      rs_ContentType = (if rq_Method r = lit ''GET'' \<or> rq_Method r = lit ''HEAD'' then lit ''text/html; charset=utf-8'' else []),
      rs_Location = hexEscapeNonASCII url,
      rs_Body = (if rq_Method r = lit ''GET''
        then lit ''<a href='' @ [0x22] @ htmlEscape url @ [0x22] @ lit ''>Moved Permanently</a>.'' @ [0x0A, 0x0A] else [])\<rparr>"

definition http_NotFound :: http_response where
  "http_NotFound = http_Error (lit ''404 page not found'') 404"

text \<open>\<open>mux.ServeHTTP\<close> with the patterns registered on it and their handlers.\<close>

definition ServeMux :: "(bytes \<times> 's handler) list \<Rightarrow> 's handler" where
  "ServeMux routes r s =
     (if RequestURI (rq_URL r) = lit ''*'' then (empty_response 400, s)
      else case findHandler (map fst routes) (rq_Method r) (rq_URL r) of
        Redirected url \<Rightarrow> (http_Moved r url, s)
      | Unmatched \<Rightarrow> (http_NotFound, s)
      | Matched pattern \<Rightarrow> (case map_of routes pattern of Some h \<Rightarrow> h r s | None \<Rightarrow> (http_NotFound, s)))"

text \<open>An HTTP exchange with a server: the request URI is written out and parsed again.\<close>

definition http_Server :: "'s handler \<Rightarrow> 's doer" where
  "http_Server H req s =
     (case url_ParseRequestURI (RequestURI (rq_URL req)) of
        Inl e \<Rightarrow> (Inr (http_Error (lit ''400 Bad Request'') 400), s)
      | Inr u \<Rightarrow> (case H (req\<lparr>rq_URL := u\<rparr>) s of (resp, s') \<Rightarrow> (Inr resp, s')))"

section \<open>Requests of a client\<close>

text \<open>What a client takes from outside: \<open>strconv.Quote\<close>, which only writes the text of errors, and
  \<open>http.DefaultTransport\<close>.\<close>

record 's http_env =
  he_Quote :: "bytes \<Rightarrow> bytes"
  he_DefaultTransport :: "'s doer"

text \<open>The text of the error of \<open>url.Parse\<close>.\<close>

fun url_error_text :: "(bytes \<Rightarrow> bytes) \<Rightarrow> url_error \<Rightarrow> go_error" where
  "url_error_text quote UrlControl = lit ''net/url: invalid control character in URL''"
| "url_error_text quote UrlNoScheme = lit ''missing protocol scheme''"
| "url_error_text quote UrlColon = lit ''first path segment in URL cannot contain colon''"
| "url_error_text quote (UrlEscape s) = lit ''invalid URL escape '' @ quote s"
| "url_error_text quote (UrlInvalidHost s) = lit ''invalid character '' @ quote s @ lit '' in host name''"
| "url_error_text quote UrlUserinfo = lit ''net/url: invalid userinfo''"
| "url_error_text quote UrlBracket = lit ''missing '' @ [0x27] @ lit '']'' @ [0x27] @ lit '' in host''"
| "url_error_text quote (UrlPort s) = lit ''invalid port '' @ quote s @ lit '' after host''"
| "url_error_text quote UrlEmpty = lit ''empty url''"
| "url_error_text quote UrlRequest = lit ''invalid URI for request''"

definition removeEmptyPort :: "bytes \<Rightarrow> bytes" where
  "removeEmptyPort host = (if host \<noteq> [] \<and> last host = 0x3A then butlast host else host)"

text \<open>\<open>http.NewRequestWithContext\<close>, for one of the two methods the client uses.\<close>

definition NewRequest :: "'s http_env \<Rightarrow> bytes \<Rightarrow> bytes \<Rightarrow> bytes \<Rightarrow> go_error + http_request" where
  "NewRequest env meth url body =
     (case url_Parse url of
        Inl (text, e) \<Rightarrow> Inl (lit ''parse '' @ he_Quote env text @ lit '': '' @ url_error_text (he_Quote env) e)
      | Inr u \<Rightarrow> Inr \<lparr>rq_Method = meth, rq_URL = u\<lparr>url_Host := removeEmptyPort (url_Host u)\<rparr>, rq_ContentType = [],
          rq_Body = body\<rparr>)"

section \<open>Following redirects\<close>

text \<open>\<open>redirectBehavior\<close>: the method of the next request and whether it repeats the body of the first, if the
  response is a redirect. The body can be read again, as those of \<open>bytes.NewReader\<close>.\<close>

definition redirectBehavior :: "bytes \<Rightarrow> nat \<Rightarrow> (bytes \<times> bool) option" where
  "redirectBehavior reqMethod status =
     (if status \<in> {301, 302, 303} then
        Some (if reqMethod \<noteq> lit ''GET'' \<and> reqMethod \<noteq> lit ''HEAD'' then lit ''GET'' else reqMethod, False)
      else if status \<in> {307, 308} then Some (reqMethod, True)
      else None)"

text \<open>\<open>stripPassword\<close>, and the \<open>url.Error\<close> in which an error of \<open>Do\<close> is wrapped.\<close>

definition replace_first :: "bytes \<Rightarrow> bytes \<Rightarrow> bytes \<Rightarrow> bytes" where
  "replace_first old new s = (case index_of old s of None \<Rightarrow> s | Some i \<Rightarrow> take i s @ new @ drop (i + length old) s)"

definition stripPassword :: "go_url \<Rightarrow> bytes" where
  "stripPassword u =
     (case url_User u of
        Some (user, Some password) \<Rightarrow>
          replace_first (Userinfo_String (user, Some password) @ lit ''@'') (user @ lit '':***@'') (URL_String u)
      | _ \<Rightarrow> URL_String u)"

definition urlErrorOp :: "bytes \<Rightarrow> bytes" where
  "urlErrorOp meth = (if meth = [] then lit ''Get''
     else if list_all (\<lambda>c. 0x20 \<le> c \<and> c \<le> 0x7E) meth then take 1 meth @ drop 1 (to_lower meth) else meth)"

definition url_Error :: "(bytes \<Rightarrow> bytes) \<Rightarrow> bytes \<Rightarrow> bytes \<Rightarrow> go_error \<Rightarrow> go_error" where
  "url_Error quote meth url err = urlErrorOp meth @ lit '' '' @ quote url @ lit '': '' @ err"

text \<open>The loop of \<open>Client.do\<close>, with the number of redirects the default policy still allows. The headers of the
  first request are copied to every other one.\<close>

fun do_hops :: "(bytes \<Rightarrow> bytes) \<Rightarrow> 's doer \<Rightarrow> nat \<Rightarrow> http_request \<Rightarrow> 's doer" where
  "do_hops quote send hops first req s =
     (case send req s of
        (Inl err, s') \<Rightarrow> (Inl (url_Error quote (rq_Method first) (stripPassword (rq_URL req)) err), s')
      | (Inr resp, s') \<Rightarrow>
          (case redirectBehavior (rq_Method req) (rs_Status resp) of
             None \<Rightarrow> (Inr resp, s')
           | Some (redirectMethod, includeBody) \<Rightarrow>
               if rs_Location resp = [] then (Inr resp, s')
               else case URL_Parse (rq_URL req) (rs_Location resp) of
                   Inl (text, e) \<Rightarrow> (Inl (url_Error quote (rq_Method first) (stripPassword (rq_URL req))
                     (lit ''failed to parse Location header '' @ quote (rs_Location resp) @ lit '': '' @
                      lit ''parse '' @ quote text @ lit '': '' @ url_error_text quote e)), s')
                 | Inr u \<Rightarrow>
                     (case hops of
                        0 \<Rightarrow> (Inl (url_Error quote (rq_Method first) (rs_Location resp) (lit ''stopped after 10 redirects'')), s')
                      | Suc hops' \<Rightarrow> do_hops quote send hops' first
                          \<lparr>rq_Method = redirectMethod, rq_URL = u, rq_ContentType = rq_ContentType first,
                           rq_Body = (if includeBody then rq_Body first else [])\<rparr> s')))"

text \<open>An \<open>http.Client\<close> that has at most its \<open>Transport\<close> set, and any other one, which is its \<open>Do\<close>. The default policy
  allows ten requests.\<close>

datatype 's http_client = HttpClient "'s doer option" | OtherClient "'s doer"

definition client_Transport :: "'s http_env \<Rightarrow> 's doer option \<Rightarrow> 's doer" where
  "client_Transport env t = (case t of Some send \<Rightarrow> send | None \<Rightarrow> he_DefaultTransport env)"

fun Client_Do :: "'s http_env \<Rightarrow> 's http_client \<Rightarrow> 's doer" where
  "Client_Do env (HttpClient t) req = do_hops (he_Quote env) (client_Transport env t) 9 req req"
| "Client_Do env (OtherClient client) req = client req"

declare do_hops.simps [simp del]

section \<open>Facts about redirects\<close>

fun redirected :: "go_error + http_response \<Rightarrow> bool" where
  "redirected (Inl e) = False"
| "redirected (Inr resp) = (rs_Status resp \<in> {301, 302, 303, 307, 308})"

lemma do_hops_done:
  "send req s = (Inr resp, s') \<Longrightarrow> \<not> redirected (Inr resp) \<Longrightarrow> do_hops quote send n first req s = (Inr resp, s')"
  by (simp add: do_hops.simps [of quote send n first req s] redirectBehavior_def)

lemma do_hops_failed:
  "send req s = (Inl err, s') \<Longrightarrow> do_hops quote send n first req s =
     (Inl (url_Error quote (rq_Method first) (stripPassword (rq_URL req)) err), s')"
  by (simp add: do_hops.simps [of quote send n first req s])

text \<open>A 301 to a location that parses: the method becomes GET and the body is dropped.\<close>

lemma do_hops_moved:
  assumes "send req s = (Inr resp, s')" and "rs_Status resp = 301" and "rs_Location resp \<noteq> []"
    and "URL_Parse (rq_URL req) (rs_Location resp) = Inr u"
  shows "do_hops quote send (Suc n) first req s = do_hops quote send n first
    \<lparr>rq_Method = (if rq_Method req = lit ''HEAD'' then lit ''HEAD'' else lit ''GET''), rq_URL = u,
     rq_ContentType = rq_ContentType first, rq_Body = []\<rparr> s'"
proof -
  have "redirectBehavior (rq_Method req) (rs_Status resp) =
      Some (if rq_Method req = lit ''HEAD'' then lit ''HEAD'' else lit ''GET'', False)"
    using assms(2) by (simp add: redirectBehavior_def)
  with assms show ?thesis by (simp add: do_hops.simps [of quote send "Suc n"])
qed

end
