(* ===== verification/Http_Transport.thy ===== *)
theory Http_Transport
  imports Coordinator Go_Http
begin

text \<open>
  Package \<open>httpjson\<close> (src/transport/httpjson/server.go, client.go): the reference HTTP+JSON transport of the
  \<open>Coordinator\<close> interface, over the \<open>net/http\<close> of \<open>Go_Http\<close>. \<open>encoding/json\<close> is a parameter, a pair of
  functions per type: \<open>Marshal\<close>, which may fail, and \<open>Decode\<close>, which fills a value from the first JSON value of a
  stream and may fail half-way; \<open>Json_Messages\<close> gives them for the types of the module.
\<close>

section \<open>JSON\<close>

record 'a codec =
  jc_Marshal :: "'a \<Rightarrow> go_error + bytes"
  jc_Decode :: "bytes \<Rightarrow> 'a \<times> go_error option"

record json =
  jn_listing :: "CapabilityListing codec"
  jn_heartbeat :: "Heartbeat codec"
  jn_decline :: "Decline codec"
  jn_report :: "JobReport codec"
  jn_jobs :: "Assignment list codec"
  jn_fees :: "FeeDeclaration codec"

section \<open>The server (server.go)\<close>

definition server_fail :: "go_error \<Rightarrow> http_response" where
  "server_fail err = http_Error err 500"

definition methodNotAllowed :: http_response where
  "methodNotAllowed = http_Error (lit ''method not allowed'') 405"

text \<open>\<open>json.NewEncoder(w).Encode(v)\<close> writes the encoding and a newline, or nothing when it fails; the status is
  200 either way.\<close>

definition writeJSON :: "'a codec \<Rightarrow> 'a \<Rightarrow> http_response" where
  "writeJSON jc v =
     \<lparr>rs_Status = 200, rs_ContentType = lit ''application/json'', rs_Location = [],
      rs_Body = (case jc_Marshal jc v of Inr b \<Rightarrow> b @ [0x0A] | Inl err \<Rightarrow> [])\<rparr>"

text \<open>\<open>decode\<close> yields the value, or the response it has written.\<close>

definition decode :: "'a codec \<Rightarrow> http_request \<Rightarrow> http_response + 'a" where
  "decode jc r =
     (case jc_Decode jc (rq_Body r) of
        (v, Some err) \<Rightarrow> Inl (http_Error (lit ''bad json: '' @ err) 400)
      | (v, None) \<Rightarrow> Inr v)"

definition post :: "'a codec \<Rightarrow> ('a \<Rightarrow> ('s, go_error option) proc) \<Rightarrow> 's handler" where
  "post jc call r s =
     (if rq_Method r \<noteq> MethodPost then (methodNotAllowed, s)
      else case decode jc r of
        Inl resp \<Rightarrow> (resp, s)
      | Inr v \<Rightarrow>
          (case call v s of
             (Some err, s') \<Rightarrow> (server_fail err, s')
           | (None, s') \<Rightarrow> (empty_response 204, s')))"

definition handle_jobs :: "'s Coordinator \<Rightarrow> json \<Rightarrow> 's handler" where
  "handle_jobs c J r s =
     (if rq_Method r \<noteq> MethodGet then (methodNotAllowed, s)
      else let nodeID = Query_Get (url_RawQuery (rq_URL r)) (lit ''node_id'')
        in if nodeID = [] then (http_Error (lit ''missing node_id'') 400, s)
           else case co_PollJobs c nodeID s of
               ((out, Some err), s') \<Rightarrow> (server_fail err, s')
             | ((out, None), s') \<Rightarrow> (writeJSON (jn_jobs J) out, s'))"

definition handle_fees :: "'s Coordinator \<Rightarrow> json \<Rightarrow> 's handler" where
  "handle_fees c J r s =
     (if rq_Method r \<noteq> MethodGet then (methodNotAllowed, s)
      else case co_Fees c s of
          ((out, Some err), s') \<Rightarrow> (server_fail err, s')
        | ((out, None), s') \<Rightarrow> (writeJSON (jn_fees J) out, s'))"

definition Handler :: "json \<Rightarrow> 's Coordinator \<Rightarrow> 's handler" where
  "Handler J c = ServeMux
     [(lit ''/v0/listing'', post (jn_listing J) (co_SubmitListing c)),
      (lit ''/v0/heartbeat'', post (jn_heartbeat J) (co_Heartbeat c)),
      (lit ''/v0/decline'', post (jn_decline J) (co_Decline c)),
      (lit ''/v0/report'', post (jn_report J) (co_ReportJob c)),
      (lit ''/v0/jobs'', handle_jobs c J),
      (lit ''/v0/fees'', handle_fees c J)]"

section \<open>The client (client.go)\<close>

record 's Client =
  hc_BaseURL :: bytes
  hc_HTTP :: "'s http_client option"

text \<open>\<open>http.DefaultClient\<close> is an \<open>http.Client\<close> with no field set.\<close>

definition httpClient :: "'s Client \<Rightarrow> 's http_client" where
  "httpClient c = (case hc_HTTP c of Some h \<Rightarrow> h | None \<Rightarrow> HttpClient None)"

definition status_error :: "http_request \<Rightarrow> http_response \<Rightarrow> go_error" where
  "status_error req resp = lit ''sohocloud: '' @ rq_Method req @ lit '' '' @ url_Path (rq_URL req) @ lit '': status '' @
     decimal (rs_Status resp) @ lit '': '' @ take 4096 (rs_Body resp)"

text \<open>\<open>do\<close>, without and with a value to decode into; \<open>zero\<close> is what the caller's variable holds before.\<close>

definition client_do :: "'s http_env \<Rightarrow> 's Client \<Rightarrow> http_request \<Rightarrow> ('s, go_error option) proc" where
  "client_do env c req s =
     (case Client_Do env (httpClient c) req s of
        (Inl err, s') \<Rightarrow> (Some err, s')
      | (Inr resp, s') \<Rightarrow>
          (if rs_Status resp < 200 \<or> 300 \<le> rs_Status resp then Some (status_error req resp) else None, s'))"

definition client_do_out ::
  "'s http_env \<Rightarrow> 's Client \<Rightarrow> 'a codec \<Rightarrow> 'a \<Rightarrow> http_request \<Rightarrow> ('s, 'a \<times> go_error option) proc" where
  "client_do_out env c jc zero req s =
     (case Client_Do env (httpClient c) req s of
        (Inl err, s') \<Rightarrow> ((zero, Some err), s')
      | (Inr resp, s') \<Rightarrow>
          (if rs_Status resp < 200 \<or> 300 \<le> rs_Status resp then (zero, Some (status_error req resp))
           else jc_Decode jc (rs_Body resp), s'))"

definition postJSON :: "'s http_env \<Rightarrow> 's Client \<Rightarrow> 'a codec \<Rightarrow> bytes \<Rightarrow> 'a \<Rightarrow> ('s, go_error option) proc" where
  "postJSON env c jc path v s =
     (case jc_Marshal jc v of
        Inl err \<Rightarrow> (Some err, s)
      | Inr body \<Rightarrow>
          (case NewRequest env MethodPost (hc_BaseURL c @ path) body of
             Inl err \<Rightarrow> (Some err, s)
           | Inr req \<Rightarrow> client_do env c (req\<lparr>rq_ContentType := lit ''application/json''\<rparr>) s))"

definition getJSON ::
  "'s http_env \<Rightarrow> 's Client \<Rightarrow> 'a codec \<Rightarrow> bytes \<Rightarrow> 'a \<Rightarrow> ('s, 'a \<times> go_error option) proc" where
  "getJSON env c jc path zero s =
     (case NewRequest env MethodGet (hc_BaseURL c @ path) [] of
        Inl err \<Rightarrow> ((zero, Some err), s)
      | Inr req \<Rightarrow> client_do_out env c jc zero req s)"

definition Client_SubmitListing :: "'s http_env \<Rightarrow> json \<Rightarrow> 's Client \<Rightarrow> CapabilityListing \<Rightarrow> ('s, go_error option) proc" where
  "Client_SubmitListing env J c l = postJSON env c (jn_listing J) (lit ''/v0/listing'') l"

definition Client_Heartbeat :: "'s http_env \<Rightarrow> json \<Rightarrow> 's Client \<Rightarrow> Heartbeat \<Rightarrow> ('s, go_error option) proc" where
  "Client_Heartbeat env J c h = postJSON env c (jn_heartbeat J) (lit ''/v0/heartbeat'') h"

definition Client_PollJobs ::
  "'s http_env \<Rightarrow> json \<Rightarrow> 's Client \<Rightarrow> bytes \<Rightarrow> ('s, Assignment list \<times> go_error option) proc" where
  "Client_PollJobs env J c nodeID = getJSON env c (jn_jobs J) (lit ''/v0/jobs?node_id='' @ QueryEscape nodeID) []"

definition Client_Decline :: "'s http_env \<Rightarrow> json \<Rightarrow> 's Client \<Rightarrow> Decline \<Rightarrow> ('s, go_error option) proc" where
  "Client_Decline env J c d = postJSON env c (jn_decline J) (lit ''/v0/decline'') d"

definition Client_ReportJob :: "'s http_env \<Rightarrow> json \<Rightarrow> 's Client \<Rightarrow> JobReport \<Rightarrow> ('s, go_error option) proc" where
  "Client_ReportJob env J c r = postJSON env c (jn_report J) (lit ''/v0/report'') r"

definition zero_FeeDeclaration :: FeeDeclaration where
  "zero_FeeDeclaration =
     \<lparr>fd_CoordinatorID = [], fd_Terms = \<lparr>ft_ContributorShareBps = 0, ft_PlatformFeeBps = 0\<rparr>,
      fd_EffectiveAt = \<lparr>t_sec = 0, t_nsec = 0, t_loc = None, t_mono = None\<rparr>, fd_Seq = 0, fd_Signature = []\<rparr>"

definition Client_Fees :: "'s http_env \<Rightarrow> json \<Rightarrow> 's Client \<Rightarrow> ('s, FeeDeclaration \<times> go_error option) proc" where
  "Client_Fees env J c = getJSON env c (jn_fees J) (lit ''/v0/fees'') zero_FeeDeclaration"

text \<open>The client is itself a \<open>Coordinator\<close> (the compile-time assertion of client.go:39).\<close>

definition Client_Coordinator :: "'s http_env \<Rightarrow> json \<Rightarrow> 's Client \<Rightarrow> 's Coordinator" where
  "Client_Coordinator env J c =
     \<lparr>co_SubmitListing = Client_SubmitListing env J c, co_Heartbeat = Client_Heartbeat env J c,
      co_PollJobs = Client_PollJobs env J c, co_Decline = Client_Decline env J c,
      co_ReportJob = Client_ReportJob env J c, co_Fees = Client_Fees env J c\<rparr>"

end
