(* ===== verification/Http_Exchange.thy ===== *)
theory Http_Exchange
  imports Http_Transport
begin

text \<open>
  One request of the client and its way to the handler: which base URLs lead to the six routes, what the
  server reads back from the request URI, and what the mux makes of it. \<open>served_by env c H\<close> is what the
  transport needs of the outside: the base URL is a coordinator root, and the network below the HTTP client delivers to
  the server at its host.
\<close>

section \<open>Requests at a path\<close>

definition at_path :: "bytes \<Rightarrow> http_request \<Rightarrow> bool" where
  "at_path path r \<longleftrightarrow> EscapedPath (rq_URL r) = path \<and> url_Opaque (rq_URL r) = []"

definition route_paths :: "bytes list" where
  "route_paths = [lit ''/v0/listing'', lit ''/v0/heartbeat'', lit ''/v0/decline'', lit ''/v0/report'', lit ''/v0/jobs'',
     lit ''/v0/fees'']"

definition route_ok :: "bytes \<Rightarrow> bool" where
  "route_ok p \<longleftrightarrow> cleanPath p = p \<and> p \<noteq> [] \<and> hd p = 0x2F \<and> p \<noteq> lit ''*'' \<and> length (mux_segments p) = 2 \<and>
     count_list p 0x2F = 2 \<and> list_all (\<lambda>c. \<not> shouldEscape EncodePath c \<and> uri_byte c) p"

lemma route_paths_ok: "list_all route_ok route_paths"
  by code_simp

lemma route_paths_distinct: "distinct (map mux_segments route_paths)"
  by code_simp

lemma route_okD: "p \<in> set route_paths \<Longrightarrow> route_ok p"
  using route_paths_ok by (simp add: list_all_iff)

lemma map_fst_Handler:
  "map fst [(lit ''/v0/listing'', h1), (lit ''/v0/heartbeat'', h2), (lit ''/v0/decline'', h3), (lit ''/v0/report'', h4),
     (lit ''/v0/jobs'', h5), (lit ''/v0/fees'', h6)] = route_paths"
  by (simp add: route_paths_def)

lemma at_path_routed:
  assumes "at_path p r" and "p \<in> set route_paths"
  shows "findHandler route_paths (rq_Method r) (rq_URL r) = Matched p" and "RequestURI (rq_URL r) \<noteq> lit ''*''"
proof -
  have "cleanPath p = p" "p \<noteq> []" "hd p = 0x2F" using route_okD [OF assms(2)] by (simp_all add: route_ok_def)
  then show "findHandler route_paths (rq_Method r) (rq_URL r) = Matched p"
    using assms route_paths_distinct by (intro findHandler_pattern) (simp_all add: at_path_def)
  show "RequestURI (rq_URL r) \<noteq> lit ''*''"
    using assms(1) \<open>p \<noteq> []\<close> \<open>hd p = 0x2F\<close> by (auto simp: at_path_def RequestURI_def lit_def neq_Nil_conv)
qed

lemma Handler_routes:
  "at_path (lit ''/v0/listing'') r \<Longrightarrow> Handler J C r = post (jn_listing J) (co_SubmitListing C) r"
  "at_path (lit ''/v0/heartbeat'') r \<Longrightarrow> Handler J C r = post (jn_heartbeat J) (co_Heartbeat C) r"
  "at_path (lit ''/v0/decline'') r \<Longrightarrow> Handler J C r = post (jn_decline J) (co_Decline C) r"
  "at_path (lit ''/v0/report'') r \<Longrightarrow> Handler J C r = post (jn_report J) (co_ReportJob C) r"
  "at_path (lit ''/v0/jobs'') r \<Longrightarrow> Handler J C r = handle_jobs C J r"
  "at_path (lit ''/v0/fees'') r \<Longrightarrow> Handler J C r = handle_fees C J r"
  by (rule ext, simp add: Handler_def ServeMux_def map_fst_Handler at_path_routed route_paths_def [THEN arg_cong [of _ _ set]]
      del: list.map)+

lemma Handler_otherwise:
  "RequestURI (rq_URL r) \<noteq> lit ''*'' \<Longrightarrow> findHandler route_paths (rq_Method r) (rq_URL r) = Unmatched \<Longrightarrow>
     Handler J C r s = (http_NotFound, s)"
  "RequestURI (rq_URL r) \<noteq> lit ''*'' \<Longrightarrow> findHandler route_paths (rq_Method r) (rq_URL r) = Redirected url \<Longrightarrow>
     Handler J C r s = (http_Moved r url, s)"
  by (simp_all add: Handler_def ServeMux_def map_fst_Handler del: list.map)

section \<open>The request a route makes\<close>

text \<open>A coordinator root is a base URL without a path, as the comment on \<open>Client\<close> wants it.\<close>

definition base_of :: "bytes \<Rightarrow> go_url option" where
  "base_of b = (case url_Parse b of Inl e \<Rightarrow> None
     | Inr u \<Rightarrow> if url_Scheme u \<noteq> [] \<and> url_Host u \<noteq> [] \<and> 0x3F \<notin> set b \<and> 0x23 \<notin> set b then Some u else None)"

definition coordinator_root :: "bytes \<Rightarrow> bool" where
  "coordinator_root b \<longleftrightarrow> (case base_of b of None \<Rightarrow> False | Some u \<Rightarrow> url_Path u = [])"

lemma base_of_iff: "base_of b = Some u \<longleftrightarrow> base_url b u"
  by (auto simp: base_of_def base_url_def split: sum.splits)

lemma coordinator_root_iff: "coordinator_root b \<longleftrightarrow> (\<exists>u. base_url b u \<and> url_Path u = [])"
  unfolding coordinator_root_def base_of_iff [symmetric] by (auto split: option.splits)

text \<open>What the six client methods may put after the base URL.\<close>

definition route_query :: "bytes \<Rightarrow> bool" where
  "route_query q \<longleftrightarrow> list_all uri_byte q"

lemma route_query_Nil [simp]: "route_query []"
  by (simp add: route_query_def)

lemma route_query_clean: "route_query q \<Longrightarrow> 0x23 \<notin> set q \<and> \<not> list_ex control_byte q"
  by (auto simp: route_query_def uri_byte_def list_all_iff list_ex_iff)

lemma base_url_fixed:
  assumes "base_url b u"
  shows "url_Opaque u = []" and "\<not> url_ForceQuery u" and "unescape_with EncodePath (raw_path u) = Inr (url_Path u)"
    and "raw_path u = [] \<or> (\<exists>r. raw_path u = 0x2F # r)"
proof -
  from assms obtain scheme rest path where path: "path = dropWhile (\<lambda>c. c \<noteq> 0x2F) rest"
      "setPath path (zero_url\<lparr>url_Scheme := to_lower scheme, url_User := url_User u, url_Host := url_Host u\<rparr>) = Inr u"
    by (rule base_url_parts)
  show "url_Opaque u = []" "\<not> url_ForceQuery u" using setPath_keeps [OF path(2)] by (simp_all add: zero_url_def)
  show "unescape_with EncodePath (raw_path u) = Inr (url_Path u)" "raw_path u = [] \<or> (\<exists>r. raw_path u = 0x2F # r)"
    using setPath_raw_path(1,2) [OF path(2)] path(1) dropWhile_rooted [of "0x2F" rest] by simp_all
qed

definition route_url :: "go_url \<Rightarrow> bytes \<Rightarrow> bytes \<Rightarrow> go_url" where
  "route_url u p q = u\<lparr>url_Path := url_Path u @ p, url_RawPath := (if url_RawPath u = [] then [] else url_RawPath u @ p),
     url_RawQuery := q, url_Host := removeEmptyPort (url_Host u)\<rparr>"

lemma NewRequest_route:
  assumes "base_url b u" and "p \<in> set route_paths" and "route_query q"
  shows "NewRequest env meth (b @ p @ query_text q) body =
     Inr \<lparr>rq_Method = meth, rq_URL = route_url u p q, rq_ContentType = [], rq_Body = body\<rparr>"
proof -
  have ok: "p \<noteq> []" "hd p = 0x2F" "list_all (\<lambda>c. \<not> shouldEscape EncodePath c \<and> uri_byte c) p"
    using route_okD [OF assms(2)] by (simp_all add: route_ok_def)
  then obtain x where p: "p = 0x2F # x" by (cases p) auto
  have "list_all (\<lambda>c. \<not> shouldEscape EncodePath c \<and> c \<noteq> 0x23 \<and> c \<noteq> 0x3F) (0x2F # x)"
    using ok(3) p by (auto simp: uri_byte_def list_all_iff)
  moreover have "\<not> list_ex control_byte (x @ q)"
    using ok(3) p route_query_clean [OF assms(3)] by (auto simp: uri_byte_def list_all_iff list_ex_iff)
  ultimately have "url_Parse (b @ p @ query_text q) = Inr (u\<lparr>url_Path := url_Path u @ p,
     url_RawPath := (if url_RawPath u = [] then [] else url_RawPath u @ p), url_RawQuery := q\<rparr>)"
    using url_Parse_route [OF assms(1)] route_query_clean [OF assms(3)] p by simp
  then show ?thesis by (cases u) (simp add: NewRequest_def route_url_def)
qed

lemma route_url_raw:
  assumes "base_url b u" and "p \<in> set route_paths"
  shows "raw_path (route_url u p q) = raw_path u @ p"
    and "unescape_with EncodePath (raw_path u @ p) = Inr (url_Path u @ p)"
proof -
  have plain: "list_all (\<lambda>c. \<not> shouldEscape EncodePath c) p"
    using route_okD [OF assms(2)] by (auto simp: route_ok_def list_all_iff)
  then show "raw_path (route_url u p q) = raw_path u @ p"
    using assms route_okD [OF assms(2)] by (auto simp: raw_path_def route_url_def escape_append escape_plain)
  have "0x25 \<notin> set p" using plain percent_escaped [of EncodePath] by (auto simp: list_all_iff)
  then show "unescape_with EncodePath (raw_path u @ p) = Inr (url_Path u @ p)"
    by (rule unescape_path_append [OF base_url_fixed(3) [OF assms(1)]])
qed

text \<open>The server reads the path and the query back.\<close>

lemma route_on_the_wire:
  assumes "base_url b u" and "p \<in> set route_paths" and "route_query q"
  shows "\<exists>v. url_ParseRequestURI (RequestURI (route_url u p q)) = Inr v \<and> url_Path v = url_Path u @ p \<and>
    EscapedPath v = EscapedPath (route_url u p q) \<and> url_RawQuery v = q \<and> url_Opaque v = []"
proof -
  let ?u = "route_url u p q"
  have p: "p \<noteq> []" "hd p = 0x2F" using route_okD [OF assms(2)] by (simp_all add: route_ok_def)
  have raw: "raw_path u @ p \<noteq> []" "hd (raw_path u @ p) = 0x2F" using base_url_fixed(4) [OF assms(1)] p by auto
  then obtain r' where r': "raw_path ?u = 0x2F # r'" using route_url_raw(1) [OF assms(1,2)]
    by (metis list.collapse)
  have "unescape_with EncodePath (0x2F # r') = Inr (url_Path ?u)"
    using route_url_raw(1) [OF assms(1,2), of q] route_url_raw(2) [OF assms(1,2)] r' by (simp add: route_url_def)
  then obtain x where "0x2F # x = url_Path ?u" by (auto simp: unescape_path_Cons)
  then have "\<exists>r. url_Path ?u = 0x2F # r" by metis
  then obtain r where r: "url_Path ?u = 0x2F # r" ..
  have "url_Opaque ?u = []" "\<not> url_ForceQuery ?u" "url_RawQuery ?u = q" "url_Path ?u = url_Path u @ p"
    using base_url_fixed(1,2) [OF assms(1)] by (simp_all add: route_url_def)
  with request_on_the_wire [OF r r'] route_query_clean [OF assms(3)] show ?thesis by auto
qed

section \<open>Base URLs that lead to a handler\<close>

definition addressed_to :: "bytes \<Rightarrow> http_request \<Rightarrow> bool" where
  "addressed_to b req \<longleftrightarrow> (case base_of b of None \<Rightarrow> False
     | Some u \<Rightarrow> url_Scheme (rq_URL req) = url_Scheme u \<and> url_Host (rq_URL req) = removeEmptyPort (url_Host u))"

text \<open>The network delivers what is addressed to the base URL to the handler. An \<open>http.Client\<close> of another kind is only
  asked to return what is not a redirect.\<close>

definition delivers :: "'s http_env \<Rightarrow> 's Client \<Rightarrow> 's handler \<Rightarrow> bool" where
  "delivers env c H \<longleftrightarrow> (case httpClient c of
      HttpClient t \<Rightarrow> \<forall>req s. addressed_to (hc_BaseURL c) req \<longrightarrow> client_Transport env t req s = http_Server H req s
    | OtherClient client \<Rightarrow> \<forall>req s. addressed_to (hc_BaseURL c) req \<and> \<not> redirected (fst (http_Server H req s)) \<longrightarrow>
        client req s = http_Server H req s)"

definition served_by :: "'s http_env \<Rightarrow> 's Client \<Rightarrow> 's handler \<Rightarrow> bool" where
  "served_by env c H \<longleftrightarrow> coordinator_root (hc_BaseURL c) \<and> delivers env c H"

lemma delivered:
  assumes "delivers env c H" and "addressed_to (hc_BaseURL c) req" and "http_Server H req s = (Inr resp, s')"
    and "\<not> redirected (Inr resp)"
  shows "Client_Do env (httpClient c) req s = (Inr resp, s')"
  using assms by (auto simp: delivers_def do_hops_done split: http_client.splits)

text \<open>The request as the handler sees it.\<close>

definition received :: "bytes \<Rightarrow> bytes \<Rightarrow> bytes \<Rightarrow> bytes \<Rightarrow> bytes \<Rightarrow> http_request" where
  "received meth p q ctype body =
     \<lparr>rq_Method = meth, rq_URL = zero_url\<lparr>url_Path := p, url_RawQuery := q\<rparr>, rq_ContentType = ctype, rq_Body = body\<rparr>"

lemma received_at_path:
  assumes "p \<in> set route_paths"
  shows "at_path p (received meth p q ctype body)"
  using route_okD [OF assms] escape_plain [of EncodePath p]
  by (auto simp: at_path_def received_def EscapedPath_def zero_url_def route_ok_def list_all_iff)

text \<open>The handler of each route, on the request as it is received.\<close>

lemma Handler_received:
  "Handler J C (received meth (lit ''/v0/listing'') q ctype b) =
     post (jn_listing J) (co_SubmitListing C) (received meth (lit ''/v0/listing'') q ctype b)"
  "Handler J C (received meth (lit ''/v0/heartbeat'') q ctype b) =
     post (jn_heartbeat J) (co_Heartbeat C) (received meth (lit ''/v0/heartbeat'') q ctype b)"
  "Handler J C (received meth (lit ''/v0/decline'') q ctype b) =
     post (jn_decline J) (co_Decline C) (received meth (lit ''/v0/decline'') q ctype b)"
  "Handler J C (received meth (lit ''/v0/report'') q ctype b) =
     post (jn_report J) (co_ReportJob C) (received meth (lit ''/v0/report'') q ctype b)"
  "Handler J C (received meth (lit ''/v0/jobs'') q ctype b) =
     handle_jobs C J (received meth (lit ''/v0/jobs'') q ctype b)"
  "Handler J C (received meth (lit ''/v0/fees'') q ctype b) =
     handle_fees C J (received meth (lit ''/v0/fees'') q ctype b)"
  by (rule Handler_routes, rule received_at_path, simp add: route_paths_def)+

lemma ParseRequestURI_route:
  assumes "base_url b u" and "url_Path u = []" and "p \<in> set route_paths" and "route_query q"
  shows "url_ParseRequestURI (RequestURI (route_url u p q)) = Inr (zero_url\<lparr>url_Path := p, url_RawQuery := q\<rparr>)"
proof -
  have ok: "p \<noteq> []" "hd p = 0x2F" "p \<noteq> lit ''*''" "list_all (\<lambda>c. \<not> shouldEscape EncodePath c \<and> uri_byte c) p"
    using route_okD [OF assms(3)] by (simp_all add: route_ok_def)
  then obtain x where x: "p = 0x2F # x" by (cases p) auto
  have escape: "escape_with EncodePath p = p" using ok(4) by (intro escape_plain) (auto simp: list_all_iff)
  have raw: "url_RawPath u = []"
    using assms(1,2) base_url_parts raw_path_root by metis
  have "EscapedPath (route_url u p q) = p"
    using raw assms(2) ok(3) escape by (simp add: EscapedPath_def route_url_def)
  then have "RequestURI (route_url u p q) = p @ query_text q"
    using base_url_fixed(1,2) [OF assms(1)] ok(1) by (simp add: RequestURI_def route_url_def query_text_def)
  moreover have "url_ParseRequestURI (p @ query_text q) = setPath p (zero_url\<lparr>url_RawQuery := q\<rparr>)"
    using ParseRequestURI_rooted [of x q] ok(4) route_query_clean [OF assms(4)] x by (auto simp: list_all_iff)
  moreover have "unescape_with EncodePath p = Inr p" using unescape_path_escaped [of p] escape by simp
  ultimately show ?thesis using escape by (simp add: setPath_def zero_url_def)
qed

text \<open>One exchange with the handler of a route, \<open>shown\<close> being the path that errors report.\<close>

definition exchanged_as ::
  "bytes \<Rightarrow> 's http_env \<Rightarrow> 's Client \<Rightarrow> bytes \<Rightarrow> bytes \<Rightarrow> bytes \<Rightarrow> bytes \<Rightarrow> bytes \<Rightarrow> 's \<Rightarrow> http_response \<Rightarrow> 's \<Rightarrow> bool" where
  "exchanged_as shown env c meth p q ctype body s resp s' \<longleftrightarrow>
     (\<exists>u. NewRequest env meth (hc_BaseURL c @ p @ query_text q) body =
         Inr \<lparr>rq_Method = meth, rq_URL = u, rq_ContentType = [], rq_Body = body\<rparr> \<and> url_Path u = shown \<and>
       Client_Do env (httpClient c) \<lparr>rq_Method = meth, rq_URL = u, rq_ContentType = ctype, rq_Body = body\<rparr> s = (Inr resp, s'))"

abbreviation exchanged ::
  "'s http_env \<Rightarrow> 's Client \<Rightarrow> bytes \<Rightarrow> bytes \<Rightarrow> bytes \<Rightarrow> bytes \<Rightarrow> bytes \<Rightarrow> 's \<Rightarrow> http_response \<Rightarrow> 's \<Rightarrow> bool" where
  "exchanged env c meth p \<equiv> exchanged_as p env c meth p"

lemma served_request:
  assumes "served_by env c H" and "p \<in> set route_paths" and "route_query q"
    and "H (received meth p q ctype body) s = (resp, s')" and "\<not> redirected (Inr resp)"
  shows "exchanged env c meth p q ctype body s resp s'"
proof -
  from assms(1) obtain u where u: "base_url (hc_BaseURL c) u" "url_Path u = []"
    by (auto simp: served_by_def coordinator_root_iff)
  let ?sent = "\<lparr>rq_Method = meth, rq_URL = route_url u p q, rq_ContentType = ctype, rq_Body = body\<rparr>"
  have "addressed_to (hc_BaseURL c) ?sent"
    using u(1) base_of_iff [of "hc_BaseURL c" u] by (simp add: addressed_to_def route_url_def)
  moreover have "http_Server H ?sent s = (Inr resp, s')"
    using assms(4) by (simp add: http_Server_def ParseRequestURI_route [OF u assms(2,3)] received_def)
  ultimately have "Client_Do env (httpClient c) ?sent s = (Inr resp, s')"
    using assms(1,5) delivered by (metis served_by_def)
  with NewRequest_route [OF u(1) assms(2,3), of env meth body] u(2) show ?thesis
    by (auto simp: exchanged_as_def route_url_def)
qed

text \<open>Plain host names with an optional port are coordinator roots.\<close>

definition host_name :: "bytes \<Rightarrow> bool" where
  "host_name h \<longleftrightarrow> h \<noteq> [] \<and> list_all (\<lambda>c. alphanum c \<or> c = 0x2D \<or> c = 0x2E) h"

definition port_text :: "bytes \<Rightarrow> bool" where
  "port_text p \<longleftrightarrow> p = [] \<or> (\<exists>n. p = 0x3A # n \<and> list_all digit n)"

lemma host_byte:
  assumes "alphanum c \<or> c = 0x2D \<or> c = 0x2E \<or> c = 0x3A"
  shows "\<not> shouldEscape EncodeHost c" and "c \<notin> {0x25, 0x2F, 0x40, 0x5B, 0x3F, 0x23}" and "\<not> control_byte c"
proof -
  show "\<not> shouldEscape EncodeHost c" using assms by (auto simp: shouldEscape_def lit_def)
  show "c \<notin> {0x25, 0x2F, 0x40, 0x5B, 0x3F, 0x23}" using assms by (auto simp: alphanum_def)
  show "\<not> control_byte c" using assms alphanum_uri [of c] by (auto simp: uri_byte_def control_byte_def)
qed

lemma unescape_host_plain:
  "list_all (\<lambda>c. \<not> shouldEscape EncodeHost c \<and> c \<noteq> 0x25) s \<Longrightarrow> unescape_with EncodeHost s = Inr s"
  by (induction s) (simp_all add: unescape_with.simps)

lemma digit_alphanum: "digit c \<Longrightarrow> alphanum c \<and> c \<noteq> 0x3A"
  by (auto simp: digit_def alphanum_def)

lemma from_last_at: "c \<notin> set n \<Longrightarrow> from_last c (h @ c # n) = c # n"
proof -
  assume "c \<notin> set n"
  then have "cut_after c (rev n @ c # rev h) = rev h" using cut_at [of c "rev n" "rev h"] by simp
  then show ?thesis by (simp add: from_last_def before_last_def)
qed

lemma plain_host_parsed:
  assumes "host_name h" and "port_text p"
  shows "parseAuthority (h @ p) = Inr (None, h @ p)"
proof -
  have bytes: "alphanum c \<or> c = 0x2D \<or> c = 0x2E \<or> c = 0x3A" if "c \<in> set (h @ p)" for c
    using assms that digit_alphanum by (auto simp: host_name_def port_text_def list_all_iff)
  then have all: "\<not> shouldEscape EncodeHost c \<and> c \<notin> {0x25, 0x2F, 0x40, 0x5B, 0x3F, 0x23}" if "c \<in> set (h @ p)" for c
    using that host_byte(1,2) by blast
  have "unescape_with EncodeHost (h @ p) = Inr (h @ p)"
    using all by (intro unescape_host_plain) (simp add: list_all_iff)
  moreover have "\<not> prefix (lit ''['') (h @ p)" using all assms(1) by (cases h) (auto simp: host_name_def lit_def)
  moreover have "0x3A \<in> set (h @ p) \<longrightarrow> validOptionalPort (from_last 0x3A (h @ p))"
  proof
    assume that: "0x3A \<in> set (h @ p)"
    have "0x3A \<notin> set h" using assms(1) by (auto simp: host_name_def list_all_iff alphanum_def)
    with that assms(2) obtain n where "p = 0x3A # n" "list_all digit n" by (auto simp: port_text_def)
    moreover from this have "0x3A \<notin> set n" using digit_alphanum by (auto simp: list_all_iff)
    ultimately show "validOptionalPort (from_last 0x3A (h @ p))" by (simp add: from_last_at validOptionalPort_def)
  qed
  moreover have "0x40 \<notin> set (h @ p)" using all by blast
  ultimately show ?thesis by (auto simp: parseAuthority_def parseHost_def)
qed

theorem plain_host_is_root:
  assumes "s \<in> {lit ''http'', lit ''https''}" and "host_name h" and "port_text p"
  shows "base_url (s @ lit ''://'' @ h @ p) (zero_url\<lparr>url_Scheme := s, url_Host := h @ p\<rparr>)"
proof -
  let ?b = "s @ lit ''://'' @ h @ p" and ?rest = "0x2F # 0x2F # h @ p"
  have bytes: "alphanum c \<or> c = 0x2D \<or> c = 0x2E \<or> c = 0x3A" if "c \<in> set (h @ p)" for c
    using assms that digit_alphanum by (auto simp: host_name_def port_text_def list_all_iff)
  have host: "c \<notin> {0x25, 0x2F, 0x40, 0x5B, 0x3F, 0x23} \<and> \<not> control_byte c" if "c \<in> set (h @ p)" for c
    using host_byte(2,3) [OF bytes [OF that]] by simp
  have front: "list_all (\<lambda>c. c \<notin> {0x3F, 0x23} \<and> \<not> control_byte c) (s @ lit ''://'')"
    using assms(1) by (auto simp: lit_def control_byte_def)
  have clean: "c \<notin> {0x3F, 0x23} \<and> \<not> control_byte c" if "c \<in> set ?b" for c
    using that front host by (auto simp: list_all_iff)
  have ctl: "\<not> list_ex control_byte ?b" using clean by (auto simp: list_ex_iff)
  have star: "?b \<noteq> lit ''*''" and ne: "?b \<noteq> []" using assms(1) by (auto simp: lit_def)
  have gs: "getScheme ?b = Inr (s, ?rest)"
    using assms(1) by (auto simp: getScheme_def lit_def letter_def digit_def)
  have sq: "split_query ?rest = (?rest, False, [])" using host by (intro split_query_plain) auto
  have "0x2F \<notin> set (h @ p)" using host by blast
  then have "cut_before 0x2F (h @ p) = h @ p" and "dropWhile (\<lambda>c. c \<noteq> 0x2F) (h @ p) = []"
    by (auto simp: cut_clean simp del: set_append)
  moreover from this(2) have "dropWhile (\<lambda>c. c \<noteq> 0x2F) p = []" "dropWhile (\<lambda>c. c \<noteq> 0x2F) h = []" by auto
  moreover have "to_lower s = s" using assms(1) by (auto simp: to_lower_def lit_def)
  moreover have "s \<noteq> []" using assms(1) by (auto simp: lit_def)
  ultimately have "parse_url False ?b = Inr (zero_url\<lparr>url_Scheme := s, url_Host := h @ p\<rparr>)"
    using plain_host_parsed [OF assms(2,3)] unfolding parse_url_rooted [OF ctl star ne gs sq]
    by (simp add: parse_hier_def lit_def Let_def setPath_def unescape_path_Nil escape_with_def zero_url_def
        del: dropWhile_eq_Nil_conv)
  moreover have "0x23 \<notin> set ?b" "0x3F \<notin> set ?b" using clean by blast+
  ultimately show ?thesis
    using cut_clean [of "0x23" ?b] \<open>s \<noteq> []\<close> assms(2) by (simp add: base_url_def url_Parse_def host_name_def zero_url_def)
qed

end
