(* ===== verification/Transport_Properties.thy ===== *)
theory Transport_Properties
  imports Http_Exchange
begin

text \<open>
  What the reference transport promises. Between a client and the handler that serves its base URL
  (\<open>served_by\<close>) the client behaves as the coordinator behind the handler, up to what JSON does to the
  values (\<open>carries\<close>) and to the text of errors; a base URL that is not a coordinator root never gets there.
\<close>

section \<open>A client connected to a handler\<close>

text \<open>\<open>v\<close> sent as a request body, or with the newline of \<open>Encode\<close> as a response body,
    arrives as \<open>v'\<close>.\<close>

definition carries :: "'a codec \<Rightarrow> 'a \<Rightarrow> 'a \<Rightarrow> bool" where
  "carries jc v v' \<longleftrightarrow> (\<exists>b. jc_Marshal jc v = Inr b \<and> jc_Decode jc b = (v', None))"

definition carries_line :: "'a codec \<Rightarrow> 'a \<Rightarrow> 'a \<Rightarrow> bool" where
  "carries_line jc v v' \<longleftrightarrow> (\<exists>b. jc_Marshal jc v = Inr b \<and> jc_Decode jc (b @ [0x0A]) =
      (v', None))"

text \<open>The error the client reports when the handler answered with a status outside 200..299.\<close>

definition reported :: "bytes \<Rightarrow> bytes \<Rightarrow> bytes \<Rightarrow> bytes \<Rightarrow> go_error" where
  "reported meth path status body = lit ''sohocloud: '' @ meth @ lit '' '' @ path @ lit '': status '' @ status @
     lit '': '' @ take 4096 body"

text \<open>The coordinator's error, as it comes back through the transport.\<close>

fun through :: "bytes \<Rightarrow> bytes \<Rightarrow> go_error option \<times> 's \<Rightarrow>
    go_error option \<times> 's" where
  "through meth path (None, s) = (None, s)"
| "through meth path (Some err, s) = (Some (reported meth path (lit ''500'') (err @ [0x0A])), s)"

lemma decimal_status: "decimal 500 = lit ''500''" "decimal 400 = lit ''400''"
  by (simp_all add: decimal.simps [of 500] decimal.simps [of 50] decimal.simps [of 5] decimal.simps [of 400]
      decimal.simps [of 40] decimal.simps [of 4] lit_def)

lemma post_ok_status: "\<not> redirected (Inr (fst (post jc call req s)))"
  by (auto simp: post_def decode_def methodNotAllowed_def server_fail_def http_Error_def empty_response_def
      split: sum.splits prod.splits option.splits)

lemma post_refines:
  assumes "served_by env c H" and "path \<in> set route_paths" and "carries jc v v'"
    and "\<And>req. at_path path req \<Longrightarrow> H req = post jc call req"
  shows "postJSON env c jc path v s = through MethodPost path (call v' s)"
proof -
  from assms(3) obtain b where b: "jc_Marshal jc v = Inr b" "jc_Decode jc b = (v', None)"
    by (auto simp: carries_def)
  let ?req = "received MethodPost path [] (lit ''application/json'') b"
  have H: "H ?req = post jc call ?req" by (rule assms(4) [OF received_at_path [OF assms(2)]])
  obtain resp s' where resp: "H ?req s = (resp, s')" by fastforce
  then have "\<not> redirected (Inr resp)" using post_ok_status [of jc call ?req s] H by simp
  with served_request [OF assms(1,2) route_query_Nil resp]
  obtain u where "NewRequest env MethodPost (hc_BaseURL c @ path) b =
      Inr \<lparr>rq_Method = MethodPost, rq_URL = u, rq_ContentType = [], rq_Body = b\<rparr>" "url_Path u = path"
    "Client_Do env (httpClient c) \<lparr>rq_Method = MethodPost, rq_URL = u, rq_ContentType = lit ''application/json'', rq_Body = b\<rparr> s =
      (Inr resp, s')"
    by (auto simp: exchanged_as_def query_text_def)
  then have "postJSON env c jc path v s =
      (if rs_Status resp < 200 \<or> 300 \<le> rs_Status resp
       then Some (status_error \<lparr>rq_Method = MethodPost, rq_URL = u, rq_ContentType = lit ''application/json'', rq_Body = b\<rparr> resp)
       else None, s')"
    by (simp add: postJSON_def b client_do_def)
  moreover have "post jc call ?req s = (resp, s')" using H resp by simp
  ultimately show ?thesis using \<open>url_Path u = path\<close>
    by (cases "call v' s"; cases "fst (call v' s)")
      (auto simp: post_def received_def decode_def b server_fail_def http_Error_def status_error_def
        reported_def decimal_status empty_response_def)
qed

text \<open>A GET whose handler succeeds, and one whose handler answers with an error status.\<close>

definition get_request :: "bytes \<Rightarrow> bytes \<Rightarrow> http_request" where
  "get_request path query = received MethodGet path query [] []"

lemma get_ok:
  assumes "exchanged_as shown env c MethodGet p q [] [] s (writeJSON jc out) s'" and "carries_line jc out out'"
  shows "getJSON env c jc (p @ query_text q) zero s = ((out', None), s')"
  using assms by (auto simp: exchanged_as_def getJSON_def client_do_out_def writeJSON_def carries_line_def)

lemma get_failed:
  assumes "exchanged_as shown env c MethodGet p q [] [] s (http_Error msg code) s'" and "code \<in> {400, 500}"
  shows "getJSON env c jc (p @ query_text q) zero s = ((zero, Some (reported MethodGet shown (decimal code) (msg @ [0x0A]))), s')"
  using assms by (auto simp: exchanged_as_def getJSON_def client_do_out_def http_Error_def status_error_def reported_def)

text \<open>The URL of a poll.\<close>

lemma escape_byte_uri: "list_all uri_byte (escape_byte c)"
  using nibbles [of c] hex_byte_uri [of "drop_bit 4 c"] hex_byte_uri [of "c AND 0xF"] alphanum_uri [of c]
  by (auto simp: escape_byte_def unreserved_def alphanum_def uri_byte_def control_byte_def)

lemma poll_query: "route_query (lit ''node_id='' @ QueryEscape v)"
proof -
  have "list_all uri_byte (QueryEscape v)"
    using escape_byte_uri by (auto simp: QueryEscape_def list_all_iff)
  moreover have "list_all uri_byte (lit ''node_id='')" by code_simp
  ultimately show ?thesis by (simp add: route_query_def)
qed

lemma poll_url: "lit ''/v0/jobs?node_id='' @ QueryEscape v = lit ''/v0/jobs'' @ query_text (lit ''node_id='' @ QueryEscape v)"
  by (simp add: query_text_def lit_def)

lemma Query_Get_node_id: "Query_Get (lit ''node_id='' @ QueryEscape v) (lit ''node_id'') = v"
proof -
  have "lit ''node_id='' @ QueryEscape v = lit ''node_id'' @ 0x3D # QueryEscape v" by (simp add: lit_def)
  moreover have "list_all unreserved (lit ''node_id'')" by code_simp
  ultimately show ?thesis using Query_Get_single [of "lit ''node_id''" v] by (simp add: lit_def)
qed

text \<open>The two GET routes.\<close>

lemma jobs_answer:
  assumes "nodeID \<noteq> []" and "co_PollJobs C nodeID s = ((jobs, e), s')"
  shows "Handler J C (received MethodGet (lit ''/v0/jobs'') (lit ''node_id='' @ QueryEscape nodeID) [] []) s =
    (case e of None \<Rightarrow> writeJSON (jn_jobs J) jobs | Some err \<Rightarrow> http_Error err 500, s')"
  unfolding Handler_received using assms
  by (cases e) (simp_all add: handle_jobs_def received_def Query_Get_node_id server_fail_def)

lemma poll_exchange:
  assumes "served_by env c (Handler J C)" and "nodeID \<noteq> []" and "co_PollJobs C nodeID s = ((jobs, e), s')"
  shows "exchanged env c MethodGet (lit ''/v0/jobs'') (lit ''node_id='' @ QueryEscape nodeID) [] [] s
    (case e of None \<Rightarrow> writeJSON (jn_jobs J) jobs | Some err \<Rightarrow> http_Error err 500) s'"
proof -
  have route: "lit ''/v0/jobs'' \<in> set route_paths" by (simp add: route_paths_def)
  show ?thesis
    by (rule served_request [OF assms(1) route poll_query jobs_answer [OF assms(2,3)]])
      (cases e; simp add: writeJSON_def http_Error_def)
qed

lemma fees_exchange:
  assumes "served_by env c (Handler J C)" and "co_Fees C s = ((fee, e), s')"
  shows "exchanged env c MethodGet (lit ''/v0/fees'') [] [] [] s
    (case e of None \<Rightarrow> writeJSON (jn_fees J) fee | Some err \<Rightarrow> http_Error err 500) s'"
proof -
  have route: "lit ''/v0/fees'' \<in> set route_paths" by (simp add: route_paths_def)
  show ?thesis
    using assms(2) Handler_routes(6) [OF received_at_path [OF route], of J C]
    by (intro served_request [OF assms(1) route route_query_Nil])
      (cases e; simp add: handle_fees_def received_def server_fail_def writeJSON_def http_Error_def)+
qed

section \<open>Witnesses: a loopback network and a coordinator that counts\<close>

text \<open>The loopback network delivers every request to one handler.\<close>

definition loopback :: "'s handler \<Rightarrow> 's http_env" where
  "loopback H = \<lparr>he_Quote = (\<lambda>s. 0x22 # s @ [0x22]), he_DefaultTransport = http_Server H\<rparr>"

lemma loopback_served: "coordinator_root base \<Longrightarrow> served_by (loopback H) \<lparr>hc_BaseURL = base, hc_HTTP = None\<rparr> H"
  by (simp add: served_by_def delivers_def loopback_def httpClient_def client_Transport_def)

text \<open>Codecs that send nothing and decode a fixed value, and a coordinator that counts its calls, accepts
  everything but fee requests, and records the last node id it was polled for.\<close>

definition fixed_codec :: "'a \<Rightarrow> 'a codec" where
  "fixed_codec v = \<lparr>jc_Marshal = (\<lambda>_. Inr []), jc_Decode = (\<lambda>_. (v, None))\<rparr>"

definition demo_decline :: Decline where
  "demo_decline = \<lparr>dc_JobID = lit ''job'', dc_NodeID = lit ''n'', dc_Reason = DeclineCapacity,
     dc_DeclinedAt = time_Unix 0 0, dc_Signature = []\<rparr>"

definition demo_report :: JobReport where
  "demo_report = \<lparr>jr_JobID = lit ''job'', jr_NodeID = lit ''n'', jr_ExitCode = 0, jr_FailureCause = [],
     jr_TmpfsExhausted = False, jr_StartedAt = time_Unix 0 0, jr_FinishedAt = time_Unix 0 1, jr_Signature = []\<rparr>"

definition demo_beat :: Heartbeat where
  "demo_beat = \<lparr>hb_NodeID = lit ''n'', hb_SentAt = time_Unix 0 0, hb_Seq = 1, hb_Signature = []\<rparr>"

definition demo_listing :: CapabilityListing where
  "demo_listing = \<lparr>cl_NodeID = lit ''n'', cl_Class = ClassMicro, cl_Printers = [], cl_GPUs = [],
     cl_Capacity = \<lparr>ca_VCPUs = 1, ca_MemMB = 1, ca_DiskMB = 1, ca_StorageCommitMB = 0, ca_PrintQPS = 0\<rparr>,
     cl_OptIn = \<lparr>oi_Compute = True, oi_Print = False, oi_Storage = False\<rparr>,
     cl_IssuedAt = time_Unix 0 0, cl_Seq = 1, cl_Signature = []\<rparr>"

definition demo_json :: json where
  "demo_json = \<lparr>jn_listing = fixed_codec demo_listing, jn_heartbeat = fixed_codec demo_beat,
     jn_decline = fixed_codec demo_decline, jn_report = fixed_codec demo_report, jn_jobs = fixed_codec [],
     jn_fees = fixed_codec zero_FeeDeclaration\<rparr>"

definition counting :: "(nat \<times> bytes) Coordinator" where
  "counting =
     \<lparr>co_SubmitListing = (\<lambda>l (n, p). (None, (Suc n, p))), co_Heartbeat = (\<lambda>h (n, p). (None,
     (Suc n, p))),
      co_PollJobs = (\<lambda>q (n, p). (([], None), (Suc n, q))), co_Decline = (\<lambda>d (n, p). (None, (Suc n, p))),
      co_ReportJob = (\<lambda>r (n, p). (Some (lit ''late''), (Suc n, p))),
      co_Fees = (\<lambda>(n, p). ((zero_FeeDeclaration, Some (lit ''none'')), (Suc n, p)))\<rparr>"

definition demo_client :: "'s Client" where
  "demo_client = \<lparr>hc_BaseURL = lit ''http://c'', hc_HTTP = None\<rparr>"

definition demo_env :: "(nat \<times> bytes) http_env" where
  "demo_env = loopback (Handler demo_json counting)"

lemma demo_root: "coordinator_root (lit ''http://c'')"
  by code_simp

lemma demo_served: "served_by demo_env demo_client (Handler demo_json counting)"
  unfolding demo_env_def demo_client_def by (rule loopback_served [OF demo_root])

lemma fixed_carries [simp]: "carries (fixed_codec v) v v" "carries_line (fixed_codec v) v v"
  by (simp_all add: carries_def carries_line_def fixed_codec_def)


section \<open>Properties\<close>

text \<open>Over a handler of a coordinator \<open>C\<close>,
    \<open>PollJobs\<close> and \<open>Fees\<close> of the client are the methods of \<open>C\<close>. The node
  id, escaped into the query by the client and parsed out by the handler, reaches the coordinator
  unchanged whatever bytes it has, so no id can name another node or smuggle in a parameter; on an error
  the client returns no value and the error's text from a status-500 response.\<close>

theorem client_gets_refine_coordinator:
  assumes "served_by env c (Handler J C)" and "nodeID \<noteq> []"
    and "co_PollJobs C nodeID s = ((jobs, e), s')" and "carries_line (jn_jobs J) jobs jobs'"
    and "co_Fees C t = ((fee, f), t')" and "carries_line (jn_fees J) fee fee'"
  shows "co_PollJobs (Client_Coordinator env J c) nodeID s = (case e of
      None \<Rightarrow> ((jobs', None), s')
    | Some err \<Rightarrow> (([], Some (reported MethodGet (lit ''/v0/jobs'') (lit ''500'') (err @ [0x0A]))), s')) \<and>
    co_Fees (Client_Coordinator env J c) t = (case f of
      None \<Rightarrow> ((fee', None), t')
    | Some err \<Rightarrow> ((zero_FeeDeclaration, Some (reported MethodGet (lit ''/v0/fees'') (lit ''500'') (err @
        [0x0A]))), t'))"
proof
  note poll = poll_exchange [OF assms(1-3)]
  show "co_PollJobs (Client_Coordinator env J c) nodeID s = (case e of
      None \<Rightarrow> ((jobs', None), s')
    | Some err \<Rightarrow> (([], Some (reported MethodGet (lit ''/v0/jobs'') (lit ''500'') (err @ [0x0A]))), s'))"
    using get_ok [OF _ assms(4)] get_failed [where code = 500] poll
    by (cases e) (simp_all add: Client_Coordinator_def Client_PollJobs_def poll_url decimal_status)
next
  note fees = fees_exchange [OF assms(1,5)]
  show "co_Fees (Client_Coordinator env J c) t = (case f of
      None \<Rightarrow> ((fee', None), t')
    | Some err \<Rightarrow> ((zero_FeeDeclaration, Some (reported MethodGet (lit ''/v0/fees'') (lit ''500'') (err @
        [0x0A]))), t'))"
    using get_ok [OF _ assms(6), where q = "[]"] get_failed [where code = 500 and q = "[]"] fees
    by (cases f) (simp_all add: Client_Coordinator_def Client_Fees_def decimal_status)
qed

lemma client_gets_refine_coordinator_witness:
  "co_PollJobs (Client_Coordinator demo_env demo_json demo_client) (lit ''a&node_id=b'') (0, []) =
     (([], None), (1, lit ''a&node_id=b''))"
  using client_gets_refine_coordinator [OF demo_served, of "lit ''a&node_id=b''" "(0, [])" "[]" None
      "(1, lit ''a&node_id=b'')" "[]" "(0, [])" zero_FeeDeclaration "Some (lit ''none'')" "(1, [])" zero_FeeDeclaration]
  by (simp add: counting_def demo_json_def) (simp add: lit_def)

text \<open>A poll without a node id is refused by the handler with status 400; the coordinator is not called, and
  the client returns no jobs and the error.\<close>

theorem poll_without_node_id:
  assumes "served_by env c (Handler J C)"
  shows "Client_PollJobs env J c [] s =
     (([], Some (reported MethodGet (lit ''/v0/jobs'') (lit ''400'') (lit ''missing node_id'' @ [0x0A]))), s)"
proof -
  have route: "lit ''/v0/jobs'' \<in> set route_paths" by (simp add: route_paths_def)
  have "exchanged env c MethodGet (lit ''/v0/jobs'') (lit ''node_id='' @ QueryEscape []) [] [] s
      (http_Error (lit ''missing node_id'') 400) s"
    using Handler_routes(5) [OF received_at_path [OF route], of J C]
    by (intro served_request [OF assms route poll_query])
      (simp_all add: handle_jobs_def received_def Query_Get_node_id http_Error_def)
  then show ?thesis unfolding Client_PollJobs_def poll_url decimal_status(2) [symmetric] by (rule get_failed) simp
qed

lemma poll_without_node_id_witness:
  "snd (Client_PollJobs demo_env demo_json demo_client [] (7, [])) = (7, [])"
  by (simp add: poll_without_node_id [OF demo_served])

lemma client_posts_eq:
  assumes "served_by env c (Handler J C)"
    and "carries (jn_listing J) l l'" and "carries (jn_heartbeat J) h h'" and "carries (jn_decline J) d d'"
    and "carries (jn_report J) r r'"
  shows "co_SubmitListing (Client_Coordinator env J c) l s = through MethodPost (lit ''/v0/listing'') (co_SubmitListing
      C l' s) \<and>
    co_Heartbeat (Client_Coordinator env J c) h s = through MethodPost (lit ''/v0/heartbeat'') (co_Heartbeat C h' s) \<and>
    co_Decline (Client_Coordinator env J c) d s = through MethodPost (lit ''/v0/decline'') (co_Decline C d' s) \<and>
    co_ReportJob (Client_Coordinator env J c) r s = through MethodPost (lit ''/v0/report'') (co_ReportJob C r' s)"
proof -
  note refine = post_refines [OF assms(1)]
  have "Client_SubmitListing env J c l s = through MethodPost (lit ''/v0/listing'') (co_SubmitListing C l' s)"
    unfolding Client_SubmitListing_def by (rule refine [OF _ assms(2)]) (simp_all add: route_paths_def Handler_routes)
  moreover have "Client_Heartbeat env J c h s = through MethodPost (lit ''/v0/heartbeat'') (co_Heartbeat C h' s)"
    unfolding Client_Heartbeat_def by (rule refine [OF _ assms(3)]) (simp_all add: route_paths_def Handler_routes)
  moreover have "Client_Decline env J c d s = through MethodPost (lit ''/v0/decline'') (co_Decline C d' s)"
    unfolding Client_Decline_def by (rule refine [OF _ assms(4)]) (simp_all add: route_paths_def Handler_routes)
  moreover have "Client_ReportJob env J c r s = through MethodPost (lit ''/v0/report'') (co_ReportJob C r' s)"
    unfolding Client_ReportJob_def by (rule refine [OF _ assms(5)]) (simp_all add: route_paths_def Handler_routes)
  ultimately show ?thesis by (simp add: Client_Coordinator_def)
qed

text \<open>Over a handler of a coordinator \<open>C\<close>,
    each posting method of the client is the method of \<open>C\<close> on the
  value JSON carries: the coordinator is called exactly once, the client returns nil exactly when it
  did, and its error comes back in the text of a status-500 response.\<close>

theorem client_posts_refine_coordinator:
  assumes "served_by env c (Handler J C)"
    and "carries (jn_listing J) l l'" and "carries (jn_heartbeat J) h h'" and "carries (jn_decline J) d d'"
    and "carries (jn_report J) r r'"
  shows "co_SubmitListing (Client_Coordinator env J c) l s = through MethodPost (lit ''/v0/listing'') (co_SubmitListing
      C l' s) \<and>
    co_Heartbeat (Client_Coordinator env J c) h s = through MethodPost (lit ''/v0/heartbeat'') (co_Heartbeat C h' s) \<and>
    co_Decline (Client_Coordinator env J c) d s = through MethodPost (lit ''/v0/decline'') (co_Decline C d' s) \<and>
    co_ReportJob (Client_Coordinator env J c) r s = through MethodPost (lit ''/v0/report'') (co_ReportJob C r' s)"
  using assms by (rule client_posts_eq)

lemma client_posts_refine_coordinator_witness:
  "co_Heartbeat (Client_Coordinator demo_env demo_json demo_client) demo_beat (0, []) = (None, (1, [])) \<and>
   co_ReportJob (Client_Coordinator demo_env demo_json demo_client) demo_report (0, []) =
     (Some (reported MethodPost (lit ''/v0/report'') (lit ''500'') (lit ''late'' @ [0x0A])), (1, []))"
  using client_posts_refine_coordinator [OF demo_served, of demo_listing demo_listing demo_beat demo_beat demo_decline
      demo_decline demo_report demo_report "(0, [])"]
  by (simp add: counting_def demo_json_def)

text \<open>C36: the handler never calls the coordinator, whose state therefore cannot change, for a request with the
  wrong method, a path that is not one of the six or is not clean, a body that does not decode, or no node
  id; the status says which.\<close>

theorem handler_rejects_without_call:
  "((at_path (lit ''/v0/jobs'') r \<or> at_path (lit ''/v0/fees'') r) \<and> rq_Method r \<noteq> MethodGet \<or>
      (\<exists>p \<in> {lit ''/v0/listing'', lit ''/v0/heartbeat'', lit ''/v0/decline'', lit ''/v0/report''}. at_path p r) \<and>
        rq_Method r \<noteq> MethodPost
      \<longrightarrow> Handler J C r s = (methodNotAllowed, s)) \<and>
   (RequestURI (rq_URL r) \<noteq> lit ''*'' \<longrightarrow>
      (findHandler route_paths (rq_Method r) (rq_URL r) = Unmatched \<longrightarrow> Handler J C r s = (http_NotFound, s)) \<and>
      (\<forall>url. findHandler route_paths (rq_Method r) (rq_URL r) = Redirected url \<longrightarrow> Handler J C r s = (http_Moved r url, s))) \<and>
   (rq_Method r = MethodPost \<and>
      (at_path (lit ''/v0/listing'') r \<and> (\<exists>v. jc_Decode (jn_listing J) (rq_Body r) = (v, Some err)) \<or>
       at_path (lit ''/v0/heartbeat'') r \<and> (\<exists>v. jc_Decode (jn_heartbeat J) (rq_Body r) = (v, Some err)) \<or>
       at_path (lit ''/v0/decline'') r \<and> (\<exists>v. jc_Decode (jn_decline J) (rq_Body r) = (v, Some err)) \<or>
       at_path (lit ''/v0/report'') r \<and> (\<exists>v. jc_Decode (jn_report J) (rq_Body r) = (v, Some err)))
      \<longrightarrow> Handler J C r s = (http_Error (lit ''bad json: '' @ err) 400, s)) \<and>
   (at_path (lit ''/v0/jobs'') r \<and> rq_Method r = MethodGet \<and> Query_Get (url_RawQuery (rq_URL r)) (lit ''node_id'') = []
      \<longrightarrow> Handler J C r s = (http_Error (lit ''missing node_id'') 400, s))"
  by (auto simp: Handler_routes Handler_otherwise post_def handle_jobs_def handle_fees_def decode_def)

lemma handler_rejects_without_call_witness:
  "Handler demo_json counting (get_request (lit ''/v0/heartbeat'') []) (7, []) = (methodNotAllowed, (7, []))"
proof -
  have "at_path (lit ''/v0/heartbeat'') (get_request (lit ''/v0/heartbeat'') [])"
    unfolding get_request_def by (rule received_at_path) (simp add: route_paths_def)
  moreover have "rq_Method (get_request (lit ''/v0/heartbeat'') []) \<noteq> MethodPost"
    by (simp add: get_request_def received_def MethodGet_def MethodPost_def)
  ultimately show ?thesis
    using handler_rejects_without_call [of "get_request (lit ''/v0/heartbeat'') []" demo_json counting "(7, [])" "[]"]
    by blast
qed

end
