(* ===== verification/Vectors.thy ===== *)
theory Vectors
  imports Wire
begin

text \<open>
  Validation of the model against the reference implementation's published data: the messages of
  src/testdata/vectors.json (written by src/vectors/vectors_test.go) with their canonical bytes, and the
  FIPS 180-4 test vector for ''abc''. Each lemma evaluates the definitions of the model in the kernel.
\<close>

section \<open>The fifteen messages of testdata/vectors.json\<close>

definition vector_CapabilityListing :: "wire_msg" where
  "vector_CapabilityListing = NodeMsg (ListingMsg
     \<lparr>cl_NodeID = lit ''node-alpha'',
      cl_Class = lit ''server'',
      cl_Printers = [\<lparr>pc_Kind = lit ''traditional'', pc_Model = lit ''HP LaserJet''\<rparr>,
        \<lparr>pc_Kind = lit ''threed'', pc_Model = lit ''Prusa MK4''\<rparr>],
      cl_GPUs = [\<lparr>gc_API = lit ''cuda'', gc_Model = lit ''RTX 4090'', gc_VRAMMB = 24576\<rparr>,
        \<lparr>gc_API = lit ''vulkan'', gc_Model = lit ''Adreno 750'', gc_VRAMMB = 8192\<rparr>],
      cl_Capacity = \<lparr>ca_VCPUs = 16, ca_MemMB = 65536, ca_DiskMB = 2000000,
        ca_StorageCommitMB = 500000, ca_PrintQPS = 3\<rparr>,
      cl_OptIn = \<lparr>oi_Compute = True, oi_Print = False, oi_Storage = True\<rparr>,
      cl_IssuedAt = time_UTC (time_Unix 0 1700000000000000123),
      cl_Seq = 42,
      cl_Signature = []\<rparr>)"

definition canonical_CapabilityListing :: "bytes" where
  "canonical_CapabilityListing =
    [0x14, 0x73, 0x6f, 0x68, 0x6f, 0x63, 0x6c, 0x6f, 0x75, 0x64, 0x2f, 0x6c, 0x69, 0x73, 0x74, 0x69, 0x6e, 0x67,
     0x2f, 0x76, 0x30, 0x0a, 0x6e, 0x6f, 0x64, 0x65, 0x2d, 0x61, 0x6c, 0x70, 0x68, 0x61, 0x06, 0x73, 0x65, 0x72,
     0x76, 0x65, 0x72, 0x02, 0x0b, 0x74, 0x72, 0x61, 0x64, 0x69, 0x74, 0x69, 0x6f, 0x6e, 0x61, 0x6c, 0x0b, 0x48,
     0x50, 0x20, 0x4c, 0x61, 0x73, 0x65, 0x72, 0x4a, 0x65, 0x74, 0x06, 0x74, 0x68, 0x72, 0x65, 0x65, 0x64, 0x09,
     0x50, 0x72, 0x75, 0x73, 0x61, 0x20, 0x4d, 0x4b, 0x34, 0x02, 0x04, 0x63, 0x75, 0x64, 0x61, 0x08, 0x52, 0x54,
     0x58, 0x20, 0x34, 0x30, 0x39, 0x30, 0x00, 0x00, 0x00, 0x00, 0x00, 0x00, 0x60, 0x00, 0x06, 0x76, 0x75, 0x6c,
     0x6b, 0x61, 0x6e, 0x0a, 0x41, 0x64, 0x72, 0x65, 0x6e, 0x6f, 0x20, 0x37, 0x35, 0x30, 0x00, 0x00, 0x00, 0x00,
     0x00, 0x00, 0x20, 0x00, 0x00, 0x00, 0x00, 0x00, 0x00, 0x00, 0x00, 0x10, 0x00, 0x00, 0x00, 0x00, 0x00, 0x01,
     0x00, 0x00, 0x00, 0x00, 0x00, 0x00, 0x00, 0x1e, 0x84, 0x80, 0x00, 0x00, 0x00, 0x00, 0x00, 0x07, 0xa1, 0x20,
     0x00, 0x00, 0x00, 0x00, 0x00, 0x00, 0x00, 0x03, 0x01, 0x00, 0x01, 0x17, 0x97, 0x9c, 0xfe, 0x36, 0x2a, 0x00,
     0x7b, 0x00, 0x00, 0x00, 0x00, 0x00, 0x00, 0x00, 0x2a]"

lemma vector_CapabilityListing_bytes: "wire_bytes vector_CapabilityListing = canonical_CapabilityListing"
  by code_simp

definition vector_Heartbeat :: "wire_msg" where
  "vector_Heartbeat = NodeMsg (HeartbeatMsg
     \<lparr>hb_NodeID = lit ''node-alpha'',
      hb_SentAt = time_UTC (time_Unix 0 1700000050500000000),
      hb_Seq = 43,
      hb_Signature = []\<rparr>)"

definition canonical_Heartbeat :: "bytes" where
  "canonical_Heartbeat =
    [0x16, 0x73, 0x6f, 0x68, 0x6f, 0x63, 0x6c, 0x6f, 0x75, 0x64, 0x2f, 0x68, 0x65, 0x61, 0x72, 0x74, 0x62, 0x65,
     0x61, 0x74, 0x2f, 0x76, 0x30, 0x0a, 0x6e, 0x6f, 0x64, 0x65, 0x2d, 0x61, 0x6c, 0x70, 0x68, 0x61, 0x17, 0x97,
     0x9d, 0x09, 0xf8, 0x32, 0xd9, 0x00, 0x00, 0x00, 0x00, 0x00, 0x00, 0x00, 0x00, 0x2b]"

lemma vector_Heartbeat_bytes: "wire_bytes vector_Heartbeat = canonical_Heartbeat"
  by code_simp

definition vector_FeeDeclaration :: "wire_msg" where
  "vector_FeeDeclaration = NodeMsg (FeeMsg
     \<lparr>fd_CoordinatorID = lit ''coord-soholink'',
      fd_Terms = \<lparr>ft_ContributorShareBps = 7000, ft_PlatformFeeBps = 3000\<rparr>,
      fd_EffectiveAt = time_UTC (time_Unix 0 1700000050500000000),
      fd_Seq = 5,
      fd_Signature = []\<rparr>)"

definition canonical_FeeDeclaration :: "bytes" where
  "canonical_FeeDeclaration =
    [0x10, 0x73, 0x6f, 0x68, 0x6f, 0x63, 0x6c, 0x6f, 0x75, 0x64, 0x2f, 0x66, 0x65, 0x65, 0x2f, 0x76, 0x30, 0x0e,
     0x63, 0x6f, 0x6f, 0x72, 0x64, 0x2d, 0x73, 0x6f, 0x68, 0x6f, 0x6c, 0x69, 0x6e, 0x6b, 0x00, 0x00, 0x00, 0x00,
     0x00, 0x00, 0x1b, 0x58, 0x00, 0x00, 0x00, 0x00, 0x00, 0x00, 0x0b, 0xb8, 0x17, 0x97, 0x9d, 0x09, 0xf8, 0x32,
     0xd9, 0x00, 0x00, 0x00, 0x00, 0x00, 0x00, 0x00, 0x00, 0x05]"

lemma vector_FeeDeclaration_bytes: "wire_bytes vector_FeeDeclaration = canonical_FeeDeclaration"
  by code_simp

definition vector_Assignment :: "wire_msg" where
  "vector_Assignment = NodeMsg (AssignmentMsg
     \<lparr>as_JobID = lit ''job-7f3a'',
      as_NodeID = lit ''node-alpha'',
      as_Spec = \<lparr>js_Workload = lit ''compute'', js_Image = lit ''ghcr.io/ntari/render:1.2.3'',
        js_Args = [lit ''--frames'', lit ''120'', lit ''--quality'', lit ''high''],
        js_PrinterKind = [], js_GPUAPI = lit ''cuda'', js_GPUMinVRAMMB = 8192\<rparr>,
      as_Fee = \<lparr>ft_ContributorShareBps = 6500, ft_PlatformFeeBps = 3500\<rparr>,
      as_OfferedAt = time_UTC (time_Unix 0 1700000100000000000),
      as_Signature = []\<rparr>)"

definition canonical_Assignment :: "bytes" where
  "canonical_Assignment =
    [0x17, 0x73, 0x6f, 0x68, 0x6f, 0x63, 0x6c, 0x6f, 0x75, 0x64, 0x2f, 0x61, 0x73, 0x73, 0x69, 0x67, 0x6e, 0x6d,
     0x65, 0x6e, 0x74, 0x2f, 0x76, 0x30, 0x08, 0x6a, 0x6f, 0x62, 0x2d, 0x37, 0x66, 0x33, 0x61, 0x0a, 0x6e, 0x6f,
     0x64, 0x65, 0x2d, 0x61, 0x6c, 0x70, 0x68, 0x61, 0x07, 0x63, 0x6f, 0x6d, 0x70, 0x75, 0x74, 0x65, 0x1a, 0x67,
     0x68, 0x63, 0x72, 0x2e, 0x69, 0x6f, 0x2f, 0x6e, 0x74, 0x61, 0x72, 0x69, 0x2f, 0x72, 0x65, 0x6e, 0x64, 0x65,
     0x72, 0x3a, 0x31, 0x2e, 0x32, 0x2e, 0x33, 0x04, 0x08, 0x2d, 0x2d, 0x66, 0x72, 0x61, 0x6d, 0x65, 0x73, 0x03,
     0x31, 0x32, 0x30, 0x09, 0x2d, 0x2d, 0x71, 0x75, 0x61, 0x6c, 0x69, 0x74, 0x79, 0x04, 0x68, 0x69, 0x67, 0x68,
     0x00, 0x04, 0x63, 0x75, 0x64, 0x61, 0x00, 0x00, 0x00, 0x00, 0x00, 0x00, 0x20, 0x00, 0x00, 0x00, 0x00, 0x00,
     0x00, 0x00, 0x19, 0x64, 0x00, 0x00, 0x00, 0x00, 0x00, 0x00, 0x0d, 0xac, 0x17, 0x97, 0x9d, 0x15, 0x7e, 0xa0,
     0xe8, 0x00]"

lemma vector_Assignment_bytes: "wire_bytes vector_Assignment = canonical_Assignment"
  by code_simp

definition vector_Decline :: "wire_msg" where
  "vector_Decline = NodeMsg (DeclineMsg
     \<lparr>dc_JobID = lit ''job-7f3a'',
      dc_NodeID = lit ''node-alpha'',
      dc_Reason = lit ''local_policy'',
      dc_DeclinedAt = time_UTC (time_Unix 0 1699999990000000777),
      dc_Signature = []\<rparr>)"

definition canonical_Decline :: "bytes" where
  "canonical_Decline =
    [0x14, 0x73, 0x6f, 0x68, 0x6f, 0x63, 0x6c, 0x6f, 0x75, 0x64, 0x2f, 0x64, 0x65, 0x63, 0x6c, 0x69, 0x6e, 0x65,
     0x2f, 0x76, 0x30, 0x08, 0x6a, 0x6f, 0x62, 0x2d, 0x37, 0x66, 0x33, 0x61, 0x0a, 0x6e, 0x6f, 0x64, 0x65, 0x2d,
     0x61, 0x6c, 0x70, 0x68, 0x61, 0x0c, 0x6c, 0x6f, 0x63, 0x61, 0x6c, 0x5f, 0x70, 0x6f, 0x6c, 0x69, 0x63, 0x79,
     0x17, 0x97, 0x9c, 0xfb, 0xe2, 0x1e, 0x1f, 0x09]"

lemma vector_Decline_bytes: "wire_bytes vector_Decline = canonical_Decline"
  by code_simp

definition vector_JobReport :: "wire_msg" where
  "vector_JobReport = NodeMsg (JobReportMsg
     \<lparr>jr_JobID = lit ''job-7f3a'',
      jr_NodeID = lit ''node-alpha'',
      jr_ExitCode = 137,
      jr_FailureCause = lit ''oom_killed'',
      jr_TmpfsExhausted = True,
      jr_StartedAt = time_UTC (time_Unix 0 1700000000000000123),
      jr_FinishedAt = time_UTC (time_Unix 0 1700000100000000000),
      jr_Signature = []\<rparr>)"

definition canonical_JobReport :: "bytes" where
  "canonical_JobReport =
    [0x16, 0x73, 0x6f, 0x68, 0x6f, 0x63, 0x6c, 0x6f, 0x75, 0x64, 0x2f, 0x6a, 0x6f, 0x62, 0x72, 0x65, 0x70, 0x6f,
     0x72, 0x74, 0x2f, 0x76, 0x30, 0x08, 0x6a, 0x6f, 0x62, 0x2d, 0x37, 0x66, 0x33, 0x61, 0x0a, 0x6e, 0x6f, 0x64,
     0x65, 0x2d, 0x61, 0x6c, 0x70, 0x68, 0x61, 0x00, 0x00, 0x00, 0x00, 0x00, 0x00, 0x00, 0x89, 0x0a, 0x6f, 0x6f,
     0x6d, 0x5f, 0x6b, 0x69, 0x6c, 0x6c, 0x65, 0x64, 0x01, 0x17, 0x97, 0x9c, 0xfe, 0x36, 0x2a, 0x00, 0x7b, 0x17,
     0x97, 0x9d, 0x15, 0x7e, 0xa0, 0xe8, 0x00]"

lemma vector_JobReport_bytes: "wire_bytes vector_JobReport = canonical_JobReport"
  by code_simp

definition vector_KeyRotation :: "wire_msg" where
  "vector_KeyRotation = NodeMsg (KeyRotationMsg
     \<lparr>kr_NodeID = lit ''node-alpha'',
      kr_NewPublicKey = [0x7d, 0x59, 0xc5, 0x62, 0x3d, 0xd4, 0x0a, 0x74, 0xaa, 0x4d, 0x5a, 0x32, 0xac, 0x64, 0x5d, 0x3b, 0x3f, 0x95,
         0xda, 0xea, 0xe4, 0xc2, 0x2b, 0xe2, 0x54, 0x76, 0xdd, 0x6a, 0x48, 0x6f, 0x73, 0x82],
      kr_Algo = lit ''ed25519'',
      kr_RotatedAt = time_UTC (time_Unix 0 1700000050500000000),
      kr_Seq = 2,
      kr_Signature = []\<rparr>)"

definition canonical_KeyRotation :: "bytes" where
  "canonical_KeyRotation =
    [0x18, 0x73, 0x6f, 0x68, 0x6f, 0x63, 0x6c, 0x6f, 0x75, 0x64, 0x2f, 0x6e, 0x6f, 0x64, 0x65, 0x2d, 0x72, 0x6f,
     0x74, 0x61, 0x74, 0x65, 0x2f, 0x76, 0x30, 0x0a, 0x6e, 0x6f, 0x64, 0x65, 0x2d, 0x61, 0x6c, 0x70, 0x68, 0x61,
     0x20, 0x7d, 0x59, 0xc5, 0x62, 0x3d, 0xd4, 0x0a, 0x74, 0xaa, 0x4d, 0x5a, 0x32, 0xac, 0x64, 0x5d, 0x3b, 0x3f,
     0x95, 0xda, 0xea, 0xe4, 0xc2, 0x2b, 0xe2, 0x54, 0x76, 0xdd, 0x6a, 0x48, 0x6f, 0x73, 0x82, 0x07, 0x65, 0x64,
     0x32, 0x35, 0x35, 0x31, 0x39, 0x17, 0x97, 0x9d, 0x09, 0xf8, 0x32, 0xd9, 0x00, 0x00, 0x00, 0x00, 0x00, 0x00,
     0x00, 0x00, 0x02]"

lemma vector_KeyRotation_bytes: "wire_bytes vector_KeyRotation = canonical_KeyRotation"
  by code_simp

definition vector_KeyRevocation :: "wire_msg" where
  "vector_KeyRevocation = NodeMsg (KeyRevocationMsg
     \<lparr>kv_NodeID = lit ''node-alpha'',
      kv_RevokedPublicKey = [0xca, 0x57, 0xee, 0xd3, 0x0e, 0x4a, 0x72, 0x74, 0xef, 0x4c, 0x64, 0x8f, 0x56, 0xf5, 0x8f, 0x88, 0x0b, 0x20,
         0xd2, 0xca, 0x25, 0x72, 0x5d, 0x9e, 0x5c, 0x13, 0xc8, 0x3c, 0x08, 0xc0, 0x9a, 0xeb],
      kv_RevokedAt = time_UTC (time_Unix 0 1699999990000000777),
      kv_Seq = 5,
      kv_Signature = []\<rparr>)"

definition canonical_KeyRevocation :: "bytes" where
  "canonical_KeyRevocation =
    [0x18, 0x73, 0x6f, 0x68, 0x6f, 0x63, 0x6c, 0x6f, 0x75, 0x64, 0x2f, 0x6e, 0x6f, 0x64, 0x65, 0x2d, 0x72, 0x65,
     0x76, 0x6f, 0x6b, 0x65, 0x2f, 0x76, 0x30, 0x0a, 0x6e, 0x6f, 0x64, 0x65, 0x2d, 0x61, 0x6c, 0x70, 0x68, 0x61,
     0x20, 0xca, 0x57, 0xee, 0xd3, 0x0e, 0x4a, 0x72, 0x74, 0xef, 0x4c, 0x64, 0x8f, 0x56, 0xf5, 0x8f, 0x88, 0x0b,
     0x20, 0xd2, 0xca, 0x25, 0x72, 0x5d, 0x9e, 0x5c, 0x13, 0xc8, 0x3c, 0x08, 0xc0, 0x9a, 0xeb, 0x17, 0x97, 0x9c,
     0xfb, 0xe2, 0x1e, 0x1f, 0x09, 0x00, 0x00, 0x00, 0x00, 0x00, 0x00, 0x00, 0x05]"

lemma vector_KeyRevocation_bytes: "wire_bytes vector_KeyRevocation = canonical_KeyRevocation"
  by code_simp

definition vector_StorageLease :: "wire_msg" where
  "vector_StorageLease = NodeMsg (LeaseMsg
     \<lparr>sl_LeaseID = lit ''lease-01ab'',
      sl_NodeID = lit ''node-alpha'',
      sl_ShardRef = [0x00, 0x01, 0x02, 0x03, 0x04, 0x05, 0x06, 0x07, 0x08, 0x09, 0x0a, 0x0b, 0x0c, 0x0d, 0x0e, 0x0f, 0x10, 0x11,
         0x12, 0x13, 0x14, 0x15, 0x16, 0x17, 0x18, 0x19, 0x1a, 0x1b, 0x1c, 0x1d, 0x1e, 0x1f],
      sl_SizeClass = 1048576,
      sl_Fee = \<lparr>ft_ContributorShareBps = 7000, ft_PlatformFeeBps = 3000\<rparr>,
      sl_IssuedAt = time_UTC (time_Unix 0 1700000000000000123),
      sl_ExpiresAt = time_UTC (time_Unix 0 1700000100000000000),
      sl_Seq = 3,
      sl_Signature = []\<rparr>)"

definition canonical_StorageLease :: "bytes" where
  "canonical_StorageLease =
    [0x12, 0x73, 0x6f, 0x68, 0x6f, 0x63, 0x6c, 0x6f, 0x75, 0x64, 0x2f, 0x6c, 0x65, 0x61, 0x73, 0x65, 0x2f, 0x76,
     0x30, 0x0a, 0x6c, 0x65, 0x61, 0x73, 0x65, 0x2d, 0x30, 0x31, 0x61, 0x62, 0x0a, 0x6e, 0x6f, 0x64, 0x65, 0x2d,
     0x61, 0x6c, 0x70, 0x68, 0x61, 0x20, 0x00, 0x01, 0x02, 0x03, 0x04, 0x05, 0x06, 0x07, 0x08, 0x09, 0x0a, 0x0b,
     0x0c, 0x0d, 0x0e, 0x0f, 0x10, 0x11, 0x12, 0x13, 0x14, 0x15, 0x16, 0x17, 0x18, 0x19, 0x1a, 0x1b, 0x1c, 0x1d,
     0x1e, 0x1f, 0x00, 0x00, 0x00, 0x00, 0x00, 0x10, 0x00, 0x00, 0x00, 0x00, 0x00, 0x00, 0x00, 0x00, 0x1b, 0x58,
     0x00, 0x00, 0x00, 0x00, 0x00, 0x00, 0x0b, 0xb8, 0x17, 0x97, 0x9c, 0xfe, 0x36, 0x2a, 0x00, 0x7b, 0x17, 0x97,
     0x9d, 0x15, 0x7e, 0xa0, 0xe8, 0x00, 0x00, 0x00, 0x00, 0x00, 0x00, 0x00, 0x00, 0x03]"

lemma vector_StorageLease_bytes: "wire_bytes vector_StorageLease = canonical_StorageLease"
  by code_simp

definition vector_LeaseDecline :: "wire_msg" where
  "vector_LeaseDecline = NodeMsg (LeaseDeclineMsg
     \<lparr>ld_LeaseID = lit ''lease-01ab'',
      ld_NodeID = lit ''node-alpha'',
      ld_Reason = lit ''local_policy'',
      ld_DeclinedAt = time_UTC (time_Unix 0 1699999990000000777),
      ld_Signature = []\<rparr>)"

definition canonical_LeaseDecline :: "bytes" where
  "canonical_LeaseDecline =
    [0x1a, 0x73, 0x6f, 0x68, 0x6f, 0x63, 0x6c, 0x6f, 0x75, 0x64, 0x2f, 0x6c, 0x65, 0x61, 0x73, 0x65, 0x2d, 0x64,
     0x65, 0x63, 0x6c, 0x69, 0x6e, 0x65, 0x2f, 0x76, 0x30, 0x0a, 0x6c, 0x65, 0x61, 0x73, 0x65, 0x2d, 0x30, 0x31,
     0x61, 0x62, 0x0a, 0x6e, 0x6f, 0x64, 0x65, 0x2d, 0x61, 0x6c, 0x70, 0x68, 0x61, 0x0c, 0x6c, 0x6f, 0x63, 0x61,
     0x6c, 0x5f, 0x70, 0x6f, 0x6c, 0x69, 0x63, 0x79, 0x17, 0x97, 0x9c, 0xfb, 0xe2, 0x1e, 0x1f, 0x09]"

lemma vector_LeaseDecline_bytes: "wire_bytes vector_LeaseDecline = canonical_LeaseDecline"
  by code_simp

definition vector_LeaseRelease :: "wire_msg" where
  "vector_LeaseRelease = NodeMsg (LeaseReleaseMsg
     \<lparr>lr_LeaseID = lit ''lease-01ab'',
      lr_NodeID = lit ''node-alpha'',
      lr_ReleasedAt = time_UTC (time_Unix 0 1700000050500000000),
      lr_Signature = []\<rparr>)"

definition canonical_LeaseRelease :: "bytes" where
  "canonical_LeaseRelease =
    [0x1a, 0x73, 0x6f, 0x68, 0x6f, 0x63, 0x6c, 0x6f, 0x75, 0x64, 0x2f, 0x6c, 0x65, 0x61, 0x73, 0x65, 0x2d, 0x72,
     0x65, 0x6c, 0x65, 0x61, 0x73, 0x65, 0x2f, 0x76, 0x30, 0x0a, 0x6c, 0x65, 0x61, 0x73, 0x65, 0x2d, 0x30, 0x31,
     0x61, 0x62, 0x0a, 0x6e, 0x6f, 0x64, 0x65, 0x2d, 0x61, 0x6c, 0x70, 0x68, 0x61, 0x17, 0x97, 0x9d, 0x09, 0xf8,
     0x32, 0xd9, 0x00]"

lemma vector_LeaseRelease_bytes: "wire_bytes vector_LeaseRelease = canonical_LeaseRelease"
  by code_simp

definition vector_ProofResponse :: "wire_msg" where
  "vector_ProofResponse = NodeMsg (ProofMsg
     \<lparr>pr_LeaseID = lit ''lease-01ab'',
      pr_NodeID = lit ''node-alpha'',
      pr_Offset = 128,
      pr_Length = 256,
      pr_Nonce = [0xf0, 0xf1, 0xf2, 0xf3, 0xf4, 0xf5, 0xf6, 0xf7, 0xf8, 0xf9, 0xfa, 0xfb, 0xfc, 0xfd, 0xfe, 0xff],
      pr_Digest = [0x93, 0xe5, 0x52, 0xed, 0x0c, 0xc6, 0x80, 0x53, 0x8d, 0x01, 0x8e, 0xc1, 0xa9, 0x4c, 0xec, 0x76, 0xad, 0x24,
         0x07, 0x40, 0x18, 0x20, 0x0b, 0x82, 0x67, 0xb3, 0x03, 0xc8, 0xe4, 0x4d, 0xfb, 0x69],
      pr_RespondedAt = time_UTC (time_Unix 0 1700000100000000000),
      pr_Signature = []\<rparr>)"

definition canonical_ProofResponse :: "bytes" where
  "canonical_ProofResponse =
    [0x12, 0x73, 0x6f, 0x68, 0x6f, 0x63, 0x6c, 0x6f, 0x75, 0x64, 0x2f, 0x70, 0x72, 0x6f, 0x6f, 0x66, 0x2f, 0x76,
     0x30, 0x0a, 0x6c, 0x65, 0x61, 0x73, 0x65, 0x2d, 0x30, 0x31, 0x61, 0x62, 0x0a, 0x6e, 0x6f, 0x64, 0x65, 0x2d,
     0x61, 0x6c, 0x70, 0x68, 0x61, 0x00, 0x00, 0x00, 0x00, 0x00, 0x00, 0x00, 0x80, 0x00, 0x00, 0x00, 0x00, 0x00,
     0x00, 0x01, 0x00, 0x10, 0xf0, 0xf1, 0xf2, 0xf3, 0xf4, 0xf5, 0xf6, 0xf7, 0xf8, 0xf9, 0xfa, 0xfb, 0xfc, 0xfd,
     0xfe, 0xff, 0x20, 0x93, 0xe5, 0x52, 0xed, 0x0c, 0xc6, 0x80, 0x53, 0x8d, 0x01, 0x8e, 0xc1, 0xa9, 0x4c, 0xec,
     0x76, 0xad, 0x24, 0x07, 0x40, 0x18, 0x20, 0x0b, 0x82, 0x67, 0xb3, 0x03, 0xc8, 0xe4, 0x4d, 0xfb, 0x69, 0x17,
     0x97, 0x9d, 0x15, 0x7e, 0xa0, 0xe8, 0x00]"

lemma vector_ProofResponse_bytes: "wire_bytes vector_ProofResponse = canonical_ProofResponse"
  by code_simp

definition vector_OperatorTransmission :: "wire_msg" where
  "vector_OperatorTransmission = OpMsg (TransmissionMsg
     \<lparr>ot_OperatorID = lit ''cloudy'',
      ot_TsUnixNano = 1700000000000000123,
      ot_Nonce = [0x5a, 0x5a, 0x5a, 0x5a, 0x5a, 0x5a, 0x5a, 0x5a, 0x5a, 0x5a, 0x5a, 0x5a, 0x5a, 0x5a, 0x5a, 0x5a],
      ot_Seq = 7,
      ot_Algo = lit ''ed25519'',
      ot_Idx0 = 2,
      ot_Idx1 = 5,
      ot_Sig0 = [],
      ot_Sig1 = []\<rparr>)"

definition canonical_OperatorTransmission :: "bytes" where
  "canonical_OperatorTransmission =
    [0x15, 0x73, 0x6f, 0x68, 0x6f, 0x63, 0x6c, 0x6f, 0x75, 0x64, 0x2f, 0x6f, 0x70, 0x65, 0x72, 0x61, 0x74, 0x6f,
     0x72, 0x2f, 0x76, 0x30, 0x06, 0x63, 0x6c, 0x6f, 0x75, 0x64, 0x79, 0x17, 0x97, 0x9c, 0xfe, 0x36, 0x2a, 0x00,
     0x7b, 0x10, 0x5a, 0x5a, 0x5a, 0x5a, 0x5a, 0x5a, 0x5a, 0x5a, 0x5a, 0x5a, 0x5a, 0x5a, 0x5a, 0x5a, 0x5a, 0x5a,
     0x00, 0x00, 0x00, 0x00, 0x00, 0x00, 0x00, 0x07, 0x07, 0x65, 0x64, 0x32, 0x35, 0x35, 0x31, 0x39, 0x00, 0x00,
     0x00, 0x00, 0x00, 0x00, 0x00, 0x02, 0x00, 0x00, 0x00, 0x00, 0x00, 0x00, 0x00, 0x05]"

lemma vector_OperatorTransmission_bytes: "wire_bytes vector_OperatorTransmission = canonical_OperatorTransmission"
  by code_simp

definition vector_OperatorRotation :: "wire_msg" where
  "vector_OperatorRotation = OpMsg (RotationMsg
     \<lparr>or_OperatorID = lit ''cloudy'',
      or_KeyIndex = 4,
      or_NewPublicKey = [0xc8, 0x53, 0xad, 0x0f, 0x0c, 0xd2, 0xb6, 0x19, 0xae, 0xa9, 0x2c, 0xee, 0xc4, 0xfd, 0x56, 0xa2, 0x4d, 0x64,
         0x99, 0xd5, 0x84, 0xce, 0x79, 0x25, 0x7e, 0x45, 0xcf, 0xd8, 0x13, 0x9b, 0x60, 0xa7],
      or_Algo = lit ''ed25519'',
      or_TsUnixNano = 1700000050500000000,
      or_Nonce = [0x33, 0x33, 0x33, 0x33, 0x33, 0x33, 0x33, 0x33, 0x33, 0x33, 0x33, 0x33, 0x33, 0x33, 0x33, 0x33],
      or_Seq = 9,
      or_Idx0 = 0,
      or_Idx1 = 1,
      or_Sig0 = [],
      or_Sig1 = []\<rparr>)"

definition canonical_OperatorRotation :: "bytes" where
  "canonical_OperatorRotation =
    [0x1c, 0x73, 0x6f, 0x68, 0x6f, 0x63, 0x6c, 0x6f, 0x75, 0x64, 0x2f, 0x6f, 0x70, 0x65, 0x72, 0x61, 0x74, 0x6f,
     0x72, 0x2d, 0x72, 0x6f, 0x74, 0x61, 0x74, 0x65, 0x2f, 0x76, 0x30, 0x06, 0x63, 0x6c, 0x6f, 0x75, 0x64, 0x79,
     0x00, 0x00, 0x00, 0x00, 0x00, 0x00, 0x00, 0x04, 0x20, 0xc8, 0x53, 0xad, 0x0f, 0x0c, 0xd2, 0xb6, 0x19, 0xae,
     0xa9, 0x2c, 0xee, 0xc4, 0xfd, 0x56, 0xa2, 0x4d, 0x64, 0x99, 0xd5, 0x84, 0xce, 0x79, 0x25, 0x7e, 0x45, 0xcf,
     0xd8, 0x13, 0x9b, 0x60, 0xa7, 0x07, 0x65, 0x64, 0x32, 0x35, 0x35, 0x31, 0x39, 0x17, 0x97, 0x9d, 0x09, 0xf8,
     0x32, 0xd9, 0x00, 0x10, 0x33, 0x33, 0x33, 0x33, 0x33, 0x33, 0x33, 0x33, 0x33, 0x33, 0x33, 0x33, 0x33, 0x33,
     0x33, 0x33, 0x00, 0x00, 0x00, 0x00, 0x00, 0x00, 0x00, 0x09, 0x00, 0x00, 0x00, 0x00, 0x00, 0x00, 0x00, 0x00,
     0x00, 0x00, 0x00, 0x00, 0x00, 0x00, 0x00, 0x01]"

lemma vector_OperatorRotation_bytes: "wire_bytes vector_OperatorRotation = canonical_OperatorRotation"
  by code_simp

definition vector_ConformanceResponse :: "wire_msg" where
  "vector_ConformanceResponse = OpMsg (ConformanceMsg
     \<lparr>cr_OperatorID = lit ''cloudy'',
      cr_Challenge = [0x11, 0x11, 0x11, 0x11, 0x11, 0x11, 0x11, 0x11, 0x11, 0x11, 0x11, 0x11, 0x11, 0x11, 0x11, 0x11, 0x11, 0x11,
         0x11, 0x11, 0x11, 0x11, 0x11, 0x11, 0x11, 0x11, 0x11, 0x11, 0x11, 0x11, 0x11, 0x11],
      cr_Algo = lit ''ed25519'',
      cr_Idx0 = 2,
      cr_Idx1 = 3,
      cr_Sig0 = [],
      cr_Sig1 = []\<rparr>)"

definition canonical_ConformanceResponse :: "bytes" where
  "canonical_ConformanceResponse =
    [0x21, 0x73, 0x6f, 0x68, 0x6f, 0x63, 0x6c, 0x6f, 0x75, 0x64, 0x2f, 0x6f, 0x70, 0x65, 0x72, 0x61, 0x74, 0x6f,
     0x72, 0x2d, 0x63, 0x6f, 0x6e, 0x66, 0x6f, 0x72, 0x6d, 0x61, 0x6e, 0x63, 0x65, 0x2f, 0x76, 0x30, 0x06, 0x63,
     0x6c, 0x6f, 0x75, 0x64, 0x79, 0x20, 0x11, 0x11, 0x11, 0x11, 0x11, 0x11, 0x11, 0x11, 0x11, 0x11, 0x11, 0x11,
     0x11, 0x11, 0x11, 0x11, 0x11, 0x11, 0x11, 0x11, 0x11, 0x11, 0x11, 0x11, 0x11, 0x11, 0x11, 0x11, 0x11, 0x11,
     0x11, 0x11, 0x07, 0x65, 0x64, 0x32, 0x35, 0x35, 0x31, 0x39, 0x00, 0x00, 0x00, 0x00, 0x00, 0x00, 0x00, 0x02,
     0x00, 0x00, 0x00, 0x00, 0x00, 0x00, 0x00, 0x03]"

lemma vector_ConformanceResponse_bytes: "wire_bytes vector_ConformanceResponse = canonical_ConformanceResponse"
  by code_simp

text \<open>Each message with its published canonical bytes.\<close>

definition vectors :: "(wire_msg \<times> bytes) list" where
  "vectors =
    [(vector_CapabilityListing, canonical_CapabilityListing),
     (vector_Heartbeat, canonical_Heartbeat),
     (vector_FeeDeclaration, canonical_FeeDeclaration),
     (vector_Assignment, canonical_Assignment),
     (vector_Decline, canonical_Decline),
     (vector_JobReport, canonical_JobReport),
     (vector_KeyRotation, canonical_KeyRotation),
     (vector_KeyRevocation, canonical_KeyRevocation),
     (vector_StorageLease, canonical_StorageLease),
     (vector_LeaseDecline, canonical_LeaseDecline),
     (vector_LeaseRelease, canonical_LeaseRelease),
     (vector_ProofResponse, canonical_ProofResponse),
     (vector_OperatorTransmission, canonical_OperatorTransmission),
     (vector_OperatorRotation, canonical_OperatorRotation),
     (vector_ConformanceResponse, canonical_ConformanceResponse)]"

lemmas vectors_bytes =
  vector_CapabilityListing_bytes vector_Heartbeat_bytes vector_FeeDeclaration_bytes
  vector_Assignment_bytes vector_Decline_bytes vector_JobReport_bytes
  vector_KeyRotation_bytes vector_KeyRevocation_bytes vector_StorageLease_bytes
  vector_LeaseDecline_bytes vector_LeaseRelease_bytes vector_ProofResponse_bytes
  vector_OperatorTransmission_bytes vector_OperatorRotation_bytes vector_ConformanceResponse_bytes

section \<open>The published test vector for ''abc''\<close>

definition abc_words :: "w32 list" where
  "abc_words =
    [0x61626380, 0x00000000, 0x00000000, 0x00000000, 0x00000000, 0x00000000, 0x00000000, 0x00000000,
     0x00000000, 0x00000000, 0x00000000, 0x00000000, 0x00000000, 0x00000000, 0x00000000, 0x00000018,
     0x61626380, 0x000f0000, 0x7da86405, 0x600003c6, 0x3e9d7b78, 0x0183fc00, 0x12dcbfdb, 0xe2e2c38e,
     0xc8215c1a, 0xb73679a2, 0xe5bc3909, 0x32663c5b, 0x9d209d67, 0xec8726cb, 0x702138a4, 0xd3b7973b,
     0x93f5997f, 0x3b68ba73, 0xaff4ffc1, 0xf10a5c62, 0x0a8b3996, 0x72af830a, 0x9409e33e, 0x24641522,
     0x9f47bf94, 0xf0a64f5a, 0x3e246a79, 0x27333ba3, 0x0c4763f2, 0x840abf27, 0x7a290d5d, 0x065c43da,
     0xfb3e89cb, 0xcc7617db, 0xb9e66c34, 0xa9993667, 0x84badedd, 0xc21462bc, 0x1487472c, 0xb20f7a99,
     0xef57b9cd, 0xebe6b238, 0x9fe3095e, 0x78bc8d4b, 0xa43fcf15, 0x668b2ff8, 0xeeaba2cc, 0x12b1edeb]"

lemma abc_schedule: "sha_schedule (sha_pad (lit ''abc'')) = abc_words"
  by code_simp

lemma abc_rounds1:
  "fold sha_round (zip (take 32 sha_K) (take 32 abc_words)) sha_init =
    (0x73b33bf5, 0xea992a22, 0xa0060b30, 0x363482c9, 0xba591112, 0x0109ab3a, 0xade79437, 0x6112a3b7)"
  by code_simp

lemma abc_rounds2:
  "fold sha_round (zip (drop 32 sha_K) (drop 32 abc_words))
    (0x73b33bf5, 0xea992a22, 0xa0060b30, 0x363482c9, 0xba591112, 0x0109ab3a, 0xade79437, 0x6112a3b7) =
    (0x506e3058, 0xd39a2165, 0x04d24d6c, 0xb85e2ce9, 0x5ef50f24, 0xfb121210, 0x948d25b6, 0x961f4894)"
  by code_simp

lemma sha256_abc:
  "sha256 (lit ''abc'') =
    [0xba, 0x78, 0x16, 0xbf, 0x8f, 0x01, 0xcf, 0xea, 0x41, 0x41, 0x40, 0xde, 0x5d, 0xae, 0x22, 0x23,
     0xb0, 0x03, 0x61, 0xa3, 0x96, 0x17, 0x7a, 0x9c, 0xb4, 0x10, 0xff, 0x61, 0xf2, 0x00, 0x15, 0xad]"
proof -
  have "zip sha_K abc_words =
      zip (take 32 sha_K) (take 32 abc_words) @ zip (drop 32 sha_K) (drop 32 abc_words)"
    by (metis append_take_drop_id take_zip drop_zip)
  then have "fold sha_round (zip sha_K abc_words) sha_init =
      (0x506e3058, 0xd39a2165, 0x04d24d6c, 0xb85e2ce9, 0x5ef50f24, 0xfb121210, 0x948d25b6, 0x961f4894)"
    by (simp only: fold_append comp_apply abc_rounds1 abc_rounds2)
  moreover have "length (sha_pad (lit ''abc'')) = 64"
    by (simp add: sha_pad_def sha_len64_def)
  ultimately have "sha256 (lit ''abc'') = sha_output (sha_add sha_init (0x506e3058, 0xd39a2165, 0x04d24d6c, 0xb85e2ce9, 0x5ef50f24, 0xfb121210, 0x948d25b6, 0x961f4894))"
    by (simp add: sha256_def sha_blocks.simps sha_block_def abc_schedule)
  then show ?thesis by (simp add: sha_init_def be_bytes_def)
qed

end
