(* ===== verification/Decoders.thy ===== *)
theory Decoders
  imports Spec_Encoding
begin

text \<open>
  Strict parsers for the primitives of SPEC.md section 3: a parser takes bytes off the front of its input
  and returns the value and the rest, or fails. A parser is strict when it accepts exactly what the
  encoder can write (a length in minimal LEB128, a bool of 0 or 1); the locale \<open>strict_parser\<close> states this
  as the two laws of a round trip, for every primitive here and for every message in \<open>Wire_Decoding\<close>.
\<close>

section \<open>The contract of a strict parser\<close>

type_synonym 'a parser = "bytes \<Rightarrow> ('a \<times> bytes) option"

locale strict_parser =
  fixes enc :: "'a \<Rightarrow> bytes" and good :: "'a \<Rightarrow> bool" and view :: "'a \<Rightarrow>
      'a" and parse :: "'a parser"
  assumes parse_enc: "good x \<Longrightarrow> parse (enc x @ r) = Some (view x, r)"
    and parse_sound: "parse b = Some (y, r) \<Longrightarrow> good y \<and> view y = y \<and> b = enc y @ r"
begin

text \<open>What a strict parser accepts is exactly what the encoder writes for normal values.\<close>

lemma parse_iff: "parse b = Some (y, r) \<longleftrightarrow> good y \<and> view y = y \<and> b = enc y @ r"
  using parse_sound [of b y r] parse_enc [of y r] by auto

lemma parse_fails_iff: "parse b = None \<longleftrightarrow> (\<nexists>y r. good y \<and> view y = y \<and> b = enc y @ r)"
  using parse_iff [of b] by (metis not_None_eq surj_pair)

end

text \<open>Sequencing: parse one value, then continue with it on the rest.\<close>

definition then_parse :: "'a parser \<Rightarrow> ('a \<Rightarrow> 'b parser) \<Rightarrow> 'b parser" where
  "then_parse p f b = (case p b of None \<Rightarrow> None | Some (x, r) \<Rightarrow> f x r)"

definition parsed :: "'a \<Rightarrow> 'a parser" where
  "parsed x b = Some (x, b)"

named_theorems parser_simps \<open>evaluation of composed parsers\<close>

lemma then_parse_Some [parser_simps]: "p b = Some (x, r) \<Longrightarrow> then_parse p f b = f x r"
  by (simp add: then_parse_def)

declare parsed_def [parser_simps]

lemma then_parse_eq_Some:
  "then_parse p f b = Some (z, s) \<longleftrightarrow> (\<exists>x r. p b = Some (x, r) \<and> f x r = Some (z, s))"
  by (auto simp: then_parse_def split: option.splits)

lemma parsed_eq_Some: "parsed x b = Some (z, s) \<longleftrightarrow> z = x \<and> s = b"
  by (auto simp: parsed_def)

section \<open>Lengths and counts: minimal unsigned LEB128\<close>

fun parse_leb128 :: "nat parser" where
  "parse_leb128 [] = None"
| "parse_leb128 (b # bs) =
     (if unat b < 128 then Some (unat b, bs)
      else case parse_leb128 bs of
          None \<Rightarrow> None
        | Some (n, r) \<Rightarrow> if n = 0 then None else Some (unat b - 128 + 128 * n, r))"

lemma unat_byte_less: "unat (b :: byte) < 256"
  using unsigned_less [of b] by simp

lemma unat_byte_of_nat: "n < 256 \<Longrightarrow> unat (word_of_nat n :: byte) = n"
  by (simp add: unat_of_nat take_bit_nat_eq_self)

lemma parse_leb128_spec: "parse_leb128 (spec_leb128 n @ r) = Some (n, r)"
proof (induction n rule: spec_leb128.induct)
  case (1 n)
  show ?case
  proof (cases "n < 128")
    case True
    then show ?thesis by (simp add: spec_leb128.simps [of n] unat_byte_of_nat)
  next
    case False
    then have "n div 128 \<noteq> 0" by (simp add: div_eq_0_iff)
    moreover have "unat (word_of_nat (n mod 128 + 128) :: byte) = n mod 128 + 128"
    proof (rule unat_byte_of_nat)
      have "n mod 128 < 128" by simp
      then show "n mod 128 + 128 < 256" by linarith
    qed
    ultimately show ?thesis
      using False "1.IH" by (simp add: spec_leb128.simps [of n])
  qed
qed

lemma parse_leb128_sound: "parse_leb128 b = Some (n, r) \<Longrightarrow> b = spec_leb128 n @ r"
proof (induction b arbitrary: n rule: parse_leb128.induct)
  case 1
  then show ?case by simp
next
  case (2 c bs)
  show ?case
  proof (cases "unat c < 128")
    case True
    with 2 show ?thesis by (auto simp: spec_leb128.simps [of n])
  next
    case False
    with "2.prems" obtain k where k: "parse_leb128 bs = Some (k, r)" "k \<noteq> 0" "n = unat c - 128 + 128 * k"
      by (auto split: option.splits if_splits)
    from "2.IH" [OF False k(1)] have bs: "bs = spec_leb128 k @ r" .
    define d where "d = unat c - 128"
    have d: "unat c = d + 128" "d < 128" using False unat_byte_less [of c] by (simp_all add: d_def)
    then have n1: "n = d + 128 * k" using k(3) by simp
    have n: "n div 128 = k" "n mod 128 = d" "\<not> n < 128"
      using k(2) d(2) by (simp_all add: n1)
    have "c = word_of_nat (n mod 128 + 128)"
    proof -
      have "c = word_of_nat (unat c)" by simp
      then show ?thesis by (simp only: d(1) n(2))
    qed
    with bs n show ?thesis by (simp add: spec_leb128.simps [of n])
  qed
qed

text \<open>A count below \<open>2^63\<close>, as \<open>Count\<close> writes it.\<close>

definition parse_count :: "nat parser" where
  "parse_count b = (case parse_leb128 b of None \<Rightarrow> None | Some (n, r) \<Rightarrow>
      if n < 2 ^ 63 then Some (n, r) else None)"

interpretation count_parser: strict_parser enc_count "\<lambda>n. n < 2 ^ 63" "\<lambda>n. n" parse_count
proof (unfold_locales, goal_cases)
  case (1 n r)
  then show ?case by (simp add: parse_count_def enc_count_spec parse_leb128_spec)
next
  case (2 b n r)
  then have "parse_leb128 b = Some (n, r)" "n < 2 ^ 63"
    by (auto simp: parse_count_def split: option.splits if_splits)
  then show ?case by (simp add: enc_count_spec parse_leb128_sound)
qed

section \<open>Strings and byte fields\<close>

definition parse_string :: "bytes parser" where
  "parse_string b =
     (case parse_count b of
        None \<Rightarrow> None
      | Some (n, r) \<Rightarrow> if n \<le> length r then Some (take n r, drop n r) else None)"

lemma enc_string_count: "enc_string s = enc_count (length s) @ s"
  by (simp add: enc_string_def enc_uvarint_len)

interpretation string_parser: strict_parser enc_string fits "\<lambda>s. s" parse_string
proof (unfold_locales, goal_cases)
  case (1 s r)
  then show ?case by (simp add: parse_string_def enc_string_count fits_def count_parser.parse_enc)
next
  case (2 b s r)
  then obtain n q where n: "parse_count b = Some (n, q)" "n \<le> length q" "s = take n q" "r = drop n q"
    by (auto simp: parse_string_def split: option.splits if_splits)
  with count_parser.parse_sound [OF n(1)] show ?case by (simp add: enc_string_count fits_def)
qed

section \<open>Booleans\<close>

fun parse_bool :: "bool parser" where
  "parse_bool [] = None"
| "parse_bool (b # r) = (if b = 1 then Some (True, r) else if b = 0 then Some (False, r) else None)"

interpretation bool_parser: strict_parser enc_bool "\<lambda>_. True" "\<lambda>v. v" parse_bool
proof (unfold_locales, goal_cases)
  case (1 x r)
  then show ?case by (simp add: enc_bool_def)
next
  case (2 b y r)
  then show ?case by (cases b rule: parse_bool.cases) (auto simp: enc_bool_def split: if_splits)
qed

section \<open>64-bit integers\<close>

text \<open>Eight bytes, most significant first, read by Horner's rule.\<close>

definition be_value :: "bytes \<Rightarrow> int" where
  "be_value bs = foldl (\<lambda>a b. a * 256 + uint b) 0 bs"

definition parse_uint64 :: "uint64 parser" where
  "parse_uint64 b = (if 8 \<le> length b then Some (word_of_int (be_value (take 8 b)), drop 8 b) else None)"

lemma horner_digit:
  fixes a c :: int
  assumes "0 \<le> c" and "c < 256"
  shows "(a * 256 + c) div 256 = a" and "(a * 256 + c) mod 256 = c"
  using assms by simp_all

lemma uint_byte: "0 \<le> uint (b :: byte)" "uint (b :: byte) < 256"
  using uint_lt2p [of b] by simp_all

lemma spec_be64_value:
  assumes "length bs = 8"
  shows "spec_be64 (be_value bs) = bs" and "0 \<le> be_value bs" and "be_value bs < 2 ^ 64"
proof -
  from assms obtain b0 b1 b2 b3 b4 b5 b6 b7 where bs: "bs = [b0, b1, b2, b3, b4, b5, b6, b7]"
    by (auto simp: numeral_eq_Suc length_Suc_conv)
  note u = uint_byte [of b0] uint_byte [of b1] uint_byte [of b2] uint_byte [of b3] uint_byte [of b4]
    uint_byte [of b5] uint_byte [of b6] uint_byte [of b7]
  show nonneg: "0 \<le> be_value bs" using u by (simp add: bs be_value_def)
  show "be_value bs < 2 ^ 64" using u by (simp add: bs be_value_def)
  have step: "be_value (xs @ [x]) div 256 = be_value xs" "be_value (xs @ [x]) mod 256 = uint x" for xs x
    using horner_digit [of "uint x" "be_value xs"] uint_byte [of x] by (simp_all add: be_value_def)
  have divs: "be_value (xs @ ys) div 256 ^ length ys = be_value xs" for xs ys
  proof (induction ys arbitrary: xs rule: rev_induct)
    case Nil
    then show ?case by simp
  next
    case (snoc y ys)
    have "be_value (xs @ ys @ [y]) div 256 ^ Suc (length ys) = be_value (xs @ ys) div 256 ^ length ys"
      using step(1) [of "xs @ ys" y] by (simp add: zdiv_zmult2_eq)
    with snoc show ?case by simp
  qed
  have digit: "be_value (xs @ x # ys) div 2 ^ (8 * k) mod 256 = uint x" if "length ys = k" for xs x ys k
  proof -
    have "(2 :: int) ^ (8 * k) = 256 ^ length ys" using that by (simp add: power_mult)
    with divs [of "xs @ [x]" ys] step(2) [of xs x] show ?thesis by simp
  qed
  define v where "v = be_value bs"
  have d: "v div 2 ^ (8 * 7) mod 256 = uint b0" "v div 2 ^ (8 * 6) mod 256 = uint b1"
    "v div 2 ^ (8 * 5) mod 256 = uint b2" "v div 2 ^ (8 * 4) mod 256 = uint b3"
    "v div 2 ^ (8 * 3) mod 256 = uint b4" "v div 2 ^ (8 * 2) mod 256 = uint b5"
    "v div 2 ^ (8 * 1) mod 256 = uint b6" "v div 2 ^ (8 * 0) mod 256 = uint b7"
    using digit [of "[b1, b2, b3, b4, b5, b6, b7]" 7 "[]" b0]
      digit [of "[b2, b3, b4, b5, b6, b7]" 6 "[b0]" b1]
      digit [of "[b3, b4, b5, b6, b7]" 5 "[b0, b1]" b2]
      digit [of "[b4, b5, b6, b7]" 4 "[b0, b1, b2]" b3]
      digit [of "[b5, b6, b7]" 3 "[b0, b1, b2, b3]" b4]
      digit [of "[b6, b7]" 2 "[b0, b1, b2, b3, b4]" b5]
      digit [of "[b7]" 1 "[b0, b1, b2, b3, b4, b5]" b6]
      digit [of "[]" 0 "[b0, b1, b2, b3, b4, b5, b6]" b7]
    unfolding v_def bs append.simps by (simp_all only: list.size add_0 plus_nat.add_Suc One_nat_def numeral_eq_Suc
        pred_numeral_simps BitM.simps)
  have "spec_be64 v = map (\<lambda>k. word_of_int (v div 2 ^ (8 * k) mod 256)) [7, 6, 5, 4, 3, 2, 1, 0]"
    using nonneg by (simp only: v_def spec_be64_def Let_def not_less [symmetric] if_False)
  also have "\<dots> = bs"
    by (simp only: list.map d bs word_of_int_uint)
  finally show "spec_be64 (be_value bs) = bs" by (simp only: v_def)
qed

lemma enc_uint64_value: "length bs = 8 \<Longrightarrow> enc_uint64 (word_of_int (be_value bs)) = bs"
  using spec_be64_value [of bs] by (simp add: enc_uint64_spec uint_word_of_int)

interpretation uint64_parser: strict_parser enc_uint64 "\<lambda>_. True" "\<lambda>v. v" parse_uint64
proof (unfold_locales, goal_cases)
  case (1 v r)
  have "enc_uint64 (word_of_int (be_value (enc_uint64 v))) = enc_uint64 v"
    by (rule enc_uint64_value) simp
  then have "word_of_int (be_value (enc_uint64 v)) = v" by (rule enc_uint64_inj)
  then show ?case by (simp add: parse_uint64_def)
next
  case (2 b v r)
  then show ?case by (auto simp: parse_uint64_def enc_uint64_value split: if_splits)
qed

section \<open>Times\<close>

text \<open>The time of an instant in nanoseconds, in UTC: what a verifier on the other side works with.\<close>

definition time_of_nanos :: "int64 \<Rightarrow> go_time" where
  "time_of_nanos n = time_UTC (time_Unix 0 n)"

definition parse_time :: "go_time parser" where
  "parse_time b = (case parse_uint64 b of None \<Rightarrow> None | Some (n, r) \<Rightarrow> Some (time_of_nanos n, r))"

text \<open>\<open>time.Unix(0, n)\<close> is the instant \<open>n\<close>, for every \<open>n\<close>: the quotient and
    the remainder it computes are
  those of Euclidean division.\<close>

lemma truncated_quotient:
  fixes v :: int
  defines "q \<equiv> v sdiv 1000000000"
  defines "m \<equiv> v - q * 1000000000"
  shows "v div 1000000000 = (if m < 0 then q - 1 else q)" and "v mod 1000000000 = (if m < 0 then m + 1000000000 else m)"
    and "- 1000000000 < m" and "m < 1000000000"
proof -
  have m: "- 1000000000 < m \<and> m < 1000000000"
    unfolding m_def q_def by (auto simp: signed_divide_int_def sgn_if abs_if)
  then show "- 1000000000 < m" and "m < 1000000000" by simp_all
  have v: "v = 1000000000 * (if m < 0 then q - 1 else q) + (if m < 0 then m + 1000000000 else m)"
    by (simp add: m_def)
  have r: "0 \<le> (if m < 0 then m + 1000000000 else m)" "(if m < 0 then m + 1000000000 else m) < 1000000000"
    using m by auto
  from int_div_pos_eq [OF v r] show "v div 1000000000 = (if m < 0 then q - 1 else q)" .
  from int_mod_pos_eq [OF v r] show "v mod 1000000000 = (if m < 0 then m + 1000000000 else m)" .
qed

lemma sint_of_int64: "- (2 ^ 63) \<le> k \<Longrightarrow> k < 2 ^ 63 \<Longrightarrow> sint (word_of_int k :: int64) = k"
  by (simp add: signed_of_int signed_take_bit_int_eq_self)

lemma ucast_of_small: "0 \<le> k \<Longrightarrow> k < 2 ^ 32 \<Longrightarrow> ucast (word_of_int k :: int64) =
    (word_of_int k :: 32 word)"
  by (simp add: word_uint_eq_iff unsigned_ucast_eq uint_word_of_int take_bit_int_eq_self)

lemma time_of_nanos_fields:
  "t_sec (time_of_nanos n) = word_of_int (sint n div 1000000000) + unixToInternal"
  "t_nsec (time_of_nanos n) = word_of_int (sint n mod 1000000000)"
proof -
  define v where "v = sint n"
  have n: "n = word_of_int v" by (simp add: v_def)
  define q where "q = v sdiv 1000000000"
  define m where "m = v - q * 1000000000"
  note tq = truncated_quotient [of v, folded q_def, folded m_def]
  have rest: "n - word_of_int q * 1000000000 = word_of_int m" by (simp add: m_def n)
  have m: "sint (word_of_int m :: int64) = m" using tq(3,4) by (intro sint_of_int64) simp_all
  have "t_sec (time_of_nanos n) = word_of_int (v div 1000000000) + unixToInternal \<and>
      t_nsec (time_of_nanos n) = word_of_int (v mod 1000000000)"
  proof (cases "v < 0 \<or> 1000000000 \<le> v")
    case True
    have c: "ucast (word_of_int m + 1000000000 :: int64) = (word_of_int (m + 1000000000) :: 32 word)" if "m < 0"
      using ucast_of_small [of "m + 1000000000"] tq(3) that by simp
    have c': "ucast (word_of_int m :: int64) = (word_of_int m :: 32 word)" if "\<not> m < 0"
      using ucast_of_small [of m] tq(4) that by simp
    show ?thesis
    proof (cases "m < 0")
      case neg: True
      then show ?thesis
        using True c by (simp add: time_of_nanos_def time_Unix_def Let_def rest m tq(1,2) v_def [symmetric] q_def
        [symmetric])
    next
      case False
      then show ?thesis
        using True c' by (simp add: time_of_nanos_def time_Unix_def Let_def rest m tq(1,2) v_def [symmetric] q_def
        [symmetric])
    qed
  next
    case False
    then have "v div 1000000000 = 0" "v mod 1000000000 = v" by simp_all
    moreover have "ucast n = (word_of_int v :: 32 word)"
      unfolding n using False by (intro ucast_of_small) simp_all
    ultimately show ?thesis
      using False by (simp add: time_of_nanos_def time_Unix_def Let_def v_def [symmetric])
  qed
  then show "t_sec (time_of_nanos n) = word_of_int (sint n div 1000000000) + unixToInternal"
    and "t_nsec (time_of_nanos n) = word_of_int (sint n mod 1000000000)"
    by (simp_all only: v_def)
qed

lemma time_of_nanos_parts:
  "sint (t_sec (time_of_nanos n)) = sint n div 1000000000 + 62135596800"
  "uint (t_nsec (time_of_nanos n)) = sint n mod 1000000000"
proof -
  define w where "w = sint n div 1000000000"
  define k where "k = sint n mod 1000000000"
  have nwk: "sint n = w * 1000000000 + k" by (simp add: w_def k_def)
  have k: "0 \<le> k" "k < 1000000000" by (simp_all add: k_def)
  have w: "- 10000000000 \<le> w" "w \<le> 10000000000"
    using sint_greater_eq [of n] sint_less [of n] k unfolding nwk by simp_all
  have sw: "sint (word_of_int w :: int64) = w" using w by (intro sint_of_int64) simp_all
  have u: "sint unixToInternal = 62135596800" by (simp add: unixToInternal_def)
  have "sint (word_of_int w + unixToInternal) = sint (word_of_int w :: int64) + sint unixToInternal"
    using w by (intro sint_add_exact) (simp_all add: sw u)
  then show "sint (t_sec (time_of_nanos n)) = sint n div 1000000000 + 62135596800"
    by (simp add: time_of_nanos_fields(1) w_def [symmetric] sw u)
  show "uint (t_nsec (time_of_nanos n)) = sint n mod 1000000000"
    unfolding time_of_nanos_fields(2) k_def [symmetric] using k by (simp add: uint_word_of_int)
qed

lemma time_of_nanos_instant: "instant_ns (time_of_nanos n) = sint n"
  by (simp add: instant_ns_def time_of_nanos_parts)

lemma time_of_nanos_wf: "wf_time (time_of_nanos n)"
proof -
  have "int (unat (t_nsec (time_of_nanos n))) < 1000000000"
    by (simp add: time_of_nanos_parts(2))
  then show ?thesis by (simp only: wf_time_def)
qed

lemma time_of_nanos_valid: "ValidTime (time_of_nanos n)"
  using sint_greater_eq [of n] sint_less [of n]
  by (simp add: ValidTime_range [OF time_of_nanos_wf] time_of_nanos_instant)

lemma time_of_nanos_UnixNano: "time_UnixNano (time_of_nanos n) = n"
  using ValidTime_UnixNano [OF time_of_nanos_wf time_of_nanos_valid]
  by (intro signed_word_eqI) (simp add: time_of_nanos_instant)

lemma time_of_nanos_of_time:
  assumes "wf_time t" and "ValidTime t"
  shows "time_of_nanos (time_UnixNano t) = time_UTC t"
proof -
  have "instant_ns (time_of_nanos (time_UnixNano t)) = instant_ns t"
    using ValidTime_UnixNano [OF assms] by (simp add: time_of_nanos_instant)
  with instant_ns_eq_iff [OF time_of_nanos_wf assms(1)]
  have "time_UTC (time_of_nanos (time_UnixNano t)) = time_UTC t" by blast
  then show ?thesis by (simp add: time_of_nanos_def)
qed

interpretation time_parser: strict_parser enc_time "\<lambda>t. wf_time t \<and> ValidTime t" time_UTC parse_time
proof (unfold_locales, goal_cases)
  case (1 t r)
  then show ?case
    by (simp add: parse_time_def enc_time_def uint64_parser.parse_enc time_of_nanos_of_time)
next
  case (2 b t r)
  then obtain n where n: "parse_uint64 b = Some (n, r)" "t = time_of_nanos n"
    by (auto simp: parse_time_def split: option.splits)
  with uint64_parser.parse_sound [OF n(1)] show ?case
    by (simp add: time_of_nanos_wf time_of_nanos_valid enc_time_def time_of_nanos_UnixNano)
      (simp add: time_of_nanos_def)
qed

section \<open>Repeated fields\<close>

primrec parse_times :: "nat \<Rightarrow> 'a parser \<Rightarrow> 'a list parser" where
  "parse_times 0 p b = Some ([], b)"
| "parse_times (Suc n) p b = then_parse p (\<lambda>x. then_parse (parse_times n p) (\<lambda>xs. parsed (x # xs))) b"

definition parse_repeated :: "'a parser \<Rightarrow> 'a list parser" where
  "parse_repeated p = then_parse parse_count (\<lambda>n. parse_times n p)"

context strict_parser
begin

lemma parse_times_enc:
  "list_all good xs \<Longrightarrow> parse_times (length xs) parse (concat (map enc xs) @ r) = Some (map view xs, r)"
  by (induction xs) (simp_all add: parser_simps parse_enc)

lemma parse_times_sound:
  "parse_times n parse b = Some (ys, r) \<Longrightarrow>
     length ys = n \<and> list_all good ys \<and> map view ys = ys \<and> b = concat (map enc ys) @ r"
proof (induction n arbitrary: b ys)
  case 0
  then show ?case by simp
next
  case (Suc n)
  then obtain x q zs where x: "parse b = Some (x, q)" and zs: "parse_times n parse q = Some (zs, r)"
    and ys: "ys = x # zs" by (auto simp: then_parse_eq_Some parsed_eq_Some)
  from parse_sound [OF x] Suc.IH [OF zs] ys show ?case by simp
qed

lemma repeated_enc:
  "fits xs \<Longrightarrow> list_all good xs \<Longrightarrow>
     parse_repeated parse (enc_repeated enc_count enc xs @ r) = Some (map view xs, r)"
  by (simp add: parse_repeated_def enc_repeated_def then_parse_Some count_parser.parse_enc
      parse_times_enc fits_def)

lemma repeated_sound:
  assumes "parse_repeated parse b = Some (ys, r)"
  shows "fits ys \<and> list_all good ys \<and> map view ys = ys \<and> b = enc_repeated enc_count enc ys @ r"
proof -
  from assms obtain n q where n: "parse_count b = Some (n, q)" and ys: "parse_times n parse q = Some (ys, r)"
    by (auto simp: parse_repeated_def then_parse_eq_Some)
  from count_parser.parse_sound [OF n] parse_times_sound [OF ys] show ?thesis
    by (auto simp: enc_repeated_def fits_def)
qed

end

end
