(* ===== verification/Wire_Decoding.thy ===== *)
theory Wire_Decoding
  imports Wire Decoders
begin

text \<open>
  A strict parser for the canonical bytes of each of the fifteen messages, field by field in the \<open>Order:\<close>
  of SPEC.md sections 4 and 11, and one for the whole protocol that dispatches on the domain tag. Each is
  shown to be a strict parser (locale \<open>strict_parser\<close>) for the code's \<open>CanonicalBytes\<close>: it
      recovers every
  signed field (times as instants in UTC, signatures empty), and accepts nothing \<open>CanonicalBytes\<close> does not
  write for a message with representable times.
\<close>

section \<open>Domain tags and arrays\<close>

definition parse_tag :: "bytes \<Rightarrow> unit parser" where
  "parse_tag tag b = (case parse_string b of None \<Rightarrow> None | Some (t, r) \<Rightarrow> if t =
      tag then Some ((), r) else None)"

lemma parse_tag_iff: "fits tag \<Longrightarrow> parse_tag tag b = Some (u, r) \<longleftrightarrow> b = enc_string tag @ r"
  by (auto simp: parse_tag_def string_parser.parse_enc split: option.splits if_splits dest: string_parser.parse_sound)

text \<open>A byte field of a fixed-size Go array.\<close>

definition parse_array :: "nat \<Rightarrow> bytes parser" where
  "parse_array n b =
     (case parse_string b of None \<Rightarrow> None | Some (s, r) \<Rightarrow> if length s = n then Some (s, r) else None)"

lemma parse_array_iff: "n < 2 ^ 63 \<Longrightarrow> parse_array n b = Some (s, r) \<longleftrightarrow> length s =
    n \<and> b = enc_string s @ r"
  by (auto simp: parse_array_def string_parser.parse_enc fits_def split: option.splits if_splits
      dest: string_parser.parse_sound)

lemma parse_array_sizes:
  "parse_array 32 b = Some (s, r) \<longleftrightarrow> length s = 32 \<and> b = enc_string s @ r"
  "parse_array 16 b = Some (s, r) \<longleftrightarrow> length s = 16 \<and> b = enc_string s @ r"
  by (simp_all add: parse_array_iff)

named_theorems parse_iffs \<open>what each parser accepts\<close>

declare then_parse_eq_Some [parse_iffs] parsed_eq_Some [parse_iffs] parse_array_sizes [parse_iffs]
  string_parser.parse_iff [parse_iffs] uint64_parser.parse_iff [parse_iffs] bool_parser.parse_iff [parse_iffs]
  time_parser.parse_iff [parse_iffs]

text \<open>The two laws from the equivalence \<open>parse_iff\<close> and the view being idempotent.\<close>

lemma strict_parserI:
  assumes "\<And>b y r. parse b = Some (y, r) \<longleftrightarrow> good y \<and> view y = y \<and> b = enc y @ r"
    and "\<And>x. good x \<Longrightarrow> good (view x) \<and> view (view x) = view x \<and> enc (view x) = enc x"
  shows "strict_parser enc good view parse"
  using assms by unfold_locales auto

text \<open>A repeated field of any strictly parsed element.\<close>

lemma repeated_parser:
  assumes "strict_parser enc good (\<lambda>x. x) parse"
  shows "parse_repeated parse b = Some (ys, r) \<longleftrightarrow>
     fits ys \<and> list_all good ys \<and> b = enc_repeated enc_count enc ys @ r"
  using strict_parser.repeated_enc [OF assms, of ys r] strict_parser.repeated_sound [OF assms, of b ys r] by auto

lemmas parse_args_iff [parse_iffs] = repeated_parser [OF string_parser.strict_parser_axioms]

section \<open>The parts of messages\<close>

definition parse_printer :: "PrinterCapability parser" where
  "parse_printer =
     then_parse parse_string (\<lambda>kind.
     then_parse parse_string (\<lambda>model.
     parsed \<lparr>pc_Kind = kind, pc_Model = model\<rparr>))"

definition parse_gpu :: "GPUCapability parser" where
  "parse_gpu =
     then_parse parse_string (\<lambda>aPI.
     then_parse parse_string (\<lambda>model.
     then_parse parse_uint64 (\<lambda>vRAMMB.
     parsed \<lparr>gc_API = aPI, gc_Model = model, gc_VRAMMB = vRAMMB\<rparr>)))"

definition parse_capacity :: "Capacity parser" where
  "parse_capacity =
     then_parse parse_uint64 (\<lambda>vCPUs.
     then_parse parse_uint64 (\<lambda>memMB.
     then_parse parse_uint64 (\<lambda>diskMB.
     then_parse parse_uint64 (\<lambda>storageCommitMB.
     then_parse parse_uint64 (\<lambda>printQPS.
     parsed \<lparr>ca_VCPUs = vCPUs, ca_MemMB = memMB, ca_DiskMB = diskMB, ca_StorageCommitMB = storageCommitMB,
       ca_PrintQPS = printQPS\<rparr>)))))"

definition parse_optin :: "WorkloadOptIn parser" where
  "parse_optin =
     then_parse parse_bool (\<lambda>compute.
     then_parse parse_bool (\<lambda>print.
     then_parse parse_bool (\<lambda>storage.
     parsed \<lparr>oi_Compute = compute, oi_Print = print, oi_Storage = storage\<rparr>)))"

definition parse_terms :: "Terms parser" where
  "parse_terms =
     then_parse parse_uint64 (\<lambda>contributorShareBps.
     then_parse parse_uint64 (\<lambda>platformFeeBps.
     parsed \<lparr>ft_ContributorShareBps = contributorShareBps, ft_PlatformFeeBps = platformFeeBps\<rparr>))"

definition parse_jobspec :: "JobSpec parser" where
  "parse_jobspec =
     then_parse parse_string (\<lambda>workload.
     then_parse parse_string (\<lambda>image.
     then_parse (parse_repeated parse_string) (\<lambda>args.
     then_parse parse_string (\<lambda>printerKind.
     then_parse parse_string (\<lambda>gPUAPI.
     then_parse parse_uint64 (\<lambda>gPUMinVRAMMB.
     parsed \<lparr>js_Workload = workload, js_Image = image, js_Args = args, js_PrinterKind = printerKind,
       js_GPUAPI = gPUAPI, js_GPUMinVRAMMB = gPUMinVRAMMB\<rparr>))))))"

lemmas part_parser_defs = parse_printer_def parse_gpu_def parse_capacity_def parse_optin_def parse_terms_def
    parse_jobspec_def

interpretation printer_parser: strict_parser enc_printer printer_good "\<lambda>x. x" parse_printer
proof (rule strict_parserI, goal_cases)
  case (1 b y r)
  show ?case by (cases y) (auto simp: parse_printer_def parse_iffs printer_good_def enc_printer_def)
qed simp

interpretation gpu_parser: strict_parser enc_gpu gpu_good "\<lambda>x. x" parse_gpu
proof (rule strict_parserI, goal_cases)
  case (1 b y r)
  show ?case by (cases y) (auto simp: parse_gpu_def parse_iffs gpu_good_def enc_gpu_def)
qed simp

interpretation capacity_parser: strict_parser enc_capacity "\<lambda>_. True" "\<lambda>x. x" parse_capacity
proof (rule strict_parserI, goal_cases)
  case (1 b y r)
  show ?case by (cases y) (auto simp: parse_capacity_def parse_iffs enc_capacity_def)
qed simp

interpretation optin_parser: strict_parser enc_optin "\<lambda>_. True" "\<lambda>x. x" parse_optin
proof (rule strict_parserI, goal_cases)
  case (1 b y r)
  show ?case by (cases y) (auto simp: parse_optin_def parse_iffs enc_optin_def)
qed simp

interpretation terms_parser: strict_parser enc_terms "\<lambda>_. True" "\<lambda>x. x" parse_terms
proof (rule strict_parserI, goal_cases)
  case (1 b y r)
  show ?case by (cases y) (auto simp: parse_terms_def parse_iffs enc_terms_def)
qed simp

interpretation jobspec_parser: strict_parser enc_jobspec jobspec_good "\<lambda>x. x" parse_jobspec
proof (rule strict_parserI, goal_cases)
  case (1 b y r)
  show ?case by (cases y) (auto simp: parse_jobspec_def parse_iffs jobspec_good_def enc_jobspec_def)
qed simp

lemmas part_parse_iff [parse_iffs] = capacity_parser.parse_iff optin_parser.parse_iff terms_parser.parse_iff
  jobspec_parser.parse_iff repeated_parser [OF printer_parser.strict_parser_axioms]
  repeated_parser [OF gpu_parser.strict_parser_axioms]

section \<open>The messages\<close>

definition parse_CapabilityListing :: "CapabilityListing parser" where
  "parse_CapabilityListing =
     then_parse (parse_tag domainListing) (\<lambda>_.
     then_parse parse_string (\<lambda>nodeID.
     then_parse parse_string (\<lambda>cls.
     then_parse (parse_repeated parse_printer) (\<lambda>printers.
     then_parse (parse_repeated parse_gpu) (\<lambda>gPUs.
     then_parse parse_capacity (\<lambda>capacity.
     then_parse parse_optin (\<lambda>optIn.
     then_parse parse_time (\<lambda>issuedAt.
     then_parse parse_uint64 (\<lambda>seq.
     parsed \<lparr>cl_NodeID = nodeID, cl_Class = cls, cl_Printers = printers, cl_GPUs = gPUs,
       cl_Capacity = capacity, cl_OptIn = optIn, cl_IssuedAt = issuedAt, cl_Seq = seq,
       cl_Signature = []\<rparr>)))))))))"

interpretation CapabilityListing_parser: strict_parser CapabilityListing_CanonicalBytes CapabilityListing_good
    CapabilityListing_payload parse_CapabilityListing
proof (rule strict_parserI, goal_cases)
  case (1 b y r)
  show ?case
    by (cases y) (auto simp: parse_CapabilityListing_def parse_iffs parse_tag_iff CapabilityListing_canon
        CapabilityListing_good_def CapabilityListing_payload_def)
next
  case (2 x)
  then show ?case
    by (cases x) (simp add: CapabilityListing_canon CapabilityListing_good_def CapabilityListing_payload_def enc_time_UTC)
qed

definition parse_Heartbeat :: "Heartbeat parser" where
  "parse_Heartbeat =
     then_parse (parse_tag domainHeartbeat) (\<lambda>_.
     then_parse parse_string (\<lambda>nodeID.
     then_parse parse_time (\<lambda>sentAt.
     then_parse parse_uint64 (\<lambda>seq.
     parsed \<lparr>hb_NodeID = nodeID, hb_SentAt = sentAt, hb_Seq = seq, hb_Signature = []\<rparr>))))"

interpretation Heartbeat_parser: strict_parser Heartbeat_CanonicalBytes Heartbeat_good Heartbeat_payload parse_Heartbeat
proof (rule strict_parserI, goal_cases)
  case (1 b y r)
  show ?case
    by (cases y) (auto simp: parse_Heartbeat_def parse_iffs parse_tag_iff Heartbeat_canon Heartbeat_good_def
        Heartbeat_payload_def)
next
  case (2 x)
  then show ?case
    by (cases x) (simp add: Heartbeat_canon Heartbeat_good_def Heartbeat_payload_def enc_time_UTC)
qed

definition parse_FeeDeclaration :: "FeeDeclaration parser" where
  "parse_FeeDeclaration =
     then_parse (parse_tag domainFee) (\<lambda>_.
     then_parse parse_string (\<lambda>coordinatorID.
     then_parse parse_terms (\<lambda>terms.
     then_parse parse_time (\<lambda>effectiveAt.
     then_parse parse_uint64 (\<lambda>seq.
     parsed \<lparr>fd_CoordinatorID = coordinatorID, fd_Terms = terms, fd_EffectiveAt = effectiveAt, fd_Seq = seq,
       fd_Signature = []\<rparr>)))))"

interpretation FeeDeclaration_parser: strict_parser FeeDeclaration_CanonicalBytes FeeDeclaration_good
    FeeDeclaration_payload parse_FeeDeclaration
proof (rule strict_parserI, goal_cases)
  case (1 b y r)
  show ?case
    by (cases y) (auto simp: parse_FeeDeclaration_def parse_iffs parse_tag_iff FeeDeclaration_canon
        FeeDeclaration_good_def FeeDeclaration_payload_def)
next
  case (2 x)
  then show ?case
    by (cases x) (simp add: FeeDeclaration_canon FeeDeclaration_good_def FeeDeclaration_payload_def enc_time_UTC)
qed

definition parse_Assignment :: "Assignment parser" where
  "parse_Assignment =
     then_parse (parse_tag domainAssignment) (\<lambda>_.
     then_parse parse_string (\<lambda>jobID.
     then_parse parse_string (\<lambda>nodeID.
     then_parse parse_jobspec (\<lambda>jspec.
     then_parse parse_terms (\<lambda>fee.
     then_parse parse_time (\<lambda>offeredAt.
     parsed \<lparr>as_JobID = jobID, as_NodeID = nodeID, as_Spec = jspec, as_Fee = fee, as_OfferedAt = offeredAt,
       as_Signature = []\<rparr>))))))"

interpretation Assignment_parser: strict_parser Assignment_CanonicalBytes Assignment_good Assignment_payload parse_Assignment
proof (rule strict_parserI, goal_cases)
  case (1 b y r)
  show ?case
    by (cases y) (auto simp: parse_Assignment_def parse_iffs parse_tag_iff Assignment_canon Assignment_good_def
        Assignment_payload_def)
next
  case (2 x)
  then show ?case
    by (cases x) (simp add: Assignment_canon Assignment_good_def Assignment_payload_def enc_time_UTC)
qed

definition parse_Decline :: "Decline parser" where
  "parse_Decline =
     then_parse (parse_tag domainDecline) (\<lambda>_.
     then_parse parse_string (\<lambda>jobID.
     then_parse parse_string (\<lambda>nodeID.
     then_parse parse_string (\<lambda>reason.
     then_parse parse_time (\<lambda>declinedAt.
     parsed \<lparr>dc_JobID = jobID, dc_NodeID = nodeID, dc_Reason = reason, dc_DeclinedAt = declinedAt,
       dc_Signature = []\<rparr>)))))"

interpretation Decline_parser: strict_parser Decline_CanonicalBytes Decline_good Decline_payload parse_Decline
proof (rule strict_parserI, goal_cases)
  case (1 b y r)
  show ?case
    by (cases y) (auto simp: parse_Decline_def parse_iffs parse_tag_iff Decline_canon Decline_good_def Decline_payload_def)
next
  case (2 x)
  then show ?case
    by (cases x) (simp add: Decline_canon Decline_good_def Decline_payload_def enc_time_UTC)
qed

definition parse_JobReport :: "JobReport parser" where
  "parse_JobReport =
     then_parse (parse_tag domainJobReport) (\<lambda>_.
     then_parse parse_string (\<lambda>jobID.
     then_parse parse_string (\<lambda>nodeID.
     then_parse parse_uint64 (\<lambda>exitCode.
     then_parse parse_string (\<lambda>failureCause.
     then_parse parse_bool (\<lambda>tmpfsExhausted.
     then_parse parse_time (\<lambda>startedAt.
     then_parse parse_time (\<lambda>finishedAt.
     parsed \<lparr>jr_JobID = jobID, jr_NodeID = nodeID, jr_ExitCode = exitCode, jr_FailureCause = failureCause,
       jr_TmpfsExhausted = tmpfsExhausted, jr_StartedAt = startedAt, jr_FinishedAt = finishedAt,
       jr_Signature = []\<rparr>))))))))"

interpretation JobReport_parser: strict_parser JobReport_CanonicalBytes JobReport_good JobReport_payload parse_JobReport
proof (rule strict_parserI, goal_cases)
  case (1 b y r)
  show ?case
    by (cases y) (auto simp: parse_JobReport_def parse_iffs parse_tag_iff JobReport_canon JobReport_good_def
        JobReport_payload_def)
next
  case (2 x)
  then show ?case
    by (cases x) (simp add: JobReport_canon JobReport_good_def JobReport_payload_def enc_time_UTC)
qed

definition parse_KeyRotation :: "KeyRotation parser" where
  "parse_KeyRotation =
     then_parse (parse_tag domainRotate) (\<lambda>_.
     then_parse parse_string (\<lambda>nodeID.
     then_parse parse_string (\<lambda>newPublicKey.
     then_parse parse_string (\<lambda>algo.
     then_parse parse_time (\<lambda>rotatedAt.
     then_parse parse_uint64 (\<lambda>seq.
     parsed \<lparr>kr_NodeID = nodeID, kr_NewPublicKey = newPublicKey, kr_Algo = algo, kr_RotatedAt = rotatedAt,
       kr_Seq = seq, kr_Signature = []\<rparr>))))))"

interpretation KeyRotation_parser: strict_parser KeyRotation_CanonicalBytes KeyRotation_good KeyRotation_payload
    parse_KeyRotation
proof (rule strict_parserI, goal_cases)
  case (1 b y r)
  show ?case
    by (cases y) (auto simp: parse_KeyRotation_def parse_iffs parse_tag_iff KeyRotation_canon KeyRotation_good_def
        KeyRotation_payload_def)
next
  case (2 x)
  then show ?case
    by (cases x) (simp add: KeyRotation_canon KeyRotation_good_def KeyRotation_payload_def enc_time_UTC)
qed

definition parse_KeyRevocation :: "KeyRevocation parser" where
  "parse_KeyRevocation =
     then_parse (parse_tag domainRevoke) (\<lambda>_.
     then_parse parse_string (\<lambda>nodeID.
     then_parse parse_string (\<lambda>revokedPublicKey.
     then_parse parse_time (\<lambda>revokedAt.
     then_parse parse_uint64 (\<lambda>seq.
     parsed \<lparr>kv_NodeID = nodeID, kv_RevokedPublicKey = revokedPublicKey, kv_RevokedAt = revokedAt,
       kv_Seq = seq, kv_Signature = []\<rparr>)))))"

interpretation KeyRevocation_parser: strict_parser KeyRevocation_CanonicalBytes KeyRevocation_good KeyRevocation_payload
    parse_KeyRevocation
proof (rule strict_parserI, goal_cases)
  case (1 b y r)
  show ?case
    by (cases y) (auto simp: parse_KeyRevocation_def parse_iffs parse_tag_iff KeyRevocation_canon KeyRevocation_good_def
        KeyRevocation_payload_def)
next
  case (2 x)
  then show ?case
    by (cases x) (simp add: KeyRevocation_canon KeyRevocation_good_def KeyRevocation_payload_def enc_time_UTC)
qed

definition parse_StorageLease :: "StorageLease parser" where
  "parse_StorageLease =
     then_parse (parse_tag domainLease) (\<lambda>_.
     then_parse parse_string (\<lambda>leaseID.
     then_parse parse_string (\<lambda>nodeID.
     then_parse (parse_array 32) (\<lambda>shardRef.
     then_parse parse_uint64 (\<lambda>sizeClass.
     then_parse parse_terms (\<lambda>fee.
     then_parse parse_time (\<lambda>issuedAt.
     then_parse parse_time (\<lambda>expiresAt.
     then_parse parse_uint64 (\<lambda>seq.
     parsed \<lparr>sl_LeaseID = leaseID, sl_NodeID = nodeID, sl_ShardRef = shardRef, sl_SizeClass = sizeClass,
       sl_Fee = fee, sl_IssuedAt = issuedAt, sl_ExpiresAt = expiresAt, sl_Seq = seq, sl_Signature = []\<rparr>)))))))))"

interpretation StorageLease_parser: strict_parser StorageLease_CanonicalBytes StorageLease_good StorageLease_payload
    parse_StorageLease
proof (rule strict_parserI, goal_cases)
  case (1 b y r)
  show ?case
    by (cases y) (auto simp: parse_StorageLease_def parse_iffs parse_tag_iff StorageLease_canon StorageLease_good_def
        StorageLease_payload_def)
next
  case (2 x)
  then show ?case
    by (cases x) (simp add: StorageLease_canon StorageLease_good_def StorageLease_payload_def enc_time_UTC)
qed

definition parse_LeaseDecline :: "LeaseDecline parser" where
  "parse_LeaseDecline =
     then_parse (parse_tag domainLeaseDecline) (\<lambda>_.
     then_parse parse_string (\<lambda>leaseID.
     then_parse parse_string (\<lambda>nodeID.
     then_parse parse_string (\<lambda>reason.
     then_parse parse_time (\<lambda>declinedAt.
     parsed \<lparr>ld_LeaseID = leaseID, ld_NodeID = nodeID, ld_Reason = reason, ld_DeclinedAt = declinedAt,
       ld_Signature = []\<rparr>)))))"

interpretation LeaseDecline_parser: strict_parser LeaseDecline_CanonicalBytes LeaseDecline_good LeaseDecline_payload
    parse_LeaseDecline
proof (rule strict_parserI, goal_cases)
  case (1 b y r)
  show ?case
    by (cases y) (auto simp: parse_LeaseDecline_def parse_iffs parse_tag_iff LeaseDecline_canon LeaseDecline_good_def
        LeaseDecline_payload_def)
next
  case (2 x)
  then show ?case
    by (cases x) (simp add: LeaseDecline_canon LeaseDecline_good_def LeaseDecline_payload_def enc_time_UTC)
qed

definition parse_LeaseRelease :: "LeaseRelease parser" where
  "parse_LeaseRelease =
     then_parse (parse_tag domainLeaseRelease) (\<lambda>_.
     then_parse parse_string (\<lambda>leaseID.
     then_parse parse_string (\<lambda>nodeID.
     then_parse parse_time (\<lambda>releasedAt.
     parsed \<lparr>lr_LeaseID = leaseID, lr_NodeID = nodeID, lr_ReleasedAt = releasedAt, lr_Signature = []\<rparr>))))"

interpretation LeaseRelease_parser: strict_parser LeaseRelease_CanonicalBytes LeaseRelease_good LeaseRelease_payload
    parse_LeaseRelease
proof (rule strict_parserI, goal_cases)
  case (1 b y r)
  show ?case
    by (cases y) (auto simp: parse_LeaseRelease_def parse_iffs parse_tag_iff LeaseRelease_canon LeaseRelease_good_def
        LeaseRelease_payload_def)
next
  case (2 x)
  then show ?case
    by (cases x) (simp add: LeaseRelease_canon LeaseRelease_good_def LeaseRelease_payload_def enc_time_UTC)
qed

definition parse_ProofResponse :: "ProofResponse parser" where
  "parse_ProofResponse =
     then_parse (parse_tag domainProof) (\<lambda>_.
     then_parse parse_string (\<lambda>leaseID.
     then_parse parse_string (\<lambda>nodeID.
     then_parse parse_uint64 (\<lambda>offset.
     then_parse parse_uint64 (\<lambda>len.
     then_parse (parse_array 16) (\<lambda>nonce.
     then_parse (parse_array 32) (\<lambda>digest.
     then_parse parse_time (\<lambda>respondedAt.
     parsed \<lparr>pr_LeaseID = leaseID, pr_NodeID = nodeID, pr_Offset = offset, pr_Length = len, pr_Nonce = nonce,
       pr_Digest = digest, pr_RespondedAt = respondedAt, pr_Signature = []\<rparr>))))))))"

interpretation ProofResponse_parser: strict_parser ProofResponse_CanonicalBytes ProofResponse_good ProofResponse_payload
    parse_ProofResponse
proof (rule strict_parserI, goal_cases)
  case (1 b y r)
  show ?case
    by (cases y) (auto simp: parse_ProofResponse_def parse_iffs parse_tag_iff ProofResponse_canon ProofResponse_good_def
        ProofResponse_payload_def)
next
  case (2 x)
  then show ?case
    by (cases x) (simp add: ProofResponse_canon ProofResponse_good_def ProofResponse_payload_def enc_time_UTC)
qed

definition parse_OperatorTransmission :: "OperatorTransmission parser" where
  "parse_OperatorTransmission =
     then_parse (parse_tag domainTransmission) (\<lambda>_.
     then_parse parse_string (\<lambda>operatorID.
     then_parse parse_uint64 (\<lambda>tsUnixNano.
     then_parse parse_string (\<lambda>nonce.
     then_parse parse_uint64 (\<lambda>seq.
     then_parse parse_string (\<lambda>algo.
     then_parse parse_uint64 (\<lambda>idx0.
     then_parse parse_uint64 (\<lambda>idx1.
     parsed \<lparr>ot_OperatorID = operatorID, ot_TsUnixNano = tsUnixNano, ot_Nonce = nonce, ot_Seq = seq,
       ot_Algo = algo, ot_Idx0 = idx0, ot_Idx1 = idx1, ot_Sig0 = [], ot_Sig1 = []\<rparr>))))))))"

interpretation OperatorTransmission_parser: strict_parser OperatorTransmission_CanonicalBytes OperatorTransmission_good
    OperatorTransmission_payload parse_OperatorTransmission
proof (rule strict_parserI, goal_cases)
  case (1 b y r)
  show ?case
    by (cases y) (auto simp: parse_OperatorTransmission_def parse_iffs parse_tag_iff OperatorTransmission_canon
        OperatorTransmission_good_def OperatorTransmission_payload_def)
next
  case (2 x)
  then show ?case
    by (cases x) (simp add: OperatorTransmission_canon OperatorTransmission_good_def OperatorTransmission_payload_def
        enc_time_UTC)
qed

definition parse_OperatorRotation :: "OperatorRotation parser" where
  "parse_OperatorRotation =
     then_parse (parse_tag domainRotation) (\<lambda>_.
     then_parse parse_string (\<lambda>operatorID.
     then_parse parse_uint64 (\<lambda>keyIndex.
     then_parse parse_string (\<lambda>newPublicKey.
     then_parse parse_string (\<lambda>algo.
     then_parse parse_uint64 (\<lambda>tsUnixNano.
     then_parse parse_string (\<lambda>nonce.
     then_parse parse_uint64 (\<lambda>seq.
     then_parse parse_uint64 (\<lambda>idx0.
     then_parse parse_uint64 (\<lambda>idx1.
     parsed \<lparr>or_OperatorID = operatorID, or_KeyIndex = keyIndex, or_NewPublicKey = newPublicKey,
       or_Algo = algo, or_TsUnixNano = tsUnixNano, or_Nonce = nonce, or_Seq = seq, or_Idx0 = idx0,
       or_Idx1 = idx1, or_Sig0 = [], or_Sig1 = []\<rparr>))))))))))"

interpretation OperatorRotation_parser: strict_parser OperatorRotation_CanonicalBytes OperatorRotation_good
    OperatorRotation_payload parse_OperatorRotation
proof (rule strict_parserI, goal_cases)
  case (1 b y r)
  show ?case
    by (cases y) (auto simp: parse_OperatorRotation_def parse_iffs parse_tag_iff OperatorRotation_canon
        OperatorRotation_good_def OperatorRotation_payload_def)
next
  case (2 x)
  then show ?case
    by (cases x) (simp add: OperatorRotation_canon OperatorRotation_good_def OperatorRotation_payload_def enc_time_UTC)
qed

definition parse_ConformanceResponse :: "ConformanceResponse parser" where
  "parse_ConformanceResponse =
     then_parse (parse_tag domainConformance) (\<lambda>_.
     then_parse parse_string (\<lambda>operatorID.
     then_parse parse_string (\<lambda>challenge.
     then_parse parse_string (\<lambda>algo.
     then_parse parse_uint64 (\<lambda>idx0.
     then_parse parse_uint64 (\<lambda>idx1.
     parsed \<lparr>cr_OperatorID = operatorID, cr_Challenge = challenge, cr_Algo = algo, cr_Idx0 = idx0,
       cr_Idx1 = idx1, cr_Sig0 = [], cr_Sig1 = []\<rparr>))))))"

interpretation ConformanceResponse_parser: strict_parser ConformanceResponse_CanonicalBytes ConformanceResponse_good
    ConformanceResponse_payload parse_ConformanceResponse
proof (rule strict_parserI, goal_cases)
  case (1 b y r)
  show ?case
    by (cases y) (auto simp: parse_ConformanceResponse_def parse_iffs parse_tag_iff ConformanceResponse_canon
        ConformanceResponse_good_def ConformanceResponse_payload_def)
next
  case (2 x)
  then show ?case
    by (cases x) (simp add: ConformanceResponse_canon ConformanceResponse_good_def ConformanceResponse_payload_def
        enc_time_UTC)
qed

section \<open>The whole protocol\<close>

text \<open>The parser of the message type a domain tag names.\<close>

definition parse_as :: "('a \<Rightarrow> wire_msg) \<Rightarrow> 'a parser \<Rightarrow> wire_msg parser" where
  "parse_as f p = then_parse p (\<lambda>m. parsed (f m))"

definition parser_of_tag :: "bytes \<Rightarrow> wire_msg parser" where
  "parser_of_tag tag =
     (if tag = domainListing then parse_as (\<lambda>m. NodeMsg (ListingMsg m)) parse_CapabilityListing
      else if tag = domainHeartbeat then parse_as (\<lambda>m. NodeMsg (HeartbeatMsg m)) parse_Heartbeat
      else if tag = domainFee then parse_as (\<lambda>m. NodeMsg (FeeMsg m)) parse_FeeDeclaration
      else if tag = domainAssignment then parse_as (\<lambda>m. NodeMsg (AssignmentMsg m)) parse_Assignment
      else if tag = domainDecline then parse_as (\<lambda>m. NodeMsg (DeclineMsg m)) parse_Decline
      else if tag = domainJobReport then parse_as (\<lambda>m. NodeMsg (JobReportMsg m)) parse_JobReport
      else if tag = domainRotate then parse_as (\<lambda>m. NodeMsg (KeyRotationMsg m)) parse_KeyRotation
      else if tag = domainRevoke then parse_as (\<lambda>m. NodeMsg (KeyRevocationMsg m)) parse_KeyRevocation
      else if tag = domainLease then parse_as (\<lambda>m. NodeMsg (LeaseMsg m)) parse_StorageLease
      else if tag = domainLeaseDecline then parse_as (\<lambda>m. NodeMsg (LeaseDeclineMsg m)) parse_LeaseDecline
      else if tag = domainLeaseRelease then parse_as (\<lambda>m. NodeMsg (LeaseReleaseMsg m)) parse_LeaseRelease
      else if tag = domainProof then parse_as (\<lambda>m. NodeMsg (ProofMsg m)) parse_ProofResponse
      else if tag = domainTransmission then parse_as (\<lambda>m. OpMsg (TransmissionMsg m)) parse_OperatorTransmission
      else if tag = domainRotation then parse_as (\<lambda>m. OpMsg (RotationMsg m)) parse_OperatorRotation
      else if tag = domainConformance then parse_as (\<lambda>m. OpMsg (ConformanceMsg m)) parse_ConformanceResponse
      else (\<lambda>_. None))"

definition parse_wire :: "wire_msg parser" where
  "parse_wire b = (case parse_string b of None \<Rightarrow> None | Some (tag, _) \<Rightarrow> parser_of_tag tag b)"

lemma parse_as_iff: "parse_as f p b = Some (m, r) \<longleftrightarrow> (\<exists>x. p b = Some (x, r) \<and> m = f x)"
  by (auto simp: parse_as_def then_parse_eq_Some parsed_eq_Some)

lemmas message_parse_enc =
  CapabilityListing_parser.parse_enc
  Heartbeat_parser.parse_enc
  FeeDeclaration_parser.parse_enc
  Assignment_parser.parse_enc
  Decline_parser.parse_enc
  JobReport_parser.parse_enc
  KeyRotation_parser.parse_enc
  KeyRevocation_parser.parse_enc
  StorageLease_parser.parse_enc
  LeaseDecline_parser.parse_enc
  LeaseRelease_parser.parse_enc
  ProofResponse_parser.parse_enc
  OperatorTransmission_parser.parse_enc
  OperatorRotation_parser.parse_enc
  ConformanceResponse_parser.parse_enc

lemmas message_parse_sound =
  CapabilityListing_parser.parse_sound
  Heartbeat_parser.parse_sound
  FeeDeclaration_parser.parse_sound
  Assignment_parser.parse_sound
  Decline_parser.parse_sound
  JobReport_parser.parse_sound
  KeyRotation_parser.parse_sound
  KeyRevocation_parser.parse_sound
  StorageLease_parser.parse_sound
  LeaseDecline_parser.parse_sound
  LeaseRelease_parser.parse_sound
  ProofResponse_parser.parse_sound
  OperatorTransmission_parser.parse_sound
  OperatorRotation_parser.parse_sound
  ConformanceResponse_parser.parse_sound

lemma parser_of_node_tag:
  "nm_good m \<Longrightarrow> parser_of_tag (nm_tag m) (nm_bytes m @ r) = Some (NodeMsg (nm_payload m), r)"
  by (cases m) (simp_all add: parser_of_tag_def node_domains parse_as_iff message_parse_enc)

lemma parser_of_op_tag:
  "om_good m \<Longrightarrow> parser_of_tag (om_tag m) (om_bytes m @ r) = Some (OpMsg (om_payload m), r)"
  by (cases m) (simp_all add: parser_of_tag_def node_domains op_domains parse_as_iff message_parse_enc)

lemma parser_of_tag_sound:
  "parser_of_tag tag b = Some (m, r) \<Longrightarrow> wire_good m \<and> wire_payload m = m \<and> b = wire_bytes m @ r"
  unfolding parser_of_tag_def
  by (auto simp: parse_as_iff dest!: message_parse_sound split: if_splits)

interpretation wire_parser: strict_parser wire_bytes wire_good wire_payload parse_wire
proof (unfold_locales, goal_cases)
  case (1 m r)
  obtain c where c: "wire_bytes m = enc_string (wire_tag m) @ c" using wire_bytes_tag by blast
  then have "parse_wire (wire_bytes m @ r) = parser_of_tag (wire_tag m) (wire_bytes m @ r)"
    by (simp add: parse_wire_def string_parser.parse_enc)
  with 1 show ?case by (cases m) (simp_all add: parser_of_node_tag parser_of_op_tag)
next
  case (2 b m r)
  then show ?case
    by (auto simp: parse_wire_def split: option.splits dest: parser_of_tag_sound)
qed

section \<open>Property\<close>

text \<open>C17: the canonical bytes are a self-describing wire format, with an exact inverse. A byte string starts
  with the canonical bytes of a well-formed message exactly when \<open>parse_wire\<close> accepts it, and then the
  parser returns that message: its type, every signed field, the times as instants, and what follows it.
  So the language of canonical bytes of all fifteen messages is decidable and no two spellings (padded
  lengths, bools other than 0 and 1, arrays of a wrong size) of one message exist.\<close>

theorem canonical_bytes_parse:
  "parse_wire b = Some (m, r) \<longleftrightarrow> wire_good m \<and> wire_payload m = m \<and> b = wire_bytes m @ r"
  by (rule wire_parser.parse_iff)

end
