(* ===== verification/Operator_Verdict.thy ===== *)
theory Operator_Verdict
  imports Wire Operator_Properties
begin

text \<open>
  The verdict of an operator message as a checklist. SPEC.md section 11.0 lists requirements; which error a
  verifier reports when several are violated is decided by the order of the code's checks. \<open>verdict_list\<close>
  writes the requirements down in that order, each with its error; the code returns the error of the
  first violated one, for every message, registry and map iteration order.
\<close>

section \<open>Checklists\<close>

text \<open>The error of the first violated requirement.\<close>

fun first_violated :: "(bool \<times> 'e) list \<Rightarrow> 'e option" where
  "first_violated [] = None"
| "first_violated ((violated, err) # rest) = (if violated then Some err else first_violated rest)"

lemma first_violated_append:
  "first_violated (xs @ ys) = (case first_violated xs of None \<Rightarrow> first_violated ys | Some err \<Rightarrow>
      Some err)"
  by (induction xs rule: first_violated.induct) auto

lemma first_violated_None: "first_violated xs = None \<longleftrightarrow> (\<forall>(violated,
    err) \<in> set xs. \<not> violated)"
  by (induction xs rule: first_violated.induct) auto

text \<open>One signature at one index.\<close>

definition slot_list :: "ed25519 \<Rightarrow> keymap \<Rightarrow> int64 \<Rightarrow> bytes \<Rightarrow>
    bytes \<Rightarrow> bytes \<Rightarrow> (bool \<times> operator_error) list" where
  "slot_list E km idx algo msg sig =
     (let rec = the (km idx)
      in [(km idx = None, ErrKeyMissing),
          (key_Algo rec \<noteq> algo, ErrAlgoMismatch),
          (length sig \<noteq> 64, ErrBadSigLength),
          (length (key_PublicKey rec) \<noteq> 32, ErrKeyMissing),
          (\<not> ed_verify E (key_PublicKey rec) msg sig, ErrBadSignature)])"

definition pair_list ::
  "ed25519 \<Rightarrow> keymap \<Rightarrow> int64 \<Rightarrow> int64 \<Rightarrow> bytes \<Rightarrow>
      bytes \<Rightarrow> bytes \<Rightarrow> bytes \<Rightarrow> (bool \<times> operator_error) list" where
  "pair_list E km i j algo msg s0 s1 =
     [(i = j, ErrSameIndex),
      (index_out_of_range i \<or> index_out_of_range j, ErrIndexRange),
      (km i \<noteq> None \<and> km j \<noteq> None \<and> key_PublicKey (the (km i)) = key_PublicKey (the (km j)),
      ErrDuplicateSigningKey)] @
     slot_list E km i algo msg s0 @ slot_list E km j algo msg s1"

fun verdict_list :: "ed25519 \<Rightarrow> keymap \<Rightarrow> op_message \<Rightarrow> (bool \<times>
    operator_error) list" where
  "verdict_list E km (TransmissionMsg t) =
     [(length (ot_Nonce t) < 16, ErrNonceTooShort),
      (ot_Algo t \<noteq> AlgoEd25519, ErrUnknownAlgo)] @
     pair_list E km (ot_Idx0 t) (ot_Idx1 t) AlgoEd25519 (om_bytes (TransmissionMsg t)) (ot_Sig0 t) (ot_Sig1 t)"
| "verdict_list E km (RotationMsg r) =
     [(length (or_Nonce r) < 16, ErrNonceTooShort),
      (or_Algo r \<noteq> AlgoEd25519, ErrUnknownAlgo),
      (index_out_of_range (or_KeyIndex r), ErrIndexRange),
      (length (or_NewPublicKey r) \<noteq> 32, ErrUnknownAlgo),
      (key_elsewhere km (or_KeyIndex r) (or_NewPublicKey r), ErrDuplicateSigningKey),
      (algo_elsewhere km (or_KeyIndex r) AlgoEd25519, ErrAlgoMismatch)] @
     pair_list E km (or_Idx0 r) (or_Idx1 r) AlgoEd25519 (om_bytes (RotationMsg r)) (or_Sig0 r) (or_Sig1 r)"
| "verdict_list E km (ConformanceMsg c) =
     [(cr_Algo c \<noteq> AlgoEd25519, ErrUnknownAlgo)] @
     pair_list E km (cr_Idx0 c) (cr_Idx1 c) AlgoEd25519 (om_bytes (ConformanceMsg c)) (cr_Sig0 c) (cr_Sig1 c)"

section \<open>The code follows the checklists\<close>

lemma verifyAt_verdict:
  "\<not> index_out_of_range idx \<Longrightarrow>
     verifyAt E km idx AlgoEd25519 msg sig = Ret (first_violated (slot_list E km idx AlgoEd25519 msg sig))"
  by (auto simp: verifyAt_def slot_list_def Let_def expectedSigLen_def expectedPubLen_def key_sizes
      operator_verifier.verify_eq split: option.splits)

lemma verifyPair_verdict:
  "verifyPair E km i j AlgoEd25519 msg s0 s1 = Ret (first_violated (pair_list E km i j AlgoEd25519 msg s0 s1))"
proof (cases "i = j \<or> index_out_of_range i \<or> index_out_of_range j")
  case True
  then show ?thesis by (auto simp: verifyPair_def distinctKeysAt_def pair_list_def)
next
  case False
  then have d: "distinctKeysAt km i j =
      (if km i \<noteq> None \<and> km j \<noteq> None \<and> key_PublicKey (the (km i)) = key_PublicKey (the (km j))
       then Some ErrDuplicateSigningKey else None)"
    by (auto simp: distinctKeysAt_def split: option.splits)
  have chain: "err_then (Ret x) (Ret y) = Ret (case x of None \<Rightarrow> y | Some e \<Rightarrow> Some e)"
    for x y :: "operator_error option" by (auto split: option.splits)
  have "(case x of None \<Rightarrow> None | Some e \<Rightarrow> Some e) = x" for x :: "operator_error option"
    by (cases x) simp_all
  with False d show ?thesis
    by (simp add: verifyPair_def verifyAt_verdict pair_list_def first_violated_append chain del: err_then_Ret)
qed

lemma om_verify_verdict:
  assumes "visits o1 km" and "visits o2 km"
  shows "om_verify E o1 o2 km m = Ret (first_violated (verdict_list E km m))"
proof (cases m)
  case (TransmissionMsg t)
  then show ?thesis by (simp add: OperatorTransmission_Verify_def MinNonceLen_def verifyPair_verdict)
next
  case (RotationMsg r)
  then show ?thesis by (simp add: OperatorRotation_Verify_visits [OF assms] verifyPair_verdict)
next
  case (ConformanceMsg c)
  then show ?thesis by (simp add: ConformanceResponse_Verify_def verifyPair_verdict)
qed

section \<open>Property\<close>

text \<open>C19: the verdict of every operator message is that of its checklist: \<open>Verify\<close> returns,
    never panics, and
  returns nil exactly when no requirement of SPEC.md section 11.0 (and 11.2 for a rotation) is violated,
  and otherwise the error of the first violated one in the order of \<open>verdict_list\<close>, on every message,
  every registry, malformed ones included, and every iteration order of the registry map. In that order
  the first signature is fully checked before a key is looked up at the second index.\<close>

theorem operator_verdict:
  assumes "visits o1 km" and "visits o2 km"
  shows "om_verify E o1 o2 km m = Ret (first_violated (verdict_list E km m)) \<and>
     (om_verify E o1 o2 km m = Ret None \<longleftrightarrow> (\<forall>(violated,
     err) \<in> set (verdict_list E km m). \<not> violated))"
  by (simp add: om_verify_verdict [OF assms] first_violated_None del: verdict_list.simps)

text \<open>A transmission whose second signature is one byte short.\<close>

definition clipped_transmission :: OperatorTransmission where
  "clipped_transmission =
     \<lparr>ot_OperatorID = lit ''cloudy'', ot_TsUnixNano = 0, ot_Nonce = replicate 16 1, ot_Seq = 1, ot_Algo = AlgoEd25519,
      ot_Idx0 = 0, ot_Idx1 = 1, ot_Sig0 = replicate 64 0, ot_Sig1 = replicate 63 0\<rparr>"

lemma operator_verdict_witness:
  "om_verify accept_all demo_order demo_order demo_registry (TransmissionMsg clipped_transmission) =
     Ret (Some ErrBadSigLength) \<and>
   om_verify accept_all [] [] Map.empty (TransmissionMsg clipped_transmission) = Ret (Some ErrKeyMissing)"
proof -
  have "visits [] Map.empty" by (simp add: visits_def)
  then show ?thesis
    using operator_verdict [OF demo_visits(1,1), of accept_all "TransmissionMsg clipped_transmission"]
      operator_verdict [of "[]" Map.empty "[]" accept_all "TransmissionMsg clipped_transmission"]
    by (simp add: clipped_transmission_def pair_list_def slot_list_def Let_def demo_registry_at demo_record_def
        index_out_of_range_def KeyIndexCount_def)
qed

end
