(* ===== verification/Replay_Guard.thy ===== *)
theory Replay_Guard
  imports Main
begin

text \<open>
  Runs of an event system, and the contract of one that admits each message at most once. \<open>used s v\<close> says
  that in state \<open>s\<close> the content \<open>v\<close> has been spent;
      an event that admits a message requires its content
  unspent and spends it, and no event ever unspends anything. Then no run admits the same content twice.
\<close>

inductive run :: "('s \<Rightarrow> 'e \<Rightarrow> 's \<Rightarrow> bool) \<Rightarrow> 's \<Rightarrow>
    'e list \<Rightarrow> 's \<Rightarrow> bool" for step where
  run_Nil: "run step s [] s"
| run_Cons: "step s e s' \<Longrightarrow> run step s' es s'' \<Longrightarrow> run step s (e # es) s''"

inductive_cases run_NilE: "run step s [] s'"
inductive_cases run_ConsE: "run step s (e # es) s'"

inductive_simps run_Cons_iff: "run step s (e # es) s'"
inductive_simps run_Nil_iff: "run step s [] s'"

lemmas run_iffs = run_Nil_iff run_Cons_iff

lemma run_append: "run step s (es @ fs) s'' \<longleftrightarrow> (\<exists>s'. run step s es s' \<and> run step s' fs s'')"
  by (induction es arbitrary: s) (auto simp: run_iffs)

lemma run_invariant:
  assumes "run step s es s'" and "P s" and "\<And>s e s'. step s e s' \<Longrightarrow> P s \<Longrightarrow> P s'"
  shows "P s'"
  using assms by (induction rule: run.induct) blast+

locale replay_guard =
  fixes step :: "'s \<Rightarrow> 'e \<Rightarrow> 's \<Rightarrow> bool"
    and admits :: "'e \<Rightarrow> 'v option"
    and used :: "'s \<Rightarrow> 'v \<Rightarrow> bool"
  assumes admit_spends: "step s e s' \<Longrightarrow> admits e = Some v \<Longrightarrow> \<not> used s v \<and> used s' v"
    and used_stays: "step s e s' \<Longrightarrow> used s v \<Longrightarrow> used s' v"
begin

lemma run_used: "run step s es s' \<Longrightarrow> used s v \<Longrightarrow> used s' v"
  by (erule run_invariant) (auto intro: used_stays)

lemma spent_not_admitted: "run step s es s' \<Longrightarrow> used s v \<Longrightarrow>
    v \<notin> set (List.map_filter admits es)"
  by (induction rule: run.induct)
    (auto simp: List.map_filter_simps split: option.splits dest: admit_spends used_stays)

theorem no_replay: "run step s es s' \<Longrightarrow> distinct (List.map_filter admits es)"
  by (induction rule: run.induct)
    (auto simp: List.map_filter_simps split: option.splits dest: admit_spends spent_not_admitted)

end

end
