(* ===== verification/Admission.thy ===== *)
theory Admission
  imports Wire Replay_Guard
begin

text \<open>
  The obligations package \<open>coordinator\<close> puts on whoever implements its interfaces (the comments of
  src/coordinator/coordinator.go, SPEC.md sections 4.1, 4.2, 4.10, 4.11 and 4.12), as an abstract machine
  around the code's \<open>Verify\<close>: for each node the machine keeps the key it trusts, the last sequence number
  of a listing, a heartbeat and a rotation, and the nonces of accepted proofs. A message of a node is
  admitted when the code's \<open>Verify\<close> accepts it under the trusted key and its freshness rule holds; an
  admitted rotation replaces the key, an admitted revocation removes it, and enrollment, which is out of
  band, sets a key at any time. The machine is a specification: the implementations are outside the repository, and
  no theorem claims what holds by the rules of the machine alone. \<open>Traffic\<close> has the contract of the sequence
  numbers for an arbitrary coordinator.
\<close>

section \<open>The machine\<close>

record account =
  ac_key :: "bytes option"
  ac_listing_seq :: "uint64 option"
  ac_beat_seq :: "uint64 option"
  ac_key_seq :: "uint64 option"
  ac_proofs :: "(bytes \<times> bytes) list"

type_synonym book = "bytes \<rightharpoonup> account"

definition seq_exceeds :: "uint64 option \<Rightarrow> uint64 \<Rightarrow> bool" where
  "seq_exceeds prev s = (case prev of None \<Rightarrow> True | Some l \<Rightarrow> l < s)"

text \<open>The node a message speaks for; \<open>None\<close> for the messages a coordinator signs.\<close>

fun nm_author :: "node_message \<Rightarrow> bytes option" where
  "nm_author (ListingMsg m) = Some (cl_NodeID m)"
| "nm_author (HeartbeatMsg m) = Some (hb_NodeID m)"
| "nm_author (FeeMsg m) = None"
| "nm_author (AssignmentMsg m) = None"
| "nm_author (DeclineMsg m) = Some (dc_NodeID m)"
| "nm_author (JobReportMsg m) = Some (jr_NodeID m)"
| "nm_author (KeyRotationMsg m) = Some (kr_NodeID m)"
| "nm_author (KeyRevocationMsg m) = Some (kv_NodeID m)"
| "nm_author (LeaseMsg m) = None"
| "nm_author (LeaseDeclineMsg m) = Some (ld_NodeID m)"
| "nm_author (LeaseReleaseMsg m) = Some (lr_NodeID m)"
| "nm_author (ProofMsg m) = Some (pr_NodeID m)"

text \<open>The freshness rules: strictly increasing \<open>Seq\<close>, and single-use \<open>(LeaseID,
    Nonce)\<close>.\<close>

fun fresh :: "account \<Rightarrow> node_message \<Rightarrow> bool" where
  "fresh a (ListingMsg m) = seq_exceeds (ac_listing_seq a) (cl_Seq m)"
| "fresh a (HeartbeatMsg m) = seq_exceeds (ac_beat_seq a) (hb_Seq m)"
| "fresh a (KeyRotationMsg m) = seq_exceeds (ac_key_seq a) (kr_Seq m)"
| "fresh a (ProofMsg m) = ((pr_LeaseID m, pr_Nonce m) \<notin> set (ac_proofs a))"
| "fresh a _ = True"

fun log_msg :: "account \<Rightarrow> node_message \<Rightarrow> account" where
  "log_msg a (ListingMsg m) = a\<lparr>ac_listing_seq := Some (cl_Seq m)\<rparr>"
| "log_msg a (HeartbeatMsg m) = a\<lparr>ac_beat_seq := Some (hb_Seq m)\<rparr>"
| "log_msg a (KeyRotationMsg m) = a\<lparr>ac_key := Some (kr_NewPublicKey m), ac_key_seq := Some (kr_Seq m)\<rparr>"
| "log_msg a (KeyRevocationMsg m) = a\<lparr>ac_key := None\<rparr>"
| "log_msg a (ProofMsg m) = a\<lparr>ac_proofs := (pr_LeaseID m, pr_Nonce m) # ac_proofs a\<rparr>"
| "log_msg a _ = a"

definition trusted :: "book \<Rightarrow> bytes \<Rightarrow> bytes option" where
  "trusted bk n = Option.bind (bk n) ac_key"

definition admit :: "ed25519 \<Rightarrow> book \<Rightarrow> node_message \<Rightarrow> book option" where
  "admit E bk m =
     (case nm_author m of
        None \<Rightarrow> None
      | Some n \<Rightarrow>
          (case bk n of
             None \<Rightarrow> None
           | Some a \<Rightarrow>
               (case ac_key a of
                  None \<Rightarrow> None
                | Some pub \<Rightarrow>
                    if nm_verify E pub m = Ret True \<and> fresh a m then Some (bk(n \<mapsto> log_msg a m)) else None)))"

definition enroll :: "bytes \<Rightarrow> account option \<Rightarrow> account" where
  "enroll pub acc =
     (case acc of
        None \<Rightarrow> \<lparr>ac_key = Some pub, ac_listing_seq = None, ac_beat_seq = None, ac_key_seq = None,
        ac_proofs = []\<rparr>
      | Some a \<Rightarrow> a\<lparr>ac_key := Some pub\<rparr>)"

datatype event = Accepted node_message | Enrolled bytes bytes

inductive book_step :: "ed25519 \<Rightarrow> book \<Rightarrow> event \<Rightarrow> book \<Rightarrow> bool" for E where
  accept: "admit E bk m = Some bk' \<Longrightarrow> book_step E bk (Accepted m) bk'"
| enrollment: "length pub = PublicKeySize \<Longrightarrow> book_step E bk (Enrolled n pub) (bk(n \<mapsto> enroll pub (bk n)))"

inductive_cases book_stepE: "book_step E bk e bk'"
inductive_simps book_step_Accepted: "book_step E bk (Accepted m) bk'"
inductive_simps book_step_Enrolled: "book_step E bk (Enrolled n pub) bk'"

lemmas book_step_iffs = book_step_Accepted book_step_Enrolled

lemma admit_Some:
  "admit E bk m = Some bk' \<longleftrightarrow>
     (\<exists>n a pub. nm_author m = Some n \<and> bk n = Some a \<and> ac_key a = Some pub \<and> nm_verify E pub m =
     Ret True \<and>
        fresh a m \<and> bk' = bk(n \<mapsto> log_msg a m))"
  by (auto simp: admit_def split: option.splits)

lemma trusted_Some: "trusted bk n = Some pub \<longleftrightarrow> (\<exists>a. bk n = Some a \<and> ac_key a = Some pub)"
  by (auto simp: trusted_def Option.bind_eq_Some_conv)

section \<open>Spent content\<close>

text \<open>What an account's records rule out for the future.\<close>

fun replay_protected :: "node_message \<Rightarrow> bool" where
  "replay_protected (ListingMsg _) = True"
| "replay_protected (HeartbeatMsg _) = True"
| "replay_protected (KeyRotationMsg _) = True"
| "replay_protected (ProofMsg _) = True"
| "replay_protected _ = False"

definition spent :: "book \<Rightarrow> node_message \<Rightarrow> bool" where
  "spent bk m \<longleftrightarrow> (\<exists>n a. nm_author m = Some n \<and> bk n = Some a \<and> \<not> fresh a m)"

lemma seq_exceeds_Some [simp]: "seq_exceeds (Some l) s \<longleftrightarrow> l < s"
  by (simp add: seq_exceeds_def)

lemma seq_exceeds_mono: "seq_exceeds prev s \<Longrightarrow> \<not> seq_exceeds prev t \<Longrightarrow>
    \<not> seq_exceeds (Some s) t"
  by (auto simp: seq_exceeds_def split: option.splits)

lemma note_spends: "replay_protected m \<Longrightarrow> \<not> fresh (log_msg a m) m"
  by (cases m) simp_all

lemma note_keeps_spent: "fresh a m \<Longrightarrow> \<not> fresh a x \<Longrightarrow> \<not> fresh (log_msg a m) x"
  by (cases m; cases x) (auto dest: seq_exceeds_mono)

lemma enroll_keeps_spent: "fresh (enroll pub (Some a)) x = fresh a x"
  by (cases x) (simp_all add: enroll_def)

lemma step_keeps_spent:
  assumes "book_step E bk e bk'" and "spent bk x"
  shows "spent bk' x"
  using assms
  by (auto simp: spent_def admit_Some enroll_keeps_spent note_keeps_spent elim!: book_stepE)

lemmas node_payload_defs =
  CapabilityListing_payload_def Heartbeat_payload_def FeeDeclaration_payload_def Assignment_payload_def
  Decline_payload_def JobReport_payload_def KeyRotation_payload_def KeyRevocation_payload_def
  StorageLease_payload_def LeaseDecline_payload_def LeaseRelease_payload_def ProofResponse_payload_def

lemma payload_keeps [simp]:
  "nm_author (nm_payload m) = nm_author m" "fresh a (nm_payload m) = fresh a m"
  "replay_protected (nm_payload m) = replay_protected m"
  by (cases m; simp add: node_payload_defs)+

lemma spent_payload [simp]: "spent bk (nm_payload m) = spent bk m"
  by (simp add: spent_def)

fun protected_content :: "event \<Rightarrow> node_message option" where
  "protected_content (Accepted m) = (if replay_protected m then Some (nm_payload m) else None)"
| "protected_content (Enrolled n pub) = None"

interpretation book_guard: replay_guard "book_step E" protected_content spent for E
proof (unfold_locales, goal_cases)
  case (1 bk e bk' v)
  then obtain m where "e = Accepted m" "replay_protected m" "v = nm_payload m"
    by (cases e) (auto split: if_splits)
  with 1 show ?case by (auto simp: book_step_iffs admit_Some spent_def dest: note_spends)
next
  case (2 bk e bk' v)
  then show ?case by (rule step_keeps_spent)
qed

text \<open>The bytes alone say which account a message falls to and whether it is fresh there, even when its time cannot be
  represented and is missing from them: node, lease and nonce stand before the time, \<open>Seq\<close> is the last eight
  bytes. \<open>nm_sized\<close> holds of every Go value.\<close>

fun nm_sized :: "node_message \<Rightarrow> bool" where
  "nm_sized (ListingMsg m) = fits (cl_NodeID m)"
| "nm_sized (HeartbeatMsg m) = fits (hb_NodeID m)"
| "nm_sized (KeyRotationMsg m) = fits (kr_NodeID m)"
| "nm_sized (ProofMsg m) = (fits (pr_LeaseID m) \<and> fits (pr_NodeID m) \<and> fits (pr_Nonce m))"
| "nm_sized _ = True"

lemma good_sized: "nm_good m \<Longrightarrow> nm_sized m"
  by (cases m) (simp_all add: CapabilityListing_good_def Heartbeat_good_def KeyRotation_good_def ProofResponse_good_def
      fits_array)

lemma same_node:
  "fits n \<Longrightarrow> fits n' \<Longrightarrow> enc_string d @ enc_string n @ r = enc_string d @ enc_string n' @ r' \<Longrightarrow> n = n' \<and> r = r'"
  by (simp add: string_code.cancel_iff)

lemma same_final_seq: "xs @ enc_uint64 a = ys @ enc_uint64 b \<Longrightarrow> a = b"
proof -
  assume eq: "xs @ enc_uint64 a = ys @ enc_uint64 b"
  have "length (enc_uint64 a) = length (enc_uint64 b)" by (simp add: enc_uint64_def)
  with eq have "enc_uint64 a = enc_uint64 b" by (simp add: append_eq_append_conv)
  then show "a = b" by (simp add: uint64_code.enc_eq_iff)
qed

lemma protected_bytes:
  assumes "nm_bytes x = nm_bytes y" and "replay_protected x" and "nm_sized x" and "nm_sized y"
  shows "nm_author x = nm_author y" and "fresh a x = fresh a y"
proof -
  have kind: "nm_kind x = nm_kind y" using nm_bytes_kind [of x "[]" y "[]"] assms(1) by simp
  have "nm_author x = nm_author y \<and> fresh a x = fresh a y"
  proof (cases x)
    case (ListingMsg l)
    with kind obtain m where y: "y = ListingMsg m" by (cases y) simp_all
    note eq = assms(1) [unfolded ListingMsg y nm_bytes.simps CapabilityListing_canon]
    have "cl_NodeID l = cl_NodeID m" using same_node [OF _ _ eq] assms(3,4) ListingMsg y by simp
    moreover have "cl_Seq l = cl_Seq m" using eq unfolding append_assoc [symmetric] by (rule same_final_seq)
    ultimately show ?thesis using ListingMsg y by simp
  next
    case (HeartbeatMsg l)
    with kind obtain m where y: "y = HeartbeatMsg m" by (cases y) simp_all
    note eq = assms(1) [unfolded HeartbeatMsg y nm_bytes.simps Heartbeat_canon]
    have "hb_NodeID l = hb_NodeID m" using same_node [OF _ _ eq] assms(3,4) HeartbeatMsg y by simp
    moreover have "hb_Seq l = hb_Seq m" using eq unfolding append_assoc [symmetric] by (rule same_final_seq)
    ultimately show ?thesis using HeartbeatMsg y by simp
  next
    case (KeyRotationMsg l)
    with kind obtain m where y: "y = KeyRotationMsg m" by (cases y) simp_all
    note eq = assms(1) [unfolded KeyRotationMsg y nm_bytes.simps KeyRotation_canon]
    have "kr_NodeID l = kr_NodeID m" using same_node [OF _ _ eq] assms(3,4) KeyRotationMsg y by simp
    moreover have "kr_Seq l = kr_Seq m" using eq unfolding append_assoc [symmetric] by (rule same_final_seq)
    ultimately show ?thesis using KeyRotationMsg y by simp
  next
    case (ProofMsg l)
    with kind obtain m where y: "y = ProofMsg m" by (cases y) simp_all
    note eq = assms(1) [unfolded ProofMsg y nm_bytes.simps ProofResponse_canon]
    show ?thesis using eq assms(3,4) ProofMsg y by (simp add: string_code.cancel_iff uint64_code.cancel_iff)
  qed (use assms(2) in simp_all)
  then show "nm_author x = nm_author y" "fresh a x = fresh a y" by simp_all
qed

text \<open>So the machine spends bytes, too.\<close>

fun protected_bytes_of :: "event \<Rightarrow> bytes option" where
  "protected_bytes_of (Accepted m) = (if replay_protected m \<and> nm_sized m then Some (nm_bytes m) else None)"
| "protected_bytes_of (Enrolled n pub) = None"

definition bytes_spent :: "book \<Rightarrow> bytes \<Rightarrow> bool" where
  "bytes_spent bk b \<longleftrightarrow> (\<exists>m. replay_protected m \<and> nm_sized m \<and> nm_bytes m = b \<and> spent bk m)"

interpretation bytes_guard: replay_guard "book_step E" protected_bytes_of bytes_spent for E
proof (unfold_locales, goal_cases)
  case (1 bk e bk' v)
  then obtain m where m: "e = Accepted m" "replay_protected m" "nm_sized m" "v = nm_bytes m"
    by (cases e) (auto split: if_splits)
  with 1 obtain n a where a: "nm_author m = Some n" "bk n = Some a" "fresh a m" "bk' = bk(n \<mapsto> log_msg a m)"
    by (auto simp: book_step_iffs admit_Some)
  have "\<not> bytes_spent bk v"
  proof
    assume "bytes_spent bk v"
    then obtain y where y: "replay_protected y" "nm_sized y" "nm_bytes y = nm_bytes m" "spent bk y"
      using m(4) by (auto simp: bytes_spent_def)
    with m(3) have "nm_author y = nm_author m" "fresh a y = fresh a m" using protected_bytes by blast+
    with y(4) a show False by (simp add: spent_def)
  qed
  moreover have "spent bk' m" using a note_spends [OF m(2)] by (simp add: spent_def)
  ultimately show ?case using m unfolding bytes_spent_def by blast
next
  case (2 bk e bk' v)
  then show ?case by (auto simp: bytes_spent_def dest: step_keeps_spent)
qed

text \<open>The messages a run accepts.\<close>

definition accepted :: "event list \<Rightarrow> node_message list" where
  "accepted es = List.map_filter (\<lambda>e. case e of Accepted m \<Rightarrow> Some m | Enrolled n pub \<Rightarrow>
      None) es"

lemma accepted_simps [simp]:
  "accepted [] = []" "accepted (Accepted m # es) = m # accepted es" "accepted (Enrolled n pub # es) = accepted es"
  by (simp_all add: accepted_def List.map_filter_simps)

lemma protected_contents:
  "List.map_filter protected_content es = map nm_payload (filter replay_protected (accepted es))"
proof (induction es)
  case (Cons e es)
  then show ?case by (cases e) (simp_all add: List.map_filter_simps)
qed (simp add: List.map_filter_simps)

lemma protected_bytes_accepted:
  "List.map_filter protected_bytes_of es = map nm_bytes (filter (\<lambda>m. replay_protected m \<and> nm_sized m) (accepted es))"
proof (induction es)
  case (Cons e es)
  then show ?case by (cases e) (simp_all add: List.map_filter_simps)
qed (simp add: List.map_filter_simps)

section \<open>The invariant of the book\<close>

text \<open>Every trusted key is a well-formed Ed25519 key, and no proof is recorded twice.\<close>

definition account_ok :: "account \<Rightarrow> bool" where
  "account_ok a \<longleftrightarrow> (\<forall>pub. ac_key a = Some pub \<longrightarrow> length pub =
      PublicKeySize) \<and> distinct (ac_proofs a)"

definition book_ok :: "book \<Rightarrow> bool" where
  "book_ok bk \<longleftrightarrow> (\<forall>n a. bk n = Some a \<longrightarrow> account_ok a)"

lemma note_ok:
  assumes "account_ok a" and "nm_verify E pub m = Ret True" and "fresh a m"
  shows "account_ok (log_msg a m)"
  using assms by (cases m) (auto simp: account_ok_def KeyRotation_msg.verify_eq KeyRotation_guard_def)

lemma enroll_ok: "length pub = PublicKeySize \<Longrightarrow> (\<And>a. acc = Some a \<Longrightarrow>
    account_ok a) \<Longrightarrow> account_ok (enroll pub acc)"
  by (auto simp: enroll_def account_ok_def split: option.splits)

lemma step_ok:
  assumes "book_step E bk e bk'" and "book_ok bk"
  shows "book_ok bk'"
  using assms(1)
proof cases
  case (accept m)
  then obtain n a pub where a: "bk n = Some a" "nm_verify E pub m = Ret True" "fresh a m" "bk' = bk(n \<mapsto> log_msg a m)"
    by (auto simp: admit_Some)
  then have "account_ok (log_msg a m)" using assms(2) unfolding book_ok_def by (intro note_ok) auto
  with a assms(2) show ?thesis unfolding book_ok_def by auto
next
  case (enrollment pub n)
  have "account_ok (enroll pub (bk n))"
    using enrollment(3) assms(2) unfolding book_ok_def by (intro enroll_ok) auto
  with enrollment assms(2) show ?thesis unfolding book_ok_def by auto
qed

end
