(* ===== verification/Admission_Properties.thy ===== *)
theory Admission_Properties
  imports Admission Crypto_Instance
begin

text \<open>
  What the code's \<open>Verify\<close> and canonical bytes give a coordinator that follows the obligations of package
  \<open>coordinator\<close>: claims about all runs of the machine of \<open>Admission\<close>,
      with the messages used as witnesses.
\<close>

section \<open>A run used by the witnesses\<close>

definition alpha :: bytes where "alpha = lit ''node-alpha''"

definition epoch :: go_time where
  "epoch = \<lparr>t_sec = 62135596800, t_nsec = 0, t_loc = None, t_mono = None\<rparr>"

definition beat :: "uint64 \<Rightarrow> Heartbeat" where
  "beat seq = \<lparr>hb_NodeID = alpha, hb_SentAt = epoch, hb_Seq = seq, hb_Signature = replicate 64 0\<rparr>"

definition enrolled_book :: book where
  "enrolled_book = [alpha \<mapsto> enroll (demo_pub 1) None]"

lemma alpha_fits [simp]: "fits alpha"
  by (simp add: alpha_def fits_lit)

lemma epoch_good [simp]: "wf_time epoch" "ValidTime epoch"
proof -
  show "wf_time epoch" by (simp add: epoch_def wf_time_def)
  then show "ValidTime epoch" by (simp add: ValidTime_range epoch_def instant_ns_def)
qed

lemma beat_good [simp]: "Heartbeat_good (beat seq)"
  by (simp add: Heartbeat_good_def beat_def)

lemma enrolled_trusts [simp]: "trusted enrolled_book alpha = Some (demo_pub 1)"
  by (simp add: trusted_def enrolled_book_def enroll_def)

lemma enrolled_run: "run (book_step E) Map.empty [Enrolled alpha (demo_pub 1)] enrolled_book"
  by (simp add: run_iffs book_step_iffs enrolled_book_def key_sizes)

lemma beat_admitted:
  "admit accept_all (bk(alpha \<mapsto> a)) (HeartbeatMsg (beat seq)) =
     (if ac_key a \<noteq> None \<and> length (the (ac_key a)) = 32 \<and> seq_exceeds (ac_beat_seq a) seq
      then Some (bk(alpha \<mapsto> a\<lparr>ac_beat_seq := Some seq\<rparr>)) else None)"
  by (auto simp: admit_def beat_def Heartbeat_msg.verify_eq key_sizes split: option.splits)

section \<open>Properties\<close>

text \<open>Whatever messages arrive and in whatever order, a coordinator that follows the obligations of
  coordinator.go trusts for every node either no key or a well-formed 32-byte key, starting from an empty
  book: \<open>KeyRotation.Verify\<close> never lets a malformed successor in, so no later verification is handed a key
  on which \<open>ed25519.Verify\<close> panics; and no proof of possession is recorded twice.\<close>

theorem trusted_keys_wellformed:
  assumes "run (book_step E) Map.empty es bk"
  shows "book_ok bk \<and> (\<forall>n pub. trusted bk n = Some pub \<longrightarrow> ed25519_Verify E pub msg sig
      \<noteq> Panic)"
proof -
  have "book_ok bk" by (rule run_invariant [OF assms]) (auto simp: book_ok_def [of Map.empty] step_ok)
  then show ?thesis by (auto simp: trusted_Some book_ok_def account_ok_def ed25519_Verify_def)
qed

lemma trusted_keys_wellformed_witness:
  "ed25519_Verify accept_all (demo_pub 1) [] [] \<noteq> Panic"
  using trusted_keys_wellformed [OF enrolled_run, of accept_all "[]" "[]"] enrolled_trusts by blast

text \<open>C18: no signature is honored twice. In every run, the listings, heartbeats, rotations and proofs that are
  accepted have pairwise different canonical bytes: replaying one, with its signature, its signature field or its
  time zone changed in any way, is refused, because the bytes a signature covers determine the node, the
  sequence number and the nonce. This holds even of messages whose time cannot be represented and is missing
  from the bytes; \<open>nm_sized\<close> is true of every Go value.\<close>

theorem no_signature_honored_twice:
  assumes "run (book_step E) bk es bk'" and "\<forall>m \<in> set (accepted es). nm_sized m"
  shows "distinct (map nm_bytes (filter replay_protected (accepted es)))"
proof -
  have "filter (\<lambda>m. replay_protected m \<and> nm_sized m) (accepted es) = filter replay_protected (accepted es)"
    using assms(2) by (intro filter_cong) auto
  then show ?thesis using bytes_guard.no_replay [OF assms(1)] by (simp add: protected_bytes_accepted)
qed

lemma no_signature_honored_twice_witness:
  "distinct (map nm_bytes [HeartbeatMsg (beat 1), HeartbeatMsg (beat 2)])"
proof -
  obtain bk where "run (book_step accept_all) enrolled_book [Accepted (HeartbeatMsg (beat 1)),
      Accepted (HeartbeatMsg (beat 2))] bk"
    by (auto simp: run_iffs book_step_iffs enrolled_book_def enroll_def beat_admitted seq_exceeds_def)
  from no_signature_honored_twice [OF this] show ?thesis by (simp add: beat_def)
qed

end
