(* ===== verification/Storage_Audit.thy ===== *)
theory Storage_Audit
  imports Lease Crypto_Instance
begin

text \<open>
  A round of SPEC.md section 4.10, composed from the code's parts: the node answers a \<open>ProofChallenge\<close> with
  the digest \<open>ProofOverShard\<close> computes and signs the \<open>ProofResponse\<close>; the auditor,
      who knows the sealed
  bytes, checks the signature, that the response restates the challenge, and the digest.
\<close>

section \<open>The round\<close>

text \<open>The bytes a challenge asks for.\<close>

definition challenged_bytes :: "bytes \<Rightarrow> ProofChallenge \<Rightarrow> bytes" where
  "challenged_bytes sealed ch = take (nat (sint (ch_Length ch))) (drop (nat (sint (ch_Offset ch))) sealed)"

definition challenge_in_range :: "bytes \<Rightarrow> ProofChallenge \<Rightarrow> bool" where
  "challenge_in_range sealed ch \<longleftrightarrow> 0 \<le> sint (ch_Offset ch) \<and> 1 \<le> sint (ch_Length ch) \<and>
     sint (ch_Offset ch) + sint (ch_Length ch) \<le> int (length sealed)"

definition answer :: "ProofChallenge \<Rightarrow> bytes \<Rightarrow> go_time \<Rightarrow> bytes \<Rightarrow>
    ProofResponse" where
  "answer ch node now digest =
     \<lparr>pr_LeaseID = ch_LeaseID ch, pr_NodeID = node, pr_Offset = ch_Offset ch, pr_Length = ch_Length ch,
      pr_Nonce = ch_Nonce ch, pr_Digest = digest, pr_RespondedAt = now, pr_Signature = []\<rparr>"

text \<open>The node: compute the proof, sign the response; a challenge out of range is answered with the error.\<close>

definition respond ::
  "ed25519 \<Rightarrow> bytes \<Rightarrow> bytes \<Rightarrow> go_time \<Rightarrow> bytes \<Rightarrow>
      ProofChallenge \<Rightarrow> (lease_error + ProofResponse) go" where
  "respond E priv node now held ch =
     go_bind (ProofOverShard held ch) (\<lambda>(digest, err).
       case err of
         Some e \<Rightarrow> Ret (Inl e)
       | None \<Rightarrow> go_bind (ProofResponse_Sign E priv (answer ch node now digest)) (\<lambda>p. Ret (Inr p)))"

text \<open>The auditor.\<close>

definition audit :: "ed25519 \<Rightarrow> bytes \<Rightarrow> bytes \<Rightarrow> ProofChallenge \<Rightarrow>
    ProofResponse \<Rightarrow> bool" where
  "audit E pub sealed ch p \<longleftrightarrow>
     ProofResponse_Verify E pub p = Ret True \<and>
     pr_LeaseID p = ch_LeaseID ch \<and> pr_Offset p = ch_Offset ch \<and> pr_Length p = ch_Length ch \<and>
     pr_Nonce p = ch_Nonce ch \<and> ProofOverShard sealed ch = Ret (pr_Digest p, None)"

lemma ProofOverShard_in_range:
  "fits sealed \<Longrightarrow> challenge_in_range sealed ch \<Longrightarrow>
     ProofOverShard sealed ch =
       Ret (ProofDigest (ch_Nonce ch) (ch_Offset ch) (ch_Length ch) (challenged_bytes sealed ch), None)"
  by (simp add: ProofOverShard_eq challenge_in_range_def challenged_bytes_def)

section \<open>Properties\<close>

text \<open>An honest node always passes: for every challenge within the shard, whatever its offset, length and
  nonce, the response built from the same sealed bytes and signed with the node's key passes the audit;
  for every other challenge the node returns \<open>ErrChallengeRange\<close> and signs nothing. Neither side panics.\<close>

theorem honest_holder_passes_audit:
  assumes "ed25519_laws E" and "keypair E priv pub" and "fits sealed"
  shows "if challenge_in_range sealed ch
     then \<exists>p. respond E priv node now sealed ch = Ret (Inr p) \<and> audit E pub sealed ch p \<and>
     pr_NodeID p = node
     else respond E priv node now sealed ch =
       Ret (Inl (ErrChallengeRange (ch_Offset ch) (ch_Length ch) (length sealed)))"
proof (cases "challenge_in_range sealed ch")
  case True
  note digest = ProofOverShard_in_range [OF assms(3) True]
  let ?a = "answer ch node now (ProofDigest (ch_Nonce ch) (ch_Offset ch) (ch_Length ch) (challenged_bytes sealed ch))"
  from ProofResponse_msg.sign_verify [OF assms(1,2)] obtain p where p: "ProofResponse_Sign E priv ?a = Ret p"
    "ProofResponse_payload p = ProofResponse_payload ?a" "ProofResponse_Verify E pub p = Ret True" by blast
  from p(1) have "respond E priv node now sealed ch = Ret (Inr p)"
    by (simp add: respond_def digest)
  moreover from p(2,3) have "audit E pub sealed ch p" "pr_NodeID p = node"
    by (simp_all add: audit_def digest ProofResponse_payload_eq_iff answer_def)
  ultimately show ?thesis using True by auto
next
  case False
  then have "ProofOverShard sealed ch =
      Ret (replicate 32 0, Some (ErrChallengeRange (ch_Offset ch) (ch_Length ch) (length sealed)))"
    unfolding ProofOverShard_eq [OF assms(3)] challenge_in_range_def by (rule if_not_P)
  with False show ?thesis by (simp add: respond_def)
qed

definition demo_shard :: bytes where "demo_shard = [1, 2, 3, 4]"

lemma honest_holder_passes_audit_witness:
  "\<exists>p. respond hash_signatures (demo_priv 5) (lit ''n'') (time_Unix 0 0) demo_shard (challenge_example 1 2) =
      Ret (Inr p) \<and>
     audit hash_signatures (demo_pub 5) demo_shard (challenge_example 1 2) p"
  using honest_holder_passes_audit [of hash_signatures "demo_priv 5" "demo_pub 5" demo_shard "challenge_example 1 2"
      "lit ''n''" "time_Unix 0 0"]
  by (auto simp: challenge_in_range_def challenge_example_def demo_shard_def fits_def)

text \<open>C21: a response computed from anything else fails. If a response passes the audit and its digest was
  computed by \<open>ProofOverShard\<close> from any bytes, for any challenge, then either those were the challenge's
  own nonce, offset and length over the challenged bytes themselves, or the holder has a SHA-256
  collision between two inputs written out here; a recorded answer to another challenge is no help.\<close>

theorem audit_binds_challenged_bytes:
  assumes "fits sealed" and "fits held" and "audit E pub sealed ch p"
    and "ProofOverShard held ch' = Ret (pr_Digest p, None)"
    and "length (ch_Nonce ch) = 16" and "length (ch_Nonce ch') = 16"
  defines "x \<equiv> proof_preimage (ch_Nonce ch) (ch_Offset ch) (ch_Length ch) (challenged_bytes sealed ch)"
    and "y \<equiv> proof_preimage (ch_Nonce ch') (ch_Offset ch') (ch_Length ch') (challenged_bytes held ch')"
  shows "ch_Nonce ch' = ch_Nonce ch \<and> ch_Offset ch' = ch_Offset ch \<and> ch_Length ch' = ch_Length ch \<and>
      challenged_bytes held ch' = challenged_bytes sealed ch \<or> x \<noteq> y \<and> sha256 x = sha256 y"
proof -
  have digest: "pr_Digest p = sha256 (proof_preimage (ch_Nonce c) (ch_Offset c) (ch_Length c) (challenged_bytes b c))"
    if "fits b" "ProofOverShard b c = Ret (pr_Digest p, None)" for b c
    using that by (simp add: ProofOverShard_eq challenged_bytes_def ProofDigest_preimage split: if_splits)
  have "ProofOverShard sealed ch = Ret (pr_Digest p, None)" using assms(3) by (simp add: audit_def)
  from digest [OF assms(1) this] digest [OF assms(2,4)] have "sha256 x = sha256 y"
    by (simp add: x_def y_def)
  then show ?thesis
    unfolding x_def y_def using proof_preimage_eq_iff [OF assms(5,6)] by metis
qed

lemma audit_binds_challenged_bytes_witness:
  "\<exists>p. audit hash_signatures (demo_pub 5) demo_shard (challenge_example 1 2) p \<and>
     (challenged_bytes demo_shard (challenge_example 1 2) = [2, 3])"
proof -
  let ?ch = "challenge_example 1 2"
  have fits: "fits demo_shard" and nonce: "length (ch_Nonce ?ch) = 16"
    by (simp_all add: demo_shard_def fits_def challenge_example_def)
  have range: "challenge_in_range demo_shard ?ch"
    by (simp add: challenge_in_range_def challenge_example_def demo_shard_def)
  let ?a = "answer ?ch [] (time_Unix 0 0) (ProofDigest (ch_Nonce ?ch) 1 2 (challenged_bytes demo_shard ?ch))"
  have keys: "ed25519_laws hash_signatures" "keypair hash_signatures (demo_priv 5) (demo_pub 5)" by simp_all
  from ProofResponse_msg.sign_verify [OF keys, of ?a] obtain p where "ProofResponse_payload p = ProofResponse_payload ?a"
    "ProofResponse_Verify hash_signatures (demo_pub 5) p = Ret True" by auto
  then have p: "audit hash_signatures (demo_pub 5) demo_shard ?ch p"
    using ProofOverShard_in_range [OF fits range]
    by (simp add: audit_def ProofResponse_payload_eq_iff answer_def challenge_example_def)
  then have "ProofOverShard demo_shard ?ch = Ret (pr_Digest p, None)" by (simp add: audit_def)
  from audit_binds_challenged_bytes [OF fits fits p this nonce nonce]
  have "challenged_bytes demo_shard ?ch = challenged_bytes demo_shard ?ch" by blast
  with p show ?thesis by (auto simp: challenged_bytes_def challenge_example_def demo_shard_def)
qed

end
