(* ===== verification/End_To_End.thy ===== *)
theory End_To_End
  imports Transport_Properties Admission_Properties
begin

text \<open>
  The protocol end to end: a node signs a message and posts it through the client; the handler decodes it
  and calls a coordinator that follows the obligations of coordinator.go. \<open>book_coordinator\<close> is the
  \<open>Coordinator\<close> interface over the machine of \<open>Admission\<close>. Signatures are over canonical
      bytes, so the
  outcome at the far end is that of the original message, whatever JSON does to its representation.
\<close>

section \<open>The machine as a coordinator\<close>

definition refused :: go_error where "refused = lit ''refused''"

definition record_message :: "ed25519 \<Rightarrow> node_message \<Rightarrow> (book, go_error option) proc" where
  "record_message E m bk = (case admit E bk m of Some bk' \<Rightarrow> (None, bk') | None \<Rightarrow> (Some refused, bk))"

definition book_coordinator :: "ed25519 \<Rightarrow> Assignment list \<Rightarrow> FeeDeclaration \<Rightarrow>
    book Coordinator" where
  "book_coordinator E offers declared =
     \<lparr>co_SubmitListing = (\<lambda>l. record_message E (ListingMsg l)),
      co_Heartbeat = (\<lambda>h. record_message E (HeartbeatMsg h)),
      co_PollJobs = (\<lambda>node bk. ((filter (\<lambda>a. as_NodeID a = node) offers, None), bk)),
      co_Decline = (\<lambda>d. record_message E (DeclineMsg d)),
      co_ReportJob = (\<lambda>r. record_message E (JobReportMsg r)),
      co_Fees = (\<lambda>bk. ((declared, None), bk))\<rparr>"

lemma record_message_step: "record_message E m bk = (None, bk') \<longleftrightarrow> book_step E bk (Accepted m) bk'"
  by (auto simp: record_message_def book_step_iffs split: option.splits)

lemma through_None: "through meth path p = (None, s') \<longleftrightarrow> p = (None, s')"
  by (cases "(meth, path, p)" rule: through.cases) auto

section \<open>Only content and signature matter\<close>

text \<open>Two values of a message that say the same and carry the same signature.\<close>

definition same_message :: "node_message \<Rightarrow> node_message \<Rightarrow> bool" where
  "same_message m m' \<longleftrightarrow> nm_payload m = nm_payload m' \<and> nm_sig m = nm_sig m'"

lemmas node_canons = CapabilityListing_canon Heartbeat_canon FeeDeclaration_canon Assignment_canon Decline_canon
  JobReport_canon KeyRotation_canon KeyRevocation_canon StorageLease_canon LeaseDecline_canon LeaseRelease_canon
  ProofResponse_canon

lemma payload_bytes: "nm_bytes (nm_payload m) = nm_bytes m"
  by (cases m) (simp_all add: node_canons node_payload_defs enc_time_UTC)

lemma payload_guard: "nm_guard pub (nm_payload m) = nm_guard pub m"
  by (cases m) (simp_all add: node_payload_defs KeyRotation_guard_def KeyRevocation_guard_def)

lemma payload_log: "log_msg a (nm_payload m) = log_msg a m"
  by (cases m) (simp_all add: node_payload_defs)

lemma same_message_eqs:
  assumes "same_message m m'"
  shows "nm_bytes m = nm_bytes m'" and "nm_guard pub m = nm_guard pub m'" and "log_msg a m = log_msg a m'"
    and "nm_author m = nm_author m'" and "fresh a m = fresh a m'"
  using assms unfolding same_message_def
  by (metis payload_bytes, metis payload_guard, metis payload_log, metis payload_keeps(1), metis payload_keeps(2))

lemma same_message_verify:
  assumes "same_message m m'"
  shows "nm_verify E pub m = nm_verify E pub m'"
proof -
  from assms have "nm_sig m = nm_sig m'" by (simp add: same_message_def)
  then show ?thesis
    by (simp only: node_msg.verify_eq same_message_eqs(1,2) [OF assms])
qed

lemma same_message_admit:
  assumes "same_message m m'"
  shows "admit E bk m = admit E bk m'"
  by (simp only: admit_def same_message_eqs(3-5) [OF assms] same_message_verify [OF assms])

section \<open>Property\<close>

text \<open>What a coordinator accepts at the far end of the transport is what the node signed: through the client,
  the network, the handler and JSON, a posted listing, heartbeat, decline or report returns nil exactly
  when the machine accepts the original message, signature included, in its current state, and the
  coordinator's state then changes exactly as for the original. It is enough that JSON keeps the
  content (times as instants) and the signature; it need not keep time zones or monotonic readings.\<close>

theorem posted_message_end_to_end:
  assumes "served_by env c (Handler J (book_coordinator E offers declared))"
    and "carries (jn_listing J) l l'" and "carries (jn_heartbeat J) h h'" and "carries (jn_decline J) d d'"
    and "carries (jn_report J) r r'"
    and "same_message (ListingMsg l) (ListingMsg l')" and "same_message (HeartbeatMsg h) (HeartbeatMsg h')"
    and "same_message (DeclineMsg d) (DeclineMsg d')" and "same_message (JobReportMsg r) (JobReportMsg r')"
  shows "(Client_SubmitListing env J c l bk = (None, bk') \<longleftrightarrow>
      book_step E bk (Accepted (ListingMsg l)) bk') \<and>
    (Client_Heartbeat env J c h bk = (None, bk') \<longleftrightarrow> book_step E bk (Accepted (HeartbeatMsg h)) bk') \<and>
    (Client_Decline env J c d bk = (None, bk') \<longleftrightarrow> book_step E bk (Accepted (DeclineMsg d)) bk') \<and>
    (Client_ReportJob env J c r bk = (None, bk') \<longleftrightarrow> book_step E bk (Accepted (JobReportMsg r)) bk')"
  using client_posts_eq [OF assms(1-5), of bk]
  by (simp add: Client_Coordinator_def book_coordinator_def through_None record_message_step book_step_Accepted
      same_message_admit [OF assms(6)] same_message_admit [OF assms(7)] same_message_admit [OF assms(8)]
      same_message_admit [OF assms(9)])

text \<open>Codecs that carry a value with its times in UTC.\<close>

definition relay_json :: json where
  "relay_json = \<lparr>jn_listing = fixed_codec demo_listing,
     jn_heartbeat = fixed_codec ((beat 3)\<lparr>hb_SentAt := epoch\<lparr>t_loc := Some ''Local''\<rparr>\<rparr>),
     jn_decline = fixed_codec demo_decline, jn_report = fixed_codec demo_report, jn_jobs = fixed_codec [],
     jn_fees = fixed_codec zero_FeeDeclaration\<rparr>"

lemma posted_message_end_to_end_witness:
  "\<exists>bk'. Client_Heartbeat
      (loopback (Handler relay_json (book_coordinator accept_all [] zero_FeeDeclaration)))
      relay_json demo_client (beat 3) enrolled_book = (None, bk')"
proof -
  let ?C = "book_coordinator accept_all [] zero_FeeDeclaration"
  let ?beat' = "(beat 3)\<lparr>hb_SentAt := epoch\<lparr>t_loc := Some ''Local''\<rparr>\<rparr>"
  have served: "served_by (loopback (Handler relay_json ?C)) demo_client (Handler relay_json ?C)"
    unfolding demo_client_def by (rule loopback_served [OF demo_root])
  have "carries (jn_heartbeat relay_json) (beat 3) ?beat'"
    by (simp add: carries_def relay_json_def fixed_codec_def)
  moreover have "same_message (HeartbeatMsg (beat 3)) (HeartbeatMsg ?beat')"
    by (simp add: same_message_def Heartbeat_payload_eq_iff beat_def time_UTC_def)
  moreover obtain bk' where "book_step accept_all enrolled_book (Accepted (HeartbeatMsg (beat 3))) bk'"
    by (auto simp: book_step_iffs enrolled_book_def beat_admitted enroll_def seq_exceeds_def)
  ultimately show ?thesis
    using posted_message_end_to_end [OF served, of demo_listing demo_listing "beat 3" ?beat' demo_decline demo_decline
        demo_report demo_report enrolled_book bk']
    by (auto simp: relay_json_def same_message_def)
qed

end
