(* ===== verification/Json_Text.thy ===== *)
theory Json_Text
  imports Go_Prelude
begin

text \<open>
  The JSON text of Go's \<open>encoding/json\<close>: the syntax tree, the compact printer, and the scanner
  (encoding/json/scanner.go), a machine that reads one byte at a time with a stack of the objects and
  arrays it is in. \<open>scan\<close> is what \<open>Decoder.Decode\<close> reads from a stream: its first value,
      whatever follows.
  Strings and numbers of the tree keep the text between their delimiters, because the decoders of time
  values and of integers read the text.
\<close>

datatype jvalue =
  JNull
| JBool bool
| JNumber bytes
| JString bytes
| JArray "jvalue list"
| JObject "(bytes \<times> jvalue) list"

text \<open>The errors of decoding. \<open>ErrSyntax c context\<close> is Go's \<open>invalid character c
    context\<close>.\<close>

datatype json_error =
  ErrSyntax byte bytes
| ErrDepth
| ErrEOF
| ErrUnexpectedEOF
| ErrType bytes
| ErrBase64
| ErrNotString
| ErrTimeFormat
| ErrYear
| ErrZoneHour

section \<open>Bytes\<close>

definition is_space :: "byte \<Rightarrow> bool" where
  "is_space c \<longleftrightarrow> c = 0x20 \<or> c = 0x09 \<or> c = 0x0D \<or> c = 0x0A"

definition is_digit :: "byte \<Rightarrow> bool" where
  "is_digit c \<longleftrightarrow> 0x30 \<le> c \<and> c \<le> 0x39"

definition is_hex :: "byte \<Rightarrow> bool" where
  "is_hex c \<longleftrightarrow> is_digit c \<or> 0x61 \<le> c \<and> c \<le> 0x66 \<or> 0x41 \<le> c \<and> c \<le> 0x46"

definition simple_escape :: "byte \<Rightarrow> bool" where
  "simple_escape c \<longleftrightarrow> c = 0x62 \<or> c = 0x66 \<or> c = 0x6E \<or> c = 0x72 \<or> c = 0x74 \<or> c =
      0x5C \<or> c = 0x2F \<or> c = 0x22"

section \<open>The scanner\<close>

datatype number_state = NumNeg | NumZero | NumInt | NumDot | NumFrac | NumE | NumSign | NumExp

text \<open>The state between two bytes. Text read so far is kept reversed.\<close>

datatype scan_state =
  BeginValue
| BeginValueOrEmpty
| BeginString
| BeginStringOrEmpty
| InString bytes
| InEscape bytes
| InHex nat bytes
| InNumber number_state bytes
| InLiteral bytes bytes jvalue
| EndValue jvalue
| EndTop jvalue
| Failed json_error

text \<open>\<open>parseState\<close>: what encloses the value being read, with the parts of it already read,
    reversed.\<close>

datatype frame =
  ObjectKey "(bytes \<times> jvalue) list"
| ObjectValue "(bytes \<times> jvalue) list" bytes
| ArrayValue "jvalue list"

type_synonym scanner = "scan_state \<times> frame list"

definition maxNestingDepth :: nat where "maxNestingDepth = 10000"

definition push_frame :: "scan_state \<Rightarrow> frame \<Rightarrow> frame list \<Rightarrow> scanner" where
  "push_frame next_state f st =
     (if length st < maxNestingDepth then (next_state, f # st) else (Failed ErrDepth, st))"

definition syntax_error :: "byte \<Rightarrow> string \<Rightarrow> frame list \<Rightarrow> scanner" where
  "syntax_error c context st = (Failed (ErrSyntax c (lit context)), st)"

text \<open>\<open>popParseState\<close>: a closed object or array at the top ends the value at once.\<close>

definition close_value :: "jvalue \<Rightarrow> frame list \<Rightarrow> scanner" where
  "close_value v st = (if st = [] then EndTop v else EndValue v, st)"

definition end_value :: "jvalue \<Rightarrow> byte \<Rightarrow> frame list \<Rightarrow> scanner" where
  "end_value v c st =
     (case st of
        [] \<Rightarrow> (EndTop v, st)
      | ObjectKey ms # st' \<Rightarrow>
          if is_space c then (EndValue v, st)
          else if c = 0x3A then (BeginValue, ObjectValue ms (case v of JString k \<Rightarrow> k | _ \<Rightarrow> []) # st')
          else syntax_error c ''after object key'' st
      | ObjectValue ms k # st' \<Rightarrow>
          if is_space c then (EndValue v, st)
          else if c = 0x2C then (BeginString, ObjectKey ((k, v) # ms) # st')
          else if c = 0x7D then close_value (JObject (rev ((k, v) # ms))) st'
          else syntax_error c ''after object key:value pair'' st
      | ArrayValue vs # st' \<Rightarrow>
          if is_space c then (EndValue v, st)
          else if c = 0x2C then (BeginValue, ArrayValue (v # vs) # st')
          else if c = 0x5D then close_value (JArray (rev (v # vs))) st'
          else syntax_error c ''after array element'' st)"

definition begin_value :: "byte \<Rightarrow> frame list \<Rightarrow> scanner" where
  "begin_value c st =
     (if is_space c then (BeginValue, st)
      else if c = 0x7B then push_frame BeginStringOrEmpty (ObjectKey []) st
      else if c = 0x5B then push_frame BeginValueOrEmpty (ArrayValue []) st
      else if c = 0x22 then (InString [], st)
      else if c = 0x2D then (InNumber NumNeg [c], st)
      else if c = 0x30 then (InNumber NumZero [c], st)
      else if c = 0x74 then (InLiteral (lit ''rue'') (lit ''true'') (JBool True), st)
      else if c = 0x66 then (InLiteral (lit ''alse'') (lit ''false'') (JBool False), st)
      else if c = 0x6E then (InLiteral (lit ''ull'') (lit ''null'') JNull, st)
      else if is_digit c then (InNumber NumInt [c], st)
      else syntax_error c ''looking for beginning of value'' st)"

definition begin_string :: "byte \<Rightarrow> frame list \<Rightarrow> scanner" where
  "begin_string c st =
     (if is_space c then (BeginString, st)
      else if c = 0x22 then (InString [], st)
      else syntax_error c ''looking for beginning of object key string'' st)"

text \<open>The automaton of numbers: the next state, \<open>Inl None\<close> when the number ends before the byte, and
  \<open>Inl (Some context)\<close> when the byte is an error.\<close>

fun number_step :: "number_state \<Rightarrow> byte \<Rightarrow> string option + number_state" where
  "number_step NumNeg c =
     (if c = 0x30 then Inr NumZero else if is_digit c then Inr NumInt else Inl (Some ''in numeric literal''))"
| "number_step NumInt c =
     (if is_digit c then Inr NumInt else if c = 0x2E then Inr NumDot
      else if c = 0x65 \<or> c = 0x45 then Inr NumE else Inl None)"
| "number_step NumZero c =
     (if c = 0x2E then Inr NumDot else if c = 0x65 \<or> c = 0x45 then Inr NumE else Inl None)"
| "number_step NumDot c =
     (if is_digit c then Inr NumFrac else Inl (Some ''after decimal point in numeric literal''))"
| "number_step NumFrac c =
     (if is_digit c then Inr NumFrac else if c = 0x65 \<or> c = 0x45 then Inr NumE else Inl None)"
| "number_step NumE c =
     (if c = 0x2B \<or> c = 0x2D then Inr NumSign
      else if is_digit c then Inr NumExp else Inl (Some ''in exponent of numeric literal''))"
| "number_step NumSign c =
     (if is_digit c then Inr NumExp else Inl (Some ''in exponent of numeric literal''))"
| "number_step NumExp c = (if is_digit c then Inr NumExp else Inl None)"

definition literal_error :: "byte \<Rightarrow> byte \<Rightarrow> bytes \<Rightarrow> frame list \<Rightarrow>
    scanner" where
  "literal_error c expected name st =
     (Failed (ErrSyntax c (lit ''in literal '' @ name @ lit '' (expecting '' @ [0x27, expected, 0x27, 0x29])), st)"

fun scan_step :: "byte \<Rightarrow> scanner \<Rightarrow> scanner" where
  "scan_step c (BeginValue, st) = begin_value c st"
| "scan_step c (BeginValueOrEmpty, st) =
     (if is_space c then (BeginValueOrEmpty, st)
      else if c = 0x5D then close_value (JArray []) (tl st)
      else begin_value c st)"
| "scan_step c (BeginString, st) = begin_string c st"
| "scan_step c (BeginStringOrEmpty, st) =
     (if is_space c then (BeginStringOrEmpty, st)
      else if c = 0x7D then close_value (JObject []) (tl st)
      else begin_string c st)"
| "scan_step c (InString raw, st) =
     (if c = 0x22 then (EndValue (JString (rev raw)), st)
      else if c = 0x5C then (InEscape (c # raw), st)
      else if c < 0x20 then syntax_error c ''in string literal'' st
      else (InString (c # raw), st))"
| "scan_step c (InEscape raw, st) =
     (if simple_escape c then (InString (c # raw), st)
      else if c = 0x75 then (InHex 4 (c # raw), st)
      else syntax_error c ''in string escape code'' st)"
| "scan_step c (InHex n raw, st) =
     (if is_hex c then (if n = 1 then InString (c # raw) else InHex (n - 1) (c # raw), st)
      else syntax_error c (''in '' @ CHR 0x5C # ''u hexadecimal character escape'') st)"
| "scan_step c (InNumber n raw, st) =
     (case number_step n c of
        Inr n' \<Rightarrow> (InNumber n' (c # raw), st)
      | Inl None \<Rightarrow> end_value (JNumber (rev raw)) c st
      | Inl (Some context) \<Rightarrow> syntax_error c context st)"
| "scan_step c (InLiteral expected name v, st) =
     (case expected of
        [] \<Rightarrow> end_value v c st
      | e # es \<Rightarrow> if c \<noteq> e then literal_error c e name st
          else (if es = [] then EndValue v else InLiteral es name v, st))"
| "scan_step c (EndValue v, st) = end_value v c st"
| "scan_step c (EndTop v, st) = (EndTop v, st)"
| "scan_step c (Failed e, st) = (Failed e, st)"

definition scan_run :: "bytes \<Rightarrow> scanner \<Rightarrow> scanner" where
  "scan_run bs s = fold scan_step bs s"

text \<open>\<open>Decoder.readValue\<close>: at the end of the stream a value that a following space would end is complete;
  otherwise the error is \<open>io.EOF\<close> on blank input and \<open>io.ErrUnexpectedEOF\<close> on the rest.\<close>

definition scan :: "bytes \<Rightarrow> json_error + jvalue" where
  "scan bs =
     (case fst (scan_run bs (BeginValue, [])) of
        EndTop v \<Rightarrow> Inr v
      | Failed e \<Rightarrow> Inl e
      | _ \<Rightarrow> (case fst (scan_run (bs @ [0x20]) (BeginValue, [])) of
           EndTop v \<Rightarrow> Inr v
         | _ \<Rightarrow> Inl (if list_all is_space bs then ErrEOF else ErrUnexpectedEOF)))"

section \<open>The printer\<close>

fun join_comma :: "bytes list \<Rightarrow> bytes" where
  "join_comma [] = []"
| "join_comma [x] = x"
| "join_comma (x # y # r) = x @ 0x2C # join_comma (y # r)"

fun json_print :: "jvalue \<Rightarrow> bytes" where
  "json_print JNull = lit ''null''"
| "json_print (JBool b) = (if b then lit ''true'' else lit ''false'')"
| "json_print (JNumber raw) = raw"
| "json_print (JString raw) = 0x22 # raw @ [0x22]"
| "json_print (JArray vs) = 0x5B # join_comma (map json_print vs) @ [0x5D]"
| "json_print (JObject ms) =
     0x7B # join_comma (map (\<lambda>(k, v). 0x22 # k @ 0x22 # 0x3A # json_print v) ms) @ [0x7D]"

end
