(* ===== verification/Json_Syntax.thy ===== *)
theory Json_Syntax
  imports Json_Text
begin

text \<open>
  The scanner and the printer are inverse to each other: scanning the printed text of a well-formed tree,
  followed by anything that cannot continue a number, gives the tree back (\<open>scan_print\<close>), and every tree
  the scanner returns is well formed (\<open>scan_ok\<close>).
\<close>

section \<open>Well-formed trees\<close>

text \<open>The text of a string: no quote or control character outside an escape, and complete escapes.\<close>

fun raw_ok :: "bytes \<Rightarrow> bool" where
  "raw_ok [] = True"
| "raw_ok (c # r) =
     (if c = 0x5C
      then (case r of
          [] \<Rightarrow> False
        | e # r' \<Rightarrow> if simple_escape e then raw_ok r'
            else e = 0x75 \<and> 4 \<le> length r' \<and> list_all is_hex (take 4 r') \<and> raw_ok (drop 4 r'))
      else c \<noteq> 0x22 \<and> 0x20 \<le> c \<and> raw_ok r)"

fun number_run :: "number_state \<Rightarrow> bytes \<Rightarrow> number_state option" where
  "number_run n [] = Some n"
| "number_run n (c # r) = (case number_step n c of Inr n' \<Rightarrow> number_run n' r | Inl _ \<Rightarrow> None)"

definition number_start :: "byte \<Rightarrow> number_state option" where
  "number_start c = (if c = 0x2D then Some NumNeg else if c = 0x30 then Some NumZero
     else if is_digit c then Some NumInt else None)"

definition number_final :: "number_state \<Rightarrow> bool" where
  "number_final n \<longleftrightarrow> n = NumZero \<or> n = NumInt \<or> n = NumFrac \<or> n = NumExp"

definition number_ok :: "bytes \<Rightarrow> bool" where
  "number_ok raw \<longleftrightarrow> (case raw of [] \<Rightarrow> False | c # r \<Rightarrow>
     (case number_start c of None \<Rightarrow> False | Some n \<Rightarrow>
       (case number_run n r of None \<Rightarrow> False | Some n' \<Rightarrow> number_final n')))"

fun json_ok :: "jvalue \<Rightarrow> bool" where
  "json_ok JNull = True"
| "json_ok (JBool b) = True"
| "json_ok (JNumber raw) = number_ok raw"
| "json_ok (JString raw) = raw_ok raw"
| "json_ok (JArray vs) = list_all json_ok vs"
| "json_ok (JObject ms) = list_all (\<lambda>(k, v). raw_ok k \<and> json_ok v) ms"

fun json_depth :: "jvalue \<Rightarrow> nat" where
  "json_depth (JArray vs) = Suc (fold max (map json_depth vs) 0)"
| "json_depth (JObject ms) = Suc (fold max (map (\<lambda>(k, v). json_depth v) ms) 0)"
| "json_depth _ = 0"

lemma fold_max_le: "x \<in> set xs \<Longrightarrow> (x :: nat) \<le> fold max xs m"
  and fold_max_mono: "(m :: nat) \<le> fold max xs m"
proof -
  show mono: "m \<le> fold max xs m" for m :: nat and xs
    by (induction xs arbitrary: m) (auto intro: order_trans [OF max.cobounded2])
  show "x \<le> fold max xs m" if "x \<in> set xs"
    using that by (induction xs arbitrary: m) (auto intro: order_trans [OF max.cobounded1 mono])
qed

section \<open>Runs of the scanner\<close>

lemma scan_run_Nil [simp]: "scan_run [] s = s"
  and scan_run_Cons [simp]: "scan_run (c # bs) s = scan_run bs (scan_step c s)"
  and scan_run_append: "scan_run (bs @ cs) s = scan_run cs (scan_run bs s)"
  by (simp_all add: scan_run_def)

lemma scan_run_final [simp]:
  "scan_run bs (EndTop v, st) = (EndTop v, st)" "scan_run bs (Failed e, st) = (Failed e, st)"
  by (induction bs) simp_all

lemma scan_step_close: "scan_step c (close_value v st) = end_value v c st"
  by (simp add: close_value_def end_value_def)

lemma scan_run_hex:
  "list_all is_hex hs \<Longrightarrow> hs \<noteq> [] \<Longrightarrow> scan_run hs (InHex (length hs) acc, st) =
      (InString (rev hs @ acc), st)"
proof (induction hs arbitrary: acc)
  case (Cons h hs)
  then show ?case by (cases hs) auto
qed simp

lemma raw_ok_run: "raw_ok raw \<Longrightarrow> scan_run raw (InString acc, st) = (InString (rev raw @ acc), st)"
proof (induction raw arbitrary: acc rule: raw_ok.induct)
  case (2 c r)
  show ?case
  proof (cases "c = 0x5C")
    case False
    with 2 show ?thesis by (auto simp: not_less)
  next
    case True
    with "2.prems" obtain e r' where r: "r = e # r'" by (cases r) auto
    show ?thesis
    proof (cases "simple_escape e")
      case True
      with \<open>c = 0x5C\<close> 2 r show ?thesis by simp
    next
      case False
      with \<open>c = 0x5C\<close> "2.prems" r have e: "e = 0x75" and len: "4 \<le> length r'"
        and hex: "list_all is_hex (take 4 r')" and ok: "raw_ok (drop 4 r')" by auto
      have "scan_run r' (InHex 4 (e # c # acc), st)
          = scan_run (drop 4 r') (scan_run (take 4 r') (InHex (length (take 4 r')) (e # c # acc), st))"
        using len by (simp add: scan_run_append [symmetric] min_def)
      also have "\<dots> = scan_run (drop 4 r') (InString (rev (take 4 r') @ e # c # acc), st)"
        using len by (subst scan_run_hex [OF hex]) auto
      also have "\<dots> = (InString (rev (drop 4 r') @ rev (take 4 r') @ e # c # acc), st)"
        using 2(2) [OF \<open>c = 0x5C\<close> r False ok] .
      also have "rev (drop 4 r') @ rev (take 4 r') @ e # c # acc = rev (take 4 r' @ drop 4 r') @ e # c # acc"
        by (simp only: rev_append append_assoc)
      finally show ?thesis using \<open>c = 0x5C\<close> r False e by simp
    qed
  qed
qed simp

text \<open>A quoted string, in any state that can begin one.\<close>

lemma scan_quoted:
  "raw_ok raw \<Longrightarrow> scan_run (0x22 # raw @ [0x22]) (BeginValue, st) = (EndValue (JString raw), st)"
  "raw_ok raw \<Longrightarrow> scan_run (0x22 # raw @ [0x22]) (BeginString, st) = (EndValue (JString raw), st)"
  by (simp_all add: begin_value_def begin_string_def is_space_def scan_run_append raw_ok_run)

lemma scan_string:
  "raw_ok raw \<Longrightarrow> scan_run ((0x22 # raw @ [0x22]) @ [c]) (BeginValue, st) = end_value (JString raw) c st"
  by (simp only: scan_run_append [of _ "[c]"] scan_quoted) simp

definition number_char :: "byte \<Rightarrow> bool" where
  "number_char c \<longleftrightarrow> is_digit c \<or> c = 0x2E \<or> c = 0x65 \<or> c = 0x45"

lemma number_run_run:
  "number_run n raw = Some n' \<Longrightarrow> scan_run raw (InNumber n acc, st) = (InNumber n' (rev raw @ acc), st)"
  by (induction raw arbitrary: n acc) (auto split: sum.splits)

lemma number_final_step: "number_final n \<Longrightarrow> \<not> number_char c \<Longrightarrow> number_step n c = Inl None"
  by (auto simp: number_final_def number_char_def)

lemma number_start_step: "number_start c = Some n \<Longrightarrow> begin_value c st = (InNumber n [c], st)"
  by (auto simp: number_start_def begin_value_def is_space_def is_digit_def split: if_splits)

lemma scan_number:
  assumes "number_ok raw" and "\<not> number_char c"
  shows "scan_run (raw @ [c]) (BeginValue, st) = end_value (JNumber raw) c st"
proof -
  from assms(1) obtain d r n n' where raw: "raw = d # r" "number_start d = Some n" "number_run n r =
      Some n'" "number_final n'"
    by (auto simp: number_ok_def split: list.splits option.splits)
  then show ?thesis
    using number_final_step [OF raw(4) assms(2)]
    by (simp add: number_start_step scan_run_append number_run_run)
qed

lemma scan_literal:
  "scan_run (lit ''null'') (BeginValue, st) = (EndValue JNull, st)"
  "scan_run (lit ''true'') (BeginValue, st) = (EndValue (JBool True), st)"
  "scan_run (lit ''false'') (BeginValue, st) = (EndValue (JBool False), st)"
  by (simp_all add: lit_def begin_value_def is_space_def)

section \<open>Printed text\<close>

lemma json_print_head:
  assumes "json_ok v"
  shows "\<exists>c r. json_print v = c # r \<and> \<not> is_space c \<and> c \<noteq> 0x5D"
proof (cases v)
  case (JNumber raw)
  with assms obtain c r where "raw = c # r" "number_start c \<noteq> None"
    by (auto simp: number_ok_def split: list.splits option.splits)
  with JNumber show ?thesis
    by (auto simp: number_start_def is_digit_def is_space_def split: if_splits)
qed (auto simp: lit_def is_space_def)

lemma scan_first:
  assumes "json_ok v"
  shows "scan_run (json_print v @ r) (BeginValueOrEmpty, st) = scan_run (json_print v @ r) (BeginValue, st)"
  using json_print_head [OF assms] by auto

lemma join_comma_Cons: "join_comma (x # xs) = x @ (if xs = [] then [] else 0x2C # join_comma xs)"
  by (cases xs) simp_all

lemma scan_elements:
  assumes "\<And>v c st. v \<in> set vs \<Longrightarrow> length st = n \<Longrightarrow>
      \<not> number_char c \<Longrightarrow>
      scan_run (json_print v @ [c]) (BeginValue, st) = end_value v c st"
    and "vs \<noteq> []" and "Suc (length st) = n"
  shows "scan_run (join_comma (map json_print vs) @ [0x5D]) (BeginValue, ArrayValue acc # st) =
      close_value (JArray (rev acc @ vs)) st"
  using assms(1,2)
proof (induction vs arbitrary: acc)
  case (Cons v vs)
  have "\<not> number_char 0x2C" "\<not> number_char 0x5D" by (simp_all add: number_char_def is_digit_def)
  note step = Cons.prems(1) [of v, OF _ _ this(1)] Cons.prems(1) [of v, OF _ _ this(2)]
  show ?case
  proof (cases "vs = []")
    case True
    then show ?thesis using step(2) [of "ArrayValue acc # st"] assms(3)
      by (simp add: end_value_def is_space_def)
  next
    case False
    have "scan_run (json_print v @ [0x2C]) (BeginValue, ArrayValue acc # st) = (BeginValue, ArrayValue (v # acc) # st)"
      using step(1) [of "ArrayValue acc # st"] assms(3) by (simp add: end_value_def is_space_def)
    then have "scan_run (json_print v @ 0x2C # r) (BeginValue, ArrayValue acc # st) = scan_run r (BeginValue,
        ArrayValue (v # acc) # st)" for r
      by (simp add: scan_run_append)
    moreover have "scan_run (join_comma (map json_print vs) @ [0x5D]) (BeginValue, ArrayValue (v # acc) # st)
        = close_value (JArray (rev (v # acc) @ vs)) st"
      using Cons.prems by (intro Cons.IH [OF _ False]) auto
    ultimately show ?thesis using False by (simp add: join_comma_Cons)
  qed
qed simp

definition print_member :: "bytes \<times> jvalue \<Rightarrow> bytes" where
  "print_member = (\<lambda>(k, v). 0x22 # k @ 0x22 # 0x3A # json_print v)"

lemma scan_members:
  assumes "\<And>k v c st. (k, v) \<in> set ms \<Longrightarrow> length st = n \<Longrightarrow>
      \<not> number_char c \<Longrightarrow>
      raw_ok k \<and> scan_run (json_print v @ [c]) (BeginValue, st) = end_value v c st"
    and "ms \<noteq> []" and "Suc (length st) = n"
  shows "scan_run (join_comma (map print_member ms) @ [0x7D]) (BeginString, ObjectKey acc # st) =
      close_value (JObject (rev acc @ ms)) st"
  using assms(1,2)
proof (induction ms arbitrary: acc)
  case (Cons m ms)
  obtain k v where m: "m = (k, v)" by (cases m)
  have "\<not> number_char 0x2C" "\<not> number_char 0x7D" by (simp_all add: number_char_def is_digit_def)
  note step = Cons.prems(1) [of k v, OF _ _ this(1)] Cons.prems(1) [of k v, OF _ _ this(2)]
  have k: "raw_ok k" using step(1) [of "ArrayValue [] # st"] m assms(3) by simp
  have key: "scan_run (print_member m @ r) (BeginString, ObjectKey acc # st)
      = scan_run (json_print v @ r) (BeginValue, ObjectValue acc k # st)" for r
  proof -
    have "print_member m @ r = (0x22 # k @ [0x22]) @ 0x3A # json_print v @ r" by (simp add: m print_member_def)
    also have "scan_run \<dots> (BeginString, ObjectKey acc # st)
        = scan_run (0x3A # json_print v @ r) (EndValue (JString k), ObjectKey acc # st)"
      by (simp only: scan_run_append scan_quoted(2) [OF k])
    also have "\<dots> = scan_run (json_print v @ r) (BeginValue, ObjectValue acc k # st)"
      by (simp add: end_value_def is_space_def)
    finally show ?thesis .
  qed
  show ?case
  proof (cases "ms = []")
    case True
    then show ?thesis using step(2) [of "ObjectValue acc k # st"] key [of "[0x7D]"] assms(3) m
      by (simp add: end_value_def is_space_def)
  next
    case False
    have "scan_run (json_print v @ [0x2C]) (BeginValue, ObjectValue acc k # st) = (BeginString, ObjectKey (m # acc) # st)"
      using step(1) [of "ObjectValue acc k # st"] assms(3) m by (simp add: end_value_def is_space_def)
    then have "scan_run (json_print v @ 0x2C # r) (BeginValue, ObjectValue acc k # st) = scan_run r (BeginString,
        ObjectKey (m # acc) # st)" for r
      by (simp add: scan_run_append)
    moreover have "scan_run (join_comma (map print_member ms) @ [0x7D]) (BeginString, ObjectKey (m # acc) # st)
        = close_value (JObject (rev (m # acc) @ ms)) st"
      using Cons.prems by (intro Cons.IH [OF _ False]) auto
    ultimately show ?thesis using False by (simp add: join_comma_Cons key)
  qed
qed simp

lemma scan_print_run:
  "json_ok v \<Longrightarrow> json_depth v + length st \<le> maxNestingDepth \<Longrightarrow>
      \<not> number_char c \<Longrightarrow>
     scan_run (json_print v @ [c]) (BeginValue, st) = end_value v c st"
proof (induction v arbitrary: st c)
  case (JArray vs)
  have room: "length st < maxNestingDepth" using JArray.prems(2) by simp
  have open_array: "scan_run (0x5B # r) (BeginValue, st) = scan_run r (BeginValueOrEmpty, ArrayValue [] # st)" for r
    using room by (simp add: begin_value_def is_space_def push_frame_def)
  have run: "scan_run (join_comma (map json_print vs) @ [0x5D]) (BeginValueOrEmpty, ArrayValue [] # st) =
      close_value (JArray vs) st"
  proof (cases vs)
    case Nil
    then show ?thesis by (simp add: is_space_def)
  next
    case (Cons w ws)
    have IH: "scan_run (json_print v @ [d]) (BeginValue, st') = end_value v d st'"
      if "v \<in> set vs" "length st' = Suc (length st)" "\<not> number_char d" for v d st'
    proof (rule JArray.IH [OF that(1) _ _ that(3)])
      show "json_ok v" using JArray.prems(1) that(1) by (simp add: list_all_iff)
      have "json_depth v \<le> fold max (map json_depth vs) 0" using that(1) by (intro fold_max_le) simp
      then show "json_depth v + length st' \<le> maxNestingDepth" using JArray.prems(2) that(2) by simp
    qed
    have "json_ok w" using JArray.prems(1) Cons by simp
    from scan_first [OF this] Cons
    have "scan_run (join_comma (map json_print vs) @ [0x5D]) (BeginValueOrEmpty, ArrayValue [] # st)
        = scan_run (join_comma (map json_print vs) @ [0x5D]) (BeginValue, ArrayValue [] # st)"
      by (simp add: join_comma_Cons del: scan_run_Cons)
    also have "\<dots> = close_value (JArray (rev [] @ vs)) st"
      using Cons by (intro scan_elements [OF IH]) auto
    finally show ?thesis by simp
  qed
  have "json_print (JArray vs) @ [c] = 0x5B # (join_comma (map json_print vs) @ [0x5D]) @ [c]" by simp
  then show ?case by (simp only: open_array scan_run_append [of _ "[c]"] run) (simp add: scan_step_close)
next
  case (JObject ms)
  have room: "length st < maxNestingDepth" using JObject.prems(2) by simp
  have open_object: "scan_run (0x7B # r) (BeginValue, st) = scan_run r (BeginStringOrEmpty, ObjectKey [] # st)" for r
    using room by (simp add: begin_value_def is_space_def push_frame_def)
  have run: "scan_run (join_comma (map print_member ms) @ [0x7D]) (BeginStringOrEmpty, ObjectKey [] # st) =
      close_value (JObject ms) st"
  proof (cases ms)
    case Nil
    then show ?thesis by (simp add: is_space_def)
  next
    case (Cons w ws)
    have IH: "raw_ok k \<and> scan_run (json_print v @ [d]) (BeginValue, st') = end_value v d st'"
      if "(k, v) \<in> set ms" "length st' = Suc (length st)" "\<not> number_char d" for k v d st'
    proof
      show "raw_ok k" using JObject.prems(1) that(1) by (auto simp: list_all_iff)
      show "scan_run (json_print v @ [d]) (BeginValue, st') = end_value v d st'"
      proof (rule JObject.IH [OF that(1) _ _ _ that(3)])
        show "v \<in> Basic_BNFs.snds (k, v)" by simp
        show "json_ok v" using JObject.prems(1) that(1) by (auto simp: list_all_iff)
        have "json_depth v \<le> fold max (map (\<lambda>(k, v). json_depth v) ms) 0" using that(1) by (intro
        fold_max_le) force
        then show "json_depth v + length st' \<le> maxNestingDepth" using JObject.prems(2) that(2) by simp
      qed
    qed
    obtain r where "join_comma (map print_member ms) @ [0x7D] = 0x22 # r"
      using Cons by (cases w) (simp add: join_comma_Cons print_member_def)
    then have "scan_run (join_comma (map print_member ms) @ [0x7D]) (BeginStringOrEmpty, ObjectKey [] # st)
        = scan_run (join_comma (map print_member ms) @ [0x7D]) (BeginString, ObjectKey [] # st)"
      by (simp add: is_space_def)
    also have "\<dots> = close_value (JObject (rev [] @ ms)) st"
      using Cons by (intro scan_members [OF IH]) auto
    finally show ?thesis by simp
  qed
  have "json_print (JObject ms) @ [c] = 0x7B # (join_comma (map print_member ms) @ [0x7D]) @ [c]"
    by (simp add: print_member_def)
  then show ?case by (simp only: open_object scan_run_append [of _ "[c]"] run) (simp add: scan_step_close)
next
  case (JString raw)
  then show ?case by (simp only: json_ok.simps json_print.simps scan_string)
next
  case (JNumber raw)
  then show ?case by (simp add: scan_number)
qed (simp_all add: scan_run_append scan_literal)

text \<open>Scanning what was printed: the tree comes back, whatever follows it in the stream.\<close>

lemma scan_print_tree:
  assumes "json_ok v" and "json_depth v \<le> maxNestingDepth" and "rest = [] \<or> \<not> number_char (hd rest)"
  shows "scan (json_print v @ rest) = Inr v"
proof (cases rest)
  case Nil
  have "scan_run (json_print v @ [0x20]) (BeginValue, []) = (EndTop v, [])"
    using scan_print_run [OF assms(1), of "[]" "0x20"] assms(2)
    by (simp add: end_value_def number_char_def is_digit_def)
  moreover obtain s st where "scan_run (json_print v) (BeginValue, []) = (s,
      st)" by (cases "scan_run (json_print v) (BeginValue, [])")
  ultimately show ?thesis using Nil by (cases s) (simp_all add: scan_def scan_run_append)
next
  case (Cons c r)
  then have "scan_run (json_print v @ [c]) (BeginValue, []) = (EndTop v, [])"
    using scan_print_run [OF assms(1), of "[]" c] assms(2,3) by (simp add: end_value_def)
  then have "scan_run (json_print v @ rest) (BeginValue, []) = (EndTop v, [])"
    using Cons by (simp add: scan_run_append)
  then show ?thesis by (simp add: scan_def)
qed

section \<open>What the scanner returns\<close>

definition value_ok :: "nat \<Rightarrow> jvalue \<Rightarrow> bool" where
  "value_ok d v \<longleftrightarrow> json_ok v \<and> json_depth v + d \<le> maxNestingDepth"

definition member_ok :: "nat \<Rightarrow> bytes \<times> jvalue \<Rightarrow> bool" where
  "member_ok d m \<longleftrightarrow> raw_ok (fst m) \<and> value_ok d (snd m)"

fun frames_ok :: "frame list \<Rightarrow> bool" where
  "frames_ok [] = True"
| "frames_ok (ObjectKey ms # st) = (length st < maxNestingDepth \<and> list_all (member_ok (Suc (length st))) ms \<and>
    frames_ok st)"
| "frames_ok (ObjectValue ms k # st) =
     (length st < maxNestingDepth \<and> raw_ok k \<and> list_all (member_ok (Suc (length st))) ms \<and> frames_ok st)"
| "frames_ok (ArrayValue vs # st) = (length st < maxNestingDepth \<and> list_all (value_ok (Suc (length st))) vs \<and>
    frames_ok st)"

definition number_prefix :: "number_state \<Rightarrow> bytes \<Rightarrow> bool" where
  "number_prefix n raw \<longleftrightarrow> (\<exists>c r m. raw = c # r \<and> number_start c = Some m \<and>
      number_run m r = Some n)"

fun state_ok :: "nat \<Rightarrow> scan_state \<Rightarrow> bool" where
  "state_ok d (InString acc) = raw_ok (rev acc)"
| "state_ok d (InEscape acc) = (\<exists>a. acc = 0x5C # a \<and> raw_ok (rev a))"
| "state_ok d (InHex n acc) =
     (\<exists>hs a. acc = rev hs @ 0x75 # 0x5C # a \<and> list_all is_hex hs \<and> length hs + n = 4 \<and>
     0 < n \<and> raw_ok (rev a))"
| "state_ok d (InNumber n acc) = number_prefix n (rev acc)"
| "state_ok d (InLiteral es name v) = value_ok d v"
| "state_ok d (EndValue v) = value_ok d v"
| "state_ok d (EndTop v) = value_ok d v"
| "state_ok d BeginValueOrEmpty = (0 < d)"
| "state_ok d BeginStringOrEmpty = (0 < d)"
| "state_ok d _ = True"

definition scanner_ok :: "scanner \<Rightarrow> bool" where
  "scanner_ok s \<longleftrightarrow> length (snd s) \<le> maxNestingDepth \<and> frames_ok (snd s) \<and>
      state_ok (length (snd s)) (fst s)"

lemma raw_ok_append: "raw_ok a \<Longrightarrow> raw_ok b \<Longrightarrow> raw_ok (a @ b)"
proof (induction a rule: raw_ok.induct)
  case (2 c r)
  show ?case
  proof (cases "c = 0x5C")
    case True
    with 2 show ?thesis by (cases r) auto
  next
    case False
    with 2 have "raw_ok (r @ b)" by simp
    with False 2(4) show ?thesis by simp
  qed
qed simp

lemma raw_ok_hex: "list_all is_hex hs \<Longrightarrow> length hs = 4 \<Longrightarrow> raw_ok (0x5C # 0x75 # hs)"
  by (simp add: simple_escape_def)

lemma number_run_snoc:
  "number_run n raw = Some m \<Longrightarrow> number_step m c = Inr m' \<Longrightarrow> number_run n (raw @ [c]) = Some m'"
  by (induction raw arbitrary: n) (auto split: sum.splits)

lemma number_prefix_step:
  "number_prefix n (rev acc) \<Longrightarrow> number_step n c = Inr n' \<Longrightarrow> number_prefix n' (rev (c # acc))"
  unfolding number_prefix_def using number_run_snoc by fastforce

lemma number_step_end: "number_step n c = Inl None \<Longrightarrow> number_final n"
  by (cases n) (auto simp: number_final_def split: if_splits)

lemma number_prefix_ok: "number_prefix n raw \<Longrightarrow> number_final n \<Longrightarrow> number_ok raw"
  by (auto simp: number_prefix_def number_ok_def)

lemma fold_max_bound: "(\<And>x. x \<in> set xs \<Longrightarrow> x \<le> b) \<Longrightarrow>
    m \<le> b \<Longrightarrow> fold max xs (m :: nat) \<le> b"
  by (induction xs arbitrary: m) auto

lemma value_ok_array:
  assumes "list_all (value_ok (Suc d)) vs" and "d < maxNestingDepth"
  shows "value_ok d (JArray vs)"
proof -
  have "fold max (map json_depth vs) 0 \<le> maxNestingDepth - Suc d"
    using assms by (intro fold_max_bound) (auto simp: list_all_iff value_ok_def)
  then show ?thesis using assms by (auto simp: value_ok_def list_all_iff)
qed

lemma value_ok_object:
  assumes "list_all (member_ok (Suc d)) ms" and "d < maxNestingDepth"
  shows "value_ok d (JObject ms)"
proof -
  have "fold max (map (\<lambda>(k, v). json_depth v) ms) 0 \<le> maxNestingDepth - Suc d"
    using assms by (intro fold_max_bound) (fastforce simp: list_all_iff member_ok_def value_ok_def)+
  then show ?thesis using assms by (fastforce simp: value_ok_def list_all_iff member_ok_def)
qed

lemma close_value_ok: "value_ok (length st) v \<Longrightarrow> length st \<le> maxNestingDepth \<Longrightarrow>
    frames_ok st \<Longrightarrow> scanner_ok (close_value v st)"
  by (cases st) (simp_all add: scanner_ok_def close_value_def)

lemma end_value_ok:
  assumes "value_ok (length st) v" and "frames_ok st" and "length st \<le> maxNestingDepth"
  shows "scanner_ok (end_value v c st)"
proof (cases st rule: frames_ok.cases)
  case 1
  with assms show ?thesis by (simp add: end_value_def scanner_ok_def)
next
  case (2 ms st')
  have "raw_ok (case v of JString k \<Rightarrow> k | _ \<Rightarrow> [])"
    using assms(1) by (cases v) (simp_all add: value_ok_def)
  with 2 assms show ?thesis by (simp add: end_value_def scanner_ok_def syntax_error_def)
next
  case (3 ms k st')
  with assms have ok: "list_all (member_ok (Suc (length st'))) ((k, v) # ms)"
    by (simp add: member_ok_def)
  then have "scanner_ok (close_value (JObject (rev ((k, v) # ms))) st')"
    using 3 assms by (intro close_value_ok value_ok_object) simp_all
  with 3 ok assms show ?thesis by (simp add: end_value_def scanner_ok_def syntax_error_def)
next
  case (4 vs st')
  with assms have ok: "list_all (value_ok (Suc (length st'))) (v # vs)" by simp
  then have "scanner_ok (close_value (JArray (rev (v # vs))) st')"
    using 4 assms by (intro close_value_ok value_ok_array) simp_all
  with 4 ok assms show ?thesis by (simp add: end_value_def scanner_ok_def syntax_error_def)
qed

lemma number_start_prefix: "number_start c = Some n \<Longrightarrow> number_prefix n [c]"
  by (simp add: number_prefix_def)

lemma begin_value_ok:
  assumes "frames_ok st" and "length st \<le> maxNestingDepth"
  shows "scanner_ok (begin_value c st)"
  using assms
  by (auto simp: begin_value_def scanner_ok_def push_frame_def syntax_error_def value_ok_def number_start_def is_digit_def
      intro!: number_start_prefix)

lemma begin_string_ok:
  assumes "frames_ok st" and "length st \<le> maxNestingDepth"
  shows "scanner_ok (begin_string c st)"
  using assms by (simp add: begin_string_def scanner_ok_def syntax_error_def)

lemma in_hex_ok:
  assumes "state_ok d (InHex n acc)" and "is_hex c"
  shows "state_ok d (if n = 1 then InString (c # acc) else InHex (n - 1) (c # acc))"
proof -
  from assms(1) obtain hs a where hex: "acc = rev hs @ 0x75 # 0x5C # a" "list_all is_hex hs" "length hs + n =
      4" "0 < n" "raw_ok (rev a)"
    by auto
  show ?thesis
  proof (cases "n = 1")
    case True
    have "raw_ok (rev a @ 0x5C # 0x75 # hs @ [c])"
      using hex True assms(2) by (intro raw_ok_append raw_ok_hex) simp_all
    with True hex(1) show ?thesis by simp
  next
    case False
    have "c # acc = rev (hs @ [c]) @ 0x75 # 0x5C # a" "list_all is_hex (hs @ [c])" "length (hs @ [c]) + (n - 1) = 4"
      using hex False assms(2) by simp_all
    then have "state_ok d (InHex (n - 1) (c # acc))"
      unfolding state_ok.simps using False hex(4,5) by (intro exI [of _ "hs @ [c]"] exI [of _ a]) simp
    with False show ?thesis by simp
  qed
qed

lemma scan_step_ok:
  assumes "scanner_ok s"
  shows "scanner_ok (scan_step c s)"
proof -
  obtain q st where s: "s = (q, st)" by (cases s)
  with assms have ok: "length st \<le> maxNestingDepth" "frames_ok st" "state_ok (length st) q" by (simp_all add:
      scanner_ok_def)
  show ?thesis
  proof (cases q)
    case BeginValueOrEmpty
    with ok obtain f st' where st: "st = f # st'" by (cases st) auto
    with ok have "scanner_ok (close_value (JArray []) st')"
      by (cases f) (auto intro!: close_value_ok value_ok_array)
    with BeginValueOrEmpty s st ok show ?thesis by (simp add: begin_value_ok) (simp add: scanner_ok_def)
  next
    case BeginStringOrEmpty
    with ok obtain f st' where st: "st = f # st'" by (cases st) auto
    with ok have "scanner_ok (close_value (JObject []) st')"
      by (cases f) (auto intro!: close_value_ok value_ok_object)
    with BeginStringOrEmpty s st ok show ?thesis by (simp add: begin_string_ok) (simp add: scanner_ok_def)
  next
    case (InHex n acc)
    with s ok in_hex_ok [of "length st" n acc c] show ?thesis
      by (simp add: scanner_ok_def syntax_error_def del: state_ok.simps) simp
  next
    case (InNumber n acc)
    show ?thesis
    proof (cases "number_step n c")
      case (Inr n')
      with s ok InNumber number_prefix_step [of n acc c] show ?thesis by (simp add: scanner_ok_def)
    next
      case (Inl e)
      have "number_ok (rev acc)" if "e = None"
        using number_prefix_ok number_step_end [of n c] ok(3) InNumber Inl that by simp
      with s ok InNumber Inl show ?thesis
        by (cases e) (simp_all add: end_value_ok value_ok_def syntax_error_def scanner_ok_def [of "(Failed _, _)"])
    qed
  next
    case (InString acc)
    have "raw_ok (rev acc @ [c])" if "c \<noteq> 0x22" "c \<noteq> 0x5C" "\<not> c < 0x20"
      using that ok(3) InString by (intro raw_ok_append) (auto simp: not_less)
    with s ok InString show ?thesis
      by (auto simp: scanner_ok_def syntax_error_def value_ok_def)
  next
    case (InEscape acc)
    then obtain a where a: "acc = 0x5C # a" "raw_ok (rev a)" using ok(3) by auto
    have "raw_ok (rev a @ [0x5C, c])" if "simple_escape c"
      using that a by (intro raw_ok_append) simp_all
    with a s ok InEscape show ?thesis
      by (auto simp: scanner_ok_def syntax_error_def intro!: exI [of _ "[]"])
  next
    case (EndValue v)
    with s ok show ?thesis by (simp add: end_value_ok)
  next
    case (InLiteral es name v)
    with s ok show ?thesis
      by (cases es) (simp_all add: end_value_ok scanner_ok_def [of "(Failed _,
      _)"] scanner_ok_def [of "(InLiteral _ _ _, _)"]
        scanner_ok_def [of "(EndValue _, _)"] literal_error_def)
  qed (use s ok in \<open>simp_all add: begin_value_ok begin_string_ok scanner_ok_def [of "(EndTop _,
      _)"] scanner_ok_def [of "(Failed _, _)"]\<close>)
qed

text \<open>Every tree the scanner returns is well formed and no deeper than Go allows, so printing and scanning it
  again gives it back.\<close>

lemma scan_ok:
  assumes "scan bs = Inr v"
  shows "json_ok v \<and> json_depth v \<le> maxNestingDepth"
proof -
  have ok: "scanner_ok (scan_run cs (BeginValue, []))" for cs
  proof -
    have "scanner_ok s \<Longrightarrow> scanner_ok (scan_run cs s)" for s
      by (induction cs arbitrary: s) (simp_all add: scan_step_ok)
    moreover have "scanner_ok (BeginValue, [])" by (simp add: scanner_ok_def)
    ultimately show ?thesis .
  qed
  from assms obtain cs where "fst (scan_run cs (BeginValue, [])) = EndTop v"
    by (auto simp: scan_def split: scan_state.splits)
  with ok [of cs] show ?thesis by (auto simp: scanner_ok_def value_ok_def)
qed

lemma scan_print_scan: "scan bs = Inr v \<Longrightarrow> scan (json_print v) = Inr v"
  using scan_print_tree [of v "[]"] scan_ok by simp

end
