(* ===== verification/Json_String.thy ===== *)
theory Json_String
  imports Json_Syntax
begin

unbundle bit_operations_syntax

text \<open>
  Strings in JSON: UTF-8 as \<open>utf8.DecodeRune\<close> reads it,
      the escapes \<open>encoding/json\<close> writes (\<open>appendString\<close>, with
  HTML escaping) and reads (\<open>unquoteBytes\<close>). A Go string may hold any bytes; what is not UTF-8 is replaced
  byte by byte by U+FFFD, so a string survives exactly when it is valid UTF-8.
\<close>

section \<open>UTF-8\<close>

definition is_cont :: "byte \<Rightarrow> bool" where
  "is_cont c \<longleftrightarrow> 0x80 \<le> c \<and> c \<le> 0xBF"

definition starts3 :: "byte \<Rightarrow> byte \<Rightarrow> bool" where
  "starts3 a b \<longleftrightarrow> (if a = 0xE0 then 0xA0 \<le> b \<and> b \<le> 0xBF else if a =
      0xED then 0x80 \<le> b \<and> b \<le> 0x9F
     else 0xE1 \<le> a \<and> a \<le> 0xEF \<and> is_cont b)"

definition starts4 :: "byte \<Rightarrow> byte \<Rightarrow> bool" where
  "starts4 a b \<longleftrightarrow> (if a = 0xF0 then 0x90 \<le> b \<and> b \<le> 0xBF else if a =
      0xF4 then 0x80 \<le> b \<and> b \<le> 0x8F
     else 0xF1 \<le> a \<and> a \<le> 0xF3 \<and> is_cont b)"

text \<open>The length of the valid sequence of several bytes that a byte list starts with; 0 when there is none
  (\<open>DecodeRune\<close> then returns \<open>RuneError\<close> and length 1).\<close>

fun rune_size :: "bytes \<Rightarrow> nat" where
  "rune_size (a # b # r) =
     (if 0xC2 \<le> a \<and> a \<le> 0xDF \<and> is_cont b then 2
      else (case r of
          [] \<Rightarrow> 0
        | c # r' \<Rightarrow>
            if starts3 a b \<and> is_cont c then 3
            else (case r' of
                [] \<Rightarrow> 0
              | d # _ \<Rightarrow> if starts4 a b \<and> is_cont c \<and> is_cont d then 4 else 0)))"
| "rune_size _ = 0"

definition replacement :: bytes where "replacement = [0xEF, 0xBF, 0xBD]"

function (sequential) valid_utf8 :: "bytes \<Rightarrow> bool" where
  "valid_utf8 [] = True"
| "valid_utf8 (c # r) =
     (if c < 0x80 then valid_utf8 r
      else rune_size (c # r) \<noteq> 0 \<and> valid_utf8 (drop (rune_size (c # r) - 1) r))"
  by pat_completeness auto
termination by (relation "measure length") (auto simp: less_Suc_eq_le)

function (sequential) sanitize :: "bytes \<Rightarrow> bytes" where
  "sanitize [] = []"
| "sanitize (c # r) =
     (if c < 0x80 then c # sanitize r
      else if rune_size (c # r) = 0 then replacement @ sanitize r
      else take (rune_size (c # r)) (c # r) @ sanitize (drop (rune_size (c # r) - 1) r))"
  by pat_completeness auto
termination by (relation "measure length") (auto simp: less_Suc_eq_le)

section \<open>Escaping\<close>

definition html_safe :: "byte \<Rightarrow> bool" where
  "html_safe c \<longleftrightarrow> 0x20 \<le> c \<and> c < 0x80 \<and> c \<noteq> 0x22 \<and> c \<noteq> 0x5C \<and>
      c \<noteq> 0x3C \<and> c \<noteq> 0x3E \<and> c \<noteq> 0x26"

definition hex_digit :: "byte \<Rightarrow> byte" where
  "hex_digit n = (if n < 10 then 0x30 + n else 0x57 + n)"

definition escape_ascii :: "byte \<Rightarrow> bytes" where
  "escape_ascii c =
     (if html_safe c then [c]
      else if c = 0x5C \<or> c = 0x22 then [0x5C, c]
      else if c = 0x08 then [0x5C, 0x62]
      else if c = 0x0C then [0x5C, 0x66]
      else if c = 0x0A then [0x5C, 0x6E]
      else if c = 0x0D then [0x5C, 0x72]
      else if c = 0x09 then [0x5C, 0x74]
      else [0x5C, 0x75, 0x30, 0x30, hex_digit (drop_bit 4 c), hex_digit (c AND 0xF)])"

text \<open>A valid sequence of several bytes: U+2028 and U+2029 are escaped.\<close>

definition escape_rune :: "bytes \<Rightarrow> bytes" where
  "escape_rune s =
     (if s = [0xE2, 0x80, 0xA8] then 0x5C # lit ''u2028''
      else if s = [0xE2, 0x80, 0xA9] then 0x5C # lit ''u2029''
      else s)"

function (sequential) quote :: "bytes \<Rightarrow> bytes" where
  "quote [] = []"
| "quote (c # r) =
     (if c < 0x80 then escape_ascii c @ quote r
      else if rune_size (c # r) = 0 then 0x5C # lit ''ufffd'' @ quote r
      else escape_rune (take (rune_size (c # r)) (c # r)) @ quote (drop (rune_size (c # r) - 1) r))"
  by pat_completeness auto
termination by (relation "measure length") (auto simp: less_Suc_eq_le)

section \<open>Unescaping\<close>

definition hex_value :: "byte \<Rightarrow> nat" where
  "hex_value c = (if is_digit c then unat c - 48 else if 0x61 \<le> c then unat c - 87 else unat c - 55)"

text \<open>\<open>getu4\<close>: the value of a leading backslash, \<open>u\<close> and four hexadecimal digits.\<close>

definition getu4 :: "bytes \<Rightarrow> nat option" where
  "getu4 s =
     (case s of
        a # b # h1 # h2 # h3 # h4 # _ \<Rightarrow>
          if a = 0x5C \<and> b = 0x75 \<and> is_hex h1 \<and> is_hex h2 \<and> is_hex h3 \<and> is_hex h4
          then Some (((hex_value h1 * 16 + hex_value h2) * 16 + hex_value h3) * 16 + hex_value h4) else None
      | _ \<Rightarrow> None)"

definition is_surrogate :: "nat \<Rightarrow> bool" where
  "is_surrogate r \<longleftrightarrow> 0xD800 \<le> r \<and> r < 0xE000"

text \<open>\<open>utf16.DecodeRune\<close>, \<open>None\<close> for the replacement character.\<close>

definition surrogate_pair :: "nat \<Rightarrow> nat option \<Rightarrow> nat option" where
  "surrogate_pair r1 r2 =
     (case r2 of
        None \<Rightarrow> None
      | Some r2 \<Rightarrow> if 0xD800 \<le> r1 \<and> r1 < 0xDC00 \<and> 0xDC00 \<le> r2 \<and> r2 < 0xE000
          then Some ((r1 - 0xD800) * 0x400 + (r2 - 0xDC00) + 0x10000) else None)"

definition encode_rune :: "nat \<Rightarrow> bytes" where
  "encode_rune r =
     (if r < 0x80 then [word_of_nat r]
      else if r < 0x800 then [word_of_nat (0xC0 + r div 64), word_of_nat (0x80 + r mod 64)]
      else if is_surrogate r \<or> 0x10FFFF < r then replacement
      else if r < 0x10000
      then [word_of_nat (0xE0 + r div 4096), word_of_nat (0x80 + r div 64 mod 64), word_of_nat (0x80 + r mod 64)]
      else [word_of_nat (0xF0 + r div 262144), word_of_nat (0x80 + r div 4096 mod 64),
            word_of_nat (0x80 + r div 64 mod 64), word_of_nat (0x80 + r mod 64)])"

definition unescape_char :: "byte \<Rightarrow> byte option" where
  "unescape_char c =
     (if c = 0x22 \<or> c = 0x5C \<or> c = 0x2F \<or> c = 0x27 then Some c
      else if c = 0x62 then Some 0x08 else if c = 0x66 then Some 0x0C else if c = 0x6E then Some 0x0A
      else if c = 0x72 then Some 0x0D else if c = 0x74 then Some 0x09 else None)"

text \<open>\<open>unquoteBytes\<close> between the quotes; \<open>None\<close> is its \<open>ok = false\<close>.\<close>

function (sequential) unquote :: "bytes \<Rightarrow> bytes option" where
  "unquote [] = Some []"
| "unquote (c # r) =
     (if c = 0x5C
      then (case r of
          [] \<Rightarrow> None
        | e # r' \<Rightarrow>
            if e = 0x75
            then (case getu4 (c # r) of
                None \<Rightarrow> None
              | Some rr \<Rightarrow>
                  if is_surrogate rr
                  then (case surrogate_pair rr (getu4 (drop 4 r')) of
                      Some dec \<Rightarrow> map_option (append (encode_rune dec)) (unquote (drop 10 r'))
                    | None \<Rightarrow> map_option (append replacement) (unquote (drop 4 r')))
                  else map_option (append (encode_rune rr)) (unquote (drop 4 r')))
            else (case unescape_char e of
                Some b \<Rightarrow> map_option (Cons b) (unquote r')
              | None \<Rightarrow> None))
      else if c = 0x22 \<or> c < 0x20 then None
      else if c < 0x80 then map_option (Cons c) (unquote r)
      else if rune_size (c # r) = 0 then map_option (append replacement) (unquote r)
      else map_option (append (take (rune_size (c # r)) (c # r))) (unquote (drop (rune_size (c # r) - 1) r)))"
  by pat_completeness auto
termination by (relation "measure length") (auto simp: less_Suc_eq_le)

declare valid_utf8.simps(2) [simp del] sanitize.simps(2) [simp del] quote.simps(2) [simp del] unquote.simps(2) [simp del]

section \<open>Lemmas on UTF-8\<close>

lemma rune_size_cases:
  assumes "rune_size s \<noteq> 0"
  obtains a b r where "s = a # b # r" "rune_size s = 2" "0xC2 \<le> a" "a \<le> 0xDF" "is_cont b"
  | a b c r where "s = a # b # c # r" "rune_size s = 3" "starts3 a b" "is_cont c" "\<not> (0xC2 \<le> a \<and>
      a \<le> 0xDF \<and> is_cont b)"
  | a b c d r where "s = a # b # c # d # r" "rune_size s = 4" "starts4 a b" "is_cont c" "is_cont d"
      "\<not> (0xC2 \<le> a \<and> a \<le> 0xDF \<and> is_cont b)" "\<not> (starts3 a b \<and> is_cont c)"
  using assms by (cases s rule: rune_size.cases) (auto split: if_splits list.splits)

lemma rune_size_append:
  assumes "rune_size s \<noteq> 0"
  shows "rune_size (take (rune_size s) s @ t) = rune_size s"
  using assms by (cases rule: rune_size_cases) auto

lemma rune_size_le: "rune_size s \<le> length s"
proof (cases "rune_size s = 0")
  case False
  then show ?thesis by (cases rule: rune_size_cases) auto
qed simp

lemma starts3_high: "starts3 a b \<Longrightarrow> 0x80 \<le> a \<and> 0x80 \<le> b"
  by (auto simp: starts3_def is_cont_def word_le_nat_alt split: if_splits)

lemma starts4_high: "starts4 a b \<Longrightarrow> 0x80 \<le> a \<and> 0x80 \<le> b"
  by (auto simp: starts4_def is_cont_def word_le_nat_alt split: if_splits)

lemma rune_high:
  assumes "rune_size s \<noteq> 0" and "c \<in> set (take (rune_size s) s)"
  shows "0x80 \<le> c"
  using assms(1)
proof (cases rule: rune_size_cases)
  case (1 a b r)
  then have "0x80 \<le> a" by (simp add: word_le_nat_alt)
  with 1 assms(2) show ?thesis by (auto simp: is_cont_def)
next
  case (2 a b c r)
  with assms(2) starts3_high show ?thesis by (auto simp: is_cont_def)
next
  case (3 a b c d r)
  with assms(2) starts4_high show ?thesis by (auto simp: is_cont_def)
qed

lemma rune_take:
  assumes "rune_size (c # r) \<noteq> 0"
  shows "take (rune_size (c # r)) (c # r) = c # take (rune_size (c # r) - 1) r"
  using assms by (cases "rune_size (c # r)") simp_all

text \<open>A function that treats a valid sequence as a unit does so whatever follows it.\<close>

lemma rune_unit:
  assumes "rune_size s \<noteq> 0"
  obtains c r where "take (rune_size s) s = c # r" "\<not> c < 0x80" "\<And>t. rune_size (c # r @ t) = Suc (length r)"
proof -
  from assms obtain c r where s: "take (rune_size s) s = c # r" by (cases "take (rune_size s) s") auto
  moreover have "0x80 \<le> c" using rune_high [OF assms, of c] s by simp
  moreover have "rune_size (c # r @ t) = Suc (length r)" for t
  proof -
    have "rune_size (c # r @ t) = rune_size (take (rune_size s) s @ t)" by (simp only: s append_Cons)
    also have "\<dots> = length (take (rune_size s) s)"
      using rune_size_append [OF assms, of t] rune_size_le [of s] by simp
    finally show ?thesis by (simp only: s list.size add_0_right add_Suc_right)
  qed
  ultimately show thesis by (intro that) (simp_all add: not_less)
qed

lemma valid_utf8_rune: "rune_size s \<noteq> 0 \<Longrightarrow> valid_utf8 (take (rune_size s) s @ t) = valid_utf8 t"
  by (erule rune_unit) (simp add: valid_utf8.simps)

lemma valid_utf8_replacement: "valid_utf8 (replacement @ t) = valid_utf8 t"
  by (simp add: replacement_def valid_utf8.simps starts3_def is_cont_def)

lemma sanitize_valid: "valid_utf8 (sanitize s)"
  by (induction s rule: sanitize.induct)
    (auto simp: sanitize.simps valid_utf8.simps(2) [of c for c] valid_utf8_rune valid_utf8_replacement)

lemma length_sanitize:
  "length s \<le> length (sanitize s) \<and> (\<not> valid_utf8 s \<longrightarrow> length s < length (sanitize s))"
proof (induction s rule: sanitize.induct)
  case (2 c r)
  consider "c < 0x80" | "\<not> c < 0x80" "rune_size (c # r) = 0" | "\<not> c < 0x80" "rune_size (c # r) \<noteq> 0" by blast
  then show ?case
  proof cases
    case 3
    then have "length (take (rune_size (c # r)) (c # r)) + length (drop (rune_size (c # r) - 1) r) = Suc (length r)"
      using rune_size_le [of "c # r"] by (simp add: rune_take)
    with 2(3) [OF 3] 3 show ?thesis by (auto simp: sanitize.simps valid_utf8.simps simp del: rune_size.simps)
  qed (use 2(1,2) in \<open>auto simp: sanitize.simps valid_utf8.simps replacement_def\<close>)
qed simp

text \<open>Sanitizing changes exactly the strings that are not valid UTF-8.\<close>

lemma sanitize_id_iff: "sanitize s = s \<longleftrightarrow> valid_utf8 s"
proof
  show "valid_utf8 s" if "sanitize s = s" using length_sanitize [of s] that by auto
  show "sanitize s = s" if "valid_utf8 s" using that
  proof (induction s rule: valid_utf8.induct)
    case (2 c r)
    show ?case
    proof (cases "c < 0x80")
      case False
      with 2 have "rune_size (c # r) \<noteq> 0" "sanitize (drop (rune_size (c # r) - 1) r) = drop (rune_size (c # r) - 1) r"
        by (simp_all add: valid_utf8.simps)
      with False show ?thesis by (simp add: sanitize.simps rune_take)
    qed (use 2 in \<open>simp add: sanitize.simps valid_utf8.simps\<close>)
  qed simp
qed

lemma sanitize_idem [simp]: "sanitize (sanitize s) = sanitize s"
  by (simp add: sanitize_id_iff sanitize_valid)

section \<open>Lemmas on escaping\<close>

lemma hex_digit_nibbles:
  "list_all (\<lambda>k. is_hex (hex_digit (word_of_nat k)) \<and> hex_value (hex_digit (word_of_nat k)) = k) [0..<16]"
  by code_simp

lemma hex_digit_nibble:
  assumes "unat n < 16"
  shows "is_hex (hex_digit n) \<and> hex_value (hex_digit n) = unat n"
proof -
  have "is_hex (hex_digit (word_of_nat (unat n))) \<and> hex_value (hex_digit (word_of_nat (unat n))) = unat n"
    using bspec [OF hex_digit_nibbles [unfolded list_all_iff], of "unat n"] assms by simp
  then show ?thesis by simp
qed

lemma nibble_values:
  fixes c :: byte
  shows "unat (drop_bit 4 c) < 16" "unat (c AND 0xF) < 16" "unat (drop_bit 4 c) * 16 + unat (c AND 0xF) = unat c"
proof -
  have d: "unat (drop_bit 4 c) = unat c div 16" by (simp add: unat_drop_bit_eq drop_bit_eq_div unat_div)
  have "unat (c AND 0xF) = unat (take_bit 4 c)" by (simp add: take_bit_eq_mask mask_eq_exp_minus_1)
  then have m: "unat (c AND 0xF) = unat c mod 16" by (simp add: unsigned_take_bit_eq take_bit_eq_mod unat_mod)
  have "unat c < 256" using unsigned_less [where 'a = nat, of c] by simp
  then show "unat (drop_bit 4 c) < 16" by (simp add: d)
  show "unat (c AND 0xF) < 16" by (simp add: m)
  show "unat (drop_bit 4 c) * 16 + unat (c AND 0xF) = unat c" by (simp add: d m)
qed

lemma escape_ascii_cases:
  assumes "c < 0x80"
  obtains "escape_ascii c = [c]" "html_safe c"
  | e where "escape_ascii c = [0x5C, e]" "unescape_char e = Some c" "simple_escape e" "e \<noteq> 0x75"
  | h1 h2 where "escape_ascii c = [0x5C, 0x75, 0x30, 0x30, h1,
      h2]" "is_hex h1" "is_hex h2" "hex_value h1 * 16 + hex_value h2 = unat c"
proof -
  consider "html_safe c" | "\<not> html_safe c" "c = 0x5C \<or> c = 0x22 \<or> c = 0x08 \<or> c = 0x0C \<or> c =
      0x0A \<or> c = 0x0D \<or> c = 0x09"
    | "\<not> html_safe c" "\<not> (c = 0x5C \<or> c = 0x22 \<or> c = 0x08 \<or> c = 0x0C \<or> c = 0x0A \<or> c =
        0x0D \<or> c = 0x09)" by blast
  then show thesis
  proof cases
    case 1
    then show thesis by (intro that(1)) (simp_all add: escape_ascii_def)
  next
    case 2
    then show thesis
      by (elim disjE; intro that(2)) (auto simp: escape_ascii_def html_safe_def unescape_char_def simple_escape_def)
  next
    case 3
    then show thesis
      using hex_digit_nibble [OF nibble_values(1) [of c]] hex_digit_nibble [OF nibble_values(2) [of c]] nibble_values(3)
      [of c]
      by (intro that(3)) (auto simp: escape_ascii_def)
  qed
qed

lemma hex_value_zero: "is_hex 0x30" "hex_value 0x30 = 0"
  by (simp_all add: is_hex_def is_digit_def hex_value_def)

lemma escape_ascii_ok: "c < 0x80 \<Longrightarrow> raw_ok (escape_ascii c)"
  by (erule escape_ascii_cases) (auto simp: html_safe_def hex_value_zero simple_escape_def)

lemma append_single: "(@) [x] = (#) x"
  by (simp add: fun_eq_iff)

lemma unquote_escape_ascii:
  assumes "c < 0x80"
  shows "unquote (escape_ascii c @ t) = map_option (Cons c) (unquote t)"
  using assms
proof (cases rule: escape_ascii_cases)
  case 1
  then show ?thesis by (auto simp: html_safe_def unquote.simps)
next
  case (2 e)
  then show ?thesis by (simp add: unquote.simps)
next
  case (3 h1 h2)
  have small: "unat c < 128" using assms by (simp add: word_less_nat_alt)
  with 3 have "getu4 (escape_ascii c @ t) = Some (unat c)" by (simp add: getu4_def hex_value_zero)
  moreover have "encode_rune (unat c) = [c]" "\<not> is_surrogate (unat c)"
    using small by (simp_all add: encode_rune_def is_surrogate_def)
  ultimately show ?thesis using 3 by (simp add: unquote.simps append_single)
qed

lemma unquote_fffd: "unquote (0x5C # lit ''ufffd'' @ t) = map_option (append replacement) (unquote t)"
proof -
  have "getu4 (0x5C # lit ''ufffd'' @ t) = Some 0xFFFD"
    by (simp add: getu4_def lit_def is_hex_def is_digit_def hex_value_def)
  then show ?thesis
    by (simp add: lit_def unquote.simps is_surrogate_def encode_rune_def replacement_def)
qed

lemma unquote_escape_rune:
  assumes "rune_size s \<noteq> 0"
  shows "unquote (escape_rune (take (rune_size s) s) @ t) = map_option (append (take (rune_size s) s)) (unquote t)"
proof -
  let ?u = "take (rune_size s) s"
  consider "?u = [0xE2, 0x80, 0xA8]" | "?u = [0xE2, 0x80, 0xA9]" | "escape_rune ?u = ?u"
    by (metis escape_rune_def)
  then show ?thesis
  proof cases
    case 1
    have "getu4 (0x5C # lit ''u2028'' @ t) = Some 0x2028"
      by (simp add: getu4_def lit_def is_hex_def is_digit_def hex_value_def)
    then show ?thesis unfolding 1 by (simp add: escape_rune_def lit_def unquote.simps is_surrogate_def encode_rune_def)
  next
    case 2
    have "getu4 (0x5C # lit ''u2029'' @ t) = Some 0x2029"
      by (simp add: getu4_def lit_def is_hex_def is_digit_def hex_value_def)
    then show ?thesis unfolding 2 by (simp add: escape_rune_def lit_def unquote.simps is_surrogate_def encode_rune_def)
  next
    case 3
    from assms obtain c r where u: "?u = c # r" "\<not> c < 0x80" "\<And>t. rune_size (c # r @ t) = Suc (length r)"
      by (rule rune_unit) blast
    have "c \<noteq> 0x5C \<and> c \<noteq> 0x22 \<and> \<not> c < 0x20" using u(2) by (auto simp: word_less_nat_alt
        not_less word_le_nat_alt)
    then have "unquote (?u @ t) = map_option (append ?u) (unquote t)"
      using u(2) unfolding u(1) by (simp add: unquote.simps u(3))
    with 3 show ?thesis by (simp only:)
  qed
qed

text \<open>What comes back of a string through JSON is its sanitized form.\<close>

lemma unquote_quote: "unquote (quote s) = Some (sanitize s)"
  by (induction s rule: quote.induct)
    (simp_all add: quote.simps sanitize.simps unquote_escape_ascii unquote_fffd unquote_escape_rune unquote.simps(1)
        del: append_Cons rune_size.simps)

lemma raw_ok_high:
  assumes "\<And>c. c \<in> set s \<Longrightarrow> 0x80 \<le> c"
  shows "raw_ok s"
  using assms
proof (induction s)
  case (Cons c s)
  have "0x80 \<le> c" using Cons.prems by simp
  then have "c \<noteq> 0x5C \<and> c \<noteq> 0x22 \<and> 0x20 \<le> c" by (auto simp: word_le_nat_alt)
  with Cons show ?case by simp
qed simp

lemma raw_ok_quote: "raw_ok (quote s)"
proof (induction s rule: quote.induct)
  case (2 c r)
  have ok: "raw_ok (0x5C # lit ''ufffd'')" "raw_ok (0x5C # lit ''u2028'')" "raw_ok (0x5C # lit ''u2029'')"
    by (simp_all add: lit_def simple_escape_def is_hex_def is_digit_def)
  moreover have "raw_ok (take (rune_size (c # r)) (c # r))" if "rune_size (c # r) \<noteq> 0"
    by (rule raw_ok_high) (rule rune_high [OF that])
  moreover have "raw_ok (0x5C # lit ''ufffd'' @ quote r)" if "raw_ok (quote r)"
    using raw_ok_append [OF ok(1) that] by (simp only: append_Cons)
  ultimately show ?case using 2
    by (auto simp: quote.simps escape_rune_def escape_ascii_ok simp del: append_Cons rune_size.simps raw_ok.simps(2)
        intro!: raw_ok_append)
qed simp

text \<open>The scanner accepts only strings that unquote: the panic of \<open>literalStore\<close> cannot happen.\<close>

lemma rune_drop_ok:
  assumes "raw_ok r" and "rune_size (c # r) \<noteq> 0"
  shows "raw_ok (drop (rune_size (c # r) - 1) r)"
  using assms(2)
proof (cases rule: rune_size_cases)
  case (1 a b s)
  then have "b \<noteq> 0x5C" by (auto simp: is_cont_def)
  with 1 assms(1) show ?thesis by (auto split: if_splits)
next
  case (2 a b d s)
  then have "b \<noteq> 0x5C" "d \<noteq> 0x5C" using starts3_high [OF 2(3)] by (auto simp: is_cont_def)
  with 2 assms(1) show ?thesis by (auto split: if_splits)
next
  case (3 a b d e s)
  then have "b \<noteq> 0x5C" "d \<noteq> 0x5C" "e \<noteq> 0x5C" using starts4_high [OF 3(3)] by (auto simp: is_cont_def)
  with 3 assms(1) show ?thesis by (auto split: if_splits)
qed

lemma getu4_raw_ok:
  assumes "getu4 s = Some n" and "raw_ok s"
  shows "raw_ok (drop 6 s)"
proof -
  from assms(1) obtain h1 h2 h3 h4 t where "s = 0x5C # 0x75 # h1 # h2 # h3 # h4 # t"
    by (auto simp: getu4_def split: list.splits if_splits)
  with assms(2) show ?thesis by (simp add: simple_escape_def)
qed

lemma raw_ok_getu4:
  assumes "raw_ok (0x5C # 0x75 # r)"
  shows "getu4 (0x5C # 0x75 # r) \<noteq> None"
proof -
  from assms have "4 \<le> length r" "list_all is_hex (take 4 r)" by (auto simp: simple_escape_def)
  then show ?thesis
    by (cases r; cases "tl r"; cases "tl (tl r)"; cases "tl (tl (tl r))") (auto simp: getu4_def)
qed

lemma unquote_raw_ok: "raw_ok raw \<Longrightarrow> unquote raw \<noteq> None"
proof (induction raw rule: length_induct)
  case (1 raw)
  then have IH: "length s < length raw \<Longrightarrow> raw_ok s \<Longrightarrow> unquote s \<noteq> None" for s by blast
  show ?case
  proof (cases raw)
    case (Cons c r)
    show ?thesis
    proof (cases "c = 0x5C")
      case True
      with 1(2) Cons obtain e r' where r: "r = e # r'" by (cases r) auto
      show ?thesis
      proof (cases "e = 0x75")
        case False
        with 1(2) Cons True r have "simple_escape e" "raw_ok r'" by (auto split: if_splits)
        moreover from this(1) have "unescape_char e \<noteq> None" by (auto simp: simple_escape_def unescape_char_def)
        ultimately show ?thesis using IH [of r'] Cons True r False by (auto simp: unquote.simps)
      next
        case e: True
        have ok: "raw_ok (0x5C # 0x75 # r')" using 1(2) Cons True r e by simp
        then obtain rr where rr: "getu4 (0x5C # 0x75 # r') = Some rr" using raw_ok_getu4 by blast
        have ok4: "raw_ok (drop 4 r')" using getu4_raw_ok [OF rr ok] by simp
        have "raw_ok (drop 10 r')" if "surrogate_pair rr (getu4 (drop 4 r')) \<noteq> None"
        proof -
          from that obtain r2 where "getu4 (drop 4 r') = Some r2" by (cases "getu4 (drop 4 r')") (auto simp:
          surrogate_pair_def)
          from getu4_raw_ok [OF this ok4] show ?thesis by simp
        qed
        then show ?thesis using IH [of "drop 4 r'"] IH [of "drop 10 r'"] ok4 rr Cons True r e
          by (auto simp: unquote.simps split: option.splits)
      qed
    next
      case False
      with 1(2) Cons have ok: "raw_ok r" "c \<noteq> 0x22" "\<not> c < 0x20" by (auto simp: not_less)
      show ?thesis
      proof (cases "c < 0x80 \<or> rune_size (c # r) = 0")
        case True
        with IH [of r] ok False Cons show ?thesis by (auto simp: unquote.simps simp del: rune_size.simps)
      next
        case False': False
        then have "raw_ok (drop (rune_size (c # r) - 1) r)" using rune_drop_ok [OF ok(1)] by blast
        with IH [of "drop (rune_size (c # r) - 1) r"] ok False False' Cons show ?thesis
          by (auto simp: unquote.simps simp del: rune_size.simps)
      qed
    qed
  qed simp
qed

end
