(* ===== verification/Json_Base64.thy ===== *)
theory Json_Base64
  imports Go_Prelude
begin

text \<open>
  \<open>base64.StdEncoding\<close>, in which \<open>encoding/json\<close> carries byte slices: the padded encoding, and
      the decoder,
  which skips carriage returns and newlines and does not check the unused bits of the last group.
\<close>

definition b64_char :: "nat \<Rightarrow> byte" where
  "b64_char n = (if n < 26 then word_of_nat (65 + n) else if n < 52 then word_of_nat (71 + n)
     else if n < 62 then word_of_nat (n - 4) else if n = 62 then 0x2B else 0x2F)"

definition b64_value :: "byte \<Rightarrow> nat option" where
  "b64_value c = (if 0x41 \<le> c \<and> c \<le> 0x5A then Some (unat c - 65)
     else if 0x61 \<le> c \<and> c \<le> 0x7A then Some (unat c - 71)
     else if 0x30 \<le> c \<and> c \<le> 0x39 then Some (unat c + 4)
     else if c = 0x2B then Some 62 else if c = 0x2F then Some 63 else None)"

definition b64_pad :: byte where "b64_pad = 0x3D"

fun b64_encode :: "bytes \<Rightarrow> bytes" where
  "b64_encode [] = []"
| "b64_encode [a] = [b64_char (unat a div 4), b64_char (unat a mod 4 * 16), b64_pad, b64_pad]"
| "b64_encode [a, b] =
     [b64_char (unat a div 4), b64_char (unat a mod 4 * 16 + unat b div 16), b64_char (unat b mod 16 * 4), b64_pad]"
| "b64_encode (a # b # c # r) =
     [b64_char (unat a div 4), b64_char (unat a mod 4 * 16 + unat b div 16),
      b64_char (unat b mod 16 * 4 + unat c div 64), b64_char (unat c mod 64)] @ b64_encode r"

text \<open>One group of four characters: three bytes, fewer when the group is the last and padded.\<close>

definition b64_group :: "byte \<Rightarrow> byte \<Rightarrow> byte \<Rightarrow> byte \<Rightarrow> bool \<Rightarrow>
    bytes option" where
  "b64_group a b c d final =
     (case (b64_value a, b64_value b) of
        (Some x, Some y) \<Rightarrow>
          (let b0 = word_of_nat (x * 4 + y div 16) in
           if final \<and> c = b64_pad then (if d = b64_pad then Some [b0] else None)
           else (case b64_value c of
               None \<Rightarrow> None
             | Some z \<Rightarrow>
                 (let b1 = word_of_nat (y mod 16 * 16 + z div 4) in
                  if final \<and> d = b64_pad then Some [b0, b1]
                  else (case b64_value d of
                      None \<Rightarrow> None
                    | Some w \<Rightarrow> Some [b0, b1, word_of_nat (z mod 4 * 64 + w)]))))
      | _ \<Rightarrow> None)"

fun b64_groups :: "bytes \<Rightarrow> bytes option" where
  "b64_groups [] = Some []"
| "b64_groups (a # b # c # d # r) =
     (case b64_group a b c d (r = []) of
        None \<Rightarrow> None
      | Some out \<Rightarrow> map_option (append out) (b64_groups r))"
| "b64_groups _ = None"

definition b64_decode :: "bytes \<Rightarrow> bytes option" where
  "b64_decode s = b64_groups (filter (\<lambda>c. c \<noteq> 0x0D \<and> c \<noteq> 0x0A) s)"

section \<open>Round trip\<close>

lemma b64_chars:
  "list_all (\<lambda>n. b64_value (b64_char n) = Some n \<and> b64_char n \<noteq> b64_pad \<and>
      b64_char n \<noteq> 0x0D \<and> b64_char n \<noteq> 0x0A \<and>
     0x20 \<le> b64_char n \<and> b64_char n < 0x80 \<and> b64_char n \<noteq> 0x22 \<and>
     b64_char n \<noteq> 0x5C) [0..<64]"
  by code_simp

lemma b64_char:
  assumes "n < 64"
  shows "b64_value (b64_char n) = Some n" "b64_char n \<noteq> b64_pad" "b64_char n \<noteq> 0x0D" "b64_char n \<noteq> 0x0A"
    "0x20 \<le> b64_char n" "b64_char n < 0x80" "b64_char n \<noteq> 0x22" "b64_char n \<noteq> 0x5C"
  using bspec [OF b64_chars [unfolded list_all_iff], of n] assms by simp_all

lemma byte_small: "unat (a :: byte) < 256"
  using unsigned_less [where 'a = nat, of a] by simp

lemma sextets:
  fixes a b :: byte
  shows "unat a div 4 < 64" "unat a mod 4 * 16 < 64" "unat a mod 4 * 16 + unat b div 16 < 64" "unat a mod 16 * 4 < 64"
    "unat a mod 16 * 4 + unat b div 64 < 64" "unat a mod 64 < 64"
  using byte_small [of a] byte_small [of b] by linarith+

lemma sextets_join:
  fixes b c :: byte
  shows "unat b div 16 div 16 = 0" "unat b div 16 mod 16 = unat b div 16" "unat c div 64 div 4 = 0"
    "unat c div 64 mod 4 = unat c div 64"
proof -
  have "unat b div 16 < 16" "unat c div 64 < 4" using byte_small [of b] byte_small [of c] by linarith+
  then show "unat b div 16 div 16 = 0" "unat b div 16 mod 16 = unat b div 16" "unat c div 64 div 4 = 0"
    "unat c div 64 mod 4 = unat c div 64" by simp_all
qed

lemma b64_encode_clean: "c \<in> set (b64_encode s) \<Longrightarrow> c \<noteq> 0x0D \<and> c \<noteq> 0x0A \<and>
    0x20 \<le> c \<and> c < 0x80 \<and> c \<noteq> 0x22 \<and> c \<noteq> 0x5C"
  by (induction s rule: b64_encode.induct) (auto simp: b64_char sextets b64_pad_def)

lemma b64_groups_encode: "b64_groups (b64_encode s) = Some s"
proof (induction s rule: b64_encode.induct)
  case (4 a b c r)
  have "b64_group (b64_char (unat a div 4)) (b64_char (unat a mod 4 * 16 + unat b div 16))
      (b64_char (unat b mod 16 * 4 + unat c div 64)) (b64_char (unat c mod 64)) final = Some [a, b, c]" for final
    by (simp add: b64_group_def b64_char sextets Let_def sextets_join del: of_nat_add of_nat_mult)
  with 4 show ?case by simp
qed (simp_all add: b64_group_def b64_char sextets Let_def sextets_join del: of_nat_add of_nat_mult)

lemma b64_decode_encode: "b64_decode (b64_encode s) = Some s"
proof -
  have "filter (\<lambda>c. c \<noteq> 0x0D \<and> c \<noteq> 0x0A) (b64_encode s) = b64_encode s"
    by (rule filter_True) (use b64_encode_clean in blast)
  then show ?thesis by (simp add: b64_decode_def b64_groups_encode)
qed

end
