(* ===== verification/Go_Calendar.thy ===== *)
theory Go_Calendar
  imports Main
begin

text \<open>
  The proleptic Gregorian calendar of Go's package \<open>time\<close>: the number of days from January 1, year 1 to a
  date, and the date of a day, computed as \<open>Time.Date\<close> does by cutting off cycles of 400, 100 and 4 years.
\<close>

definition is_leap :: "int \<Rightarrow> bool" where
  "is_leap y \<longleftrightarrow> y mod 4 = 0 \<and> (y mod 100 \<noteq> 0 \<or> y mod 400 = 0)"

definition days_in :: "bool \<Rightarrow> nat \<Rightarrow> nat" where
  "days_in leap m = (if m = 2 then (if leap then 29 else 28) else if m \<in> {4, 6, 9, 11} then 30 else 31)"

definition days_before :: "bool \<Rightarrow> nat \<Rightarrow> nat" where
  "days_before leap m =
     [0, 31, 59, 90, 120, 151, 181, 212, 243, 273, 304, 334] ! (m - 1) + (if leap \<and> 2 < m then 1 else 0)"

definition year_start :: "int \<Rightarrow> int" where
  "year_start y = 365 * (y - 1) + (y - 1) div 4 - (y - 1) div 100 + (y - 1) div 400"

definition days_of_date :: "int \<Rightarrow> nat \<Rightarrow> nat \<Rightarrow> int" where
  "days_of_date y m d = year_start y + int (days_before (is_leap y) m) + int d - 1"

text \<open>The year of a day, and the day within it, counted from 0.\<close>

definition year_day :: "int \<Rightarrow> int \<times> nat" where
  "year_day day =
     (let n400 = day div 146097; r400 = day mod 146097;
          n100 = min 3 (r400 div 36524); r100 = r400 - 36524 * n100;
          n4 = r100 div 1461; r4 = r100 mod 1461;
          n1 = min 3 (r4 div 365)
      in (400 * n400 + 100 * n100 + 4 * n4 + n1 + 1, nat (r4 - 365 * n1)))"

text \<open>The month of a day of the year, the first from \<open>m\<close> on that ends after it.\<close>

function month_from :: "bool \<Rightarrow> nat \<Rightarrow> nat \<Rightarrow> nat" where
  "month_from leap yday m =
     (if 12 \<le> m \<or> yday < days_before leap (Suc m) then m else month_from leap yday (Suc m))"
  by auto
termination by (relation "measure (\<lambda>(leap, yday, m). 12 - m)") auto

declare month_from.simps [simp del]

definition month_of :: "bool \<Rightarrow> nat \<Rightarrow> nat" where
  "month_of leap yday = month_from leap yday 1"

definition date_of_days :: "int \<Rightarrow> int \<times> nat \<times> nat" where
  "date_of_days day =
     (let (y, yday) = year_day day; m = month_of (is_leap y) yday
      in (y, m, yday - days_before (is_leap y) m + 1))"

section \<open>The two conversions are inverse\<close>

lemma days_in_before:
  assumes "1 \<le> m" "m < 12"
  shows "days_before leap (Suc m) = days_before leap m + days_in leap m"
proof -
  from assms have "m \<in> set [1..<12]" by simp
  then have "m \<in> {1, 2, 3, 4, 5, 6, 7, 8, 9, 10, 11}" by (simp add: upt_rec numeral_eq_Suc)
  then show ?thesis by (cases leap) (auto simp: days_before_def days_in_def)
qed

lemma month_from_spec:
  assumes "1 \<le> m" "m \<le> 12" "days_before leap m \<le> yday"
  shows "1 \<le> month_from leap yday m \<and> month_from leap yday m \<le> 12 \<and>
      days_before leap (month_from leap yday m) \<le> yday \<and>
    (month_from leap yday m < 12 \<longrightarrow> yday < days_before leap (Suc (month_from leap yday m)))"
  using assms
proof (induction leap yday m rule: month_from.induct)
  case (1 leap yday m)
  show ?case
  proof (cases "12 \<le> m \<or> yday < days_before leap (Suc m)")
    case True
    then have "month_from leap yday m = m" by (simp add: month_from.simps)
    with 1 True show ?thesis by auto
  next
    case False
    then have "month_from leap yday m = month_from leap yday (Suc m)" by (simp add: month_from.simps [of leap yday m])
    with 1 False show ?thesis by simp
  qed
qed

lemma days_before_1: "days_before leap 1 = 0"
  by (simp add: days_before_def)

lemma month_of_spec:
  assumes "yday < 365 \<or> leap \<and> yday < 366"
  shows "1 \<le> month_of leap yday \<and> month_of leap yday \<le> 12 \<and>
      days_before leap (month_of leap yday) \<le> yday \<and>
    yday - days_before leap (month_of leap yday) < days_in leap (month_of leap yday)"
proof -
  let ?m = "month_from leap yday 1"
  have spec: "1 \<le> ?m" "?m \<le> 12" "days_before leap ?m \<le> yday" "?m < 12 \<longrightarrow> yday < days_before
      leap (Suc ?m)"
    using month_from_spec [of 1 leap yday] days_before_1 by (simp_all only:) simp_all
  moreover have "yday - days_before leap ?m < days_in leap ?m"
  proof (cases "?m = 12")
    case True
    with assms spec(3) show ?thesis by (auto simp: days_before_def days_in_def)
  next
    case False
    with spec days_in_before [of ?m leap] show ?thesis by simp
  qed
  ultimately show ?thesis by (simp add: month_of_def)
qed

lemmas month_of_range = month_of_spec [THEN conjunct1] month_of_spec [THEN conjunct2, THEN conjunct1]
  month_of_spec [THEN conjunct2, THEN conjunct2, THEN conjunct1] month_of_spec [THEN conjunct2, THEN conjunct2,
      THEN conjunct2]

lemma year_start_cycles:
  assumes "0 \<le> b" "b \<le> 3" "0 \<le> c" "c \<le> 24" "0 \<le> e" "e \<le> 3"
  shows "year_start (400 * a + 100 * b + 4 * c + e + 1) = 146097 * a + 36524 * b + 1461 * c + 365 * e"
proof -
  let ?y = "400 * a + 100 * b + 4 * c + e"
  have "?y div 4 = 100 * a + 25 * b + c" "?y div 100 = 4 * a + b" "?y div 400 = a"
    using assms by (linarith, linarith, linarith)
  then show ?thesis by (simp add: year_start_def)
qed

lemma year_day_spec:
  assumes "year_day day = (y, yday)"
  shows "year_start y + int yday = day" and "yday < 365 \<or> is_leap y \<and> yday < 366"
    and "400 * (day div 146097) < y" and "y \<le> 400 * (day div 146097) + 400"
proof -
  define a where "a = day div 146097"
  define r where "r = day mod 146097"
  define b where "b = min 3 (r div 36524)"
  define s where "s = r - 36524 * b"
  define c where "c = s div 1461"
  define t where "t = s mod 1461"
  define e where "e = min 3 (t div 365)"
  have y: "y = 400 * a + 100 * b + 4 * c + e + 1" and yd: "yday = nat (t - 365 * e)"
    using assms unfolding year_day_def Let_def a_def r_def b_def s_def c_def t_def e_def by simp_all
  have r: "0 \<le> r" "r < 146097" "day = 146097 * a + r" by (simp_all add: r_def a_def)
  have b: "0 \<le> b" "b \<le> 3" using r by (auto simp: b_def)
  have s: "0 \<le> s" "b < 3 \<Longrightarrow> s < 36524" "s \<le> 36524"
    using r by (auto simp: s_def b_def min_def)
  have c: "0 \<le> c" "c \<le> 24" using s unfolding c_def by linarith+
  have t: "0 \<le> t" "t < 1461" "s = 1461 * c + t" by (simp_all add: t_def c_def)
  have e: "0 \<le> e" "e \<le> 3" using t by (auto simp: e_def)
  have u: "0 \<le> t - 365 * e" "t - 365 * e < 365 \<or> t - 365 * e = 365 \<and> e = 3"
    using t by (auto simp: e_def min_def)
  show "year_start y + int yday = day"
    using u(1) unfolding y yd year_start_cycles [OF b c e] by (simp add: r(3) s_def [symmetric]) (use t(3) s_def in linarith)
  show "yday < 365 \<or> is_leap y \<and> yday < 366"
  proof (cases "t - 365 * e < 365")
    case True
    with u(1) show ?thesis unfolding yd by linarith
  next
    case False
    with u have last_day: "t = 1460" "e = 3" by linarith+
    have "c < 24 \<or> b = 3" using s t(3) last_day b c by linarith
    then consider "c < 24" | "c = 24" "b = 3" using c by linarith
    then have "y mod 4 = 0 \<and> (y mod 100 \<noteq> 0 \<or> y mod 400 = 0)"
    proof cases
      case 1
      have "y = 4 * (c + 1) + 100 * (4 * a + b)" using y last_day by simp
      then have "y mod 100 = 4 * (c + 1) mod 100" by (simp only: mod_mult_self2)
      also have "\<dots> = 4 * (c + 1)" using c 1 by (intro mod_pos_pos_trivial) simp_all
      finally have "y mod 100 \<noteq> 0" using c by simp
      moreover have "y = 4 * (100 * a + 25 * b + c + 1)" using y last_day by simp
      ultimately show ?thesis by simp
    next
      case 2
      then have "y = 400 * (a + 1)" using y last_day by simp
      then show ?thesis by simp
    qed
    with u show ?thesis unfolding yd is_leap_def by linarith
  qed
  show "400 * (day div 146097) < y" "y \<le> 400 * (day div 146097) + 400"
    using b c e unfolding y a_def [symmetric] by linarith+
qed

lemma date_of_days_spec:
  assumes "date_of_days day = (y, m, d)"
  shows "days_of_date y m d = day" and "1 \<le> m" and "m \<le> 12" and "1 \<le> d" and "d \<le> days_in (is_leap y) m"
    and "400 * (day div 146097) < y" and "y \<le> 400 * (day div 146097) + 400"
proof -
  obtain yday where yd: "year_day day = (y, yday)" and m: "m = month_of (is_leap y) yday"
    and d: "d = yday - days_before (is_leap y) m + 1"
    using assms by (auto simp: date_of_days_def Let_def split: prod.splits)
  note spec = year_day_spec [OF yd] and range = month_of_range [OF year_day_spec(2) [OF yd]]
  show "1 \<le> m" "m \<le> 12" "1 \<le> d" "d \<le> days_in (is_leap y) m" using range d by (simp_all add: m)
  show "days_of_date y m d = day" using spec(1) range(3) d by (simp add: days_of_date_def m)
  show "400 * (day div 146097) < y" "y \<le> 400 * (day div 146097) + 400" by (fact spec(3), fact spec(4))
qed

end
