(* ===== verification/Time_Text.thy ===== *)
theory Time_Text
  imports Go_Calendar Go_Time Json_Syntax
begin

text \<open>
  Times in JSON: \<open>Time.MarshalJSON\<close> and \<open>Time.UnmarshalJSON\<close> of Go's package
      \<open>time\<close>, that is \<open>RFC3339Nano\<close> with
  the checks of \<open>appendStrictRFC3339\<close>, and \<open>Parse(RFC3339, ...)\<close>,
      which accepts a little more than RFC 3339
  (one-digit hours, commas, offsets up to 24 hours). The fast path of the parser agrees with \<open>Parse\<close> and is
  not modelled separately. Time zones are data of the host: a parameter \<open>zones\<close>.
\<close>

text \<open>\<open>zo_offset loc s\<close> is the offset in seconds, east of UTC,
    that location \<open>loc\<close> has at Unix second \<open>s\<close>;
  \<open>zo_fixed off\<close> is the location \<open>FixedZone("",
      off)\<close>. The location \<open>None\<close> is UTC.\<close>

record zones =
  zo_offset :: "string \<Rightarrow> int64 \<Rightarrow> int"
  zo_fixed :: "int \<Rightarrow> string"

definition zone_offset :: "zones \<Rightarrow> string option \<Rightarrow> int64 \<Rightarrow> int" where
  "zone_offset z loc s = (case loc of None \<Rightarrow> 0 | Some l \<Rightarrow> zo_offset z l s)"

definition time_offset :: "zones \<Rightarrow> go_time \<Rightarrow> int" where
  "time_offset z t = zone_offset z (t_loc t) (t_sec t + internalToUnix)"

section \<open>Formatting\<close>

definition digit :: "nat \<Rightarrow> byte" where "digit n = word_of_nat (48 + n mod 10)"

text \<open>\<open>appendInt\<close> of a number that has at most \<open>w\<close> digits.\<close>

fun pad_digits :: "nat \<Rightarrow> nat \<Rightarrow> bytes" where
  "pad_digits 0 n = []"
| "pad_digits (Suc w) n = pad_digits w (n div 10) @ [digit n]"

definition strip_zeros :: "bytes \<Rightarrow> bytes" where
  "strip_zeros s = rev (dropWhile (\<lambda>c. c = 0x30) (rev s))"

definition format_nanos :: "nat \<Rightarrow> bytes" where
  "format_nanos n = (if n = 0 then [] else 0x2E # strip_zeros (pad_digits 9 n))"

definition format_zone :: "int \<Rightarrow> bytes" where
  "format_zone offset =
     (if offset = 0 then [0x5A]
      else let zone = offset sdiv 60; m = nat \<bar>zone\<bar>
        in (if zone < 0 then 0x2D else 0x2B) # pad_digits 2 (m div 60) @ 0x3A # pad_digits 2 (m mod 60))"

definition format_rfc3339 :: "int \<Rightarrow> nat \<Rightarrow> nat \<Rightarrow> nat \<Rightarrow> nat \<Rightarrow>
    int \<Rightarrow> bytes" where
  "format_rfc3339 year month day tod nanos offset =
     pad_digits 4 (nat year) @ 0x2D # pad_digits 2 month @ 0x2D # pad_digits 2 day @ 0x54 #
     pad_digits 2 (tod div 3600) @ 0x3A # pad_digits 2 (tod mod 3600 div 60) @ 0x3A # pad_digits 2 (tod mod 60) @
     format_nanos nanos @ format_zone offset"

text \<open>\<open>Time.MarshalJSON\<close>, between the quotes: years of more or fewer than four digits and zones of 24
    hours or
  more are errors.\<close>

definition time_MarshalJSON :: "zones \<Rightarrow> go_time \<Rightarrow> json_error + bytes" where
  "time_MarshalJSON z t =
     (let offset = time_offset z t;
          local = sint (t_sec t) + offset;
          (year, month, day) = date_of_days (local div 86400)
      in if year < 0 \<or> 9999 < year then Inl ErrYear
         else if 24 * 60 \<le> \<bar>offset sdiv 60\<bar> then Inl ErrZoneHour
         else Inr (format_rfc3339 year month day (nat (local mod 86400)) (unat (t_nsec t)) offset))"

section \<open>Parsing\<close>

definition digit_value :: "byte \<Rightarrow> nat" where "digit_value c = unat c - 48"

definition digits_value :: "bytes \<Rightarrow> nat" where
  "digits_value s = foldl (\<lambda>n c. n * 10 + digit_value c) 0 s"

definition expect :: "byte \<Rightarrow> bytes \<Rightarrow> bytes option" where
  "expect c s = (case s of d # r \<Rightarrow> if d = c then Some r else None | [] \<Rightarrow> None)"

text \<open>A field of exactly \<open>w\<close> digits (\<open>getnum\<close> with \<open>fixed\<close>, and the
    year).\<close>

definition fixed_digits :: "nat \<Rightarrow> bytes \<Rightarrow> (nat \<times> bytes) option" where
  "fixed_digits w s =
     (if length s < w \<or> \<not> list_all is_digit (take w s) then None else Some (digits_value (take w s), drop w s))"

text \<open>The hour: one or two digits.\<close>

definition hour_digits :: "bytes \<Rightarrow> (nat \<times> bytes) option" where
  "hour_digits s =
     (case fixed_digits 2 s of Some x \<Rightarrow> Some x | None \<Rightarrow> fixed_digits 1 s)"

text \<open>The fractional second, when there is one: digits after the ninth are dropped.\<close>

definition parse_nanos :: "bytes \<Rightarrow> nat \<times> bytes" where
  "parse_nanos s =
     (case s of
        p # d # r \<Rightarrow>
          if (p = 0x2E \<or> p = 0x2C) \<and> is_digit d
          then (let ds = takeWhile is_digit (d # r)
            in (digits_value (take 9 ds) * 10 ^ (9 - length (take 9 ds)), dropWhile is_digit (d # r)))
          else (0, s)
      | _ \<Rightarrow> (0, s))"

text \<open>The zone: \<open>None\<close> for \<open>Z\<close>, otherwise the offset in seconds. Nothing may follow.\<close>

definition parse_zone :: "bytes \<Rightarrow> int option option" where
  "parse_zone s =
     (case s of
        [c] \<Rightarrow> if c = 0x5A then Some None else None
      | [sign, h1, h2, colon, m1, m2] \<Rightarrow>
          if colon = 0x3A \<and> list_all is_digit [h1, h2, m1, m2] \<and> digits_value [h1, h2] \<le> 24 \<and>
          digits_value [m1, m2] \<le> 60
          then (let off = int ((digits_value [h1, h2] * 60 + digits_value [m1, m2]) * 60)
            in if sign = 0x2B then Some (Some off) else if sign = 0x2D then Some (Some (- off)) else None)
          else None
      | _ \<Rightarrow> None)"

text \<open>\<open>time.Date\<close> in UTC, less the offset, in seconds since January 1, year 1.\<close>

definition date_seconds :: "nat \<Rightarrow> nat \<Rightarrow> nat \<Rightarrow> nat \<Rightarrow> nat \<Rightarrow>
    nat \<Rightarrow> int \<Rightarrow> int64" where
  "date_seconds year month day h m s offset =
     word_of_int (days_of_date (int year) month day * 86400 + int (h * 3600 + m * 60 + s) - offset)"

definition zone_location :: "zones \<Rightarrow> int option \<Rightarrow> int64 \<Rightarrow> string option" where
  "zone_location z off sec =
     (case off of
        None \<Rightarrow> None
      | Some offset \<Rightarrow>
          if zo_offset z ''Local'' (sec + internalToUnix) = offset then Some ''Local'' else Some (zo_fixed z offset))"

definition opt_bind :: "'a option \<Rightarrow> ('a \<Rightarrow> 'b option) \<Rightarrow> 'b option" where
  "opt_bind m f = (case m of None \<Rightarrow> None | Some x \<Rightarrow> f x)"

lemma opt_bind_simps [simp]: "opt_bind (Some x) f = f x" "opt_bind None f = None"
  by (simp_all add: opt_bind_def)

definition parse_date :: "bytes \<Rightarrow> (nat \<times> nat \<times> nat \<times> bytes) option" where
  "parse_date s =
     opt_bind (fixed_digits 4 s) (\<lambda>(year, s).
     opt_bind (expect 0x2D s) (\<lambda>s. opt_bind (fixed_digits 2 s) (\<lambda>(month, s).
     opt_bind (expect 0x2D s) (\<lambda>s. opt_bind (fixed_digits 2 s) (\<lambda>(day, s).
     if 1 \<le> month \<and> month \<le> 12 \<and> 1 \<le> day \<and> day \<le> days_in (is_leap (int year)) month
     then Some (year, month, day, s) else None)))))"

definition parse_clock :: "bytes \<Rightarrow> (nat \<times> nat \<times> nat \<times> bytes) option" where
  "parse_clock s =
     opt_bind (hour_digits s) (\<lambda>(h, s).
     opt_bind (expect 0x3A s) (\<lambda>s. opt_bind (fixed_digits 2 s) (\<lambda>(m, s).
     opt_bind (expect 0x3A s) (\<lambda>s. opt_bind (fixed_digits 2 s) (\<lambda>(sec, s).
     if h < 24 \<and> m < 60 \<and> sec < 60 then Some (h, m, sec, s) else None)))))"

text \<open>\<open>Time.UnmarshalJSON\<close> of the text between the quotes.\<close>

definition time_UnmarshalJSON :: "zones \<Rightarrow> bytes \<Rightarrow> go_time option" where
  "time_UnmarshalJSON z s =
     opt_bind (parse_date s) (\<lambda>(year, month, day, s).
     opt_bind (expect 0x54 s) (\<lambda>s. opt_bind (parse_clock s) (\<lambda>(h, m, sec, s).
     let (nanos, s) = parse_nanos s in
     opt_bind (parse_zone s) (\<lambda>off.
       let secs = date_seconds year month day h m sec (case off of None \<Rightarrow> 0 | Some offset \<Rightarrow> offset)
       in Some \<lparr>t_sec = secs, t_nsec = word_of_nat nanos, t_loc = zone_location z off secs, t_mono = None\<rparr>))))"

section \<open>Round trip\<close>

lemma digit_facts: "is_digit (digit n)" "digit_value (digit n) = n mod 10"
proof -
  have n: "n mod 10 < 10" by simp
  then have u: "unat (digit n) = 48 + n mod 10" unfolding digit_def by (simp add: unat_of_nat del: of_nat_add)
  with n show "is_digit (digit n)" by (simp add: is_digit_def word_le_nat_alt)
  from u show "digit_value (digit n) = n mod 10" by (simp add: digit_value_def)
qed

lemma digits_value_Nil [simp]: "digits_value [] = 0"
  and digits_value_snoc: "digits_value (s @ [c]) = digits_value s * 10 + digit_value c"
  by (simp_all add: digits_value_def)

lemma pad_digits:
  "length (pad_digits w n) = w" "list_all is_digit (pad_digits w n)" "digits_value (pad_digits w n) = n mod 10 ^ w"
proof (induction w arbitrary: n)
  case (Suc w)
  { case 3
    have "n mod (10 * 10 ^ w) = n div 10 mod 10 ^ w * 10 + n mod 10"
      by (simp add: mod_mult2_eq)
    then show ?case by (simp add: digits_value_snoc Suc digit_facts) }
qed (simp_all add: digit_facts)

lemma fixed_digits_pad: "fixed_digits w (pad_digits w n @ r) = Some (n mod 10 ^ w, r)"
  by (simp add: fixed_digits_def pad_digits)

lemma hour_digits_pad: "hour_digits (pad_digits 2 n @ r) = Some (n mod 100, r)"
  by (simp add: hour_digits_def fixed_digits_pad)

lemma expect_simp [simp]: "expect c (c # r) = Some r"
  by (simp add: expect_def)

lemma digits_value_zeros: "digits_value (s @ replicate k 0x30) = digits_value s * 10 ^ k"
proof (induction k)
  case (Suc k)
  have "digits_value (s @ replicate (Suc k) 0x30) = digits_value ((s @ replicate k 0x30) @ [0x30])"
    by (simp add: replicate_append_same)
  also have "\<dots> = digits_value s * 10 ^ Suc k" unfolding digits_value_snoc by (simp add: Suc digit_value_def)
  finally show ?case .
qed simp

lemma strip_zeros_append: "\<exists>k. s = strip_zeros s @ replicate k 0x30 \<and> k \<le> length s"
proof -
  let ?z = "takeWhile (\<lambda>c. c = 0x30) (rev s)"
  have z: "?z = replicate (length ?z) 0x30"
    by (rule replicate_eqI [symmetric, THEN sym]) (auto dest: set_takeWhileD)
  have "s = rev (?z @ dropWhile (\<lambda>c. c = 0x30) (rev s))" by simp
  also have "\<dots> = strip_zeros s @ rev ?z" by (simp only: rev_append strip_zeros_def)
  also have "rev ?z = replicate (length ?z) 0x30" by (metis z rev_replicate)
  finally show ?thesis using length_takeWhile_le [of "\<lambda>c. c = 0x30" "rev s"] by auto
qed

lemma parse_format_nanos:
  assumes "n < 1000000000" and "z \<noteq> []" and "\<not> is_digit (hd z)" and "hd z \<noteq> 0x2E" and "hd z \<noteq> 0x2C"
  shows "parse_nanos (format_nanos n @ z) = (n, z)"
proof (cases "n = 0")
  case True
  with assms show ?thesis by (cases z) (auto simp: format_nanos_def parse_nanos_def split: list.split)
next
  case False
  define ds where "ds = strip_zeros (pad_digits 9 n)"
  obtain k where k: "pad_digits 9 n = ds @ replicate k 0x30" "k \<le> 9"
    using strip_zeros_append [of "pad_digits 9 n"] pad_digits(1) [of 9 n] by (auto simp: ds_def)
  have len: "length ds = 9 - k" using arg_cong [OF k(1), of length] pad_digits(1) [of 9 n] by simp
  have digits: "list_all is_digit ds" using pad_digits(2) [of 9 n] unfolding k(1) by simp
  have "digits_value ds * 10 ^ k = n mod 10 ^ 9" using pad_digits(3) [of 9 n] unfolding k(1) digits_value_zeros .
  with assms(1) have val: "digits_value ds * 10 ^ k = n" by simp
  with False obtain d ds' where ds: "ds = d # ds'" by (cases ds) auto
  have "takeWhile is_digit (ds @ z) = ds" "dropWhile is_digit (ds @ z) = z"
    using digits assms(2,3) by (cases z; auto simp: list_all_iff takeWhile_append dropWhile_append)+
  moreover have "format_nanos n @ z = 0x2E # d # ds' @ z" using False ds by (simp add: format_nanos_def ds_def)
  moreover have "is_digit d" using digits ds by simp
  moreover have "9 - length (take 9 ds) = k" "take 9 ds = ds" using len k(2) by simp_all
  ultimately show ?thesis using val by (simp add: parse_nanos_def ds)
qed

lemma pad2: "pad_digits 2 n = [digit (n div 10), digit n]"
  by (simp add: numeral_2_eq_2)

text \<open>The part of an offset that the minutes of the text do not show.\<close>

definition shown_offset :: "int \<Rightarrow> int" where
  "shown_offset offset = 60 * (offset sdiv 60)"

lemma shown_offset_exact: "60 dvd offset \<Longrightarrow> shown_offset offset = offset"
  by (auto simp: shown_offset_def signed_divide_int_def sgn_mult abs_mult sgn_mult_abs elim!: dvdE)

lemma parse_format_zone:
  assumes "\<bar>offset sdiv 60\<bar> < 24 * 60"
  shows "parse_zone (format_zone offset) = Some (if offset = 0 then None else Some (shown_offset offset))"
proof (cases "offset = 0")
  case True
  then show ?thesis by (simp add: format_zone_def parse_zone_def)
next
  case False
  define zone where "zone = offset sdiv 60"
  define m where "m = nat \<bar>zone\<bar>"
  have m: "m < 1440" using assms by (simp add: m_def zone_def)
  let ?sign = "if zone < 0 then 0x2D else 0x2B :: byte"
  have text_eq: "format_zone offset = [?sign, digit (m div 60 div 10), digit (m div 60), 0x3A, digit (m mod 60 div 10),
      digit (m mod 60)]"
    using False by (simp add: format_zone_def pad2 Let_def zone_def m_def)
  have "digits_value [digit (m div 60 div 10), digit (m div 60)] = m div 60" "digits_value [digit (m mod 60 div 10),
      digit (m mod 60)] = m mod 60"
    using m pad_digits(3) [of 2 "m div 60"] pad_digits(3) [of 2 "m mod 60"] by (simp_all add: pad2)
  moreover have "m div 60 \<le> 24" "m mod 60 \<le> 60" using m less_imp_le_nat [OF mod_less_divisor, of 60 m] by simp_all
  moreover have "int ((m div 60 * 60 + m mod 60) * 60) = 60 * \<bar>zone\<bar>" by (simp add: m_def)
  ultimately show ?thesis using False
    by (simp add: text_eq parse_zone_def digit_facts Let_def shown_offset_def zone_def [symmetric] split del: if_split)
      (simp add: abs_if)
qed

lemma format_zone_head: "format_zone offset \<noteq> []" "\<not> is_digit (hd (format_zone offset))" "hd (format_zone
    offset) \<noteq> 0x2E"
  "hd (format_zone offset) \<noteq> 0x2C"
  by (simp_all add: format_zone_def Let_def is_digit_def)

lemma parse_date_format:
  assumes "0 \<le> year" "year \<le> 9999" "1 \<le> month" "month \<le> 12" "1 \<le> day" "day \<le> days_in (is_leap
      year) month"
  shows "parse_date (pad_digits 4 (nat year) @ 0x2D # pad_digits 2 month @ 0x2D # pad_digits 2 day @ r) =
      Some (nat year, month, day, r)"
proof -
  have "day \<le> 31" using assms(6) by (auto simp: days_in_def split: if_splits)
  with assms show ?thesis by (simp add: parse_date_def fixed_digits_pad)
qed

lemma parse_clock_format:
  assumes "tod < 86400"
  shows "parse_clock (pad_digits 2 (tod div 3600) @ 0x3A # pad_digits 2 (tod mod 3600 div 60) @
      0x3A # pad_digits 2 (tod mod 60) @ r) =
     Some (tod div 3600, tod mod 3600 div 60, tod mod 60, r)"
proof -
  have "tod div 3600 < 24" "tod mod 3600 div 60 < 60" "tod mod 60 < 60" using assms by simp_all
  then show ?thesis by (simp add: parse_clock_def fixed_digits_pad hour_digits_pad)
qed

text \<open>What comes back of a time: the same instant, shifted by the seconds of its zone's offset that the text does
  not show; the location is rebuilt from the offset.\<close>

definition time_arrives :: "zones \<Rightarrow> go_time \<Rightarrow> go_time" where
  "time_arrives z t =
     (let offset = time_offset z t; secs = t_sec t + word_of_int (offset - shown_offset offset)
      in \<lparr>t_sec = secs, t_nsec = t_nsec t,
          t_loc = zone_location z (if offset = 0 then None else Some (shown_offset offset)) secs, t_mono = None\<rparr>)"

lemma time_json_roundtrip:
  assumes "time_MarshalJSON z t = Inr s" and "wf_time t"
  shows "time_UnmarshalJSON z s = Some (time_arrives z t)"
proof -
  define offset where "offset = time_offset z t"
  define local where "local = sint (t_sec t) + offset"
  define tod where "tod = nat (local mod 86400)"
  obtain year month day where date: "date_of_days (local div 86400) = (year, month,
      day)" by (cases "date_of_days (local div 86400)")
  note spec = date_of_days_spec [OF date]
  from assms(1) have year: "0 \<le> year" "year \<le> 9999" and zone: "\<bar>offset sdiv 60\<bar> < 24 * 60"
    and s: "s = format_rfc3339 year month day tod (unat (t_nsec t)) offset"
    by (auto simp: time_MarshalJSON_def Let_def date offset_def [symmetric] local_def [symmetric] tod_def split: if_splits)
  have tod: "tod < 86400" by (simp add: tod_def nat_less_iff)
  have clock: "tod div 3600 * 3600 + tod mod 3600 div 60 * 60 + tod mod 60 = tod"
  proof -
    have "tod mod 3600 mod 60 = tod mod 60" by (simp add: mod_mod_cancel)
    then show ?thesis using div_mult_mod_eq [of tod 3600] div_mult_mod_eq [of "tod mod 3600" 60] by linarith
  qed
  define off where "off = (if offset = 0 then None else Some (shown_offset offset))"
  have off: "(case off of None \<Rightarrow> 0 | Some x \<Rightarrow> x) =
      shown_offset offset" by (simp add: off_def shown_offset_def)
  have secs: "date_seconds (nat year) month day (tod div 3600) (tod mod 3600 div 60) (tod mod 60) (shown_offset offset) =
      t_sec t + word_of_int (offset - shown_offset offset)"
  proof -
    have "int tod = local mod 86400" by (simp add: tod_def)
    then have "days_of_date (int (nat year)) month day * 86400 + int tod - shown_offset offset =
        sint (t_sec t) + (offset - shown_offset offset)"
      using spec(1) year div_mult_mod_eq [of local 86400] by (simp add: local_def)
    then show ?thesis unfolding date_seconds_def clock by simp
  qed
  have "parse_nanos (format_nanos (unat (t_nsec t)) @ format_zone offset) = (unat (t_nsec t), format_zone offset)"
    using assms(2) format_zone_head by (intro parse_format_nanos) (auto simp: wf_time_def)
  then show ?thesis
    using parse_format_zone [OF zone]
    by (simp add: s format_rfc3339_def time_UnmarshalJSON_def parse_date_format [OF year spec(2-5)] parse_clock_format
        [OF tod]
        off_def [symmetric] off secs offset_def [symmetric] Let_def time_arrives_def)
qed

lemma time_arrives_UTC: "60 dvd time_offset z t \<Longrightarrow> time_UTC (time_arrives z t) = time_UTC t"
  by (simp add: time_UTC_eq_iff time_arrives_def Let_def shown_offset_exact)

text \<open>The text of a time needs no escaping.\<close>

lemma raw_ok_plain: "list_all (\<lambda>c. 0x20 \<le> c \<and> c \<noteq> 0x22 \<and>
    c \<noteq> 0x5C) s \<Longrightarrow> raw_ok s"
  by (induction s) simp_all

lemma time_MarshalJSON_raw_ok:
  assumes "time_MarshalJSON z t = Inr s"
  shows "raw_ok s"
proof -
  let ?plain = "\<lambda>c :: byte. 0x20 \<le> c \<and> c \<noteq> 0x22 \<and> c \<noteq> 0x5C"
  have digit: "?plain c" if "is_digit c" for c
    using that by (auto simp: is_digit_def word_le_nat_alt)
  have pad: "list_all ?plain (pad_digits w n)" for w n
    using pad_digits(2) [of w n] by (auto simp: list_all_iff digit)
  have "set (strip_zeros xs) \<subseteq> set xs" for xs :: bytes
    by (auto simp: strip_zeros_def dest: set_dropWhileD)
  then have "list_all ?plain (strip_zeros (pad_digits 9 n))" for n
    using pad [of 9 n] by (auto simp: list_all_iff)
  then have nanos: "list_all ?plain (format_nanos n)" for n by (simp add: format_nanos_def)
  have zone: "list_all ?plain (format_zone off)" for off by (simp add: format_zone_def Let_def pad)
  from assms obtain y m d tod n off where "s = format_rfc3339 y m d tod n off"
    by (auto simp: time_MarshalJSON_def Let_def split: prod.splits if_splits)
  then show ?thesis by (intro raw_ok_plain) (simp add: format_rfc3339_def pad nanos zone)
qed

text \<open>Every time that \<open>UnixNano\<close> represents can be written, in any zone less than a day from UTC.\<close>

lemma time_MarshalJSON_ok:
  assumes "wf_time t" and "- (2 ^ 63) \<le> instant_ns t" and "instant_ns t < 2 ^ 63" and "\<bar>time_offset z t\<bar> <
      86400"
  shows "\<exists>s. time_MarshalJSON z t = Inr s"
proof -
  define local where "local = sint (t_sec t) + time_offset z t"
  obtain year month day where date: "date_of_days (local div 86400) = (year, month,
      day)" by (cases "date_of_days (local div 86400)")
  have "52912138363 \<le> sint (t_sec t)" "sint (t_sec t) \<le> 71358968837"
    using assms(2,3) [unfolded instant_ns_def, simplified] wf_time_uint [OF assms(1)] by linarith+
  then have "612000 \<le> local div 86400" "local div 86400 \<le> 826500"
    using assms(4) by (simp_all add: local_def)
  then have "4 \<le> local div 86400 div 146097" "local div 86400 div 146097 \<le> 5" by linarith+
  with date_of_days_spec(6,7) [OF date] have "0 \<le> year" "year \<le> 9999" by linarith+
  moreover have "\<bar>time_offset z t sdiv 60\<bar> < 24 * 60"
  proof -
    have "\<bar>time_offset z t sdiv 60\<bar> \<le> \<bar>time_offset z t\<bar> div 60"
      by (simp add: signed_divide_int_def abs_mult abs_sgn_eq)
    also have "\<dots> < 24 * 60" using assms(4) by simp
    finally show ?thesis .
  qed
  ultimately show ?thesis by (simp add: time_MarshalJSON_def Let_def local_def [symmetric] date)
qed

end
