(* ===== verification/Json_Codec.thy ===== *)
theory Json_Codec
  imports Json_String Json_Base64 Time_Text
begin

text \<open>
  Reflection-driven encoding and decoding (encoding/json/encode.go, decode.go) for the Go types the transport
  carries: strings, integers, booleans, times, byte slices, slices and structs. A decoder stores into an
  existing value: \<open>null\<close> leaves most values alone, unknown members are skipped, members match field names
  exactly or under case folding, a mismatched type is remembered as the error to return while decoding
  goes on, and an error from \<open>UnmarshalJSON\<close> stops it.
\<close>

section \<open>Encoders\<close>

type_synonym 'a json_encoder = "'a \<Rightarrow> json_error + jvalue"

definition json_text :: "bytes json_encoder" where
  "json_text s = Inr (JString (quote s))"

definition int_text :: "int \<Rightarrow> bytes" where
  "int_text i = (if i < 0 then 0x2D # decimal (nat (- i)) else decimal (nat i))"

definition json_int :: "int64 json_encoder" where
  "json_int i = Inr (JNumber (int_text (sint i)))"

definition json_uint :: "uint64 json_encoder" where
  "json_uint u = Inr (JNumber (decimal (unat u)))"

definition json_bool :: "bool json_encoder" where
  "json_bool b = Inr (JBool b)"

definition json_time :: "zones \<Rightarrow> go_time json_encoder" where
  "json_time z t = (case time_MarshalJSON z t of Inl e \<Rightarrow> Inl e | Inr s \<Rightarrow> Inr (JString s))"

text \<open>The model does not tell a nil slice from an empty one,
    which JSON writes as \<open>null\<close> and as an empty value:
  \<open>nil\<close> says which of the two the empty slices are.\<close>

definition json_blob :: "bool \<Rightarrow> bytes json_encoder" where
  "json_blob nil bs = Inr (if bs = [] \<and> nil then JNull else JString (b64_encode bs))"

fun all_encoded :: "(json_error + 'a) list \<Rightarrow> json_error + 'a list" where
  "all_encoded [] = Inr []"
| "all_encoded (Inl e # r) = Inl e"
| "all_encoded (Inr v # r) = (case all_encoded r of Inl e \<Rightarrow> Inl e | Inr vs \<Rightarrow> Inr (v # vs))"

definition json_list :: "bool \<Rightarrow> 'a json_encoder \<Rightarrow> 'a list json_encoder" where
  "json_list nil enc xs =
     (if xs = [] \<and> nil then Inr JNull
      else case all_encoded (map enc xs) of Inl e \<Rightarrow> Inl e | Inr vs \<Rightarrow> Inr (JArray vs))"

fun json_struct :: "(bytes \<times> (json_error + jvalue)) list \<Rightarrow> json_error + jvalue" where
  "json_struct ms =
     (case all_encoded (map snd ms) of Inl e \<Rightarrow> Inl e | Inr vs \<Rightarrow> Inr (JObject (zip (map fst ms) vs)))"

section \<open>Decoders\<close>

text \<open>How far decoding has come: without an error, with a type error to return at the end, or stopped.\<close>

datatype status = Fine | Saved json_error | Fatal json_error

fun merge_status :: "status \<Rightarrow> status \<Rightarrow> status" where
  "merge_status Fine s = s"
| "merge_status (Saved e) (Fatal e') = Fatal e'"
| "merge_status (Saved e) s = Saved e"
| "merge_status (Fatal e) s = Fatal e"

fun outcome_error :: "status \<Rightarrow> json_error option" where
  "outcome_error Fine = None"
| "outcome_error (Saved e) = Some e"
| "outcome_error (Fatal e) = Some e"

definition stopped :: "status \<Rightarrow> bool" where
  "stopped s \<longleftrightarrow> (case s of Fatal _ \<Rightarrow> True | _ \<Rightarrow> False)"

type_synonym 'a json_decoder = "jvalue \<Rightarrow> 'a \<Rightarrow> 'a \<times> status"

fun kind_name :: "jvalue \<Rightarrow> bytes" where
  "kind_name JNull = lit ''null''"
| "kind_name (JBool b) = lit ''bool''"
| "kind_name (JNumber raw) = lit ''number''"
| "kind_name (JString raw) = lit ''string''"
| "kind_name (JArray vs) = lit ''array''"
| "kind_name (JObject ms) = lit ''object''"

text \<open>A value of the wrong kind: \<open>null\<close> is ignored, anything else is a type error to remember.\<close>

definition wrong_kind :: "'a json_decoder" where
  "wrong_kind v x = (x, if v = JNull then Fine else Saved (ErrType (kind_name v)))"

text \<open>A scanned string always unquotes (\<open>unquote_raw_ok\<close>).\<close>

definition unquoted :: "bytes \<Rightarrow> bytes" where
  "unquoted raw = (case unquote raw of Some s \<Rightarrow> s | None \<Rightarrow> [])"

fun store_text :: "bytes json_decoder" where
  "store_text (JString raw) x = (unquoted raw, Fine)"
| "store_text v x = wrong_kind v x"

fun store_bool :: "bool json_decoder" where
  "store_bool (JBool b) x = (b, Fine)"
| "store_bool v x = wrong_kind v x"

definition number_error :: "bytes \<Rightarrow> status" where
  "number_error raw = Saved (ErrType (lit ''number '' @ raw))"

definition parse_natural :: "bytes \<Rightarrow> nat option" where
  "parse_natural s = (if s \<noteq> [] \<and> list_all is_digit s then Some (digits_value s) else None)"

text \<open>\<open>ParseInt\<close> and \<open>ParseUint\<close> to base 10 and 64 bits.\<close>

definition parse_integer :: "bytes \<Rightarrow> int option" where
  "parse_integer s =
     (case s of c # r \<Rightarrow> if c = 0x2D then map_option (\<lambda>n. - int n) (parse_natural r) else map_option
     int (parse_natural s)
      | [] \<Rightarrow> None)"

fun store_int :: "int64 json_decoder" where
  "store_int (JNumber raw) x =
     (case parse_integer raw of
        Some k \<Rightarrow> if - (2 ^ 63) \<le> k \<and> k < 2 ^ 63 then (word_of_int k, Fine) else (x, number_error raw)
      | None \<Rightarrow> (x, number_error raw))"
| "store_int v x = wrong_kind v x"

text \<open>An unsigned integer of any width: 64 bits, or the 8 of a byte.\<close>

fun store_uint :: "'w::len word json_decoder" where
  "store_uint (JNumber raw) x =
     (case parse_natural raw of
        Some k \<Rightarrow> if k < 2 ^ LENGTH('w) then (word_of_nat k, Fine) else (x, number_error raw)
      | None \<Rightarrow> (x, number_error raw))"
| "store_uint v x = wrong_kind v x"

definition zero_time :: go_time where
  "zero_time = \<lparr>t_sec = 0, t_nsec = 0, t_loc = None, t_mono = None\<rparr>"

fun store_time :: "zones \<Rightarrow> go_time json_decoder" where
  "store_time z JNull x = (x, Fine)"
| "store_time z (JString raw) x =
     (case time_UnmarshalJSON z raw of Some t \<Rightarrow> (t, Fine) | None \<Rightarrow> (zero_time, Fatal ErrTimeFormat))"
| "store_time z v x = (x, Fatal ErrNotString)"

text \<open>A slice being decoded: its elements, and the elements past its length that its array still holds. An
  array is decoded element by element into what the array holds at that place, \<open>zero\<close> beyond it.\<close>

type_synonym 'a slice = "'a list \<times> 'a list"

fun store_elements :: "'a \<Rightarrow> 'a json_decoder \<Rightarrow> jvalue list \<Rightarrow> 'a list \<Rightarrow>
    'a list \<times> nat \<times> status" where
  "store_elements zero dec [] xs = (xs, 0, Fine)"
| "store_elements zero dec (v # vs) xs =
     (case dec v (case xs of [] \<Rightarrow> zero | x # _ \<Rightarrow> x) of
        (y, s) \<Rightarrow>
          if stopped s then (y # tl xs, 1, s)
          else (case store_elements zero dec vs (tl xs) of (ys, n, s') \<Rightarrow> (y # ys, Suc n, merge_status s s')))"

fun store_slice :: "'a \<Rightarrow> 'a json_decoder \<Rightarrow> 'a slice json_decoder" where
  "store_slice zero dec JNull x = (([], []), Fine)"
| "store_slice zero dec (JArray vs) (seen, hidden) =
     (if vs = [] then (([], []), Fine)
      else case store_elements zero dec vs (seen @ hidden) of
        (ys, n, s) \<Rightarrow> let len = (if stopped s then max n (length seen) else n) in ((take len ys,
        drop len ys), s))"
| "store_slice zero dec v x = wrong_kind v x"

text \<open>A byte slice: a base64 string, \<open>null\<close>, or an array of numbers.\<close>

fun store_blob :: "byte slice json_decoder" where
  "store_blob (JString raw) x =
     (case b64_decode (unquoted raw) of Some bs \<Rightarrow> ((bs, []), Fine) | None \<Rightarrow> (x, Saved ErrBase64))"
| "store_blob v x = store_slice 0 store_uint v x"

text \<open>\<open>foldName\<close>, as far as it decides equality with an ASCII name: besides the ASCII letters,
    U+017F folds to
  \<open>S\<close> and U+212A to \<open>K\<close>.\<close>

fun fold_name :: "bytes \<Rightarrow> bytes" where
  "fold_name [] = []"
| "fold_name (a # r) =
     (if 0x61 \<le> a \<and> a \<le> 0x7A then (a - 0x20) # fold_name r
      else if a = 0xC5 \<and> r \<noteq> [] \<and> hd r = 0xBF then 0x53 # fold_name (tl r)
      else if a = 0xE2 \<and> take 2 r = [0x84, 0xAA] then 0x4B # fold_name (drop 2 r)
      else a # fold_name r)"

type_synonym 'r json_fields = "(bytes \<times> 'r json_decoder) list"

definition find_field :: "'r json_fields \<Rightarrow> bytes \<Rightarrow> 'r json_decoder option" where
  "find_field fs key =
     (case map_of fs key of
        Some d \<Rightarrow> Some d
      | None \<Rightarrow> map_of (map (\<lambda>(name, d). (fold_name name, d)) fs) (fold_name key))"

fun store_members :: "'r json_fields \<Rightarrow> (bytes \<times> jvalue) list \<Rightarrow> 'r \<Rightarrow>
    'r \<times> status" where
  "store_members fs [] r = (r, Fine)"
| "store_members fs ((k, v) # ms) r =
     (case find_field fs (unquoted k) of
        None \<Rightarrow> store_members fs ms r
      | Some dec \<Rightarrow>
          (case dec v r of
             (r', s) \<Rightarrow> if stopped s then (r', s)
               else (case store_members fs ms r' of (r'', s') \<Rightarrow> (r'', merge_status s s'))))"

fun store_struct :: "'r json_fields \<Rightarrow> 'r json_decoder" where
  "store_struct fs (JObject ms) r = store_members fs ms r"
| "store_struct fs v r = wrong_kind v r"

text \<open>A decoder at a field of a record, and at the slice made of a field and its hidden elements.\<close>

definition at_field :: "('r \<Rightarrow> 'a) \<Rightarrow> (('a \<Rightarrow> 'a) \<Rightarrow> 'r \<Rightarrow>
    'r) \<Rightarrow> 'a json_decoder \<Rightarrow> 'r json_decoder" where
  "at_field get upd dec v r = (case dec v (get r) of (x, s) \<Rightarrow> (upd (\<lambda>_. x) r, s))"

end
