(* ===== verification/Json_Contract.thy ===== *)
theory Json_Contract
  imports Json_Codec
begin

text \<open>
  The contract of an encoder with a decoder: what a value arrives as. The primitives provide it with equations
  that hold whatever the decoder stores into; \<open>json_codec\<close> states it for a type, and gives it to slices of the
  type.
\<close>

section \<open>Integers\<close>

lemma decimal_digits:
  "decimal n \<noteq> [] \<and> list_all is_digit (decimal n) \<and> digits_value (decimal n) = n \<and>
      (0 < n \<longrightarrow> hd (decimal n) \<noteq> 0x30)"
proof (induction n rule: decimal.induct)
  case (1 n)
  have digit_eq: "word_of_nat (48 + m) = digit m" if "m < 10" for m using that by (simp add: digit_def)
  show ?case
  proof (cases "n < 10")
    case True
    have "digit n \<noteq> 0x30" if "0 < n"
    proof
      assume "digit n = 0x30"
      then have "digit_value (digit n) = 0" by (simp add: digit_value_def)
      with that True show False by (simp add: digit_facts)
    qed
    moreover have "decimal n = [digit n]" using True by (simp add: decimal.simps [of n] digit_eq del: of_nat_add)
    ultimately show ?thesis using True by (simp add: digit_facts digits_value_def)
  next
    case False
    then have eq: "decimal n = decimal (n div 10) @ [digit n]"
      by (simp only: decimal.simps [of n] digit_def if_False)
    with 1 [OF False] False show ?thesis by (simp add: digits_value_snoc digit_facts)
  qed
qed

lemma parse_natural_decimal: "parse_natural (decimal n) = Some n"
  using decimal_digits [of n] by (simp add: parse_natural_def)

lemma decimal_0: "decimal 0 = [0x30]"
  by (simp add: decimal.simps)

lemma number_run_digits: "list_all is_digit s \<Longrightarrow> number_run NumInt s = Some NumInt"
  by (induction s) simp_all

lemma decimal_start:
  obtains c r where "decimal n = c # r" "number_run (if c = 0x30 then NumZero else NumInt) r = Some (if c =
      0x30 then NumZero else NumInt)"
    "is_digit c" "c \<noteq> 0x2D"
proof (cases "n = 0")
  case True
  then show thesis by (intro that [of "0x30" "[]"]) (simp_all add: decimal_0 is_digit_def)
next
  case False
  with decimal_digits [of n] obtain c r where "decimal n = c # r" "is_digit c" "c \<noteq> 0x30" "list_all is_digit r"
    by (cases "decimal n") auto
  moreover from this(2) have "c \<noteq> 0x2D" by (auto simp: is_digit_def)
  ultimately show thesis by (intro that [of c r]) (simp_all add: number_run_digits)
qed

lemma number_ok_decimal: "number_ok (decimal n)"
proof -
  obtain c r where "decimal n = c # r" "number_run (if c = 0x30 then NumZero else NumInt) r = Some (if c =
      0x30 then NumZero else NumInt)"
    "is_digit c" "c \<noteq> 0x2D" by (rule decimal_start)
  then show ?thesis by (auto simp: number_ok_def number_start_def number_final_def)
qed

lemma number_ok_int_text: "number_ok (int_text i)"
proof (cases "i < 0")
  case True
  obtain c r where "decimal (nat (- i)) = c # r" "number_run (if c = 0x30 then NumZero else NumInt) r = Some (if c =
      0x30 then NumZero else NumInt)"
    "is_digit c" "c \<noteq> 0x2D" by (rule decimal_start)
  then show ?thesis using True by (auto simp: int_text_def number_ok_def number_start_def number_final_def)
qed (simp add: int_text_def number_ok_decimal)

lemma parse_integer_int_text: "parse_integer (int_text i) = Some i"
proof (cases "i < 0")
  case False
  obtain c r where c: "decimal (nat i) = c # r" "c \<noteq> 0x2D" by (rule decimal_start [of "nat i"]) blast
  with False have "parse_integer (int_text i) = map_option int (parse_natural (decimal (nat i)))"
    by (simp add: parse_integer_def int_text_def)
  with False show ?thesis by (simp add: parse_natural_decimal)
qed (simp add: parse_integer_def int_text_def parse_natural_decimal)

section \<open>Primitives\<close>

named_theorems stores \<open>what a decoder stores of an encoded primitive\<close>

lemma store_text_json [stores]: "store_text (JString (quote s)) x = (sanitize s, Fine)"
  by (simp add: unquoted_def unquote_quote)

lemma store_int_json [stores]: "store_int (JNumber (int_text (sint i))) x = (i, Fine)"
  using sint_range_size [of i] by (simp add: parse_integer_int_text word_size)

lemma store_uint_json [stores]: "store_uint (JNumber (decimal (unat u))) x = (u, Fine)"
  by (simp add: parse_natural_decimal)

lemma store_bool_json [stores]: "store_bool (JBool b) x = (b, Fine)"
  by simp

lemma store_time_json:
  assumes "json_time z t = Inr v" and "wf_time t"
  shows "store_time z v x = (time_arrives z t, Fine)"
  using assms by (auto simp: json_time_def time_json_roundtrip split: sum.splits)

lemma unquote_plain: "list_all html_safe s \<Longrightarrow> unquote s = Some s"
  by (induction s) (auto simp: html_safe_def unquote.simps)

lemma b64_plain: "list_all (\<lambda>c. 0x20 \<le> c \<and> c < 0x80 \<and> c \<noteq> 0x22 \<and>
    c \<noteq> 0x5C) s \<Longrightarrow> unquote s = Some s \<and> raw_ok s"
  by (induction s) (auto simp: unquote.simps)

lemma b64_encode_text: "unquote (b64_encode s) = Some (b64_encode s)" "raw_ok (b64_encode s)"
  using b64_plain [of "b64_encode s"] b64_encode_clean [of _ s] by (auto simp: list_all_iff)

lemma store_blob_json [stores]:
  "store_blob (if bs = [] \<and> nil then JNull else JString (b64_encode bs)) x = ((bs, []), Fine)"
  by (simp add: unquoted_def b64_encode_text b64_decode_encode)

lemma json_ok_primitives [simp]:
  "json_ok (JString (quote s))" "json_ok (JNumber (int_text i))" "json_ok (JNumber (decimal n))"
  "json_ok (if bs = [] \<and> nil then JNull else JString (b64_encode bs))"
  by (simp_all add: raw_ok_quote number_ok_int_text number_ok_decimal b64_encode_text)

lemma json_time_ok: "json_time z t = Inr v \<Longrightarrow> json_ok v \<and> json_depth v = 0"
  by (auto simp: json_time_def time_MarshalJSON_raw_ok split: sum.splits)

section \<open>The contract\<close>

text \<open>\<open>view\<close> reads the value out of what the decoder works on;
    \<open>arrives\<close> is what a value comes back as, whatever
  the decoder stores into; \<open>levels\<close> bounds the nesting of its encoding.\<close>

locale json_codec =
  fixes enc :: "'a json_encoder" and dec :: "'d json_decoder" and view :: "'d \<Rightarrow> 'a"
    and good :: "'a \<Rightarrow> bool" and arrives :: "'a \<Rightarrow> 'a" and levels :: nat
  assumes enc_ok: "good x \<Longrightarrow> enc x = Inr v \<Longrightarrow> json_ok v \<and> json_depth v \<le> levels"
    and dec_enc: "good x \<Longrightarrow> enc x = Inr v \<Longrightarrow> snd (dec v d) = Fine \<and>
        view (fst (dec v d)) = arrives x"
begin

lemma stored:
  "enc x = Inr v \<Longrightarrow> good x \<Longrightarrow>
     (\<forall>d. snd (dec v d) = Fine \<and> view (fst (dec v d)) = arrives x) \<and> json_ok v \<and>
     json_depth v \<le> levels"
  using enc_ok dec_enc by blast

text \<open>The encoding printed, anything that cannot continue a number behind it, scanned and decoded.\<close>

lemma through_text:
  assumes "good x" and "enc x = Inr v" and "levels \<le> maxNestingDepth" and "rest = [] \<or> \<not> number_char (hd rest)"
  shows "scan (json_print v @ rest) = Inr v \<and> snd (dec v d) = Fine \<and> view (fst (dec v d)) = arrives x"
  using enc_ok [OF assms(1,2)] dec_enc [OF assms(1,2)] assms(3,4) by (simp add: scan_print_tree)

lemma all_encoded_ok:
  assumes "all_encoded (map enc xs) = Inr vs" and "list_all good xs"
  shows "length vs = length xs \<and> list_all json_ok vs \<and> (\<forall>v \<in> set vs. json_depth v \<le> levels)"
  using assms
proof (induction xs arbitrary: vs)
  case (Cons x xs)
  then obtain v ws where "enc x = Inr v" "all_encoded (map enc xs) = Inr ws" "vs = v # ws"
    by (cases "enc x") (auto split: sum.splits)
  with Cons enc_ok [of x v] show ?case by auto
qed simp

lemma store_elements_encoded:
  assumes "all_encoded (map enc xs) = Inr vs" and "list_all good xs"
  shows "\<exists>ys. store_elements zero dec vs old = (ys, length xs, Fine) \<and> map view (take (length xs) ys) =
      map arrives xs"
  using assms
proof (induction xs arbitrary: vs old)
  case (Cons x xs)
  then obtain v ws where v: "enc x = Inr v" and ws: "all_encoded (map enc xs) = Inr ws" "vs = v # ws"
    by (cases "enc x") (auto split: sum.splits)
  let ?d = "case old of [] \<Rightarrow> zero | x # _ \<Rightarrow> x"
  have "good x" "list_all good xs" using Cons.prems(2) by simp_all
  from dec_enc [OF this(1) v, of ?d] obtain y where y: "dec v ?d = (y, Fine)" "view y = arrives x"
    by (cases "dec v ?d") simp
  obtain ys where "store_elements zero dec ws (tl old) = (ys, length xs, Fine)" "map view (take (length xs) ys) =
      map arrives xs"
    using Cons.IH [OF ws(1) \<open>list_all good xs\<close>, of "tl old"] by blast
  with y show ?case by (simp add: ws(2) stopped_def)
qed simp

end

text \<open>Slices of the type.\<close>

locale json_list_codec = json_codec enc dec view good arrives levels
  for enc :: "'a json_encoder" and dec :: "'d json_decoder" and view :: "'d \<Rightarrow> 'a"
    and good :: "'a \<Rightarrow> bool" and arrives :: "'a \<Rightarrow> 'a" and levels :: nat +
  fixes nil :: bool and zero :: 'd

sublocale json_list_codec \<subseteq> items: json_codec "json_list nil enc" "store_slice zero dec" "\<lambda>s. map view
    (fst s)"
  "list_all good" "map arrives" "Suc levels"
proof (unfold_locales, goal_cases)
  case (1 xs v)
  show ?case
  proof (cases "xs = [] \<and> nil")
    case False
    with 1 obtain vs where vs: "all_encoded (map enc xs) = Inr vs" "v = JArray vs"
      by (auto simp: json_list_def split: sum.splits if_splits)
    with all_encoded_ok [OF vs(1) 1(1)] have "fold max (map json_depth vs) 0 \<le> levels"
      by (intro fold_max_bound) auto
    with all_encoded_ok [OF vs(1) 1(1)] vs(2) show ?thesis by simp
  qed (use 1 in \<open>simp add: json_list_def\<close>)
next
  case (2 xs v d)
  show ?case
  proof (cases "xs = []")
    case True
    with 2 show ?thesis by (cases d) (auto simp: json_list_def split: if_splits)
  next
    case False
    with 2 obtain vs where vs: "all_encoded (map enc xs) = Inr vs" "v = JArray vs"
      by (auto simp: json_list_def split: sum.splits)
    obtain seen hidden where d: "d = (seen, hidden)" by (cases d)
    obtain ys where ys: "store_elements zero dec vs (seen @ hidden) = (ys, length xs, Fine)"
        "map view (take (length xs) ys) = map arrives xs"
      using store_elements_encoded [OF vs(1) 2(1)] by blast
    have "vs \<noteq> []" using all_encoded_ok [OF vs(1) 2(1)] False by auto
    with ys show ?thesis by (simp add: vs(2) d stopped_def Let_def)
  qed
qed

section \<open>Structs\<close>

text \<open>A decoder of a message works on the message and the elements its slices hide.\<close>

definition in_message :: "('r \<Rightarrow> 'a) \<Rightarrow> (('a \<Rightarrow> 'a) \<Rightarrow> 'r \<Rightarrow>
    'r) \<Rightarrow> 'a json_decoder \<Rightarrow> ('r \<times> 'h) json_decoder" where
  "in_message get upd dec v r = (case dec v (get (fst r)) of (x, s) \<Rightarrow> ((upd (\<lambda>_. x) (fst r), snd r), s))"

definition in_slice ::
  "('r \<Rightarrow> 'a) \<Rightarrow> (('a \<Rightarrow> 'a) \<Rightarrow> 'r \<Rightarrow> 'r) \<Rightarrow>
      ('h \<Rightarrow> 'b) \<Rightarrow> (('b \<Rightarrow> 'b) \<Rightarrow> 'h \<Rightarrow> 'h) \<Rightarrow>
      ('a \<times> 'b) json_decoder \<Rightarrow> ('r \<times> 'h) json_decoder" where
  "in_slice get upd hget hupd dec v r =
     (case dec v (get (fst r), hget (snd r)) of ((x, y), s) \<Rightarrow> ((upd (\<lambda>_. x) (fst r),
     hupd (\<lambda>_. y) (snd r)), s))"

text \<open>The members of an encoded struct find their fields: the names are distinct and need no escaping.\<close>

definition plain_names :: "'r json_fields \<Rightarrow> bool" where
  "plain_names fs \<longleftrightarrow> distinct (map fst fs) \<and> list_all (\<lambda>(name,
      _). list_all html_safe name) fs"

fun store_all :: "('r json_decoder \<times> jvalue) list \<Rightarrow> 'r \<Rightarrow> 'r \<times> status" where
  "store_all [] r = (r, Fine)"
| "store_all ((dec, v) # ms) r =
     (case dec v r of (r', s) \<Rightarrow> if stopped s then (r',
     s) else (case store_all ms r' of (r'', s') \<Rightarrow> (r'', merge_status s s')))"

lemma find_field_plain:
  assumes "plain_names fs" and "(name, dec) \<in> set fs"
  shows "find_field fs (unquoted name) = Some dec"
proof -
  have "list_all html_safe name" using assms by (auto simp: plain_names_def list_all_iff)
  then have "unquoted name = name" by (simp add: unquoted_def unquote_plain)
  moreover have "map_of fs name = Some dec" using assms by (auto simp: plain_names_def)
  ultimately show ?thesis by (simp add: find_field_def)
qed

lemma store_members_all:
  assumes "plain_names fs" and "set gs \<subseteq> set fs" and "length vs = length gs"
  shows "store_members fs (zip (map fst gs) vs) r = store_all (zip (map snd gs) vs) r"
  using assms(3,2)
proof (induction vs gs arbitrary: r rule: list_induct2)
  case (Cons v vs g gs)
  then show ?case using find_field_plain [OF assms(1), of "fst g" "snd g"] by (simp split: prod.splits)
qed simp

lemma all_encoded_length: "all_encoded es = Inr vs \<Longrightarrow> length vs = length es"
  by (induction es arbitrary: vs rule: all_encoded.induct) (auto split: sum.splits)

lemma json_struct_ok:
  assumes "plain_names fs" and "list_all json_ok vs" and "\<And>v. v \<in> set vs \<Longrightarrow> json_depth v \<le> n"
  shows "json_ok (JObject (zip (map fst fs) vs)) \<and> json_depth (JObject (zip (map fst fs) vs)) \<le> Suc n"
proof -
  have "raw_ok name" if "(name, v) \<in> set (zip (map fst fs) vs)" for name v
  proof -
    have "name \<in> fst ` set fs" using in_set_zipE [OF that] by auto
    with assms(1) have "list_all html_safe name" by (auto simp: plain_names_def list_all_iff)
    then show ?thesis by (intro raw_ok_plain) (auto simp: list_all_iff html_safe_def)
  qed
  moreover have "json_ok v" "json_depth v \<le> n" if "(name, v) \<in> set (zip (map fst fs) vs)" for name v
    using assms(2,3) set_zip_rightD [OF that] by (auto simp: list_all_iff)
  ultimately show ?thesis by (auto simp: list_all_iff intro!: fold_max_bound)
qed

lemma json_struct_split:
  assumes "json_struct (zip (map fst fs) es) = Inr v" and "length es = length fs"
  obtains vs where "all_encoded es = Inr vs" "length vs = length fs" "v = JObject (zip (map fst fs) vs)"
  using assms all_encoded_length [of es] by (auto split: sum.splits)

lemma store_struct_all:
  assumes "plain_names fs" and "length vs = length fs"
  shows "store_struct fs (JObject (zip (map fst fs) vs)) r = store_all (zip (map snd fs) vs) r"
  using store_members_all [OF assms(1) subset_refl assms(2)] by simp

text \<open>So a struct keeps the contract when its fields, decoded one after the other, give the value.\<close>

lemma struct_codec:
  assumes "plain_names fs" and enc: "\<And>x. enc x = json_struct (zip (map fst fs) (es x))" and len: "\<And>x. length
      (es x) = length fs"
    and ok: "\<And>x vs. good x \<Longrightarrow> all_encoded (es x) = Inr vs \<Longrightarrow>
        list_all (\<lambda>v. json_ok v \<and> json_depth v \<le> n) vs"
    and store: "\<And>x vs d. good x \<Longrightarrow> all_encoded (es x) = Inr vs \<Longrightarrow>
      snd (store_all (zip (map snd fs) vs) d) = Fine \<and> view (fst (store_all (zip (map snd fs) vs) d)) = arrives x"
  shows "json_codec enc (store_struct fs) view good arrives (Suc n)"
proof (unfold_locales, goal_cases)
  case (1 x v)
  from 1(2) obtain vs where "all_encoded (es x) = Inr vs" "v = JObject (zip (map fst fs) vs)"
    unfolding enc by (rule json_struct_split) (rule len)
  with ok [OF 1(1) this(1)] show ?case
    unfolding \<open>v = _\<close> by (intro json_struct_ok [OF assms(1)]) (auto simp: list_all_iff)
next
  case (2 x v d)
  from 2(2) obtain vs where vs: "all_encoded (es x) = Inr vs" "length vs = length fs" "v = JObject (zip (map fst fs) vs)"
    unfolding enc by (rule json_struct_split) (rule len)
  from store [OF 2(1) vs(1), of d] show ?case unfolding vs(3) store_struct_all [OF assms(1) vs(2)] .
qed

lemma json_time_stores:
  "json_time z t = Inr v \<Longrightarrow> wf_time t \<Longrightarrow> (\<forall>x. store_time z v x =
      (time_arrives z t, Fine)) \<and> json_ok v \<and> json_depth v = 0"
  using store_time_json json_time_ok by blast

lemma json_blob_depth [simp]: "json_depth (if bs = [] \<and> nil then JNull else JString (b64_encode bs)) = 0"
  by simp

lemma not_stopped_Fine [simp]: "\<not> stopped Fine"
  by (simp add: stopped_def)

lemma all_encoded_Cons_iff: "all_encoded (r # rs) = Inr ws \<longleftrightarrow> (\<exists>v vs. r = Inr v \<and>
    all_encoded rs = Inr vs \<and> ws = v # vs)"
  by (cases r) (auto split: sum.splits)

declare all_encoded.simps(2,3) [simp del]

text \<open>The simplification rules of the fields of a struct: what they encode to, and what decoding them stores.\<close>

lemmas encode_simps = all_encoded_Cons_iff json_text_def json_int_def json_uint_def json_bool_def json_blob_def
  raw_ok_quote number_ok_int_text number_ok_decimal b64_encode_text

lemmas store_simps = all_encoded_Cons_iff json_text_def json_int_def json_uint_def json_bool_def json_blob_def
  stores at_field_def in_message_def in_slice_def split_beta

end
