(* ===== verification/Json_Messages.thy ===== *)
theory Json_Messages
  imports Json_Contract Http_Transport
begin

text \<open>
  The six types the transport carries, as \<open>encoding/json\<close> sees them: the exported fields of each struct in
  declaration order, under their Go names. For a type \<open>T\<close>, \<open>T_json\<close> is its encoder,
      \<open>T_fields\<close> the decoders of its
  fields, and \<open>T_arrives\<close> what a value comes back as. A struct with slices is decoded together with the
  elements its slices hide. \<open>go_json\<close> is the codec record of \<open>Http_Transport\<close> built from them.
\<close>

section \<open>Parts of messages\<close>

definition PrinterCapability_json :: "PrinterCapability json_encoder" where
  "PrinterCapability_json p = json_struct
     [(lit ''Kind'', json_text (pc_Kind p)), (lit ''Model'', json_text (pc_Model p))]"

definition PrinterCapability_fields :: "PrinterCapability json_fields" where
  "PrinterCapability_fields =
     [(lit ''Kind'', at_field pc_Kind pc_Kind_update store_text),
      (lit ''Model'', at_field pc_Model pc_Model_update store_text)]"

definition PrinterCapability_arrives :: "PrinterCapability \<Rightarrow> PrinterCapability" where
  "PrinterCapability_arrives p =
     p\<lparr>pc_Kind := sanitize (pc_Kind p), pc_Model := sanitize (pc_Model p)\<rparr>"

lemma PrinterCapability_names: "plain_names PrinterCapability_fields"
  by (simp add: plain_names_def PrinterCapability_fields_def) (simp add: lit_def html_safe_def)

interpretation PrinterCapability_codec: json_codec "PrinterCapability_json" "store_struct PrinterCapability_fields"
    "\<lambda>x. x"
  "\<lambda>_. True" "PrinterCapability_arrives" "Suc 0"
proof (rule struct_codec [OF PrinterCapability_names, where es = "\<lambda>p. [json_text (pc_Kind p),
    json_text (pc_Model p)]"], goal_cases)
  case (4 p vs d)
  then show ?case
    by (cases d) (auto simp: store_simps PrinterCapability_fields_def PrinterCapability_arrives_def
        simp del: store_text.simps store_uint.simps store_int.simps store_blob.simps if_split)
qed (auto simp: PrinterCapability_json_def PrinterCapability_fields_def encode_simps)

definition GPUCapability_json :: "GPUCapability json_encoder" where
  "GPUCapability_json g = json_struct
     [(lit ''API'', json_text (gc_API g)), (lit ''Model'', json_text (gc_Model g)),
      (lit ''VRAMMB'', json_int (gc_VRAMMB g))]"

definition GPUCapability_fields :: "GPUCapability json_fields" where
  "GPUCapability_fields =
     [(lit ''API'', at_field gc_API gc_API_update store_text),
      (lit ''Model'', at_field gc_Model gc_Model_update store_text),
      (lit ''VRAMMB'', at_field gc_VRAMMB gc_VRAMMB_update store_int)]"

definition GPUCapability_arrives :: "GPUCapability \<Rightarrow> GPUCapability" where
  "GPUCapability_arrives g =
     g\<lparr>gc_API := sanitize (gc_API g), gc_Model := sanitize (gc_Model g)\<rparr>"

lemma GPUCapability_names: "plain_names GPUCapability_fields"
  by (simp add: plain_names_def GPUCapability_fields_def) (simp add: lit_def html_safe_def)

interpretation GPUCapability_codec: json_codec "GPUCapability_json" "store_struct GPUCapability_fields" "\<lambda>x. x"
  "\<lambda>_. True" "GPUCapability_arrives" "Suc 0"
proof (rule struct_codec [OF GPUCapability_names, where es = "\<lambda>g. [json_text (gc_API g), json_text (gc_Model g),
    json_int (gc_VRAMMB g)]"], goal_cases)
  case (4 g vs d)
  then show ?case
    by (cases d) (auto simp: store_simps GPUCapability_fields_def GPUCapability_arrives_def
        simp del: store_text.simps store_uint.simps store_int.simps store_blob.simps if_split)
qed (auto simp: GPUCapability_json_def GPUCapability_fields_def encode_simps)

definition Capacity_json :: "Capacity json_encoder" where
  "Capacity_json c = json_struct
     [(lit ''VCPUs'', json_int (ca_VCPUs c)), (lit ''MemMB'', json_int (ca_MemMB c)),
      (lit ''DiskMB'', json_int (ca_DiskMB c)), (lit ''StorageCommitMB'', json_int (ca_StorageCommitMB c)),
      (lit ''PrintQPS'', json_int (ca_PrintQPS c))]"

definition Capacity_fields :: "Capacity json_fields" where
  "Capacity_fields =
     [(lit ''VCPUs'', at_field ca_VCPUs ca_VCPUs_update store_int),
      (lit ''MemMB'', at_field ca_MemMB ca_MemMB_update store_int),
      (lit ''DiskMB'', at_field ca_DiskMB ca_DiskMB_update store_int),
      (lit ''StorageCommitMB'', at_field ca_StorageCommitMB ca_StorageCommitMB_update store_int),
      (lit ''PrintQPS'', at_field ca_PrintQPS ca_PrintQPS_update store_int)]"

lemma Capacity_names: "plain_names Capacity_fields"
  by (simp add: plain_names_def Capacity_fields_def) (simp add: lit_def html_safe_def)

interpretation Capacity_codec: json_codec "Capacity_json" "store_struct Capacity_fields" "\<lambda>x. x"
  "\<lambda>_. True" "\<lambda>x. x" "Suc 0"
proof (rule struct_codec [OF Capacity_names, where es = "\<lambda>c. [json_int (ca_VCPUs c), json_int (ca_MemMB c),
    json_int (ca_DiskMB c), json_int (ca_StorageCommitMB c),
    json_int (ca_PrintQPS c)]"], goal_cases)
  case (4 c vs d)
  then show ?case
    by (cases d) (auto simp: store_simps Capacity_fields_def
        simp del: store_text.simps store_uint.simps store_int.simps store_blob.simps if_split)
qed (auto simp: Capacity_json_def Capacity_fields_def encode_simps)

definition WorkloadOptIn_json :: "WorkloadOptIn json_encoder" where
  "WorkloadOptIn_json w = json_struct
     [(lit ''Compute'', json_bool (oi_Compute w)), (lit ''Print'', json_bool (oi_Print w)),
      (lit ''Storage'', json_bool (oi_Storage w))]"

definition WorkloadOptIn_fields :: "WorkloadOptIn json_fields" where
  "WorkloadOptIn_fields =
     [(lit ''Compute'', at_field oi_Compute oi_Compute_update store_bool),
      (lit ''Print'', at_field oi_Print oi_Print_update store_bool),
      (lit ''Storage'', at_field oi_Storage oi_Storage_update store_bool)]"

lemma WorkloadOptIn_names: "plain_names WorkloadOptIn_fields"
  by (simp add: plain_names_def WorkloadOptIn_fields_def) (simp add: lit_def html_safe_def)

interpretation WorkloadOptIn_codec: json_codec "WorkloadOptIn_json" "store_struct WorkloadOptIn_fields" "\<lambda>x. x"
  "\<lambda>_. True" "\<lambda>x. x" "Suc 0"
proof (rule struct_codec [OF WorkloadOptIn_names, where es = "\<lambda>w. [json_bool (oi_Compute w),
    json_bool (oi_Print w), json_bool (oi_Storage w)]"], goal_cases)
  case (4 w vs d)
  then show ?case
    by (cases d) (auto simp: store_simps WorkloadOptIn_fields_def
        simp del: store_text.simps store_uint.simps store_int.simps store_blob.simps if_split)
qed (auto simp: WorkloadOptIn_json_def WorkloadOptIn_fields_def encode_simps)

definition Terms_json :: "Terms json_encoder" where
  "Terms_json t = json_struct
     [(lit ''ContributorShareBps'', json_int (ft_ContributorShareBps t)),
      (lit ''PlatformFeeBps'', json_int (ft_PlatformFeeBps t))]"

definition Terms_fields :: "Terms json_fields" where
  "Terms_fields =
     [(lit ''ContributorShareBps'', at_field ft_ContributorShareBps ft_ContributorShareBps_update store_int),
      (lit ''PlatformFeeBps'', at_field ft_PlatformFeeBps ft_PlatformFeeBps_update store_int)]"

lemma Terms_names: "plain_names Terms_fields"
  by (simp add: plain_names_def Terms_fields_def) (simp add: lit_def html_safe_def)

interpretation Terms_codec: json_codec "Terms_json" "store_struct Terms_fields" "\<lambda>x. x"
  "\<lambda>_. True" "\<lambda>x. x" "Suc 0"
proof (rule struct_codec [OF Terms_names, where es = "\<lambda>t. [json_int (ft_ContributorShareBps t),
    json_int (ft_PlatformFeeBps t)]"], goal_cases)
  case (4 t vs d)
  then show ?case
    by (cases d) (auto simp: store_simps Terms_fields_def
        simp del: store_text.simps store_uint.simps store_int.simps store_blob.simps if_split)
qed (auto simp: Terms_json_def Terms_fields_def encode_simps)

text \<open>Slices of strings, printers and GPUs.\<close>

interpretation text_codec: json_codec json_text store_text "\<lambda>x. x" "\<lambda>_. True" sanitize 0
  by unfold_locales (auto simp: encode_simps stores simp del: store_text.simps)

interpretation texts_codec: json_list_codec json_text store_text "\<lambda>x. x" "\<lambda>_. True" sanitize 0 nil
    "[]" for nil
  by unfold_locales

definition zero_PrinterCapability :: PrinterCapability where
  "zero_PrinterCapability = \<lparr>pc_Kind = [], pc_Model = []\<rparr>"

definition zero_GPUCapability :: GPUCapability where
  "zero_GPUCapability = \<lparr>gc_API = [], gc_Model = [], gc_VRAMMB = 0\<rparr>"

interpretation printers_codec: json_list_codec PrinterCapability_json "store_struct PrinterCapability_fields" "\<lambda>x. x"
  "\<lambda>_. True" PrinterCapability_arrives "Suc 0" nil zero_PrinterCapability for nil
  by unfold_locales

interpretation gpus_codec: json_list_codec GPUCapability_json "store_struct GPUCapability_fields" "\<lambda>x. x"
  "\<lambda>_. True" GPUCapability_arrives "Suc 0" nil zero_GPUCapability for nil
  by unfold_locales

lemmas Capacity_stored = Capacity_codec.stored [OF _ TrueI]
lemmas WorkloadOptIn_stored = WorkloadOptIn_codec.stored [OF _ TrueI]
lemmas Terms_stored = Terms_codec.stored [OF _ TrueI]
lemmas texts_stored = texts_codec.items.stored [OF _ list.pred_True [THEN fun_cong, THEN eqTrueE]]
lemmas printers_stored = printers_codec.items.stored [OF _ list.pred_True [THEN fun_cong, THEN eqTrueE]]
lemmas gpus_stored = gpus_codec.items.stored [OF _ list.pred_True [THEN fun_cong, THEN eqTrueE]]

definition JobSpec_json :: "bool \<Rightarrow> JobSpec json_encoder" where
  "JobSpec_json nil s = json_struct
     [(lit ''Workload'', json_text (js_Workload s)), (lit ''Image'', json_text (js_Image s)),
      (lit ''Args'', json_list nil json_text (js_Args s)), (lit ''PrinterKind'', json_text (js_PrinterKind s)),
      (lit ''GPUAPI'', json_text (js_GPUAPI s)), (lit ''GPUMinVRAMMB'', json_int (js_GPUMinVRAMMB s))]"

definition JobSpec_fields :: "(JobSpec \<times> bytes list) json_fields" where
  "JobSpec_fields =
     [(lit ''Workload'', in_message js_Workload js_Workload_update store_text),
      (lit ''Image'', in_message js_Image js_Image_update store_text),
      (lit ''Args'', in_slice js_Args js_Args_update id id (store_slice [] store_text)),
      (lit ''PrinterKind'', in_message js_PrinterKind js_PrinterKind_update store_text),
      (lit ''GPUAPI'', in_message js_GPUAPI js_GPUAPI_update store_text),
      (lit ''GPUMinVRAMMB'', in_message js_GPUMinVRAMMB js_GPUMinVRAMMB_update store_int)]"

definition JobSpec_arrives :: "JobSpec \<Rightarrow> JobSpec" where
  "JobSpec_arrives s =
     s\<lparr>js_Workload := sanitize (js_Workload s), js_Image := sanitize (js_Image s), js_Args :=
     map sanitize (js_Args s),
     js_PrinterKind := sanitize (js_PrinterKind s), js_GPUAPI := sanitize (js_GPUAPI s)\<rparr>"

lemma JobSpec_names: "plain_names JobSpec_fields"
  by (simp add: plain_names_def JobSpec_fields_def) (simp add: lit_def html_safe_def)

interpretation JobSpec_codec: json_codec "JobSpec_json nil" "store_struct JobSpec_fields" fst
  "\<lambda>_. True" "JobSpec_arrives" "Suc (Suc 0)" for nil
proof (rule struct_codec [OF JobSpec_names, where es = "\<lambda>s. [json_text (js_Workload s), json_text (js_Image s),
    json_list nil json_text (js_Args s),
    json_text (js_PrinterKind s), json_text (js_GPUAPI s), json_int (js_GPUMinVRAMMB s)]"], goal_cases)
  case (4 s vs d)
  then show ?case
    by (cases d) (auto simp: store_simps JobSpec_fields_def JobSpec_arrives_def
        simp del: store_text.simps store_uint.simps store_int.simps store_blob.simps if_split dest!: texts_stored)
qed (auto simp: JobSpec_json_def JobSpec_fields_def encode_simps dest!: texts_stored)

lemmas JobSpec_stored = JobSpec_codec.stored [OF _ TrueI]

section \<open>Messages\<close>

definition Heartbeat_json :: "zones \<Rightarrow> bool \<Rightarrow> Heartbeat json_encoder" where
  "Heartbeat_json z nil h = json_struct
     [(lit ''NodeID'', json_text (hb_NodeID h)), (lit ''SentAt'', json_time z (hb_SentAt h)),
      (lit ''Seq'', json_uint (hb_Seq h)), (lit ''Signature'', json_blob nil (hb_Signature h))]"

definition Heartbeat_fields :: "zones \<Rightarrow> (Heartbeat \<times> bytes) json_fields" where
  "Heartbeat_fields z =
     [(lit ''NodeID'', in_message hb_NodeID hb_NodeID_update store_text),
      (lit ''SentAt'', in_message hb_SentAt hb_SentAt_update (store_time z)),
      (lit ''Seq'', in_message hb_Seq hb_Seq_update store_uint),
      (lit ''Signature'', in_slice hb_Signature hb_Signature_update id id store_blob)]"

definition Heartbeat_arrives :: "zones \<Rightarrow> Heartbeat \<Rightarrow> Heartbeat" where
  "Heartbeat_arrives z h =
     h\<lparr>hb_NodeID := sanitize (hb_NodeID h), hb_SentAt := time_arrives z (hb_SentAt h)\<rparr>"

lemma Heartbeat_names: "plain_names (Heartbeat_fields z)"
  by (simp add: plain_names_def Heartbeat_fields_def) (simp add: lit_def html_safe_def)

interpretation Heartbeat_codec: json_codec "Heartbeat_json z nil" "store_struct (Heartbeat_fields z)" fst
  "\<lambda>h. wf_time (hb_SentAt h)" "Heartbeat_arrives z" "Suc 0" for z nil
proof (rule struct_codec [OF Heartbeat_names, where es = "\<lambda>h. [json_text (hb_NodeID h),
    json_time z (hb_SentAt h), json_uint (hb_Seq h), json_blob nil (hb_Signature h)]"], goal_cases)
  case (4 h vs d)
  then show ?case
    by (cases d) (auto simp: store_simps Heartbeat_fields_def Heartbeat_arrives_def
        simp del: store_text.simps store_uint.simps store_int.simps store_blob.simps if_split dest!: json_time_stores)
qed (auto simp: Heartbeat_json_def Heartbeat_fields_def encode_simps dest!: json_time_stores)

definition Decline_json :: "zones \<Rightarrow> bool \<Rightarrow> Decline json_encoder" where
  "Decline_json z nil d = json_struct
     [(lit ''JobID'', json_text (dc_JobID d)), (lit ''NodeID'', json_text (dc_NodeID d)),
      (lit ''Reason'', json_text (dc_Reason d)), (lit ''DeclinedAt'', json_time z (dc_DeclinedAt d)),
      (lit ''Signature'', json_blob nil (dc_Signature d))]"

definition Decline_fields :: "zones \<Rightarrow> (Decline \<times> bytes) json_fields" where
  "Decline_fields z =
     [(lit ''JobID'', in_message dc_JobID dc_JobID_update store_text),
      (lit ''NodeID'', in_message dc_NodeID dc_NodeID_update store_text),
      (lit ''Reason'', in_message dc_Reason dc_Reason_update store_text),
      (lit ''DeclinedAt'', in_message dc_DeclinedAt dc_DeclinedAt_update (store_time z)),
      (lit ''Signature'', in_slice dc_Signature dc_Signature_update id id store_blob)]"

definition Decline_arrives :: "zones \<Rightarrow> Decline \<Rightarrow> Decline" where
  "Decline_arrives z d =
     d\<lparr>dc_JobID := sanitize (dc_JobID d), dc_NodeID := sanitize (dc_NodeID d), dc_Reason := sanitize (dc_Reason d),
     dc_DeclinedAt := time_arrives z (dc_DeclinedAt d)\<rparr>"

lemma Decline_names: "plain_names (Decline_fields z)"
  by (simp add: plain_names_def Decline_fields_def) (simp add: lit_def html_safe_def)

interpretation Decline_codec: json_codec "Decline_json z nil" "store_struct (Decline_fields z)" fst
  "\<lambda>d. wf_time (dc_DeclinedAt d)" "Decline_arrives z" "Suc 0" for z nil
proof (rule struct_codec [OF Decline_names, where es = "\<lambda>d. [json_text (dc_JobID d), json_text (dc_NodeID d),
    json_text (dc_Reason d), json_time z (dc_DeclinedAt d),
    json_blob nil (dc_Signature d)]"], goal_cases)
  case (4 d vs d)
  then show ?case
    by (cases d) (auto simp: store_simps Decline_fields_def Decline_arrives_def
        simp del: store_text.simps store_uint.simps store_int.simps store_blob.simps if_split dest!: json_time_stores)
qed (auto simp: Decline_json_def Decline_fields_def encode_simps dest!: json_time_stores)

definition JobReport_json :: "zones \<Rightarrow> bool \<Rightarrow> JobReport json_encoder" where
  "JobReport_json z nil r = json_struct
     [(lit ''JobID'', json_text (jr_JobID r)), (lit ''NodeID'', json_text (jr_NodeID r)),
      (lit ''ExitCode'', json_int (jr_ExitCode r)), (lit ''FailureCause'', json_text (jr_FailureCause r)),
      (lit ''TmpfsExhausted'', json_bool (jr_TmpfsExhausted r)), (lit ''StartedAt'', json_time z (jr_StartedAt r)),
      (lit ''FinishedAt'', json_time z (jr_FinishedAt r)), (lit ''Signature'', json_blob nil (jr_Signature r))]"

definition JobReport_fields :: "zones \<Rightarrow> (JobReport \<times> bytes) json_fields" where
  "JobReport_fields z =
     [(lit ''JobID'', in_message jr_JobID jr_JobID_update store_text),
      (lit ''NodeID'', in_message jr_NodeID jr_NodeID_update store_text),
      (lit ''ExitCode'', in_message jr_ExitCode jr_ExitCode_update store_int),
      (lit ''FailureCause'', in_message jr_FailureCause jr_FailureCause_update store_text),
      (lit ''TmpfsExhausted'', in_message jr_TmpfsExhausted jr_TmpfsExhausted_update store_bool),
      (lit ''StartedAt'', in_message jr_StartedAt jr_StartedAt_update (store_time z)),
      (lit ''FinishedAt'', in_message jr_FinishedAt jr_FinishedAt_update (store_time z)),
      (lit ''Signature'', in_slice jr_Signature jr_Signature_update id id store_blob)]"

definition JobReport_arrives :: "zones \<Rightarrow> JobReport \<Rightarrow> JobReport" where
  "JobReport_arrives z r =
     r\<lparr>jr_JobID := sanitize (jr_JobID r), jr_NodeID := sanitize (jr_NodeID r),
     jr_FailureCause := sanitize (jr_FailureCause r), jr_StartedAt := time_arrives z (jr_StartedAt r),
     jr_FinishedAt := time_arrives z (jr_FinishedAt r)\<rparr>"

lemma JobReport_names: "plain_names (JobReport_fields z)"
  by (simp add: plain_names_def JobReport_fields_def) (simp add: lit_def html_safe_def)

interpretation JobReport_codec: json_codec "JobReport_json z nil" "store_struct (JobReport_fields z)" fst
  "\<lambda>r. wf_time (jr_StartedAt r) \<and> wf_time (jr_FinishedAt r)" "JobReport_arrives z" "Suc 0" for z nil
proof (rule struct_codec [OF JobReport_names, where es = "\<lambda>r. [json_text (jr_JobID r), json_text (jr_NodeID r),
    json_int (jr_ExitCode r), json_text (jr_FailureCause r),
    json_bool (jr_TmpfsExhausted r), json_time z (jr_StartedAt r), json_time z (jr_FinishedAt r),
    json_blob nil (jr_Signature r)]"], goal_cases)
  case (4 r vs d)
  then show ?case
    by (cases d) (auto simp: store_simps JobReport_fields_def JobReport_arrives_def
        simp del: store_text.simps store_uint.simps store_int.simps store_blob.simps if_split dest!: json_time_stores)
qed (auto simp: JobReport_json_def JobReport_fields_def encode_simps dest!: json_time_stores)

definition FeeDeclaration_json :: "zones \<Rightarrow> bool \<Rightarrow> FeeDeclaration json_encoder" where
  "FeeDeclaration_json z nil f = json_struct
     [(lit ''CoordinatorID'', json_text (fd_CoordinatorID f)), (lit ''Terms'', Terms_json (fd_Terms f)),
      (lit ''EffectiveAt'', json_time z (fd_EffectiveAt f)), (lit ''Seq'', json_uint (fd_Seq f)),
      (lit ''Signature'', json_blob nil (fd_Signature f))]"

definition FeeDeclaration_fields :: "zones \<Rightarrow> (FeeDeclaration \<times> bytes) json_fields" where
  "FeeDeclaration_fields z =
     [(lit ''CoordinatorID'', in_message fd_CoordinatorID fd_CoordinatorID_update store_text),
      (lit ''Terms'', in_message fd_Terms fd_Terms_update (store_struct Terms_fields)),
      (lit ''EffectiveAt'', in_message fd_EffectiveAt fd_EffectiveAt_update (store_time z)),
      (lit ''Seq'', in_message fd_Seq fd_Seq_update store_uint),
      (lit ''Signature'', in_slice fd_Signature fd_Signature_update id id store_blob)]"

definition FeeDeclaration_arrives :: "zones \<Rightarrow> FeeDeclaration \<Rightarrow> FeeDeclaration" where
  "FeeDeclaration_arrives z f =
     f\<lparr>fd_CoordinatorID := sanitize (fd_CoordinatorID f), fd_EffectiveAt := time_arrives z (fd_EffectiveAt f)\<rparr>"

lemma FeeDeclaration_names: "plain_names (FeeDeclaration_fields z)"
  by (simp add: plain_names_def FeeDeclaration_fields_def) (simp add: lit_def html_safe_def)

interpretation FeeDeclaration_codec: json_codec "FeeDeclaration_json z nil" "store_struct (FeeDeclaration_fields z)" fst
  "\<lambda>f. wf_time (fd_EffectiveAt f)" "FeeDeclaration_arrives z" "Suc (Suc 0)" for z nil
proof (rule struct_codec [OF FeeDeclaration_names, where es = "\<lambda>f. [json_text (fd_CoordinatorID f),
    Terms_json (fd_Terms f), json_time z (fd_EffectiveAt f), json_uint (fd_Seq f),
    json_blob nil (fd_Signature f)]"], goal_cases)
  case (4 f vs d)
  then show ?case
    by (cases d) (auto simp: store_simps FeeDeclaration_fields_def FeeDeclaration_arrives_def
        simp del: store_text.simps store_uint.simps store_int.simps store_blob.simps if_split dest!: json_time_stores
        Terms_stored)
qed (auto simp: FeeDeclaration_json_def FeeDeclaration_fields_def encode_simps dest!: json_time_stores Terms_stored)

record assignment_hidden =
  ah_Args :: "bytes list"
  ah_Signature :: bytes

definition Assignment_json :: "zones \<Rightarrow> bool \<Rightarrow> Assignment json_encoder" where
  "Assignment_json z nil a = json_struct
     [(lit ''JobID'', json_text (as_JobID a)), (lit ''NodeID'', json_text (as_NodeID a)),
      (lit ''Spec'', JobSpec_json nil (as_Spec a)), (lit ''Fee'', Terms_json (as_Fee a)),
      (lit ''OfferedAt'', json_time z (as_OfferedAt a)), (lit ''Signature'', json_blob nil (as_Signature a))]"

definition Assignment_fields :: "zones \<Rightarrow> (Assignment \<times> assignment_hidden) json_fields" where
  "Assignment_fields z =
     [(lit ''JobID'', in_message as_JobID as_JobID_update store_text),
      (lit ''NodeID'', in_message as_NodeID as_NodeID_update store_text),
      (lit ''Spec'', in_slice as_Spec as_Spec_update ah_Args ah_Args_update (store_struct JobSpec_fields)),
      (lit ''Fee'', in_message as_Fee as_Fee_update (store_struct Terms_fields)),
      (lit ''OfferedAt'', in_message as_OfferedAt as_OfferedAt_update (store_time z)),
      (lit ''Signature'', in_slice as_Signature as_Signature_update ah_Signature ah_Signature_update store_blob)]"

definition Assignment_arrives :: "zones \<Rightarrow> Assignment \<Rightarrow> Assignment" where
  "Assignment_arrives z a =
     a\<lparr>as_JobID := sanitize (as_JobID a), as_NodeID := sanitize (as_NodeID a), as_Spec := JobSpec_arrives (as_Spec a),
     as_OfferedAt := time_arrives z (as_OfferedAt a)\<rparr>"

lemma Assignment_names: "plain_names (Assignment_fields z)"
  by (simp add: plain_names_def Assignment_fields_def) (simp add: lit_def html_safe_def)

interpretation Assignment_codec: json_codec "Assignment_json z nil" "store_struct (Assignment_fields z)" fst
  "\<lambda>a. wf_time (as_OfferedAt a)" "Assignment_arrives z" "Suc (Suc (Suc 0))" for z nil
proof (rule struct_codec [OF Assignment_names, where es = "\<lambda>a. [json_text (as_JobID a), json_text (as_NodeID a),
    JobSpec_json nil (as_Spec a), Terms_json (as_Fee a),
    json_time z (as_OfferedAt a), json_blob nil (as_Signature a)]"], goal_cases)
  case (4 a vs d)
  then show ?case
    by (cases d) (auto simp: store_simps Assignment_fields_def Assignment_arrives_def
        simp del: store_text.simps store_uint.simps store_int.simps store_blob.simps if_split dest!: json_time_stores
        JobSpec_stored Terms_stored)
qed (auto simp: Assignment_json_def Assignment_fields_def encode_simps dest!: json_time_stores JobSpec_stored Terms_stored)

record listing_hidden =
  lh_Printers :: "PrinterCapability list"
  lh_GPUs :: "GPUCapability list"
  lh_Signature :: bytes

definition CapabilityListing_json :: "zones \<Rightarrow> bool \<Rightarrow> CapabilityListing json_encoder" where
  "CapabilityListing_json z nil l = json_struct
     [(lit ''NodeID'', json_text (cl_NodeID l)), (lit ''Class'', json_text (cl_Class l)),
      (lit ''Printers'', json_list nil PrinterCapability_json (cl_Printers l)),
      (lit ''GPUs'', json_list nil GPUCapability_json (cl_GPUs l)), (lit ''Capacity'', Capacity_json (cl_Capacity l)),
      (lit ''OptIn'', WorkloadOptIn_json (cl_OptIn l)), (lit ''IssuedAt'', json_time z (cl_IssuedAt l)),
      (lit ''Seq'', json_uint (cl_Seq l)), (lit ''Signature'', json_blob nil (cl_Signature l))]"

definition CapabilityListing_fields :: "zones \<Rightarrow> (CapabilityListing \<times> listing_hidden) json_fields" where
  "CapabilityListing_fields z =
     [(lit ''NodeID'', in_message cl_NodeID cl_NodeID_update store_text),
      (lit ''Class'', in_message cl_Class cl_Class_update store_text),
      (lit ''Printers'', in_slice cl_Printers cl_Printers_update lh_Printers lh_Printers_update (store_slice
      zero_PrinterCapability (store_struct PrinterCapability_fields))),
      (lit ''GPUs'', in_slice cl_GPUs cl_GPUs_update lh_GPUs lh_GPUs_update (store_slice zero_GPUCapability
      (store_struct GPUCapability_fields))),
      (lit ''Capacity'', in_message cl_Capacity cl_Capacity_update (store_struct Capacity_fields)),
      (lit ''OptIn'', in_message cl_OptIn cl_OptIn_update (store_struct WorkloadOptIn_fields)),
      (lit ''IssuedAt'', in_message cl_IssuedAt cl_IssuedAt_update (store_time z)),
      (lit ''Seq'', in_message cl_Seq cl_Seq_update store_uint),
      (lit ''Signature'', in_slice cl_Signature cl_Signature_update lh_Signature lh_Signature_update store_blob)]"

definition CapabilityListing_arrives :: "zones \<Rightarrow> CapabilityListing \<Rightarrow> CapabilityListing" where
  "CapabilityListing_arrives z l =
     l\<lparr>cl_NodeID := sanitize (cl_NodeID l), cl_Class := sanitize (cl_Class l),
     cl_Printers := map PrinterCapability_arrives (cl_Printers l), cl_GPUs := map GPUCapability_arrives (cl_GPUs l),
     cl_IssuedAt := time_arrives z (cl_IssuedAt l)\<rparr>"

lemma CapabilityListing_names: "plain_names (CapabilityListing_fields z)"
  by (simp add: plain_names_def CapabilityListing_fields_def) (simp add: lit_def html_safe_def)

interpretation CapabilityListing_codec: json_codec "CapabilityListing_json z nil" "store_struct
    (CapabilityListing_fields z)" fst
  "\<lambda>l. wf_time (cl_IssuedAt l)" "CapabilityListing_arrives z" "Suc (Suc (Suc 0))" for z nil
proof (rule struct_codec [OF CapabilityListing_names, where es = "\<lambda>l. [json_text (cl_NodeID l),
    json_text (cl_Class l), json_list nil PrinterCapability_json (cl_Printers l),
    json_list nil GPUCapability_json (cl_GPUs l), Capacity_json (cl_Capacity l), WorkloadOptIn_json (cl_OptIn l),
    json_time z (cl_IssuedAt l), json_uint (cl_Seq l), json_blob nil (cl_Signature l)]"], goal_cases)
  case (4 l vs d)
  then show ?case
    by (cases d) (auto simp: store_simps CapabilityListing_fields_def CapabilityListing_arrives_def
        simp del: store_text.simps store_uint.simps store_int.simps store_blob.simps if_split dest!: json_time_stores
        printers_stored gpus_stored Capacity_stored WorkloadOptIn_stored)
qed (auto simp: CapabilityListing_json_def CapabilityListing_fields_def encode_simps dest!: json_time_stores
    printers_stored gpus_stored Capacity_stored WorkloadOptIn_stored)

section \<open>The codecs\<close>

interpretation assignments_codec: json_list_codec "Assignment_json z nil" "store_struct (Assignment_fields z)" fst
  "\<lambda>a. wf_time (as_OfferedAt a)" "Assignment_arrives z" "Suc (Suc (Suc 0))" nil zero for z nil zero
  by unfold_locales

definition zero_Heartbeat :: Heartbeat where
  "zero_Heartbeat = \<lparr>hb_NodeID = [], hb_SentAt = zero_time, hb_Seq = 0, hb_Signature = []\<rparr>"

definition zero_Decline :: Decline where
  "zero_Decline = \<lparr>dc_JobID = [], dc_NodeID = [], dc_Reason = [], dc_DeclinedAt = zero_time, dc_Signature =
      []\<rparr>"

definition zero_JobReport :: JobReport where
  "zero_JobReport =
     \<lparr>jr_JobID = [], jr_NodeID = [], jr_ExitCode = 0, jr_FailureCause = [], jr_TmpfsExhausted = False,
      jr_StartedAt = zero_time, jr_FinishedAt = zero_time, jr_Signature = []\<rparr>"

definition zero_Assignment :: Assignment where
  "zero_Assignment =
     \<lparr>as_JobID = [], as_NodeID = [],
      as_Spec = \<lparr>js_Workload = [], js_Image = [], js_Args = [], js_PrinterKind = [], js_GPUAPI = [],
      js_GPUMinVRAMMB = 0\<rparr>,
      as_Fee = \<lparr>ft_ContributorShareBps = 0, ft_PlatformFeeBps = 0\<rparr>, as_OfferedAt = zero_time,
      as_Signature = []\<rparr>"

definition zero_CapabilityListing :: CapabilityListing where
  "zero_CapabilityListing =
     \<lparr>cl_NodeID = [], cl_Class = [], cl_Printers = [], cl_GPUs = [],
      cl_Capacity = \<lparr>ca_VCPUs = 0, ca_MemMB = 0, ca_DiskMB = 0, ca_StorageCommitMB = 0, ca_PrintQPS = 0\<rparr>,
      cl_OptIn = \<lparr>oi_Compute = False, oi_Print = False, oi_Storage = False\<rparr>,
      cl_IssuedAt = zero_time, cl_Seq = 0, cl_Signature = []\<rparr>"

text \<open>\<open>json.Marshal\<close>, and \<open>Decode\<close> into a zero value. The text of an error is a
    parameter.\<close>

definition codec_of ::
  "(json_error \<Rightarrow> go_error) \<Rightarrow> 'a json_encoder \<Rightarrow> 'd json_decoder \<Rightarrow>
      ('d \<Rightarrow> 'a) \<Rightarrow> 'd \<Rightarrow> 'a codec" where
  "codec_of err enc dec view zero =
     \<lparr>jc_Marshal = (\<lambda>x. case enc x of Inl e \<Rightarrow> Inl (err e) | Inr v \<Rightarrow>
     Inr (json_print v)),
      jc_Decode = (\<lambda>bs. case scan bs of
          Inl e \<Rightarrow> (view zero, Some (err e))
        | Inr v \<Rightarrow> (case dec v zero of (d, s) \<Rightarrow> (view d, map_option err (outcome_error s))))\<rparr>"

definition go_json :: "(json_error \<Rightarrow> go_error) \<Rightarrow> zones \<Rightarrow> bool \<Rightarrow> json" where
  "go_json err z nil =
     \<lparr>jn_listing = codec_of err (CapabilityListing_json z nil) (store_struct (CapabilityListing_fields z)) fst
        (zero_CapabilityListing, \<lparr>lh_Printers = [], lh_GPUs = [], lh_Signature = []\<rparr>),
      jn_heartbeat = codec_of err (Heartbeat_json z nil) (store_struct (Heartbeat_fields z)) fst (zero_Heartbeat, []),
      jn_decline = codec_of err (Decline_json z nil) (store_struct (Decline_fields z)) fst (zero_Decline, []),
      jn_report = codec_of err (JobReport_json z nil) (store_struct (JobReport_fields z)) fst (zero_JobReport, []),
      jn_jobs = codec_of err (json_list nil (Assignment_json z nil))
        (store_slice (zero_Assignment, \<lparr>ah_Args = [], ah_Signature = []\<rparr>) (store_struct (Assignment_fields z)))
        (\<lambda>s. map fst (fst s)) ([], []),
      jn_fees = codec_of err (FeeDeclaration_json z nil) (store_struct (FeeDeclaration_fields z)) fst
        (zero_FeeDeclaration, [])\<rparr>"

end
