(* ===== verification/Json_Transport.thy ===== *)
theory Json_Transport
  imports Json_Messages End_To_End
begin

text \<open>
  What the JSON of the transport does to messages, and so what reaches the other end. Strings arrive
  sanitized (unchanged exactly when they are UTF-8), times at the same instant when their zone's offset is
  whole minutes, everything else unchanged; so the signature of a message whose strings are UTF-8 still
  verifies, and a message with other strings arrives as one with other canonical bytes.
\<close>

section \<open>Codecs carry messages\<close>

context json_codec
begin

lemma carries_codec:
  assumes "good x" and "levels \<le> maxNestingDepth" and "enc x = Inr v"
  shows "carries (codec_of err enc dec view zero) x (arrives x) \<and>
      carries_line (codec_of err enc dec view zero) x (arrives x)"
proof -
  have "\<not> number_char 0x0A" by (simp add: number_char_def is_digit_def)
  then show ?thesis
    using through_text [OF assms(1,3,2), of "[]" zero] through_text [OF assms(1,3,2), of "[0x0A]" zero]
    by (auto simp: carries_def carries_line_def codec_of_def assms(3) split: prod.splits)
qed

end

text \<open>Encoding fails exactly when a time cannot be written, with the error of the first such time.\<close>

definition encoded_as :: "(json_error + 'a) \<Rightarrow> (json_error + jvalue) \<Rightarrow> bool" where
  "encoded_as t r \<longleftrightarrow> (case t of Inl e \<Rightarrow> r = Inl e | Inr _ \<Rightarrow> \<exists>v. r =
      Inr v)"

context json_codec
begin

text \<open>A value posted to a handler of its type: refused before anything is sent, or handed to the coordinator as it
  arrives.\<close>

lemma post_arrives:
  assumes "served_by env c H" and "path \<in> set route_paths" and "good x" and "levels \<le> maxNestingDepth"
    and "encoded_as t (enc x)" and "\<And>req. at_path path req \<Longrightarrow> H req =
        post (codec_of err enc dec view zero) call req"
  shows "postJSON env c (codec_of err enc dec view zero) path x s =
    (case t of Inl e \<Rightarrow> (Some (err e), s) | Inr _ \<Rightarrow> through MethodPost path (call (arrives x) s))"
proof (cases t)
  case (Inl e)
  with assms(5) show ?thesis by (simp add: encoded_as_def postJSON_def codec_of_def)
next
  case (Inr y)
  with assms(5) obtain v where "enc x = Inr v" by (auto simp: encoded_as_def)
  with carries_codec [OF assms(3,4)] have "carries (codec_of err enc dec view zero) x (arrives x)" by blast
  from post_refines [OF assms(1,2) this assms(6)] Inr show ?thesis by simp
qed

end

text \<open>The nesting of the six types is far below what the scanner allows.\<close>

lemma levels_ok: "Suc 0 \<le> maxNestingDepth" "Suc (Suc (Suc 0)) \<le> maxNestingDepth"
    "Suc (Suc (Suc (Suc 0))) \<le> maxNestingDepth" "Suc (Suc 0) \<le> maxNestingDepth"
  by (simp_all add: maxNestingDepth_def)

lemma all_encoded_total: "(\<And>x. x \<in> set xs \<Longrightarrow> \<exists>v. enc x = Inr v) \<Longrightarrow>
    \<exists>vs. all_encoded (map enc xs) = Inr vs"
proof (induction xs)
  case (Cons x xs)
  then obtain v vs where "enc x = Inr v" "all_encoded (map enc xs) = Inr vs" by fastforce
  then show ?case by (simp add: all_encoded_Cons_iff)
qed simp

lemma json_list_total: "(\<And>x. x \<in> set xs \<Longrightarrow> \<exists>v. enc x = Inr v) \<Longrightarrow>
    \<exists>v. json_list nil enc xs = Inr v"
  using all_encoded_total [of xs enc] by (auto simp: json_list_def)

lemma parts_total:
  "\<exists>v. PrinterCapability_json p = Inr v" "\<exists>v. GPUCapability_json g =
      Inr v" "\<exists>v. Capacity_json ca = Inr v"
  "\<exists>v. WorkloadOptIn_json w = Inr v" "\<exists>v. Terms_json t = Inr v" "\<exists>v. JobSpec_json nil j = Inr v"
  using json_list_total [of "js_Args j" json_text nil]
  by (auto simp: PrinterCapability_json_def GPUCapability_json_def Capacity_json_def WorkloadOptIn_json_def Terms_json_def
      JobSpec_json_def json_text_def json_int_def json_bool_def all_encoded.simps split: sum.splits)

lemma all_encoded_cases:
  "all_encoded (Inr v # rs) = (case all_encoded rs of Inl e \<Rightarrow> Inl e | Inr vs \<Rightarrow> Inr (v # vs))"
  "all_encoded (Inl e # rs) = Inl e"
  by (simp_all add: all_encoded.simps)

lemma messages_encoded:
  "encoded_as (time_MarshalJSON z (hb_SentAt h)) (Heartbeat_json z nil h)"
  "encoded_as (time_MarshalJSON z (dc_DeclinedAt d)) (Decline_json z nil d)"
  "encoded_as (time_MarshalJSON z (cl_IssuedAt l)) (CapabilityListing_json z nil l)"
  "encoded_as (time_MarshalJSON z (as_OfferedAt a)) (Assignment_json z nil a)"
  "encoded_as (time_MarshalJSON z (fd_EffectiveAt f)) (FeeDeclaration_json z nil f)"
  "encoded_as (case time_MarshalJSON z (jr_StartedAt r) of Inl e \<Rightarrow> Inl e | Inr _ \<Rightarrow>
      time_MarshalJSON z (jr_FinishedAt r))
     (JobReport_json z nil r)"
proof -
  obtain v1 where v1: "json_list nil PrinterCapability_json (cl_Printers l) = Inr v1"
    using json_list_total [of "cl_Printers l" PrinterCapability_json nil] parts_total(1) by auto
  obtain v2 where v2: "json_list nil GPUCapability_json (cl_GPUs l) = Inr v2"
    using json_list_total [of "cl_GPUs l" GPUCapability_json nil] parts_total(2) by auto
  obtain v3 v4 where v34: "Capacity_json (cl_Capacity l) = Inr v3" "WorkloadOptIn_json (cl_OptIn l) = Inr v4"
    using parts_total(3,4) by meson
  obtain v5 v6 v7 where v567: "JobSpec_json nil (as_Spec a) = Inr v5" "Terms_json (as_Fee a) =
      Inr v6" "Terms_json (fd_Terms f) = Inr v7"
    using parts_total(5,6) by meson
  note enc = encoded_as_def json_time_def json_text_def json_int_def json_uint_def json_bool_def json_blob_def
      all_encoded_cases
  show "encoded_as (time_MarshalJSON z (hb_SentAt h)) (Heartbeat_json z nil h)"
    by (simp add: enc Heartbeat_json_def split: sum.split)
  show "encoded_as (time_MarshalJSON z (dc_DeclinedAt d)) (Decline_json z nil d)"
    by (simp add: enc Decline_json_def split: sum.split)
  show "encoded_as (time_MarshalJSON z (cl_IssuedAt l)) (CapabilityListing_json z nil l)"
    by (simp add: enc CapabilityListing_json_def v1 v2 v34 split: sum.split)
  show "encoded_as (time_MarshalJSON z (as_OfferedAt a)) (Assignment_json z nil a)"
    by (simp add: enc Assignment_json_def v567 split: sum.split)
  show "encoded_as (time_MarshalJSON z (fd_EffectiveAt f)) (FeeDeclaration_json z nil f)"
    by (simp add: enc FeeDeclaration_json_def v567 split: sum.split)
  show "encoded_as (case time_MarshalJSON z (jr_StartedAt r) of Inl e \<Rightarrow> Inl e | Inr _ \<Rightarrow>
      time_MarshalJSON z (jr_FinishedAt r))
     (JobReport_json z nil r)"
    by (simp add: enc JobReport_json_def split: sum.split)
qed

section \<open>What reaches the coordinator\<close>

definition refused_or :: "(json_error \<Rightarrow> go_error) \<Rightarrow> json_error + 'a \<Rightarrow>
    's \<Rightarrow> go_error option \<times> 's \<Rightarrow> go_error option \<times> 's" where
  "refused_or err t s r = (case t of Inl e \<Rightarrow> (Some (err e), s) | Inr _ \<Rightarrow> r)"

lemma posts_arrive:
  assumes "served_by env c (Handler (go_json err z nil) C)"
  shows "wf_time (cl_IssuedAt l) \<Longrightarrow> Client_SubmitListing env (go_json err z nil) c l s =
      refused_or err (time_MarshalJSON z (cl_IssuedAt l)) s
      (through MethodPost (lit ''/v0/listing'') (co_SubmitListing C (CapabilityListing_arrives z l) s))"
    and "wf_time (hb_SentAt h) \<Longrightarrow> Client_Heartbeat env (go_json err z nil) c h s =
        refused_or err (time_MarshalJSON z (hb_SentAt h)) s
      (through MethodPost (lit ''/v0/heartbeat'') (co_Heartbeat C (Heartbeat_arrives z h) s))"
    and "wf_time (dc_DeclinedAt d) \<Longrightarrow> Client_Decline env (go_json err z nil) c d s =
        refused_or err (time_MarshalJSON z (dc_DeclinedAt d)) s
      (through MethodPost (lit ''/v0/decline'') (co_Decline C (Decline_arrives z d) s))"
    and "wf_time (jr_StartedAt r) \<Longrightarrow> wf_time (jr_FinishedAt r) \<Longrightarrow>
        Client_ReportJob env (go_json err z nil) c r s = refused_or err (time_MarshalJSON z (jr_StartedAt r)) s
      (refused_or err (time_MarshalJSON z (jr_FinishedAt r)) s
        (through MethodPost (lit ''/v0/report'') (co_ReportJob C (JobReport_arrives z r) s)))"
proof -
  note route = Handler_routes route_paths_def go_json_def
  show "Client_SubmitListing env (go_json err z nil) c l s = refused_or err (time_MarshalJSON z (cl_IssuedAt l)) s
      (through MethodPost (lit ''/v0/listing'') (co_SubmitListing C (CapabilityListing_arrives z l) s))"
    if "wf_time (cl_IssuedAt l)"
    unfolding Client_SubmitListing_def refused_or_def go_json_def json.simps
    by (rule CapabilityListing_codec.post_arrives [OF assms _ that levels_ok(2) messages_encoded(3)]) (simp_all add: route)
  show "Client_Heartbeat env (go_json err z nil) c h s = refused_or err (time_MarshalJSON z (hb_SentAt h)) s
      (through MethodPost (lit ''/v0/heartbeat'') (co_Heartbeat C (Heartbeat_arrives z h) s))"
    if "wf_time (hb_SentAt h)"
    unfolding Client_Heartbeat_def refused_or_def go_json_def json.simps
    by (rule Heartbeat_codec.post_arrives [OF assms _ that levels_ok(1) messages_encoded(1)]) (simp_all add: route)
  show "Client_Decline env (go_json err z nil) c d s = refused_or err (time_MarshalJSON z (dc_DeclinedAt d)) s
      (through MethodPost (lit ''/v0/decline'') (co_Decline C (Decline_arrives z d) s))"
    if "wf_time (dc_DeclinedAt d)"
    unfolding Client_Decline_def refused_or_def go_json_def json.simps
    by (rule Decline_codec.post_arrives [OF assms _ that levels_ok(1) messages_encoded(2)]) (simp_all add: route)
  assume wf: "wf_time (jr_StartedAt r)" "wf_time (jr_FinishedAt r)"
  have "Client_ReportJob env (go_json err z nil) c r s =
      (case (case time_MarshalJSON z (jr_StartedAt r) of Inl e \<Rightarrow> Inl e | Inr _ \<Rightarrow>
      time_MarshalJSON z (jr_FinishedAt r)) of
         Inl e \<Rightarrow> (Some (err e), s)
       | Inr _ \<Rightarrow> through MethodPost (lit ''/v0/report'') (co_ReportJob C (JobReport_arrives z r) s))"
    unfolding Client_ReportJob_def go_json_def json.simps
    by (rule JobReport_codec.post_arrives [OF assms _ conjI [OF wf] levels_ok(1) messages_encoded(6)]) (simp_all add: route)
  then show "Client_ReportJob env (go_json err z nil) c r s = refused_or err (time_MarshalJSON z (jr_StartedAt r)) s
      (refused_or err (time_MarshalJSON z (jr_FinishedAt r)) s
        (through MethodPost (lit ''/v0/report'') (co_ReportJob C (JobReport_arrives z r) s)))"
    by (simp add: refused_or_def split: sum.splits)
qed

text \<open>A value that cannot be encoded leaves the handler with an empty body and status 200; the client finds the
  end of the stream.\<close>

lemma scan_Nil: "scan [] = Inl ErrEOF"
  by (simp add: scan_def begin_value_def is_space_def)

context json_codec
begin

lemma get_arrives:
  assumes "exchanged env c MethodGet p q [] [] s (writeJSON (codec_of err enc dec view zero) x) s'"
    and "good x" and "levels \<le> maxNestingDepth"
  shows "getJSON env c (codec_of err enc dec view zero) (p @ query_text q) old s =
    (if isl (enc x) then ((view zero, Some (err ErrEOF)), s') else ((arrives x, None), s'))"
proof (cases "enc x")
  case (Inl e)
  then show ?thesis using assms(1)
    by (auto simp: exchanged_as_def getJSON_def client_do_out_def writeJSON_def codec_of_def scan_Nil)
next
  case (Inr v)
  with carries_codec [OF assms(2,3)] have "carries_line (codec_of err enc dec view zero) x (arrives x)" by blast
  from get_ok [OF assms(1) this] Inr show ?thesis by simp
qed

end

lemma encoded_as_isl: "encoded_as t r \<Longrightarrow> isl r = isl t"
  by (auto simp: encoded_as_def split: sum.splits)

lemma isl_all_encoded: "isl (all_encoded es) \<longleftrightarrow> list_ex isl es"
  by (induction es rule: all_encoded.induct) (auto simp: all_encoded.simps split: sum.splits)

lemma isl_jobs: "isl (json_list nil (Assignment_json z nil) jobs) \<longleftrightarrow>
    list_ex (\<lambda>a. isl (time_MarshalJSON z (as_OfferedAt a))) jobs"
proof -
  have "isl (json_list nil (Assignment_json z nil) jobs) \<longleftrightarrow>
      isl (all_encoded (map (Assignment_json z nil) jobs))"
    by (auto simp: json_list_def split: sum.splits)
  also have "\<dots> \<longleftrightarrow> list_ex isl (map (Assignment_json z nil) jobs)" by (rule isl_all_encoded)
  finally have "isl (json_list nil (Assignment_json z nil) jobs) \<longleftrightarrow>
      list_ex isl (map (Assignment_json z nil) jobs)" .
  then show ?thesis by (simp add: list_ex_iff encoded_as_isl [OF messages_encoded(4)])
qed

text \<open>What the client makes of the answer to a poll.\<close>

lemma poll_arrives:
  assumes "exchanged env c MethodGet (lit ''/v0/jobs'') (lit ''node_id='' @ QueryEscape nodeID) [] [] s
      (case e of None \<Rightarrow> writeJSON (jn_jobs (go_json err z nil)) jobs | Some er \<Rightarrow> http_Error er 500) s'"
    and "list_all (\<lambda>a. wf_time (as_OfferedAt a)) jobs"
  shows "Client_PollJobs env (go_json err z nil) c nodeID s = (case e of
        None \<Rightarrow> if list_ex (\<lambda>a. isl (time_MarshalJSON z (as_OfferedAt a))) jobs then (([],
        Some (err ErrEOF)), s')
          else ((map (Assignment_arrives z) jobs, None), s')
      | Some er \<Rightarrow> (([], Some (reported MethodGet (lit ''/v0/jobs'') (lit ''500'') (er @ [0x0A]))), s'))"
proof (cases e)
  case None
  with assms(1) show ?thesis
    using assignments_codec.items.get_arrives [OF _ assms(2) levels_ok(3), where s = s and err = err]
    by (simp add: Client_PollJobs_def poll_url go_json_def isl_jobs)
next
  case (Some er)
  with assms(1) get_failed [where code = 500] show ?thesis by (simp add: Client_PollJobs_def poll_url decimal_status)
qed

lemma gets_arrive:
  assumes served: "served_by env c (Handler (go_json err z nil) C)"
  shows "nodeID \<noteq> [] \<Longrightarrow> co_PollJobs C nodeID s = ((jobs, e), s') \<Longrightarrow>
      list_all (\<lambda>a. wf_time (as_OfferedAt a)) jobs \<Longrightarrow>
      Client_PollJobs env (go_json err z nil) c nodeID s = (case e of
        None \<Rightarrow> if list_ex (\<lambda>a. isl (time_MarshalJSON z (as_OfferedAt a))) jobs then (([],
        Some (err ErrEOF)), s')
          else ((map (Assignment_arrives z) jobs, None), s')
      | Some er \<Rightarrow> (([], Some (reported MethodGet (lit ''/v0/jobs'') (lit ''500'') (er @ [0x0A]))), s'))"
    and "co_Fees C t = ((fee, f), t') \<Longrightarrow> wf_time (fd_EffectiveAt fee) \<Longrightarrow>
      Client_Fees env (go_json err z nil) c t = (case f of
        None \<Rightarrow> if isl (time_MarshalJSON z (fd_EffectiveAt fee)) then ((zero_FeeDeclaration,
        Some (err ErrEOF)), t')
          else ((FeeDeclaration_arrives z fee, None), t')
      | Some er \<Rightarrow> ((zero_FeeDeclaration, Some (reported MethodGet (lit ''/v0/fees'') (lit ''500'') (er @
      [0x0A]))), t'))"
proof -
  let ?J = "go_json err z nil"
  show "Client_PollJobs env ?J c nodeID s = (case e of
        None \<Rightarrow> if list_ex (\<lambda>a. isl (time_MarshalJSON z (as_OfferedAt a))) jobs then (([],
        Some (err ErrEOF)), s')
          else ((map (Assignment_arrives z) jobs, None), s')
      | Some er \<Rightarrow> (([], Some (reported MethodGet (lit ''/v0/jobs'') (lit ''500'') (er @ [0x0A]))), s'))"
    if "nodeID \<noteq> []" "co_PollJobs C nodeID s = ((jobs, e), s')" "list_all (\<lambda>a. wf_time (as_OfferedAt a)) jobs"
    by (rule poll_arrives [OF poll_exchange [OF served that(1,2)] that(3)])
  show "Client_Fees env ?J c t = (case f of
        None \<Rightarrow> if isl (time_MarshalJSON z (fd_EffectiveAt fee)) then ((zero_FeeDeclaration,
        Some (err ErrEOF)), t')
          else ((FeeDeclaration_arrives z fee, None), t')
      | Some er \<Rightarrow> ((zero_FeeDeclaration, Some (reported MethodGet (lit ''/v0/fees'') (lit ''500'') (er @
      [0x0A]))), t'))"
    if "co_Fees C t = ((fee, f), t')" "wf_time (fd_EffectiveAt fee)"
  proof -
    note fees = fees_exchange [OF served that(1)]
    show ?thesis
    proof (cases f)
      case None
      with fees show ?thesis
        using FeeDeclaration_codec.get_arrives [OF _ that(2) levels_ok(4), where s = t and err = err and q = "[]"]
        by (simp add: Client_Fees_def go_json_def encoded_as_isl [OF messages_encoded(5)])
    next
      case (Some er)
      with fees get_failed [where code = 500 and q = "[]"] show ?thesis by (simp add: Client_Fees_def decimal_status)
    qed
  qed
qed

end
