(* ===== verification/Json_Properties.thy ===== *)
theory Json_Properties
  imports Json_Transport Crypto_Instance
begin

text \<open>
  The reference transport with \<open>encoding/json\<close>: what posts and polls deliver, which messages keep their signed
  bytes, the protocol end to end with no assumption on the encoding, and the malformed bodies of
  server_test.go.
\<close>

section \<open>Which messages arrive unchanged\<close>

fun json_arrives :: "zones \<Rightarrow> node_message \<Rightarrow> node_message" where
  "json_arrives z (ListingMsg l) = ListingMsg (CapabilityListing_arrives z l)"
| "json_arrives z (HeartbeatMsg h) = HeartbeatMsg (Heartbeat_arrives z h)"
| "json_arrives z (FeeMsg f) = FeeMsg (FeeDeclaration_arrives z f)"
| "json_arrives z (AssignmentMsg a) = AssignmentMsg (Assignment_arrives z a)"
| "json_arrives z (DeclineMsg d) = DeclineMsg (Decline_arrives z d)"
| "json_arrives z (JobReportMsg r) = JobReportMsg (JobReport_arrives z r)"
| "json_arrives z m = m"

text \<open>All strings are UTF-8, and the zone of every time is a whole number of minutes from UTC.\<close>

definition whole_minutes :: "zones \<Rightarrow> go_time \<Rightarrow> bool" where
  "whole_minutes z t \<longleftrightarrow> 60 dvd time_offset z t"

fun json_exact :: "zones \<Rightarrow> node_message \<Rightarrow> bool" where
  "json_exact z (ListingMsg l) \<longleftrightarrow> valid_utf8 (cl_NodeID l) \<and> valid_utf8 (cl_Class l) \<and>
     list_all (\<lambda>p. valid_utf8 (pc_Kind p) \<and> valid_utf8 (pc_Model p)) (cl_Printers l) \<and>
     list_all (\<lambda>g. valid_utf8 (gc_API g) \<and> valid_utf8 (gc_Model g)) (cl_GPUs l) \<and>
     whole_minutes z (cl_IssuedAt l)"
| "json_exact z (HeartbeatMsg h) \<longleftrightarrow> valid_utf8 (hb_NodeID h) \<and> whole_minutes z (hb_SentAt h)"
| "json_exact z (FeeMsg f) \<longleftrightarrow> valid_utf8 (fd_CoordinatorID f) \<and> whole_minutes z (fd_EffectiveAt f)"
| "json_exact z (AssignmentMsg a) \<longleftrightarrow> valid_utf8 (as_JobID a) \<and> valid_utf8 (as_NodeID a) \<and>
     valid_utf8 (js_Workload (as_Spec a)) \<and> valid_utf8 (js_Image (as_Spec a)) \<and>
     list_all valid_utf8 (js_Args (as_Spec a)) \<and>
     valid_utf8 (js_PrinterKind (as_Spec a)) \<and> valid_utf8 (js_GPUAPI (as_Spec a)) \<and>
     whole_minutes z (as_OfferedAt a)"
| "json_exact z (DeclineMsg d) \<longleftrightarrow> valid_utf8 (dc_JobID d) \<and> valid_utf8 (dc_NodeID d) \<and>
    valid_utf8 (dc_Reason d) \<and>
     whole_minutes z (dc_DeclinedAt d)"
| "json_exact z (JobReportMsg r) \<longleftrightarrow> valid_utf8 (jr_JobID r) \<and> valid_utf8 (jr_NodeID r) \<and>
    valid_utf8 (jr_FailureCause r) \<and>
     whole_minutes z (jr_StartedAt r) \<and> whole_minutes z (jr_FinishedAt r)"
| "json_exact z m \<longleftrightarrow> True"

lemma map_fixed: "map f xs = xs \<longleftrightarrow> list_all (\<lambda>x. f x = x) xs"
  by (induction xs) auto

lemma parts_fixed:
  "PrinterCapability_arrives p = p \<longleftrightarrow> valid_utf8 (pc_Kind p) \<and> valid_utf8 (pc_Model p)"
  "GPUCapability_arrives g = g \<longleftrightarrow> valid_utf8 (gc_API g) \<and> valid_utf8 (gc_Model g)"
  "JobSpec_arrives j = j \<longleftrightarrow> valid_utf8 (js_Workload j) \<and> valid_utf8 (js_Image j) \<and>
      list_all valid_utf8 (js_Args j) \<and>
     valid_utf8 (js_PrinterKind j) \<and> valid_utf8 (js_GPUAPI j)"
  by (cases p, simp add: PrinterCapability_arrives_def sanitize_id_iff)
    (cases g, simp add: GPUCapability_arrives_def sanitize_id_iff,
     cases j, simp add: JobSpec_arrives_def sanitize_id_iff map_fixed)

lemma shown_offset_near: "\<bar>offset - shown_offset offset\<bar> < 60"
proof -
  have "\<bar>offset\<bar> = 60 * (\<bar>offset\<bar> div 60) + \<bar>offset\<bar> mod 60" by simp
  moreover have "shown_offset offset = sgn offset * (60 * (\<bar>offset\<bar> div 60))"
    by (simp add: shown_offset_def signed_divide_int_def)
  ultimately have "offset - shown_offset offset = sgn offset * (\<bar>offset\<bar> mod 60)"
    by (metis (no_types) abs_mult_sgn add_diff_cancel_left' mult.commute right_diff_distrib)
  then show ?thesis by (simp add: abs_mult sgn_if)
qed

lemma time_arrives_UTC_iff: "time_UTC (time_arrives z t) = time_UTC t \<longleftrightarrow> whole_minutes z t"
proof -
  let ?d = "time_offset z t - shown_offset (time_offset z t)"
  have "time_UTC (time_arrives z t) = time_UTC t \<longleftrightarrow> (word_of_int ?d :: int64) = 0"
    by (simp add: time_UTC_eq_iff time_arrives_def Let_def)
  also have "\<dots> \<longleftrightarrow> 2 ^ 64 dvd ?d"
    by (simp only: word_of_int_eq_0_iff len_num1 len_bit0) simp
  also have "\<dots> \<longleftrightarrow> ?d = 0"
    using shown_offset_near [of "time_offset z t"] dvd_imp_le_int [of ?d "2 ^ 64"] by auto
  also have "\<dots> \<longleftrightarrow> whole_minutes z t"
    unfolding whole_minutes_def by (metis dvd_triv_left right_minus_eq shown_offset_def shown_offset_exact)
  finally show ?thesis .
qed

lemma json_same_message: "same_message m (json_arrives z m) \<longleftrightarrow> json_exact z m"
proof -
  have "nm_sig (json_arrives z m) = nm_sig m"
    by (cases m) (simp_all add: CapabilityListing_arrives_def Heartbeat_arrives_def FeeDeclaration_arrives_def
        Assignment_arrives_def Decline_arrives_def JobReport_arrives_def)
  moreover have "nm_payload (json_arrives z m) = nm_payload m \<longleftrightarrow> json_exact z m"
    by (cases m) (auto simp: CapabilityListing_payload_eq_iff Heartbeat_payload_eq_iff FeeDeclaration_payload_eq_iff
        Assignment_payload_eq_iff Decline_payload_eq_iff JobReport_payload_eq_iff
        CapabilityListing_arrives_def Heartbeat_arrives_def FeeDeclaration_arrives_def
        Assignment_arrives_def Decline_arrives_def JobReport_arrives_def time_arrives_UTC_iff sanitize_id_iff map_fixed
        parts_fixed)
  ultimately show ?thesis by (auto simp: same_message_def)
qed

section \<open>Witnesses: a host in UTC\<close>

definition utc_zones :: zones where
  "utc_zones = \<lparr>zo_offset = (\<lambda>_ _. 0), zo_fixed = (\<lambda>_. ''fixed'')\<rparr>"

definition plain_error :: "json_error \<Rightarrow> go_error" where
  "plain_error e = (case e of ErrEOF \<Rightarrow> lit ''EOF'' | ErrYear \<Rightarrow>
      lit ''year outside of range [0,9999]'' | _ \<Rightarrow> lit ''json'')"

lemma utc_offset [simp]: "time_offset utc_zones t = 0"
  by (simp add: time_offset_def zone_offset_def utc_zones_def split: option.splits)

lemma utc_minutes [simp]: "whole_minutes utc_zones t"
  by (simp add: whole_minutes_def)

lemma epoch_MarshalJSON: "\<exists>s. time_MarshalJSON utc_zones epoch = Inr s"
  using epoch_good by (intro time_MarshalJSON_ok) (simp_all add: ValidTime_range del: epoch_good)

text \<open>January 1, year 10000.\<close>

definition late_time :: go_time where
  "late_time = \<lparr>t_sec = 315537897600, t_nsec = 0, t_loc = None, t_mono = None\<rparr>"

lemma late_MarshalJSON: "wf_time late_time" "time_MarshalJSON utc_zones late_time = Inl ErrYear"
proof -
  have "sint (t_sec late_time) = 315537897600" by (simp add: late_time_def)
  moreover have "year_day 3652059 = (10000, 0)" by (simp add: year_day_def)
  then obtain m d where "date_of_days 3652059 = (10000, m, d)" by (simp add: date_of_days_def Let_def)
  ultimately show "time_MarshalJSON utc_zones late_time = Inl ErrYear" by (simp add: time_MarshalJSON_def)
  show "wf_time late_time" by (simp add: wf_time_def late_time_def)
qed

section \<open>Properties\<close>

text \<open>C29: the four posting methods, with the real encoding: a message with a time that RFC 3339 cannot write is
  refused by the client with the encoder's error before anything is sent; any other is handed to the
  coordinator exactly once, with its strings sanitized and its times read back, and the coordinator's
  verdict comes back.\<close>

theorem posted_json:
  assumes "served_by env c (Handler (go_json err z nil) C)"
    and "wf_time (cl_IssuedAt l)" and "wf_time (hb_SentAt h)" and "wf_time (dc_DeclinedAt d)"
    and "wf_time (jr_StartedAt r)" and "wf_time (jr_FinishedAt r)"
  shows "Client_SubmitListing env (go_json err z nil) c l s = refused_or err (time_MarshalJSON z (cl_IssuedAt l)) s
      (through MethodPost (lit ''/v0/listing'') (co_SubmitListing C (CapabilityListing_arrives z l) s)) \<and>
    Client_Heartbeat env (go_json err z nil) c h s = refused_or err (time_MarshalJSON z (hb_SentAt h)) s
      (through MethodPost (lit ''/v0/heartbeat'') (co_Heartbeat C (Heartbeat_arrives z h) s)) \<and>
    Client_Decline env (go_json err z nil) c d s = refused_or err (time_MarshalJSON z (dc_DeclinedAt d)) s
      (through MethodPost (lit ''/v0/decline'') (co_Decline C (Decline_arrives z d) s)) \<and>
    Client_ReportJob env (go_json err z nil) c r s = refused_or err (time_MarshalJSON z (jr_StartedAt r)) s
      (refused_or err (time_MarshalJSON z (jr_FinishedAt r)) s
        (through MethodPost (lit ''/v0/report'') (co_ReportJob C (JobReport_arrives z r) s)))"
  using assms by (intro conjI posts_arrive)

lemma posted_json_witness:
  "let J = go_json plain_error utc_zones True; env = loopback (Handler J counting) in
   Client_SubmitListing env J demo_client (demo_listing\<lparr>cl_IssuedAt := late_time\<rparr>) (0, []) =
     (Some (lit ''year outside of range [0,9999]''), (0, [])) \<and>
   Client_Heartbeat env J demo_client (demo_beat\<lparr>hb_SentAt := epoch\<rparr>) (0, []) = (None, (1, []))"
proof -
  let ?J = "go_json plain_error utc_zones True"
  have "served_by (loopback (Handler ?J counting)) demo_client (Handler ?J counting)"
    unfolding demo_client_def by (rule loopback_served [OF demo_root])
  from posted_json [OF this, of "demo_listing\<lparr>cl_IssuedAt := late_time\<rparr>" "demo_beat\<lparr>hb_SentAt :=
      epoch\<rparr>"
      "demo_decline\<lparr>dc_DeclinedAt := epoch\<rparr>" "demo_report\<lparr>jr_StartedAt := epoch, jr_FinishedAt :=
      epoch\<rparr>" "(0, [])"]
    late_MarshalJSON epoch_MarshalJSON
  show ?thesis by (auto simp: Let_def refused_or_def counting_def plain_error_def)
qed

text \<open>C30: \<open>PollJobs\<close> and \<open>Fees\<close>,
    with the real encoding: the node id arrives whatever bytes it has, the
  coordinator's answer comes back with strings sanitized and times read back, its error as the text of a
  status-500 response. An answer with a time that cannot be written leaves the handler with an empty body
  and status 200, and the client reports the end of the stream.\<close>

theorem polled_json:
  assumes "served_by env c (Handler (go_json err z nil) C)" and "nodeID \<noteq> []"
    and "co_PollJobs C nodeID s = ((jobs, e), s')" and "list_all (\<lambda>a. wf_time (as_OfferedAt a)) jobs"
    and "co_Fees C t = ((fee, f), t')" and "wf_time (fd_EffectiveAt fee)"
  shows "Client_PollJobs env (go_json err z nil) c nodeID s = (case e of
      None \<Rightarrow> if list_ex (\<lambda>a. isl (time_MarshalJSON z (as_OfferedAt a))) jobs then (([],
      Some (err ErrEOF)), s')
        else ((map (Assignment_arrives z) jobs, None), s')
    | Some er \<Rightarrow> (([], Some (reported MethodGet (lit ''/v0/jobs'') (lit ''500'') (er @ [0x0A]))), s')) \<and>
    Client_Fees env (go_json err z nil) c t = (case f of
      None \<Rightarrow> if isl (time_MarshalJSON z (fd_EffectiveAt fee)) then ((zero_FeeDeclaration, Some (err ErrEOF)), t')
        else ((FeeDeclaration_arrives z fee, None), t')
    | Some er \<Rightarrow> ((zero_FeeDeclaration, Some (reported MethodGet (lit ''/v0/fees'') (lit ''500'') (er @
        [0x0A]))), t'))"
  using assms by (intro conjI gets_arrive)

definition late_fees :: FeeDeclaration where
  "late_fees = zero_FeeDeclaration\<lparr>fd_EffectiveAt := late_time\<rparr>"

lemma polled_json_witness:
  "let J = go_json plain_error utc_zones True; C = book_coordinator accept_all [] late_fees;
     env = loopback (Handler J C) in
   Client_PollJobs env J demo_client alpha enrolled_book = (([], None), enrolled_book) \<and>
   Client_Fees env J demo_client enrolled_book = ((zero_FeeDeclaration, Some (lit ''EOF'')), enrolled_book)"
proof -
  let ?J = "go_json plain_error utc_zones True" and ?C = "book_coordinator accept_all [] late_fees"
  have "served_by (loopback (Handler ?J ?C)) demo_client (Handler ?J ?C)"
    unfolding demo_client_def by (rule loopback_served [OF demo_root])
  from polled_json [OF this, of alpha enrolled_book "[]" None enrolled_book enrolled_book late_fees None enrolled_book]
    late_MarshalJSON
  moreover have "alpha \<noteq> []" by (simp add: alpha_def lit_def)
  ultimately show ?thesis by (simp add: Let_def book_coordinator_def late_fees_def plain_error_def)
qed




text \<open>Posting a message by its type, and the times in it.\<close>

fun client_post :: "'s http_env \<Rightarrow> json \<Rightarrow> 's Client \<Rightarrow> node_message \<Rightarrow> ('s,
    go_error option) proc option" where
  "client_post env J c (ListingMsg l) = Some (Client_SubmitListing env J c l)"
| "client_post env J c (HeartbeatMsg h) = Some (Client_Heartbeat env J c h)"
| "client_post env J c (DeclineMsg d) = Some (Client_Decline env J c d)"
| "client_post env J c (JobReportMsg r) = Some (Client_ReportJob env J c r)"
| "client_post env J c _ = None"

fun message_times :: "node_message \<Rightarrow> go_time list" where
  "message_times (ListingMsg l) = [cl_IssuedAt l]"
| "message_times (HeartbeatMsg h) = [hb_SentAt h]"
| "message_times (DeclineMsg d) = [dc_DeclinedAt d]"
| "message_times (JobReportMsg r) = [jr_StartedAt r, jr_FinishedAt r]"
| "message_times _ = []"

lemma refused_or_ok: "\<exists>b. t = Inr b \<Longrightarrow> refused_or err t s r = r"
  by (auto simp: refused_or_def)

lemma valid_time_written:
  "wf_time t \<Longrightarrow> ValidTime t \<Longrightarrow> \<bar>time_offset z t\<bar> < 86400 \<Longrightarrow>
      \<exists>s. time_MarshalJSON z t = Inr s"
  using ValidTime_range time_MarshalJSON_ok by blast

lemma posted_step:
  assumes "json_exact z m" and "json_arrives z m = m'"
  shows "through meth path (record_message E m' bk) = (None, bk') \<longleftrightarrow> book_step E bk (Accepted m) bk'"
proof -
  have "same_message m m'" using assms json_same_message by blast
  then show ?thesis by (simp add: through_None record_message_step book_step_Accepted same_message_admit)
qed

text \<open>C5: the protocol end to end, with the real encoding on both sides. A well-formed listing, heartbeat,
  decline or report whose strings are UTF-8 and whose times are in zones of whole minutes, less than a day
  from UTC, is accepted through client, network, handler and JSON exactly when the coordinator's machine
  accepts the message as it was signed, and the machine's state then changes exactly as for it.\<close>

theorem json_message_end_to_end:
  assumes "served_by env c (Handler (go_json err z nil) (book_coordinator E offers declared))"
    and "nm_good m" and "json_exact z m" and "\<forall>t \<in> set (message_times m). \<bar>time_offset z t\<bar> < 86400"
    and "client_post env (go_json err z nil) c m = Some call"
  shows "call bk = (None, bk') \<longleftrightarrow> book_step E bk (Accepted m) bk'"
proof (cases m)
  case (ListingMsg l)
  then have l: "wf_time (cl_IssuedAt l)" "\<exists>b. time_MarshalJSON z (cl_IssuedAt l) = Inr b"
    using assms(2,4) valid_time_written [of "cl_IssuedAt l" z] by (simp_all add: CapabilityListing_good_def)
  have "call = Client_SubmitListing env (go_json err z nil) c l" using assms(5) ListingMsg by simp
  then show ?thesis
    using posted_step [OF assms(3), of "ListingMsg (CapabilityListing_arrives z l)"] ListingMsg
    by (simp add: posts_arrive(1) [OF assms(1) l(1)] refused_or_ok [OF l(2)] book_coordinator_def)
next
  case (HeartbeatMsg h)
  then have h: "wf_time (hb_SentAt h)" "\<exists>b. time_MarshalJSON z (hb_SentAt h) = Inr b"
    using assms(2,4) valid_time_written [of "hb_SentAt h" z] by (simp_all add: Heartbeat_good_def)
  have "call = Client_Heartbeat env (go_json err z nil) c h" using assms(5) HeartbeatMsg by simp
  then show ?thesis
    using posted_step [OF assms(3), of "HeartbeatMsg (Heartbeat_arrives z h)"] HeartbeatMsg
    by (simp add: posts_arrive(2) [OF assms(1) h(1)] refused_or_ok [OF h(2)] book_coordinator_def)
next
  case (DeclineMsg d)
  then have d: "wf_time (dc_DeclinedAt d)" "\<exists>b. time_MarshalJSON z (dc_DeclinedAt d) = Inr b"
    using assms(2,4) valid_time_written [of "dc_DeclinedAt d" z] by (simp_all add: Decline_good_def)
  have "call = Client_Decline env (go_json err z nil) c d" using assms(5) DeclineMsg by simp
  then show ?thesis
    using posted_step [OF assms(3), of "DeclineMsg (Decline_arrives z d)"] DeclineMsg
    by (simp add: posts_arrive(3) [OF assms(1) d(1)] refused_or_ok [OF d(2)] book_coordinator_def)
next
  case (JobReportMsg r)
  then have r: "wf_time (jr_StartedAt r)" "wf_time (jr_FinishedAt r)"
      "\<exists>b. time_MarshalJSON z (jr_StartedAt r) = Inr b" "\<exists>b. time_MarshalJSON z (jr_FinishedAt r) = Inr b"
    using assms(2,4) valid_time_written [of "jr_StartedAt r" z] valid_time_written [of "jr_FinishedAt r" z]
    by (simp_all add: JobReport_good_def)
  have "call = Client_ReportJob env (go_json err z nil) c r" using assms(5) JobReportMsg by simp
  then show ?thesis
    using posted_step [OF assms(3), of "JobReportMsg (JobReport_arrives z r)"] JobReportMsg
    by (simp add: posts_arrive(4) [OF assms(1) r(1,2)] refused_or_ok [OF r(3)] refused_or_ok [OF r(4)] book_coordinator_def)
qed (use assms(5) in simp_all)

lemma json_message_end_to_end_witness:
  "\<exists>bk'. Client_Heartbeat (loopback
      (Handler (go_json plain_error utc_zones True) (book_coordinator accept_all [] zero_FeeDeclaration)))
      (go_json plain_error utc_zones True) demo_client (beat 3) enrolled_book = (None, bk')"
proof -
  let ?J = "go_json plain_error utc_zones True" and ?C = "book_coordinator accept_all [] zero_FeeDeclaration"
  let ?env = "loopback (Handler ?J ?C)"
  have served: "served_by ?env demo_client (Handler ?J ?C)"
    unfolding demo_client_def by (rule loopback_served [OF demo_root])
  have "valid_utf8 alpha" by (simp add: alpha_def lit_def valid_utf8.simps)
  then have "json_exact utc_zones (HeartbeatMsg (beat 3))" by (simp add: beat_def)
  moreover have "nm_good (HeartbeatMsg (beat 3))" by (simp add: beat_def Heartbeat_good_def)
  moreover obtain bk' where "book_step accept_all enrolled_book (Accepted (HeartbeatMsg (beat 3))) bk'"
    by (auto simp: book_step_iffs enrolled_book_def beat_admitted enroll_def seq_exceeds_def)
  ultimately show ?thesis
    using json_message_end_to_end [OF served, of "HeartbeatMsg (beat 3)" "Client_Heartbeat ?env ?J demo_client (beat 3)"
        enrolled_book bk']
    by auto
qed

section \<open>Malformed bodies\<close>

definition post_request :: "bytes \<Rightarrow> bytes \<Rightarrow> http_request" where
  "post_request path body = received MethodPost path [] [] body"

definition malformed_bodies :: "bytes list" where
  "malformed_bodies = [[], lit ''{'', lit ''[]'', lit ''{\"Signature\":\"!\"}'']"

lemma malformed_scanned:
  "map scan malformed_bodies =
     [Inl ErrEOF, Inl ErrUnexpectedEOF, Inr (JArray []), Inr (JObject [(lit ''Signature'', JString (lit ''!''))])]"
  by code_simp

lemma bad_base64: "b64_decode (unquoted (lit ''!'')) = None"
  by code_simp

lemma bad_signature:
  assumes "plain_names fs" and "(lit ''Signature'', in_slice get upd hget hupd store_blob) \<in> set fs"
  shows "\<exists>r'. store_struct fs (JObject [(lit ''Signature'', JString (lit ''!''))]) r = (r', Saved ErrBase64)"
  using find_field_plain [OF assms] by (simp add: in_slice_def bad_base64 stopped_def)

lemma bad_bodies:
  assumes "plain_names fs" and "(lit ''Signature'', in_slice get upd hget hupd store_blob) \<in> set fs"
    and "path \<in> set route_paths"
    and "\<And>req. at_path path req \<Longrightarrow> H req =
        post (codec_of err enc (store_struct fs) view zero) call req"
  shows "map (\<lambda>body. H (post_request path body) s) malformed_bodies =
     map (\<lambda>e. (http_Error (lit ''bad json: '' @ err e) 400, s)) [ErrEOF, ErrUnexpectedEOF,
     ErrType (lit ''array''), ErrBase64]"
proof -
  obtain r' where "store_struct fs (JObject [(lit ''Signature'', JString (lit ''!''))]) zero = (r', Saved ErrBase64)"
    using bad_signature [OF assms(1,2)] by blast
  moreover have "H (post_request path body) = post (codec_of err enc (store_struct fs) view zero) call
      (received MethodPost path [] [] body)" for body
    unfolding post_request_def by (rule assms(4) [OF received_at_path [OF assms(3)]])
  ultimately show ?thesis using malformed_scanned
    by (simp add: malformed_bodies_def post_def received_def decode_def codec_of_def wrong_kind_def)
qed

text \<open>The malformed bodies of server_test.go, an empty body, an unfinished object, an array and a signature
  that is not base64, are answered with status 400 on all four posting routes, and the coordinator is not
  called.\<close>

lemma malformed_refused:
  fixes C :: "'s Coordinator"
  shows "map (\<lambda>path. map (\<lambda>body. Handler (go_json err z nil) C (post_request path body) s)
      malformed_bodies)
     [lit ''/v0/listing'', lit ''/v0/heartbeat'', lit ''/v0/decline'', lit ''/v0/report''] =
   replicate 4 (map (\<lambda>e. (http_Error (lit ''bad json: '' @ err e) 400, s))
     [ErrEOF, ErrUnexpectedEOF, ErrType (lit ''array''), ErrBase64])"
proof -
  let ?H = "Handler (go_json err z nil) C"
  let ?refused = "map (\<lambda>e. (http_Error (lit ''bad json: '' @ err e) 400, s)) [ErrEOF, ErrUnexpectedEOF,
      ErrType (lit ''array''), ErrBase64]"
  have "map (\<lambda>body. ?H (post_request (lit ''/v0/listing'') body) s) malformed_bodies = ?refused"
    by (rule bad_bodies [OF CapabilityListing_names [of z]]) (simp_all add: CapabilityListing_fields_def Handler_routes go_json_def route_paths_def)
  moreover have "map (\<lambda>body. ?H (post_request (lit ''/v0/heartbeat'') body) s) malformed_bodies = ?refused"
    by (rule bad_bodies [OF Heartbeat_names [of z]]) (simp_all add: Heartbeat_fields_def Handler_routes go_json_def route_paths_def)
  moreover have "map (\<lambda>body. ?H (post_request (lit ''/v0/decline'') body) s) malformed_bodies = ?refused"
    by (rule bad_bodies [OF Decline_names [of z]]) (simp_all add: Decline_fields_def Handler_routes go_json_def route_paths_def)
  moreover have "map (\<lambda>body. ?H (post_request (lit ''/v0/report'') body) s) malformed_bodies = ?refused"
    by (rule bad_bodies [OF JobReport_names [of z]]) (simp_all add: JobReport_fields_def Handler_routes go_json_def route_paths_def)
  moreover have "replicate 4 x = [x, x, x, x]" for x :: "(http_response \<times> 's) list" by (simp add: numeral_eq_Suc)
  ultimately show ?thesis by (simp only: list.map)
qed

end
