(* ===== verification/Base_Url.thy ===== *)
theory Base_Url
  imports Transport_Properties
begin

text \<open>
  The base URL of a client: a root leads every route to its handler, any other base URL leads none there at first,
  a trailing slash leads there over a redirect that turns posts into GETs, and a base URL that does not parse is
  refused before a request is made.
\<close>

section \<open>A base URL with a path\<close>

lemma count_route: "p \<in> set route_paths \<Longrightarrow> count_list p 0x2F = 2"
  using route_okD by (auto simp: route_ok_def)

lemma patterns_short: "\<forall>p \<in> set route_paths. length (mux_segments p) = 2"
  using route_okD by (auto simp: route_ok_def)

lemma deep_route:
  assumes "base_url b u" and "url_Path u \<noteq> []" and "p \<in> set route_paths"
  shows "\<exists>r. EscapedPath (route_url u p q) = 0x2F # r" and "3 \<le> count_list (EscapedPath (route_url u p q)) 0x2F"
proof -
  let ?u = "route_url u p q"
  have "raw_path u \<noteq> []"
    using assms(2) base_url_fixed(3) [OF assms(1)] by (auto simp: unescape_path_Nil)
  then obtain r0 where r0: "raw_path u = 0x2F # r0" using base_url_fixed(4) [OF assms(1)] by auto
  have raw: "raw_path ?u = raw_path u @ p" "unescape_with EncodePath (raw_path ?u) = Inr (url_Path ?u)"
    using route_url_raw [OF assms(1,3)] by (simp_all add: route_url_def)
  then obtain r where r: "0x2F # r = url_Path ?u" using r0 by (auto simp: unescape_path_Cons)
  show "\<exists>r. EscapedPath ?u = 0x2F # r"
    by (rule EscapedPath_rooted(1) [OF r [symmetric]]) (simp add: raw(1) r0)
  have "3 \<le> count_list (raw_path ?u) 0x2F" using raw(1) r0 count_route [OF assms(3)] by (simp add: count_list_append)
  also have "\<dots> \<le> count_list (EscapedPath ?u) 0x2F" by (rule count_EscapedPath [OF raw(2) r [symmetric]])
  finally show "3 \<le> count_list (EscapedPath ?u) 0x2F" .
qed

lemma deep_route_refused:
  assumes "EscapedPath (rq_URL r) = 0x2F # e" and "3 \<le> count_list (EscapedPath (rq_URL r)) 0x2F" and "url_Opaque (rq_URL r) = []"
  shows "\<exists>resp. Handler J C r s = (resp, s) \<and> rs_Status resp \<in> {301, 404}"
proof -
  have star: "RequestURI (rq_URL r) \<noteq> lit ''*''" using assms(1,3) by (simp add: RequestURI_def lit_def)
  have "findHandler route_paths (rq_Method r) (rq_URL r) \<in> {Unmatched} \<union> range Redirected"
    by (rule findHandler_deep [OF assms(1)]) (use patterns_short assms(2) in auto)
  then show ?thesis using Handler_otherwise(1) [OF star, where J = J and C = C and s = s]
      Handler_otherwise(2) [OF star, where J = J and C = C and s = s]
    by (auto simp: http_NotFound_def http_Error_def http_Moved_def)
qed

section \<open>A base URL with a trailing slash\<close>

lemma slash_routes: "p \<in> set route_paths \<Longrightarrow> cleanPath (0x2F # p) = p" "p \<in> set route_paths \<Longrightarrow> resolvePath r p = p"
    "p \<in> set route_paths \<Longrightarrow> escape_with EncodePath p = p \<and> 0x2F # p \<noteq> p \<and> list_all (\<lambda>c. c < 0x80) p"
proof -
  have "list_all (\<lambda>p. cleanPath (0x2F # p) = p \<and> resolvePath [] p = p \<and> escape_with EncodePath p = p \<and>
      list_all (\<lambda>c. c < 0x80) p) route_paths"
    by code_simp
  moreover have "resolvePath r p = resolvePath [] p" if "p \<noteq> []" "hd p = 0x2F" for p
    using that by (simp add: resolvePath_def)
  ultimately show "p \<in> set route_paths \<Longrightarrow> cleanPath (0x2F # p) = p" "p \<in> set route_paths \<Longrightarrow> resolvePath r p = p"
    "p \<in> set route_paths \<Longrightarrow> escape_with EncodePath p = p \<and> 0x2F # p \<noteq> p \<and> list_all (\<lambda>c. c < 0x80) p"
    using route_okD [of p] by (auto simp: list_all_iff route_ok_def)
qed

lemma hexEscape_ascii: "list_all (\<lambda>c. c < 0x80) s \<Longrightarrow> hexEscapeNonASCII s = s"
  by (induction s) (simp_all add: hexEscapeNonASCII_def)

text \<open>A root is its scheme, user and host.\<close>

lemma root_url:
  assumes "base_url b u" and "url_Path u = []"
  shows "u = zero_url\<lparr>url_Scheme := url_Scheme u, url_User := url_User u, url_Host := url_Host u\<rparr>"
proof -
  from assms(1) obtain path v where v: "setPath path v = Inr u"
      "v = zero_url\<lparr>url_Scheme := url_Scheme v, url_User := url_User u, url_Host := url_Host u\<rparr>"
    by (rule base_url_parts) (auto simp: zero_url_def)
  with raw_path_root [OF assms(2) v(1)] setPath_raw_path(3) [OF v(1)] assms(2)
  have "u = v\<lparr>url_Path := [], url_RawPath := []\<rparr>" by simp
  then show ?thesis using v(2) by (cases u; cases v) (simp add: zero_url_def)
qed

lemma slash_base:
  assumes "base_url b u" and "url_Path u = []"
  shows "base_url (b @ [0x2F]) (u\<lparr>url_Path := [0x2F]\<rparr>)"
proof -
  have "\<not> shouldEscape EncodePath 0x2F" by (rule slash_path_byte)
  then have "url_Parse (b @ [0x2F]) = Inr (u\<lparr>url_Path := [0x2F], url_RawPath := url_RawPath u, url_RawQuery := []\<rparr>)"
    using url_Parse_route [OF assms(1), of "[]" "[]"] assms(2) root_url [OF assms]
    by (cases u) (simp add: zero_url_def)
  then show ?thesis using assms(1) root_url [OF assms] by (cases u) (simp add: base_url_def zero_url_def)
qed

text \<open>The server redirects to the route, and the client takes the location for the route of the root.\<close>

lemma slash_moved:
  assumes "base_url b u" and "url_Path u = []" and "p \<in> set route_paths" and "route_query q" and "meth \<noteq> lit ''CONNECT''"
  shows "\<exists>r. http_Server (Handler J C) \<lparr>rq_Method = meth, rq_URL = route_url (u\<lparr>url_Path := [0x2F]\<rparr>) p q,
      rq_ContentType = ctype, rq_Body = body\<rparr> s = (Inr (http_Moved r (p @ query_text q)), s)"
proof -
  let ?v = "u\<lparr>url_Path := [0x2F]\<rparr>"
  obtain w where w: "url_ParseRequestURI (RequestURI (route_url ?v p q)) = Inr w"
      "EscapedPath w = EscapedPath (route_url ?v p q)" "url_RawQuery w = q" "url_Opaque w = []"
    using route_on_the_wire [OF slash_base [OF assms(1,2)] assms(3,4)] by blast
  note p = slash_routes [OF assms(3)]
  have "url_RawPath u = []" using arg_cong [OF root_url [OF assms(1,2)], of url_RawPath]
    by (simp add: zero_url_def)
  then have "EscapedPath (route_url ?v p q) = 0x2F # p"
    using p(3) route_okD [OF assms(3)] by (auto simp: EscapedPath_def route_url_def escape_slash lit_def route_ok_def)
  then have path: "EscapedPath w = 0x2F # p" using w(2) by simp
  let ?r = "\<lparr>rq_Method = meth, rq_URL = w, rq_ContentType = ctype, rq_Body = body\<rparr>"
  have "findHandler route_paths meth w = Redirected (p @ query_text q)"
    using p assms(5) path w(3) by (simp add: findHandler_def redirect_url_def)
  moreover have "RequestURI w \<noteq> lit ''*''" using path w(4) by (simp add: RequestURI_def lit_def)
  ultimately have "Handler J C ?r s = (http_Moved ?r (p @ query_text q), s)" by (intro Handler_otherwise(2)) simp_all
  then show ?thesis using w(1) by (auto simp: http_Server_def)
qed
lemma route_parsed:
  assumes "p \<in> set route_paths" and "route_query q"
  shows "url_Parse (p @ query_text q) = Inr (zero_url\<lparr>url_Path := p, url_RawQuery := q\<rparr>)"
proof -
  let ?s = "p @ query_text q"
  have ok: "list_all uri_byte p" "p \<noteq> []" "hd p = 0x2F" using route_okD [OF assms(1)] by (auto simp: route_ok_def list_all_iff)
  then obtain x where x: "p = 0x2F # x" by (cases p) auto
  have plain: "x0 \<noteq> 0x3F \<and> x0 \<noteq> 0x23 \<and> \<not> control_byte x0" if "x0 \<in> set p" for x0
    using ok(1) that by (auto simp: uri_byte_def list_all_iff)
  have "0x23 \<notin> set ?s" using plain route_query_clean [OF assms(2)] by (auto simp: query_text_def)
  then have cut: "cut_before 0x23 ?s = ?s" "cut_after 0x23 ?s = []" using cut_clean by blast+
  have ctl: "\<not> list_ex control_byte ?s" using plain route_query_clean [OF assms(2)]
    by (auto simp: list_ex_iff query_text_def control_byte_def)
  have star: "?s \<noteq> lit ''*''" and ne: "?s \<noteq> []" using x by (simp_all add: lit_def)
  have gs: "getScheme ?s = Inr ([], ?s)" using x by (simp add: getScheme_def letter_def digit_def lit_def)
  have "0x3F \<notin> set p" using plain by blast
  from split_query_text [OF this] have sq: "split_query ?s = (p, False, q)" .
  have "\<not> prefix (lit ''//'') p" using assms(1) by (auto simp: route_paths_def lit_def)
  moreover have "prefix (lit ''/'') p" using x by (simp add: lit_def)
  ultimately have "parse_url False ?s = setPath p (zero_url\<lparr>url_RawQuery := q\<rparr>)"
    unfolding parse_url_rooted [OF ctl star ne gs sq] by (simp add: parse_hier_def zero_url_def to_lower_def)
  then show ?thesis using cut slash_routes(3) [OF assms(1)] unescape_path_escaped [of p]
    by (simp add: url_Parse_def setPath_def zero_url_def)
qed

lemma route_location:
  assumes "base_url b u" and "url_Path u = []" and "p \<in> set route_paths" and "route_query q"
  shows "URL_Parse (route_url (u\<lparr>url_Path := [0x2F]\<rparr>) p q) (p @ query_text q) = Inr (route_url u p q)"
proof -
  note p = slash_routes [OF assms(3)] and q = route_query_clean [OF assms(4)]
  have ok: "list_all uri_byte p" "p \<noteq> []" "hd p = 0x2F" "p \<noteq> lit ''*''" "count_list p 0x2F = 2" "cleanPath p = p"
    using route_okD [OF assms(3)] by (auto simp: route_ok_def list_all_iff)
  have parsed: "url_Parse (p @ query_text q) = Inr (zero_url\<lparr>url_Path := p, url_RawQuery := q\<rparr>)"
    using route_parsed [OF assms(3,4)] .
  have "EscapedPath (zero_url\<lparr>url_Path := p, url_RawQuery := q\<rparr>) = p"
    using p(3) ok(4) by (simp add: EscapedPath_def zero_url_def)
  then have "ResolveReference (route_url (u\<lparr>url_Path := [0x2F]\<rparr>) p q) (zero_url\<lparr>url_Path := p, url_RawQuery := q\<rparr>) =
      route_url u p q"
    using p(2,3) ok(2) unescape_path_escaped [of p] root_url [OF assms(1,2)]
    by (cases u) (simp add: ResolveReference_def set_resolved_def setPath_def route_url_def zero_url_def)
  with parsed show ?thesis by (simp add: URL_Parse_def)
qed

text \<open>So a client with a trailing slash gets, on every route, what the handler answers to a GET without a body.\<close>

lemma slash_exchange:
  assumes "base_url root u" and "url_Path u = []" and "hc_BaseURL c = root @ [0x2F]" and "httpClient c = HttpClient t"
    and "delivers env c (Handler J C)" and "p \<in> set route_paths" and "route_query q" and "list_all (\<lambda>c. c < 0x80) q"
    and "meth \<in> {MethodGet, MethodPost}"
    and "Handler J C (received MethodGet p q ctype []) s = (resp, s')" and "\<not> redirected (Inr resp)"
  shows "exchanged_as (0x2F # p) env c meth p q ctype body s resp s'"
proof -
  let ?v = "u\<lparr>url_Path := [0x2F]\<rparr>" and ?send = "client_Transport env t"
  note base = slash_base [OF assms(1,2)]
  let ?req = "\<lparr>rq_Method = meth, rq_URL = route_url ?v p q, rq_ContentType = ctype, rq_Body = body\<rparr>"
  let ?next = "\<lparr>rq_Method = MethodGet, rq_URL = route_url u p q, rq_ContentType = ctype, rq_Body = []\<rparr>"
  have sent: "?send req t = http_Server (Handler J C) req t" if "addressed_to (hc_BaseURL c) req" for req t
    using assms(4,5) that by (simp add: delivers_def)
  have "base_of (hc_BaseURL c) = Some ?v" using base unfolding assms(3) base_of_iff .
  then have to: "addressed_to (hc_BaseURL c) ?req" "addressed_to (hc_BaseURL c) ?next"
    by (simp_all add: addressed_to_def route_url_def)
  have meth: "meth \<noteq> lit ''CONNECT''" "(if meth = lit ''HEAD'' then lit ''HEAD'' else lit ''GET'') = MethodGet"
    using assms(9) by (auto simp: MethodGet_def MethodPost_def lit_def)
  obtain r where moved: "?send ?req s = (Inr (http_Moved r (p @ query_text q)), s)"
    using slash_moved [OF assms(1,2,6,7) meth(1)] sent [OF to(1)] by metis
  have "rs_Location (http_Moved r (p @ query_text q)) = p @ query_text q"
    using slash_routes(3) [OF assms(6)] assms(8)
    by (simp add: http_Moved_def hexEscape_ascii query_text_def)
  moreover have "p \<noteq> []" using route_okD [OF assms(6)] by (simp add: route_ok_def)
  ultimately have "do_hops (he_Quote env) ?send (Suc 8) ?req ?req s = do_hops (he_Quote env) ?send 8 ?req ?next s"
    using do_hops_moved [of ?send ?req s _ s "route_url u p q" "he_Quote env" 8 ?req, OF moved] route_location [OF assms(1,2,6,7)] meth(2)
    by (simp add: http_Moved_def)
  moreover have "?send ?next s = (Inr resp, s')"
    using sent [OF to(2)] assms(10) ParseRequestURI_route [OF assms(1,2,6,7)] by (simp add: http_Server_def received_def)
  ultimately have "Client_Do env (httpClient c) ?req s = (Inr resp, s')"
    using do_hops_done [of ?send ?next s resp s', OF _ assms(11)] assms(4) by (simp add: eval_nat_numeral)
  moreover have "NewRequest env meth (hc_BaseURL c @ p @ query_text q) body =
      Inr \<lparr>rq_Method = meth, rq_URL = route_url ?v p q, rq_ContentType = [], rq_Body = body\<rparr>"
    using NewRequest_route [OF base assms(6,7)] assms(3) by simp
  ultimately show ?thesis by (auto simp: exchanged_as_def route_url_def)
qed

section \<open>Properties\<close>

text \<open>C35: what a base URL leads to. The request of each route, made from a base URL with a scheme, a host, no query
  and no fragment, parses. When the base URL has no path, the server hands the handler the very route and
  query; when it has one, even a single slash, the handler answers 301 or 404 without calling the
  coordinator: the comment on \<open>Client\<close> (client.go:30) is a precondition of all six methods.\<close>

theorem base_url_decides:
  assumes "base_url b u" and "p \<in> set route_paths" and "route_query q"
  shows "\<exists>req. NewRequest env meth (b @ p @ query_text q) body = Inr req \<and>
    (if url_Path u = []
     then http_Server H req s = (case H (received meth p q [] body) s of (resp, s') \<Rightarrow> (Inr resp, s'))
     else \<exists>resp. http_Server (Handler J C) req t = (Inr resp, t) \<and> rs_Status resp \<in> {301, 404})"
proof (cases "url_Path u = []")
  case True
  with NewRequest_route [OF assms, of env meth body] ParseRequestURI_route [OF assms(1) True assms(2,3)] show ?thesis
    by (simp add: http_Server_def received_def)
next
  case False
  obtain v where v: "url_ParseRequestURI (RequestURI (route_url u p q)) = Inr v"
      "EscapedPath v = EscapedPath (route_url u p q)" "url_Opaque v = []"
    using route_on_the_wire [OF assms] by blast
  let ?req = "\<lparr>rq_Method = meth, rq_URL = route_url u p q, rq_ContentType = [], rq_Body = body\<rparr>"
  obtain e where "EscapedPath v = 0x2F # e" "3 \<le> count_list (EscapedPath v) 0x2F"
    using deep_route [OF assms(1) False assms(2), of q] v(2) by auto
  then obtain resp where "Handler J C (?req\<lparr>rq_URL := v\<rparr>) t = (resp, t)" "rs_Status resp \<in> {301, 404}"
    using deep_route_refused [of "?req\<lparr>rq_URL := v\<rparr>" e J C t] v(3) by auto
  with v(1) have "http_Server (Handler J C) ?req t = (Inr resp, t) \<and> rs_Status resp \<in> {301, 404}"
    by (simp add: http_Server_def)
  with NewRequest_route [OF assms, of env meth body] False show ?thesis by auto
qed

lemma base_url_decides_witness:
  "\<exists>req resp. NewRequest demo_env MethodGet (lit ''http://c/'' @ lit ''/v0/fees'') [] = Inr req \<and>
     http_Server (Handler demo_json counting) req (7, []) = (Inr resp, (7, [])) \<and> rs_Status resp \<in> {301, 404}"
proof -
  let ?u = "zero_url\<lparr>url_Scheme := lit ''http'', url_Host := lit ''c'', url_Path := lit ''/''\<rparr>"
  have "base_of (lit ''http://c/'') = Some ?u" by code_simp
  then have "base_url (lit ''http://c/'') ?u" by (simp only: base_of_iff)
  moreover have "url_Path ?u \<noteq> []" by (simp add: lit_def)
  ultimately show ?thesis
    using base_url_decides [of "lit ''http://c/''" ?u "lit ''/v0/fees''" "[]" demo_env MethodGet "[]" undefined undefined
        demo_json counting "(7, [])"]
    by (auto simp: route_paths_def)
qed

text \<open>A base URL without a scheme before its first colon (client_test.go's \<open>://invalid\<close>) is refused by all
  six methods: the error is that of \<open>url.Parse\<close>, or of the encoder when the message does not encode, no
  request is made and nothing is returned.\<close>

definition parse_error :: "'s http_env \<Rightarrow> 's Client \<Rightarrow> bytes \<Rightarrow> go_error" where
  "parse_error env c path = lit ''parse '' @ he_Quote env (hc_BaseURL c @ path) @ lit '': missing protocol scheme''"

lemma NewRequest_no_scheme:
  assumes "hc_BaseURL c = 0x3A # r" and "list_all uri_byte r" and "p \<in> set route_paths" and "route_query q"
  shows "NewRequest env meth (hc_BaseURL c @ p @ query_text q) body = Inl (parse_error env c (p @ query_text q))"
proof -
  let ?t = "hc_BaseURL c @ p @ query_text q"
  have "list_all uri_byte p" using route_okD [OF assms(3)] by (auto simp: route_ok_def list_all_iff)
  moreover have "list_all uri_byte q" using assms(4) by (simp add: route_query_def)
  moreover have "x \<noteq> 0x23 \<and> \<not> control_byte x" if "uri_byte x \<or> x = 0x3A \<or> x = 0x3F" for x
    using that by (auto simp: uri_byte_def control_byte_def)
  ultimately have bytes: "\<forall>x \<in> set ?t. x \<noteq> 0x23 \<and> \<not> control_byte x"
    using assms(1,2) by (simp add: list_all_iff query_text_def) blast
  then have "0x23 \<notin> set ?t" by blast
  have ctl: "\<not> list_ex control_byte ?t" using bytes by (simp add: list_ex_iff)
  from \<open>0x23 \<notin> set ?t\<close> have "cut_before 0x23 ?t = ?t" using cut_clean by blast
  moreover have "parse_url False ?t = Inl UrlNoScheme"
    using ctl assms(1) by (simp add: parse_url_def getScheme_def letter_def digit_def lit_def)
  ultimately show ?thesis by (simp add: NewRequest_def url_Parse_def parse_error_def lit_def)
qed

lemma postJSON_no_scheme:
  assumes "hc_BaseURL c = 0x3A # r" and "list_all uri_byte r" and "p \<in> set route_paths"
  shows "postJSON env c jc p v s =
    (Some (case jc_Marshal jc v of Inl e \<Rightarrow> e | Inr _ \<Rightarrow> parse_error env c p), s)"
  using NewRequest_no_scheme [OF assms route_query_Nil] by (simp add: postJSON_def split: sum.split)

lemma getJSON_no_scheme:
  assumes "hc_BaseURL c = 0x3A # r" and "list_all uri_byte r" and "p \<in> set route_paths" and "route_query q"
  shows "getJSON env c jc (p @ query_text q) zero s = ((zero, Some (parse_error env c (p @ query_text q))), s)"
  using NewRequest_no_scheme [OF assms] by (simp add: getJSON_def)

theorem base_url_without_scheme:
  assumes "hc_BaseURL c = 0x3A # r" and "list_all uri_byte r"
  shows "Client_SubmitListing env J c l s = (Some (case jc_Marshal (jn_listing J) l of
        Inl e \<Rightarrow> e | Inr _ \<Rightarrow> parse_error env c (lit ''/v0/listing'')), s) \<and>
    Client_Heartbeat env J c h s = (Some (case jc_Marshal (jn_heartbeat J) h of
        Inl e \<Rightarrow> e | Inr _ \<Rightarrow> parse_error env c (lit ''/v0/heartbeat'')), s) \<and>
    Client_Decline env J c d s = (Some (case jc_Marshal (jn_decline J) d of
        Inl e \<Rightarrow> e | Inr _ \<Rightarrow> parse_error env c (lit ''/v0/decline'')), s) \<and>
    Client_ReportJob env J c jr s = (Some (case jc_Marshal (jn_report J) jr of
        Inl e \<Rightarrow> e | Inr _ \<Rightarrow> parse_error env c (lit ''/v0/report'')), s) \<and>
    Client_PollJobs env J c nodeID s = (([], Some (parse_error env c (lit ''/v0/jobs?node_id='' @ QueryEscape nodeID))), s) \<and>
    Client_Fees env J c s = ((zero_FeeDeclaration, Some (parse_error env c (lit ''/v0/fees''))), s)"
proof -
  note post = postJSON_no_scheme [OF assms] and get = getJSON_no_scheme [OF assms]
  have "getJSON env c jc (lit ''/v0/fees'') zero s = ((zero, Some (parse_error env c (lit ''/v0/fees''))), s)"
    for jc and zero :: FeeDeclaration
    using get [OF _ route_query_Nil, of "lit ''/v0/fees''"] by (simp add: route_paths_def)
  then show ?thesis
    by (simp add: Client_SubmitListing_def Client_Heartbeat_def Client_Decline_def Client_ReportJob_def Client_PollJobs_def
        Client_Fees_def post get [OF _ poll_query] poll_url route_paths_def)
qed

lemma base_url_without_scheme_witness:
  "Client_Fees demo_env demo_json (demo_client\<lparr>hc_BaseURL := lit ''://invalid''\<rparr>) (7, []) =
     ((zero_FeeDeclaration, Some (parse_error demo_env (demo_client\<lparr>hc_BaseURL := lit ''://invalid''\<rparr>)
       (lit ''/v0/fees''))), (7, []))"
proof -
  have bytes: "list_all uri_byte (lit ''//invalid'')" by code_simp
  have base: "hc_BaseURL (demo_client\<lparr>hc_BaseURL := lit ''://invalid''\<rparr> :: (nat \<times> bytes) Client) =
      0x3A # lit ''//invalid''"
    by (simp add: lit_def)
  show ?thesis
    by (rule base_url_without_scheme [OF base bytes, THEN conjunct2, THEN conjunct2, THEN conjunct2, THEN conjunct2,
          THEN conjunct2])
qed

section \<open>What the trailing slash does to the six methods\<close>

lemma QueryEscape_ascii: "list_all (\<lambda>c. c < 0x80) (lit ''node_id='' @ QueryEscape v)"
proof -
  have "list_all (\<lambda>n. upperhex (word_of_nat n) < 0x80) [0..<16]" by code_simp
  then have hex: "c < 16 \<Longrightarrow> upperhex c < 0x80" for c by (rule nibble_cases)
  have "list_all (\<lambda>c. c < 0x80) (escape_byte c)" for c
    using hex nibbles [of c]
    by (auto simp: escape_byte_def unreserved_def word_le_nat_alt word_less_nat_alt)
  moreover have "list_all (\<lambda>c. c < 0x80) (lit ''node_id='')" by code_simp
  ultimately show ?thesis by (auto simp: QueryEscape_def list_all_iff)
qed

lemma post_refused:
  assumes "exchanged_as shown env c MethodPost p [] (lit ''application/json'') b s methodNotAllowed s'"
    and "jc_Marshal jc v = Inr b"
  shows "postJSON env c jc p v s =
    (Some (reported MethodPost shown (lit ''405'') (lit ''method not allowed'' @ [0x0A])), s')"
proof -
  have "decimal 405 = lit ''405''" by code_simp
  with assms show ?thesis
    by (auto simp: exchanged_as_def postJSON_def client_do_def methodNotAllowed_def http_Error_def status_error_def
        reported_def)
qed

lemma slash_post:
  assumes "base_url root u" and "url_Path u = []" and "hc_BaseURL c = root @ lit ''/''" and "httpClient c = HttpClient t"
    and "delivers env c (Handler J C)" and "carries jc v v'" and "p \<in> set (take 4 route_paths)"
  shows "postJSON env c jc p v s =
    (Some (reported MethodPost (lit ''/'' @ p) (lit ''405'') (lit ''method not allowed'' @ [0x0A])), s)"
proof -
  from assms(6) obtain b where b: "jc_Marshal jc v = Inr b" by (auto simp: carries_def)
  have root: "hc_BaseURL c = root @ [0x2F]" using assms(3) by (simp add: lit_def)
  have "Handler J C (received MethodGet p [] (lit ''application/json'') []) s = (methodNotAllowed, s)"
    using assms(7) by (auto simp: route_paths_def Handler_received)
      (auto simp: post_def received_def MethodGet_def MethodPost_def lit_def)
  moreover have "p \<in> set route_paths" using assms(7) by (auto simp: route_paths_def)
  ultimately have "exchanged_as (0x2F # p) env c MethodPost p [] (lit ''application/json'') b s methodNotAllowed s"
    by (intro slash_exchange [OF assms(1,2) root assms(4,5)]) (simp_all add: methodNotAllowed_def http_Error_def)
  then show ?thesis using post_refused [OF _ b] by (simp add: lit_def)
qed

text \<open>C34: a trailing slash in the base URL splits the client in two. The mux redirects every request, and a
  redirected POST becomes a GET without a body: the two polls reach the coordinator and work as with the root,
  but the four posts are refused with status 405 and the coordinator is never called: a node that polls happily
  gets none of its listings, heartbeats, refusals and reports through (client.go:30 asks for no trailing slash).\<close>

theorem trailing_slash_loses_posts:
  assumes "base_url root u" and "url_Path u = []" and "hc_BaseURL c = root @ lit ''/''" and "httpClient c = HttpClient t"
    and "delivers env c (Handler J C)"
    and "nodeID \<noteq> []" and "co_PollJobs C nodeID s = ((jobs, None), s')" and "carries_line (jn_jobs J) jobs jobs'"
    and "co_Fees C s = ((fee, None), s'')" and "carries_line (jn_fees J) fee fee'"
    and "carries (jn_listing J) l l'" and "carries (jn_heartbeat J) h h'" and "carries (jn_decline J) d d'"
    and "carries (jn_report J) r r'"
  shows "let refused = (\<lambda>p. (Some (reported MethodPost (lit ''/'' @ p) (lit ''405'') (lit ''method not allowed'' @ [0x0A])), s)) in
    Client_PollJobs env J c nodeID s = ((jobs', None), s') \<and>
    Client_Fees env J c s = ((fee', None), s'') \<and>
    Client_SubmitListing env J c l s = refused (lit ''/v0/listing'') \<and>
    Client_Heartbeat env J c h s = refused (lit ''/v0/heartbeat'') \<and>
    Client_Decline env J c d s = refused (lit ''/v0/decline'') \<and>
    Client_ReportJob env J c r s = refused (lit ''/v0/report'')"
proof -
  have root: "hc_BaseURL c = root @ [0x2F]" using assms(3) by (simp add: lit_def)
  note exchange = slash_exchange [OF assms(1,2) root assms(4,5)]
  have "exchanged_as (0x2F # lit ''/v0/jobs'') env c MethodGet (lit ''/v0/jobs'') (lit ''node_id='' @ QueryEscape nodeID) [] []
      s (writeJSON (jn_jobs J) jobs) s'"
    using jobs_answer [OF assms(6,7), of J]
    by (intro exchange poll_query QueryEscape_ascii) (simp_all add: route_paths_def writeJSON_def)
  from get_ok [OF this assms(8)] have "Client_PollJobs env J c nodeID s = ((jobs', None), s')"
    by (simp add: Client_PollJobs_def poll_url)
  moreover have "exchanged_as (0x2F # lit ''/v0/fees'') env c MethodGet (lit ''/v0/fees'') [] [] [] s
      (writeJSON (jn_fees J) fee) s''"
    using assms(9) Handler_received(6) [of J C MethodGet "[]" "[]" "[]"]
    by (intro exchange route_query_Nil) (simp_all add: route_paths_def handle_fees_def received_def writeJSON_def)
  from get_ok [OF this assms(10)] have "Client_Fees env J c s = ((fee', None), s'')"
    by (simp add: Client_Fees_def)
  moreover note post = slash_post [OF assms(1-5)]
  ultimately show ?thesis
    by (simp add: Let_def Client_SubmitListing_def Client_Heartbeat_def Client_Decline_def Client_ReportJob_def route_paths_def
        post [OF assms(11)] post [OF assms(12)] post [OF assms(13)] post [OF assms(14)])
qed

lemma trailing_slash_loses_posts_witness:
  "let c = \<lparr>hc_BaseURL = lit ''http://c/'', hc_HTTP = None\<rparr>; C = counting\<lparr>co_Fees := Pair (zero_FeeDeclaration, None)\<rparr>;
     env = loopback (Handler demo_json C) in
   Client_PollJobs env demo_json c (lit ''n'') (0, []) = (([], None), (1, lit ''n'')) \<and>
   Client_Heartbeat env demo_json c demo_beat (0, []) =
     (Some (reported MethodPost (lit ''//v0/heartbeat'') (lit ''405'') (lit ''method not allowed'' @ [0x0A])), (0, []))"
proof -
  let ?c = "\<lparr>hc_BaseURL = lit ''http://c/'', hc_HTTP = None\<rparr> :: (nat \<times> bytes) Client"
  let ?C = "counting\<lparr>co_Fees := Pair (zero_FeeDeclaration, None)\<rparr>"
  obtain u where u: "base_url (lit ''http://c'') u" "url_Path u = []" using demo_root by (auto simp: coordinator_root_iff)
  have c: "hc_BaseURL ?c = lit ''http://c'' @ lit ''/''" "httpClient ?c = HttpClient None" "lit ''n'' \<noteq> []"
    by (simp_all add: lit_def httpClient_def)
  have net: "delivers (loopback (Handler demo_json ?C)) ?c (Handler demo_json ?C)"
    by (simp add: delivers_def loopback_def httpClient_def client_Transport_def)
  have "co_PollJobs ?C (lit ''n'') (0, []) = (([], None), (1, lit ''n''))"
    "co_Fees ?C (0, []) = ((zero_FeeDeclaration, None), (0, []))"
    by (simp_all add: counting_def)
  note slash = trailing_slash_loses_posts [OF u c(1,2) net c(3) this(1) _ this(2), of "[]" zero_FeeDeclaration
      demo_listing demo_listing demo_beat demo_beat demo_decline demo_decline demo_report demo_report]
  show ?thesis using slash by (simp add: demo_json_def Let_def) (simp add: lit_def)
qed

end
