(* ===== verification/Transport_Tests.thy ===== *)
theory Transport_Tests
  imports Json_Properties Base_Url
begin

text \<open>
  The published tests of the transport (src/transport/httpjson/server_test.go, client_test.go), carried out in
  the model: the recording coordinator, the round trips through client, network, handler and JSON, the
  table of rejected requests, the coordinator's errors, and the table of responses the client reports.
\<close>

section \<open>The recording coordinator\<close>

datatype recorded = GotNothing | GotListing CapabilityListing | GotHeartbeat Heartbeat | GotDecline Decline |
  GotReport JobReport | GotNode NodeID

record recorder =
  rc_method :: bytes
  rc_input :: recorded
  rc_calls :: nat

definition rc_record :: "go_error option \<Rightarrow> bytes \<Rightarrow> recorded \<Rightarrow> (recorder, go_error option) proc" where
  "rc_record err method_name input c = (err, \<lparr>rc_method = method_name, rc_input = input, rc_calls = Suc (rc_calls c)\<rparr>)"

definition recordingCoordinator ::
  "go_error option \<Rightarrow> Assignment list \<Rightarrow> FeeDeclaration \<Rightarrow> recorder Coordinator" where
  "recordingCoordinator err jobs declared =
     \<lparr>co_SubmitListing = (\<lambda>v. rc_record err (lit ''listing'') (GotListing v)),
      co_Heartbeat = (\<lambda>v. rc_record err (lit ''heartbeat'') (GotHeartbeat v)),
      co_PollJobs = (\<lambda>nodeID c. case rc_record err (lit ''jobs'') (GotNode nodeID) c of (e, c') \<Rightarrow> ((jobs, e), c')),
      co_Decline = (\<lambda>v. rc_record err (lit ''decline'') (GotDecline v)),
      co_ReportJob = (\<lambda>v. rc_record err (lit ''report'') (GotReport v)),
      co_Fees = (\<lambda>c. case rc_record err (lit ''fees'') GotNothing c of (e, c') \<Rightarrow> ((declared, e), c'))\<rparr>"

definition unused :: recorder where
  "unused = \<lparr>rc_method = [], rc_input = GotNothing, rc_calls = 0\<rparr>"

definition called_with :: "bytes \<Rightarrow> recorded \<Rightarrow> recorder" where
  "called_with method_name input = \<lparr>rc_method = method_name, rc_input = input, rc_calls = 1\<rparr>"

section \<open>Round trips\<close>

text \<open>2026-01-02 03:04:05.000000123 UTC, and a node id with the characters a query must escape.\<close>

definition test_at :: go_time where
  "test_at = \<lparr>t_sec = 63902919845, t_nsec = 123, t_loc = None, t_mono = None\<rparr>"

definition test_node :: NodeID where
  "test_node = lit ''node +/&?='' @ [0xE9, 0x9B, 0xAA]"

definition advert :: CapabilityListing where
  "advert = \<lparr>cl_NodeID = test_node, cl_Class = ClassStandard, cl_Printers = [], cl_GPUs = [],
     cl_Capacity = \<lparr>ca_VCPUs = 4, ca_MemMB = 8192, ca_DiskMB = 0, ca_StorageCommitMB = 0, ca_PrintQPS = 0\<rparr>,
     cl_OptIn = \<lparr>oi_Compute = True, oi_Print = False, oi_Storage = False\<rparr>,
     cl_IssuedAt = test_at, cl_Seq = 7, cl_Signature = [1, 2, 3]\<rparr>"

definition test_beat :: Heartbeat where
  "test_beat = \<lparr>hb_NodeID = test_node, hb_SentAt = test_at, hb_Seq = 8, hb_Signature = [4, 5]\<rparr>"

definition test_decline :: Decline where
  "test_decline = \<lparr>dc_JobID = lit ''job-1'', dc_NodeID = test_node, dc_Reason = DeclineLocalPolicy,
     dc_DeclinedAt = test_at, dc_Signature = []\<rparr>"

definition test_report :: JobReport where
  "test_report = \<lparr>jr_JobID = lit ''job-2'', jr_NodeID = test_node, jr_ExitCode = 1, jr_FailureCause = lit ''timeout'',
     jr_TmpfsExhausted = False, jr_StartedAt = test_at, jr_FinishedAt = test_at\<lparr>t_sec := 63902919846\<rparr>, jr_Signature = []\<rparr>"

definition test_jobs :: "Assignment list" where
  "test_jobs = [zero_Assignment\<lparr>as_JobID := lit ''job-3'', as_NodeID := test_node, as_OfferedAt := test_at,
     as_Signature := [6, 7]\<rparr>]"

definition test_fees :: FeeDeclaration where
  "test_fees = \<lparr>fd_CoordinatorID = lit ''coordinator-1'',
     fd_Terms = \<lparr>ft_ContributorShareBps = 6500, ft_PlatformFeeBps = 3500\<rparr>,
     fd_EffectiveAt = test_at, fd_Seq = 9, fd_Signature = [8, 9]\<rparr>"

lemma test_time:
  assumes "t \<in> {test_at, test_at\<lparr>t_sec := 63902919846\<rparr>}"
  shows "wf_time t" and "\<exists>s. time_MarshalJSON utc_zones t = Inr s" and "time_arrives utc_zones t = t"
proof -
  show wf: "wf_time t" using assms by (auto simp: test_at_def wf_time_def)
  have "- (2 ^ 63) \<le> instant_ns t \<and> instant_ns t < 2 ^ 63" using assms by (auto simp: test_at_def instant_ns_def)
  with wf show "\<exists>s. time_MarshalJSON utc_zones t = Inr s" by (intro time_MarshalJSON_ok) simp_all
  show "time_arrives utc_zones t = t"
    using assms by (auto simp: time_arrives_def shown_offset_def zone_location_def test_at_def Let_def)
qed

lemma test_text: "valid_utf8 test_node"
  by code_simp

lemma test_values_arrive:
  "CapabilityListing_arrives utc_zones advert = advert" "Heartbeat_arrives utc_zones test_beat = test_beat"
  "Decline_arrives utc_zones test_decline = test_decline" "JobReport_arrives utc_zones test_report = test_report"
  "map (Assignment_arrives utc_zones) test_jobs = test_jobs" "FeeDeclaration_arrives utc_zones test_fees = test_fees"
proof -
  have texts: "sanitize test_node = test_node" "sanitize ClassStandard = ClassStandard"
      "sanitize (lit ''job-1'') = lit ''job-1''" "sanitize (lit ''job-2'') = lit ''job-2''"
      "sanitize (lit ''job-3'') = lit ''job-3''" "sanitize (lit ''timeout'') = lit ''timeout''"
      "sanitize DeclineLocalPolicy = DeclineLocalPolicy" "sanitize (lit ''coordinator-1'') = lit ''coordinator-1''"
      "sanitize [] = []"
    unfolding sanitize_id_iff by code_simp+
  note times = test_time(3) [of test_at, simplified] test_time(3) [of "test_at\<lparr>t_sec := 63902919846\<rparr>", simplified]
  show "CapabilityListing_arrives utc_zones advert = advert" "Heartbeat_arrives utc_zones test_beat = test_beat"
    "Decline_arrives utc_zones test_decline = test_decline" "JobReport_arrives utc_zones test_report = test_report"
    "map (Assignment_arrives utc_zones) test_jobs = test_jobs" "FeeDeclaration_arrives utc_zones test_fees = test_fees"
    by (simp_all add: CapabilityListing_arrives_def advert_def Heartbeat_arrives_def test_beat_def Decline_arrives_def
        test_decline_def JobReport_arrives_def test_report_def Assignment_arrives_def test_jobs_def zero_Assignment_def
        JobSpec_arrives_def FeeDeclaration_arrives_def test_fees_def texts times)
qed

definition test_json :: json where
  "test_json = go_json plain_error utc_zones True"

definition test_handler :: "recorder handler" where
  "test_handler = Handler test_json (recordingCoordinator None test_jobs test_fees)"

text \<open>\<open>TestClientHandlerPOSTRoundTrip\<close> and \<open>TestClientHandlerGETRoundTrip\<close>: each of the six client methods
  reaches the coordinator exactly once, under its own name and with the very value the test sends, and the
  two polls return the very value the coordinator answered.\<close>

theorem round_trip_tests:
  "let env = loopback test_handler in
   Client_SubmitListing env test_json demo_client advert unused = (None, called_with (lit ''listing'') (GotListing advert)) \<and>
   Client_Heartbeat env test_json demo_client test_beat unused =
     (None, called_with (lit ''heartbeat'') (GotHeartbeat test_beat)) \<and>
   Client_Decline env test_json demo_client test_decline unused =
     (None, called_with (lit ''decline'') (GotDecline test_decline)) \<and>
   Client_ReportJob env test_json demo_client test_report unused =
     (None, called_with (lit ''report'') (GotReport test_report)) \<and>
   Client_PollJobs env test_json demo_client test_node unused =
     ((test_jobs, None), called_with (lit ''jobs'') (GotNode test_node)) \<and>
   Client_Fees env test_json demo_client unused = ((test_fees, None), called_with (lit ''fees'') GotNothing)"
proof -
  let ?C = "recordingCoordinator None test_jobs test_fees" and ?J = "go_json plain_error utc_zones True"
  have served: "served_by (loopback test_handler) demo_client (Handler ?J ?C)"
    unfolding test_handler_def test_json_def demo_client_def by (rule loopback_served [OF demo_root])
  note at = test_time(1,2) [of test_at, simplified] test_time(1,2) [of "test_at\<lparr>t_sec := 63902919846\<rparr>", simplified]
  note sent = posts_arrive [OF served, where s = unused]
  have node: "test_node \<noteq> []" by (simp add: test_node_def)
  have jobs: "co_PollJobs ?C test_node unused = ((test_jobs, None), called_with (lit ''jobs'') (GotNode test_node))"
    and fees: "co_Fees ?C unused = ((test_fees, None), called_with (lit ''fees'') GotNothing)"
    by (simp_all add: recordingCoordinator_def rc_record_def called_with_def unused_def)
  have times: "cl_IssuedAt advert = test_at" "hb_SentAt test_beat = test_at" "dc_DeclinedAt test_decline = test_at"
      "jr_StartedAt test_report = test_at" "jr_FinishedAt test_report = test_at\<lparr>t_sec := 63902919846\<rparr>"
      "fd_EffectiveAt test_fees = test_at" "map as_OfferedAt test_jobs = [test_at]"
    by (simp_all add: advert_def test_beat_def test_decline_def test_report_def test_fees_def test_jobs_def)
  have jobs_ok: "list_all (\<lambda>a. wf_time (as_OfferedAt a)) test_jobs"
      "\<not> list_ex (\<lambda>a. isl (time_MarshalJSON utc_zones (as_OfferedAt a))) test_jobs"
    using at by (auto simp: test_jobs_def)
  have calls: "co_SubmitListing ?C v unused = (None, called_with (lit ''listing'') (GotListing v))"
      "co_Heartbeat ?C h unused = (None, called_with (lit ''heartbeat'') (GotHeartbeat h))"
      "co_Decline ?C d unused = (None, called_with (lit ''decline'') (GotDecline d))"
      "co_ReportJob ?C r unused = (None, called_with (lit ''report'') (GotReport r))" for v h d r
    by (simp_all add: recordingCoordinator_def rc_record_def called_with_def unused_def)
  show ?thesis
    using sent(1) [of advert] sent(2) [of test_beat] sent(3) [of test_decline] sent(4) [of test_report]
      gets_arrive(1) [OF served node jobs jobs_ok(1)] gets_arrive(2) [OF served fees] at jobs_ok(2)
    by (simp add: Let_def times test_json_def refused_or_ok calls test_values_arrive) (auto simp: isl_def)
qed

section \<open>Requests the handler rejects, and errors of the coordinator\<close>

lemma empty_object_decoded:
  "\<exists>v. jc_Decode (jn_listing (go_json err z nil)) (lit ''{}'') = (v, None)"
  "\<exists>v. jc_Decode (jn_heartbeat (go_json err z nil)) (lit ''{}'') = (v, None)"
  "\<exists>v. jc_Decode (jn_decline (go_json err z nil)) (lit ''{}'') = (v, None)"
  "\<exists>v. jc_Decode (jn_report (go_json err z nil)) (lit ''{}'') = (v, None)"
proof -
  have "scan (lit ''{}'') = Inr (JObject [])" by code_simp
  then show "\<exists>v. jc_Decode (jn_listing (go_json err z nil)) (lit ''{}'') = (v, None)"
    "\<exists>v. jc_Decode (jn_heartbeat (go_json err z nil)) (lit ''{}'') = (v, None)"
    "\<exists>v. jc_Decode (jn_decline (go_json err z nil)) (lit ''{}'') = (v, None)"
    "\<exists>v. jc_Decode (jn_report (go_json err z nil)) (lit ''{}'') = (v, None)"
    by (simp_all add: go_json_def codec_of_def)
qed

lemma unknown_path:
  "findHandler route_paths MethodGet (zero_url\<lparr>url_Path := lit ''/v0/unknown'', url_RawQuery := q\<rparr>) = Unmatched"
  by code_simp

text \<open>\<open>TestHandlerRejectsInvalidRequests\<close> and \<open>TestHandlerReturnsCoordinatorErrors\<close>: a poll without a node id
  or with an empty one, an unknown route, a DELETE on each of the six routes and the four malformed bodies on
  each posting route are answered with their status and text and never reach the coordinator; an error of
  the coordinator is answered with status 500 and its text on every route, after exactly one call.\<close>

theorem handler_tests:
  fixes C :: "'s Coordinator"
  shows "let J = go_json err z nil; H = Handler J C; E = Handler J (recordingCoordinator (Some e) jobs declared);
      failed = http_Error e 500; posts = take 4 route_paths in
    map (\<lambda>q. H (get_request (lit ''/v0/jobs'') q) s) [[], lit ''node_id=''] =
      replicate 2 (http_Error (lit ''missing node_id'') 400, s) \<and>
    H (get_request (lit ''/v0/unknown'') []) s = (http_NotFound, s) \<and>
    map (\<lambda>p. H (received (lit ''DELETE'') p [] [] (lit ''{}'')) s) route_paths =
      replicate 6 (methodNotAllowed, s) \<and>
    map (\<lambda>p. map (\<lambda>body. H (post_request p body) s) malformed_bodies) posts =
      replicate 4 (map (\<lambda>je. (http_Error (lit ''bad json: '' @ err je) 400, s))
        [ErrEOF, ErrUnexpectedEOF, ErrType (lit ''array''), ErrBase64]) \<and>
    map (\<lambda>p. (\<lambda>(resp, c). (resp, rc_method c, rc_calls c)) (E (post_request p (lit ''{}'')) unused)) posts =
      map (\<lambda>name. (failed, name, 1)) [lit ''listing'', lit ''heartbeat'', lit ''decline'', lit ''report''] \<and>
    E (get_request (lit ''/v0/jobs'') (lit ''node_id=node-1'')) unused =
      (failed, called_with (lit ''jobs'') (GotNode (lit ''node-1''))) \<and>
    E (get_request (lit ''/v0/fees'') []) unused = (failed, called_with (lit ''fees'') GotNothing)"
proof -
  let ?J = "go_json err z nil" and ?R = "recordingCoordinator (Some e) jobs declared"
  note route = Handler_received
  have "map (\<lambda>q. Handler ?J C (get_request (lit ''/v0/jobs'') q) s) [[], lit ''node_id=''] =
      replicate 2 (http_Error (lit ''missing node_id'') 400, s)"
  proof -
    have "Query_Get [] (lit ''node_id'') = []" "Query_Get (lit ''node_id='') (lit ''node_id'') = []" by code_simp+
    then show ?thesis by (simp add: route get_request_def numeral_2_eq_2) (simp add: handle_jobs_def received_def)
  qed
  moreover have "Handler ?J C (get_request (lit ''/v0/unknown'') []) s = (http_NotFound, s)"
    by (rule Handler_otherwise(1)) (simp_all add: get_request_def received_def unknown_path, code_simp)
  moreover have "map (\<lambda>p. Handler ?J C (received (lit ''DELETE'') p [] [] (lit ''{}'')) s) route_paths =
      replicate 6 (methodNotAllowed, s)"
    by (simp add: route_paths_def route) (simp add: post_def handle_jobs_def handle_fees_def received_def MethodPost_def
        MethodGet_def numeral_eq_Suc)
  moreover have "map (\<lambda>p. map (\<lambda>body. Handler ?J C (post_request p body) s) malformed_bodies) (take 4 route_paths) =
      replicate 4 (map (\<lambda>je. (http_Error (lit ''bad json: '' @ err je) 400, s))
        [ErrEOF, ErrUnexpectedEOF, ErrType (lit ''array''), ErrBase64])"
    using malformed_refused [of err z nil C s] by (simp add: route_paths_def)
  moreover have "map (\<lambda>p. (\<lambda>(resp, c). (resp, rc_method c, rc_calls c)) (Handler ?J ?R (post_request p (lit ''{}'')) unused))
      (take 4 route_paths) =
      map (\<lambda>name. (http_Error e 500, name, 1)) [lit ''listing'', lit ''heartbeat'', lit ''decline'', lit ''report'']"
  proof -
    obtain v1 v2 v3 v4 where "jc_Decode (jn_listing ?J) (lit ''{}'') = (v1, None)"
        "jc_Decode (jn_heartbeat ?J) (lit ''{}'') = (v2, None)" "jc_Decode (jn_decline ?J) (lit ''{}'') = (v3, None)"
        "jc_Decode (jn_report ?J) (lit ''{}'') = (v4, None)"
      using empty_object_decoded by meson
    then show ?thesis
      by (simp add: route_paths_def post_request_def route)
        (simp add: post_def received_def decode_def recordingCoordinator_def rc_record_def server_fail_def unused_def)
  qed
  moreover have "Handler ?J ?R (get_request (lit ''/v0/jobs'') (lit ''node_id=node-1'')) unused =
      (http_Error e 500, called_with (lit ''jobs'') (GotNode (lit ''node-1'')))"
  proof -
    have "Query_Get (lit ''node_id=node-1'') (lit ''node_id'') = lit ''node-1''" by code_simp
    moreover have "lit ''node-1'' \<noteq> []" by (simp add: lit_def)
    ultimately show ?thesis
      by (simp add: get_request_def route) (simp add: handle_jobs_def received_def recordingCoordinator_def
          rc_record_def server_fail_def unused_def called_with_def)
  qed
  moreover have "Handler ?J ?R (get_request (lit ''/v0/fees'') []) unused =
      (http_Error e 500, called_with (lit ''fees'') GotNothing)"
    by (simp add: get_request_def route) (simp add: handle_fees_def received_def recordingCoordinator_def
        rc_record_def server_fail_def unused_def called_with_def)
  ultimately show ?thesis unfolding Let_def by blast
qed

section \<open>Responses the client reports\<close>

text \<open>A client whose transport answers every request with one response, or with one error.\<close>

definition canned :: "go_error + nat \<times> bytes \<Rightarrow> 's doer" where
  "canned answer req s = ((case answer of Inl e \<Rightarrow> Inl e
     | Inr (status, body) \<Rightarrow> Inr \<lparr>rs_Status = status, rs_ContentType = [], rs_Location = [], rs_Body = body\<rparr>), s)"

definition canned_client :: "go_error + nat \<times> bytes \<Rightarrow> 's Client" where
  "canned_client answer =
     \<lparr>hc_BaseURL = lit ''https://coordinator.example.test'', hc_HTTP = Some (HttpClient (Some (canned answer)))\<rparr>"

definition canned_host :: go_url where
  "canned_host = zero_url\<lparr>url_Scheme := lit ''https'', url_Host := lit ''coordinator.example.test''\<rparr>"

lemma canned_root: "base_url (lit ''https://coordinator.example.test'') canned_host"
  unfolding base_of_iff [symmetric] by code_simp

text \<open>The error of a transport as \<open>Client.Do\<close> wraps it.\<close>

definition not_sent :: "'s http_env \<Rightarrow> bytes \<Rightarrow> bytes \<Rightarrow> go_error \<Rightarrow> go_error" where
  "not_sent env op text e = op @ lit '' '' @ he_Quote env (lit ''https://coordinator.example.test'' @ text) @ lit '': '' @ e"

lemma canned_request:
  fixes env :: "'s http_env"
  assumes "p \<in> set route_paths" and "route_query q"
  shows "NewRequest env meth (hc_BaseURL (canned_client answer :: 's Client) @ p @ query_text q) body =
      Inr \<lparr>rq_Method = meth, rq_URL = route_url canned_host p q, rq_ContentType = [], rq_Body = body\<rparr>"
    and "url_Path (route_url canned_host p q) = p"
    and "stripPassword (route_url canned_host p q) = lit ''https://coordinator.example.test'' @ p @ query_text q"
proof -
  show "NewRequest env meth (hc_BaseURL (canned_client answer :: 's Client) @ p @ query_text q) body =
      Inr \<lparr>rq_Method = meth, rq_URL = route_url canned_host p q, rq_ContentType = [], rq_Body = body\<rparr>"
    using NewRequest_route [OF canned_root assms] by (simp add: canned_client_def)
  show path: "url_Path (route_url canned_host p q) = p"
    by (simp add: route_url_def canned_host_def zero_url_def)
  have p: "p \<noteq> []" "hd p = 0x2F" "p \<noteq> lit ''*''" "list_all (\<lambda>c. \<not> shouldEscape EncodePath c \<and> uri_byte c) p"
    using route_okD [OF assms(1)] by (simp_all add: route_ok_def)
  then have "escape_with EncodePath p = p" by (intro escape_plain) (auto simp: list_all_iff)
  then have "EscapedPath (route_url canned_host p q) = p"
    using p(3) path by (simp add: EscapedPath_def) (simp add: route_url_def canned_host_def zero_url_def)
  moreover have "removeEmptyPort (lit ''coordinator.example.test'') = lit ''coordinator.example.test''"
      "escape_with EncodeHost (lit ''coordinator.example.test'') = lit ''coordinator.example.test''"
    by code_simp+
  then have "url_Scheme (route_url canned_host p q) = lit ''https''" "url_User (route_url canned_host p q) = None"
    "url_Host (route_url canned_host p q) = lit ''coordinator.example.test''" "url_Opaque (route_url canned_host p q) = []"
    "escape_with EncodeHost (url_Host (route_url canned_host p q)) = lit ''coordinator.example.test''"
    "\<not> url_ForceQuery (route_url canned_host p q)" "url_RawQuery (route_url canned_host p q) = q"
    "url_Fragment (route_url canned_host p q) = []"
    by (simp_all add: route_url_def canned_host_def zero_url_def)
  moreover have "lit ''https'' \<noteq> []" "lit ''coordinator.example.test'' \<noteq> []" by (simp_all add: lit_def)
  moreover have "lit ''https://coordinator.example.test'' = lit ''https'' @ lit '':'' @ lit ''//'' @ lit ''coordinator.example.test''"
    by (simp add: lit_def)
  ultimately show "stripPassword (route_url canned_host p q) = lit ''https://coordinator.example.test'' @ p @ query_text q"
    using p(1,2) by (simp add: stripPassword_def URL_String_def url_authority_text_def query_text_def)
qed

lemma canned_Do:
  "Client_Do env (httpClient (canned_client answer)) req s = ((case answer of
      Inl e \<Rightarrow> Inl (url_Error (he_Quote env) (rq_Method req) (stripPassword (rq_URL req)) e)
    | Inr (status, body) \<Rightarrow> Inr \<lparr>rs_Status = status, rs_ContentType = [], rs_Location = [], rs_Body = body\<rparr>), s)"
  by (cases answer) (auto simp: httpClient_def canned_client_def client_Transport_def do_hops.simps
      canned_def split: option.split prod.split)

lemma request_ops: "urlErrorOp MethodGet = lit ''Get''" "urlErrorOp MethodPost = lit ''Post''"
  by code_simp+

lemma canned_get:
  assumes "p \<in> set route_paths" and "route_query q"
  shows "getJSON env (canned_client answer) jc (p @ query_text q) zero s = ((case answer of
      Inl e \<Rightarrow> (zero, Some (not_sent env (lit ''Get'') (p @ query_text q) e))
    | Inr (status, body) \<Rightarrow> if status < 200 \<or> 300 \<le> status
        then (zero, Some (reported MethodGet p (decimal status) body)) else jc_Decode jc body), s)"
  using canned_request(1) [OF assms, of env MethodGet answer "[]"] canned_request(2,3) [OF assms]
  by (auto simp: getJSON_def client_do_out_def canned_Do status_error_def reported_def url_Error_def not_sent_def
      request_ops split: sum.split prod.split)

lemma canned_post:
  assumes "p \<in> set route_paths" and "jc_Marshal jc v = Inr b"
  shows "postJSON env (canned_client answer) jc p v s = ((case answer of
      Inl e \<Rightarrow> Some (not_sent env (lit ''Post'') p e)
    | Inr (status, body) \<Rightarrow> if status < 200 \<or> 300 \<le> status
        then Some (reported MethodPost p (decimal status) body) else None), s)"
  using canned_request(1) [OF assms(1) route_query_Nil, of env MethodPost answer b]
    canned_request(2,3) [OF assms(1) route_query_Nil] assms(2)
  by (auto simp: postJSON_def client_do_def canned_Do status_error_def reported_def url_Error_def not_sent_def
      request_ops split: sum.split prod.split)

lemma bodies_scanned:
  "scan (lit ''[]'') = Inr (JArray [])" "scan (lit ''{'') = Inl ErrUnexpectedEOF" "scan (lit ''{}'') = Inr (JObject [])"
  by code_simp+

lemma jobs_bodies:
  "jc_Decode (jn_jobs (go_json err z nil)) (lit ''[]'') = ([], None)"
  "jc_Decode (jn_jobs (go_json err z nil)) (lit ''{'') = ([], Some (err ErrUnexpectedEOF))"
  "jc_Decode (jn_jobs (go_json err z nil)) [] = ([], Some (err ErrEOF))"
  "jc_Decode (jn_jobs (go_json err z nil)) (lit ''{}'') = ([], Some (err (ErrType (lit ''object''))))"
  by (simp_all add: go_json_def codec_of_def bodies_scanned scan_Nil wrong_kind_def)

lemma zero_listing_encodes: "\<exists>b. jc_Marshal (jn_listing (go_json err utc_zones nil)) zero_CapabilityListing = Inr b"
proof -
  have "\<not> isl (time_MarshalJSON utc_zones zero_time)" by code_simp
  then obtain x where "time_MarshalJSON utc_zones (cl_IssuedAt zero_CapabilityListing) = Inr x"
    by (auto simp: zero_CapabilityListing_def isl_def split: sum.splits) (metis sum.exhaust)
  with messages_encoded(3) [of utc_zones zero_CapabilityListing nil] show ?thesis
    by (auto simp: encoded_as_def go_json_def codec_of_def)
qed

lemma response_texts:
  "reported MethodGet (lit ''/v0/jobs'') (decimal 503) (lit ''try later'') =
     lit ''sohocloud: GET /v0/jobs: status 503: try later''"
  "reported MethodGet (lit ''/v0/jobs'') (decimal 502) (replicate 5000 x) =
     lit ''sohocloud: GET /v0/jobs: status 502: '' @ replicate 4096 x"
  "reported MethodPost (lit ''/v0/listing'') (decimal 400) (lit ''rejected'') =
     lit ''sohocloud: POST /v0/listing: status 400: rejected''"
proof -
  have codes: "decimal 503 = lit ''503''" "decimal 502 = lit ''502''" "decimal 400 = lit ''400''" by code_simp+
  show "reported MethodGet (lit ''/v0/jobs'') (decimal 503) (lit ''try later'') =
     lit ''sohocloud: GET /v0/jobs: status 503: try later''"
    "reported MethodGet (lit ''/v0/jobs'') (decimal 502) (replicate 5000 x) =
     lit ''sohocloud: GET /v0/jobs: status 502: '' @ replicate 4096 x"
    "reported MethodPost (lit ''/v0/listing'') (decimal 400) (lit ''rejected'') =
     lit ''sohocloud: POST /v0/listing: status 400: rejected''"
    unfolding reported_def codes MethodGet_def MethodPost_def by (simp_all add: lit_def)
qed

text \<open>\<open>TestClientResponses\<close> and \<open>TestClientRequestFailures\<close>: what the client makes of a response depends on its
  status and body alone, and each row of the tables comes out as published, the cut of a long error body at
  4096 bytes included; an error of the transport, a cancelled request's too, comes back wrapped with the method
  and the URL, and the base URL \<open>://invalid\<close> is refused with \<open>missing protocol scheme\<close> before a request is made.\<close>

theorem client_tests:
  "let J = go_json err utc_zones nil;
     poll = (\<lambda>c. fst (Client_PollJobs env J c (lit ''node-1'') s));
     submit = (\<lambda>c. fst (Client_SubmitListing env J c zero_CapabilityListing s));
     declared = (\<lambda>c. fst (Client_Fees env J c s));
     invalid = (canned_client (Inl e))\<lparr>hc_BaseURL := lit ''://invalid''\<rparr>
   in map (\<lambda>answer. poll (canned_client (Inr answer)))
        [(200, lit ''[]''), (200, lit ''{''), (200, []), (200, lit ''{}''), (503, lit ''try later''), (502, replicate 5000 x)] =
      [([], None), ([], Some (err ErrUnexpectedEOF)), ([], Some (err ErrEOF)), ([], Some (err (ErrType (lit ''object'')))),
       ([], Some (lit ''sohocloud: GET /v0/jobs: status 503: try later'')),
       ([], Some (lit ''sohocloud: GET /v0/jobs: status 502: '' @ replicate 4096 x))] \<and>
      map (\<lambda>answer. submit (canned_client (Inr answer))) [(204, []), (400, lit ''rejected'')] =
      [None, Some (lit ''sohocloud: POST /v0/listing: status 400: rejected'')] \<and>
      submit (canned_client (Inl e)) = Some (not_sent env (lit ''Post'') (lit ''/v0/listing'') e) \<and>
      poll (canned_client (Inl e)) = ([], Some (not_sent env (lit ''Get'') (lit ''/v0/jobs?node_id=node-1'') e)) \<and>
      declared (canned_client (Inl e)) = (zero_FeeDeclaration, Some (not_sent env (lit ''Get'') (lit ''/v0/fees'') e)) \<and>
      submit invalid = Some (parse_error env invalid (lit ''/v0/listing'')) \<and>
      poll invalid = ([], Some (parse_error env invalid (lit ''/v0/jobs?node_id='' @ QueryEscape (lit ''node-1'')))) \<and>
      declared invalid = (zero_FeeDeclaration, Some (parse_error env invalid (lit ''/v0/fees'')))"
proof -
  let ?J = "go_json err utc_zones nil" and ?invalid = "(canned_client (Inl e))\<lparr>hc_BaseURL := lit ''://invalid''\<rparr>"
  have routes: "lit ''/v0/listing'' \<in> set route_paths" "lit ''/v0/jobs'' \<in> set route_paths" "lit ''/v0/fees'' \<in> set route_paths"
    by (simp_all add: route_paths_def)
  obtain b where b: "jc_Marshal (jn_listing ?J) zero_CapabilityListing = Inr b" using zero_listing_encodes by blast
  note canned = canned_get [OF routes(2) poll_query] canned_get [OF routes(3) route_query_Nil, simplified]
    canned_post [OF routes(1) b]
  have base: "hc_BaseURL ?invalid = 0x3A # lit ''//invalid''" by (simp add: lit_def)
  have bytes: "list_all uri_byte (lit ''//invalid'')" by code_simp
  note invalid = postJSON_no_scheme [OF base bytes routes(1)] getJSON_no_scheme [OF base bytes routes(2) poll_query]
    getJSON_no_scheme [OF base bytes routes(3) route_query_Nil, simplified]
  have query: "lit ''/v0/jobs'' @ query_text (lit ''node_id='' @ QueryEscape (lit ''node-1'')) = lit ''/v0/jobs?node_id=node-1''"
    by code_simp
  show ?thesis
    unfolding Let_def Client_PollJobs_def Client_SubmitListing_def Client_Fees_def poll_url invalid canned
    by (simp add: jobs_bodies response_texts b query)
qed

end
