(* ===== verification/Recording_Coordinator.thy ===== *)
theory Recording_Coordinator
  imports Json_Properties
begin

text \<open>
  The coordinator of src/no_inbound_test.go, which records the operations it is called for and the node it saw last,
  and insists on increasing heartbeats; and what each call of the client makes of it through the transport.
\<close>

section \<open>The test's coordinator\<close>

record watcher =
  wa_calls :: "bytes list"
  wa_lastSeq :: uint64
  wa_nodeSeen :: NodeID

definition watch :: "bytes \<Rightarrow> NodeID \<Rightarrow> watcher \<Rightarrow> watcher" where
  "watch op n w = w\<lparr>wa_calls := wa_calls w @ [op], wa_nodeSeen :=
      (if n \<noteq> [] then n else wa_nodeSeen w)\<rparr>"

definition errSeq :: go_error where "errSeq = lit ''non-increasing Seq''"

definition offered_jobs :: "NodeID \<Rightarrow> Assignment list" where
  "offered_jobs n = map (\<lambda>job. zero_Assignment\<lparr>as_JobID := job, as_NodeID := n,
     as_Spec := as_Spec zero_Assignment\<lparr>js_Workload := lit ''compute''\<rparr>\<rparr>) [lit ''job-1'',
     lit ''job-2'']"

definition test_declaration :: FeeDeclaration where
  "test_declaration = zero_FeeDeclaration\<lparr>fd_CoordinatorID := lit ''coord-test'',
     fd_Terms := \<lparr>ft_ContributorShareBps = 6500, ft_PlatformFeeBps = 3500\<rparr>\<rparr>"

definition watching :: "watcher Coordinator" where
  "watching =
     \<lparr>co_SubmitListing = (\<lambda>l w. (None, watch (lit ''SubmitListing'') (cl_NodeID l) w)),
      co_Heartbeat = (\<lambda>h w. if hb_Seq h \<le> wa_lastSeq w then (Some errSeq, w)
        else (None, watch (lit ''Heartbeat'') (hb_NodeID h) (w\<lparr>wa_lastSeq := hb_Seq h\<rparr>))),
      co_PollJobs = (\<lambda>n w. ((offered_jobs n, None), watch (lit ''PollJobs'') n w)),
      co_Decline = (\<lambda>d w. (None, watch (lit ''Decline'') (dc_NodeID d) w)),
      co_ReportJob = (\<lambda>r w. (None, watch (lit ''ReportJob'') (jr_NodeID r) w)),
      co_Fees = (\<lambda>w. ((test_declaration, None), watch (lit ''Fees'') [] w))\<rparr>"

section \<open>What arrives\<close>

lemma zero_time_offset [simp]: "time_offset z zero_time = 0"
  by (simp add: time_offset_def zone_offset_def zero_time_def)

lemma zero_time_arrives [simp]:
  "wf_time zero_time" "isl (time_MarshalJSON z zero_time) = False" "time_arrives z zero_time = zero_time"
proof -
  show "wf_time zero_time" by (simp add: wf_time_def zero_time_def)
  have "\<not> isl (time_MarshalJSON utc_zones zero_time)" by code_simp
  then show "isl (time_MarshalJSON z zero_time) = False" by (simp add: time_MarshalJSON_def)
  show "time_arrives z zero_time = zero_time"
    unfolding time_arrives_def zero_time_offset by (simp add: shown_offset_def zone_location_def zero_time_def Let_def)
qed

lemma offered_text: "valid_utf8 (lit ''job-1'')" "valid_utf8 (lit ''job-2'')" "valid_utf8 (lit ''compute'')"
    "valid_utf8 (lit ''coord-test'')" "valid_utf8 []"
  by code_simp+

lemma offered_arrive:
  assumes "valid_utf8 n"
  shows "map (Assignment_arrives z) (offered_jobs n) = offered_jobs n"
    and "FeeDeclaration_arrives z test_declaration = test_declaration"
  using assms offered_text
  by (simp_all add: offered_jobs_def test_declaration_def Assignment_arrives_def JobSpec_arrives_def
      FeeDeclaration_arrives_def
      zero_Assignment_def zero_FeeDeclaration_def sanitize_id_iff flip: zero_time_def)

section \<open>Single calls\<close>

definition stale :: "go_error" where
  "stale = reported MethodPost (lit ''/v0/heartbeat'') (lit ''500'') (errSeq @ [0x0A])"

lemma session_posts:
  assumes J: "J = go_json err z nil" and served: "served_by env c (Handler J watching)"
    and "valid_utf8 n" and "wf_time t" and "time_MarshalJSON z t = Inr b"
  shows "Client_SubmitListing env J c (zero_CapabilityListing\<lparr>cl_NodeID := n, cl_IssuedAt := t, cl_Seq :=
      k\<rparr>) w =
      (None, watch (lit ''SubmitListing'') n w)"
    and "Client_Heartbeat env J c (zero_Heartbeat\<lparr>hb_NodeID := n, hb_SentAt := t, hb_Seq := k\<rparr>) w =
      (if wa_lastSeq w < k then (None, watch (lit ''Heartbeat'') n (w\<lparr>wa_lastSeq := k\<rparr>)) else (Some stale, w))"
    and "Client_Decline env J c (zero_Decline\<lparr>dc_JobID := j, dc_NodeID := n, dc_DeclinedAt := t\<rparr>) w =
      (None, watch (lit ''Decline'') n w)"
    and "wf_time t' \<Longrightarrow> time_MarshalJSON z t' = Inr b' \<Longrightarrow>
      Client_ReportJob env J c (zero_JobReport\<lparr>jr_JobID := j, jr_NodeID := n, jr_StartedAt := t, jr_FinishedAt :=
      t'\<rparr>) w =
      (None, watch (lit ''ReportJob'') n w)"
proof -
  note posts = posts_arrive [OF served [unfolded J], folded J]
  note arrives = CapabilityListing_arrives_def Heartbeat_arrives_def Decline_arrives_def JobReport_arrives_def
  have n: "sanitize n = n" using assms(3) by (simp add: sanitize_id_iff)
  show "Client_SubmitListing env J c (zero_CapabilityListing\<lparr>cl_NodeID := n, cl_IssuedAt := t, cl_Seq :=
      k\<rparr>) w =
      (None, watch (lit ''SubmitListing'') n w)"
    using assms(3-) by (subst posts(1)) (simp_all add: refused_or_def arrives n watching_def)
  show "Client_Heartbeat env J c (zero_Heartbeat\<lparr>hb_NodeID := n, hb_SentAt := t, hb_Seq := k\<rparr>) w =
      (if wa_lastSeq w < k then (None, watch (lit ''Heartbeat'') n (w\<lparr>wa_lastSeq := k\<rparr>)) else (Some stale, w))"
    using assms(3-) by (subst posts(2)) (simp_all add: refused_or_def arrives n watching_def stale_def not_le [symmetric])
  show "Client_Decline env J c (zero_Decline\<lparr>dc_JobID := j, dc_NodeID := n, dc_DeclinedAt := t\<rparr>) w =
      (None, watch (lit ''Decline'') n w)"
    using assms(3-) by (subst posts(3)) (simp_all add: refused_or_def arrives n watching_def)
  show "Client_ReportJob env J c (zero_JobReport\<lparr>jr_JobID := j, jr_NodeID := n, jr_StartedAt := t,
      jr_FinishedAt := t'\<rparr>) w =
      (None, watch (lit ''ReportJob'') n w)"
    if "wf_time t'" "time_MarshalJSON z t' = Inr b'"
    using assms(3-) that by (subst posts(4)) (simp_all add: refused_or_def arrives n watching_def)
qed

lemma session_gets:
  assumes J: "J = go_json err z nil" and served: "served_by env c (Handler J watching)"
    and "valid_utf8 n"
  shows "n \<noteq> [] \<Longrightarrow> Client_PollJobs env J c n w = ((offered_jobs n, None),
      watch (lit ''PollJobs'') n w)"
    and "Client_Fees env J c w = ((test_declaration, None), watch (lit ''Fees'') [] w)"
proof -
  note gets = gets_arrive [OF served [unfolded J], folded J]
  have poll: "co_PollJobs watching n w = ((offered_jobs n, None), watch (lit ''PollJobs'') n w)"
    and fees: "co_Fees watching w = ((test_declaration, None), watch (lit ''Fees'') [] w)"
    by (simp_all add: watching_def)
  have times: "list_all (\<lambda>a. as_OfferedAt a = zero_time) (offered_jobs n)" "fd_EffectiveAt test_declaration =
      zero_time"
    by (simp_all add: offered_jobs_def test_declaration_def zero_Assignment_def zero_FeeDeclaration_def zero_time_def)
  have "list_all (\<lambda>a. wf_time (as_OfferedAt a)) (offered_jobs n)"
      "\<not> list_ex (\<lambda>a. isl (time_MarshalJSON z (as_OfferedAt a))) (offered_jobs n)"
    using times(1) by (auto simp: list_all_iff list_ex_iff)
  with gets(1) [OF _ poll] offered_arrive(1) [OF assms(3)]
  show "n \<noteq> [] \<Longrightarrow> Client_PollJobs env J c n w = ((offered_jobs n, None),
      watch (lit ''PollJobs'') n w)" by simp
  show "Client_Fees env J c w = ((test_declaration, None), watch (lit ''Fees'') [] w)"
    using gets(2) [OF fees] times(2) offered_arrive(2) [OF assms(3)] by simp
qed

end
