(* ===== verification/Traffic.thy ===== *)
theory Traffic
  imports Recording_Coordinator
begin

text \<open>
  The handler under arbitrary traffic, for any coordinator behind it. A request is a call of one method of the
  coordinator, decoded from the request alone, or no call at all; so a sequence of requests does what the
  sequence of calls does. \<open>monotonic_coordinator\<close> is the contract of \<open>Seq\<close> in coordinator.go and SPEC.md 4.1
  and 4.2 on the coordinator of whoever implements the interface; under it no captured request is honored again.
\<close>

section \<open>The call a request makes\<close>

datatype call =
  CallSubmitListing CapabilityListing
| CallHeartbeat Heartbeat
| CallPollJobs NodeID
| CallDecline Decline
| CallReportJob JobReport
| CallFees

definition routed :: "bytes \<Rightarrow> http_request \<Rightarrow> bool" where
  "routed p r \<longleftrightarrow> RequestURI (rq_URL r) \<noteq> lit ''*'' \<and>
     findHandler route_paths (rq_Method r) (rq_URL r) = Matched p"

fun decoded :: "'a \<times> go_error option \<Rightarrow> 'a option" where
  "decoded (v, None) = Some v"
| "decoded (v, Some err) = None"

definition request_call :: "json \<Rightarrow> http_request \<Rightarrow> call option" where
  "request_call J r =
     (if rq_Method r = MethodPost then
        (if routed (lit ''/v0/listing'') r then map_option CallSubmitListing (decoded (jc_Decode (jn_listing J) (rq_Body r)))
         else if routed (lit ''/v0/heartbeat'') r then map_option CallHeartbeat (decoded (jc_Decode (jn_heartbeat J) (rq_Body r)))
         else if routed (lit ''/v0/decline'') r then map_option CallDecline (decoded (jc_Decode (jn_decline J) (rq_Body r)))
         else if routed (lit ''/v0/report'') r then map_option CallReportJob (decoded (jc_Decode (jn_report J) (rq_Body r)))
         else None)
      else if rq_Method r = MethodGet then
        (if routed (lit ''/v0/jobs'') r then
           (let node = Query_Get (url_RawQuery (rq_URL r)) (lit ''node_id'') in if node = [] then None else Some (CallPollJobs node))
         else if routed (lit ''/v0/fees'') r then Some CallFees
         else None)
      else None)"

text \<open>The calls themselves, with the responses they are answered by.\<close>

fun verdict_response :: "go_error option \<times> 's \<Rightarrow> http_response \<times> 's" where
  "verdict_response (None, s) = (empty_response 204, s)"
| "verdict_response (Some err, s) = (server_fail err, s)"

fun value_response :: "'a codec \<Rightarrow> ('a \<times> go_error option) \<times> 's \<Rightarrow> http_response \<times> 's" where
  "value_response jc ((out, None), s) = (writeJSON jc out, s)"
| "value_response jc ((out, Some err), s) = (server_fail err, s)"

fun perform :: "json \<Rightarrow> 's Coordinator \<Rightarrow> call \<Rightarrow> 's \<Rightarrow> http_response \<times> 's" where
  "perform J C (CallSubmitListing l) s = verdict_response (co_SubmitListing C l s)"
| "perform J C (CallHeartbeat h) s = verdict_response (co_Heartbeat C h s)"
| "perform J C (CallPollJobs n) s = value_response (jn_jobs J) (co_PollJobs C n s)"
| "perform J C (CallDecline d) s = verdict_response (co_Decline C d s)"
| "perform J C (CallReportJob r) s = verdict_response (co_ReportJob C r s)"
| "perform J C CallFees s = value_response (jn_fees J) (co_Fees C s)"

lemma Handler_routed:
  "routed (lit ''/v0/listing'') r \<Longrightarrow> Handler J C r = post (jn_listing J) (co_SubmitListing C) r"
  "routed (lit ''/v0/heartbeat'') r \<Longrightarrow> Handler J C r = post (jn_heartbeat J) (co_Heartbeat C) r"
  "routed (lit ''/v0/decline'') r \<Longrightarrow> Handler J C r = post (jn_decline J) (co_Decline C) r"
  "routed (lit ''/v0/report'') r \<Longrightarrow> Handler J C r = post (jn_report J) (co_ReportJob C) r"
  "routed (lit ''/v0/jobs'') r \<Longrightarrow> Handler J C r = handle_jobs C J r"
  "routed (lit ''/v0/fees'') r \<Longrightarrow> Handler J C r = handle_fees C J r"
  by (rule ext, simp add: routed_def Handler_def ServeMux_def map_fst_Handler del: list.map, simp add: lit_def)+

lemma Handler_unrouted:
  assumes "\<forall>p \<in> set route_paths. \<not> routed p r"
  shows "\<exists>resp. Handler J C r s = (resp, s) \<and> rs_Status resp \<in> {301, 400, 404}"
proof (cases "RequestURI (rq_URL r) = lit ''*''")
  case True
  then show ?thesis by (simp add: Handler_def ServeMux_def empty_response_def)
next
  case False
  show ?thesis
  proof (cases "findHandler route_paths (rq_Method r) (rq_URL r)")
    case (Matched p)
    then have "p \<in> set route_paths"
      by (auto simp: findHandler_def mux_match_def Let_def split: if_splits option.splits dest: find_SomeD)
    with assms Matched False show ?thesis by (auto simp: routed_def)
  next
    case (Redirected url)
    with False show ?thesis by (simp add: Handler_otherwise(2) http_Moved_def)
  next
    case Unmatched
    with False show ?thesis by (simp add: Handler_otherwise(1) http_NotFound_def http_Error_def)
  qed
qed

lemma post_call:
  assumes "rq_Method r = MethodPost"
  shows "decoded (jc_Decode jc (rq_Body r)) = Some v \<Longrightarrow> post jc call r s = verdict_response (call v s)"
    and "decoded (jc_Decode jc (rq_Body r)) = None \<Longrightarrow> \<exists>resp. rs_Status resp = 400 \<and> post jc call r s = (resp, s)"
proof -
  obtain w e where d: "jc_Decode jc (rq_Body r) = (w, e)" by fastforce
  show "post jc call r s = verdict_response (call v s)" if "decoded (jc_Decode jc (rq_Body r)) = Some v"
    using assms that d by (cases e; cases "call v s"; cases "fst (call v s)") (auto simp: post_def decode_def)
  show "\<exists>resp. rs_Status resp = 400 \<and> post jc call r s = (resp, s)" if "decoded (jc_Decode jc (rq_Body r)) = None"
    using assms that d by (cases e) (auto simp: post_def decode_def http_Error_def)
qed

lemma wrong_method:
  "rq_Method r \<noteq> MethodPost \<Longrightarrow> \<exists>resp. rs_Status resp = 405 \<and> post jc call r s = (resp, s)"
  "rq_Method r \<noteq> MethodGet \<Longrightarrow> \<exists>resp. rs_Status resp = 405 \<and> handle_jobs C J r s = (resp, s)"
  "rq_Method r \<noteq> MethodGet \<Longrightarrow> \<exists>resp. rs_Status resp = 405 \<and> handle_fees C J r s = (resp, s)"
  by (simp_all add: post_def handle_jobs_def handle_fees_def methodNotAllowed_def http_Error_def)

definition answers_call :: "json \<Rightarrow> 's Coordinator \<Rightarrow> http_request \<Rightarrow> 's \<Rightarrow> bool" where
  "answers_call J C r s \<longleftrightarrow> (case request_call J r of
      Some k \<Rightarrow> Handler J C r s = perform J C k s
    | None \<Rightarrow> \<exists>resp. rs_Status resp \<in> {301, 400, 404, 405} \<and> Handler J C r s = (resp, s))"

lemma post_answers:
  assumes "Handler J C r = post jc call r" and "request_call J r =
      (if rq_Method r = MethodPost then map_option K (decoded (jc_Decode jc (rq_Body r))) else None)"
    and "\<And>v. perform J C (K v) s = verdict_response (call v s)"
  shows "answers_call J C r s"
proof (cases "rq_Method r = MethodPost")
  case True
  with post_call [where r = r and jc = jc and call = call and s = s, OF True] assms show ?thesis
    by (cases "decoded (jc_Decode jc (rq_Body r))") (auto simp: answers_call_def)
next
  case False
  with wrong_method(1) [OF False, of jc call s] assms show ?thesis by (auto simp: answers_call_def)
qed

lemma request_answers: "answers_call J C r s"
proof (cases "\<exists>p \<in> set route_paths. routed p r")
  case False
  then have none: "\<forall>p \<in> set route_paths. \<not> routed p r" by blast
  then have "request_call J r = None" by (simp add: request_call_def route_paths_def)
  with Handler_unrouted [OF none, of J C s] show ?thesis by (auto simp: answers_call_def)
next
  case True
  then obtain p where p: "p \<in> set route_paths" "routed p r" by blast
  have other: "routed q r \<longleftrightarrow> q = p" if "q \<in> set route_paths" for q
    using p(2) that by (auto simp: routed_def)
  have only: "routed (lit ''/v0/listing'') r \<longleftrightarrow> lit ''/v0/listing'' = p"
    "routed (lit ''/v0/heartbeat'') r \<longleftrightarrow> lit ''/v0/heartbeat'' = p"
    "routed (lit ''/v0/decline'') r \<longleftrightarrow> lit ''/v0/decline'' = p" "routed (lit ''/v0/report'') r \<longleftrightarrow> lit ''/v0/report'' = p"
    "routed (lit ''/v0/jobs'') r \<longleftrightarrow> lit ''/v0/jobs'' = p" "routed (lit ''/v0/fees'') r \<longleftrightarrow> lit ''/v0/fees'' = p"
    by (rule other, simp add: route_paths_def)+
  have methods: "MethodPost \<noteq> MethodGet" by (simp add: MethodPost_def MethodGet_def)
  note call = request_call_def only
  from p(1) consider "p = lit ''/v0/listing''" | "p = lit ''/v0/heartbeat''" | "p = lit ''/v0/decline''" |
      "p = lit ''/v0/report''" | "p = lit ''/v0/jobs''" | "p = lit ''/v0/fees''"
    by (auto simp: route_paths_def)
  then show ?thesis
  proof cases
    case 1
    with p(2) show ?thesis
      by (intro post_answers [where K = CallSubmitListing, OF Handler_routed(1)]) (simp_all add: call)
  next
    case 2
    with p(2) show ?thesis
      by (intro post_answers [where K = CallHeartbeat, OF Handler_routed(2)]) (simp_all add: call)
  next
    case 3
    with p(2) show ?thesis
      by (intro post_answers [where K = CallDecline, OF Handler_routed(3)]) (simp_all add: call)
  next
    case 4
    with p(2) show ?thesis
      by (intro post_answers [where K = CallReportJob, OF Handler_routed(4)]) (simp_all add: call)
  next
    case 5
    with p(2) have H: "Handler J C r = handle_jobs C J r" using Handler_routed(5) by blast
    show ?thesis
    proof (cases "rq_Method r = MethodGet")
      case True
      obtain out e s' where poll: "co_PollJobs C (Query_Get (url_RawQuery (rq_URL r)) (lit ''node_id'')) s = ((out, e), s')"
        by (metis prod.collapse)
      with True 5 H methods show ?thesis
        by (cases e) (auto simp: answers_call_def call handle_jobs_def Let_def http_Error_def)
    next
      case False
      with wrong_method(2) [OF False, of C J s] 5 H show ?thesis by (auto simp: answers_call_def call)
    qed
  next
    case 6
    with p(2) have H: "Handler J C r = handle_fees C J r" using Handler_routed(6) by blast
    show ?thesis
    proof (cases "rq_Method r = MethodGet")
      case True
      obtain out e s' where "co_Fees C s = ((out, e), s')" by (metis prod.collapse)
      with True 6 H methods show ?thesis by (cases e) (auto simp: answers_call_def call handle_fees_def)
    next
      case False
      with wrong_method(3) [OF False, of C J s] 6 H show ?thesis by (auto simp: answers_call_def call)
    qed
  qed
qed

section \<open>A sequence of requests\<close>

fun serve :: "'s handler \<Rightarrow> http_request list \<Rightarrow> 's \<Rightarrow> http_response list \<times> 's" where
  "serve H [] s = ([], s)"
| "serve H (r # rs) s = (let (resp, s') = H r s; (resps, s'') = serve H rs s' in (resp # resps, s''))"

fun perform_all :: "json \<Rightarrow> 's Coordinator \<Rightarrow> call list \<Rightarrow> 's \<Rightarrow> http_response list \<times> 's" where
  "perform_all J C [] s = ([], s)"
| "perform_all J C (k # ks) s = (let (resp, s') = perform J C k s; (resps, s'') = perform_all J C ks s' in (resp # resps, s''))"

lemma serve_Cons: "serve H (r # rs) s = (fst (H r s) # fst (serve H rs (snd (H r s))), snd (serve H rs (snd (H r s))))"
  by (simp split: prod.split)

lemma perform_all_Cons: "perform_all J C (k # ks) s =
    (fst (perform J C k s) # fst (perform_all J C ks (snd (perform J C k s))), snd (perform_all J C ks (snd (perform J C k s))))"
  by (simp split: prod.split)

text \<open>C6: arbitrary traffic, any coordinator. Whatever HTTP requests reach the handler, with any methods, URLs and bodies,
  the coordinator's state and the responses are those of a sequence of calls of its methods: at most one call per
  request, in the order of the requests, which call and with which arguments decoded from the request alone. A
  request that makes no call is answered with status 301, 400, 404 or 405. Nothing is assumed of the
  coordinator, of the codecs or of the requests.\<close>

theorem traffic_is_calls:
  "snd (serve (Handler J C) rs s) = snd (perform_all J C (List.map_filter (request_call J) rs) s) \<and>
   length (fst (serve (Handler J C) rs s)) = length rs \<and>
   map snd (filter (\<lambda>(r, resp). request_call J r \<noteq> None) (zip rs (fst (serve (Handler J C) rs s)))) =
     fst (perform_all J C (List.map_filter (request_call J) rs) s) \<and>
   (\<forall>(r, resp) \<in> set (zip rs (fst (serve (Handler J C) rs s))).
     request_call J r = None \<longrightarrow> rs_Status resp \<in> {301, 400, 404, 405})"
proof (induction rs arbitrary: s)
  case (Cons r rs)
  note Cons_simps = serve_Cons perform_all_Cons List.map_filter_simps
  show ?case
  proof (cases "request_call J r")
    case None
    with request_answers [of J C r s] obtain resp where "rs_Status resp \<in> {301, 400, 404, 405}" "Handler J C r s = (resp, s)"
      by (auto simp: answers_call_def)
    with None Cons.IH [of s] show ?thesis by (simp add: Cons_simps del: serve.simps perform_all.simps)
  next
    case (Some k)
    with request_answers [of J C r s] have "Handler J C r s = perform J C k s" by (simp add: answers_call_def)
    with Some Cons.IH [of "snd (perform J C k s)"] show ?thesis
      by (simp add: Cons_simps del: serve.simps perform_all.simps perform.simps)
  qed
qed (simp add: List.map_filter_simps)

text \<open>A captured heartbeat.\<close>

definition captured_json :: json where
  "captured_json = relay_json\<lparr>jn_heartbeat := fixed_codec (beat 3)\<rparr>"

definition captured :: http_request where
  "captured = received MethodPost (lit ''/v0/heartbeat'') [] (lit ''application/json'') (lit ''{}'')"

lemma captured_call:
  "request_call captured_json captured = Some (CallHeartbeat (beat 3))"
  "request_call captured_json (captured\<lparr>rq_Method := MethodGet\<rparr>) = None"
proof -
  have route: "lit ''/v0/heartbeat'' \<in> set route_paths" by (simp add: route_paths_def)
  have heartbeat: "routed (lit ''/v0/heartbeat'') (captured\<lparr>rq_Method := m\<rparr>)" for m
    using at_path_routed [OF received_at_path [OF route] route] by (simp add: routed_def captured_def received_def)
  have other: "\<not> routed p (captured\<lparr>rq_Method := m\<rparr>)" if "p \<noteq> lit ''/v0/heartbeat''" for p m
    using heartbeat [of m] that by (auto simp: routed_def)
  have same: "captured\<lparr>rq_Method := MethodPost\<rparr> = captured" by (simp add: captured_def received_def)
  have names: "lit ''/v0/listing'' \<noteq> lit ''/v0/heartbeat''" "lit ''/v0/jobs'' \<noteq> lit ''/v0/heartbeat''"
    "lit ''/v0/fees'' \<noteq> lit ''/v0/heartbeat''" by (simp_all add: lit_def)
  show "request_call captured_json (captured\<lparr>rq_Method := MethodGet\<rparr>) = None"
    using other [OF names(2)] other [OF names(3)] by (simp add: request_call_def MethodPost_def MethodGet_def)
  show "request_call captured_json captured = Some (CallHeartbeat (beat 3))"
    using heartbeat [of MethodPost] other [OF names(1), of MethodPost] unfolding same
    by (simp add: request_call_def) (simp add: captured_def received_def captured_json_def fixed_codec_def)
qed

lemma traffic_is_calls_witness:
  "let H = Handler captured_json counting; rs = [captured, captured\<lparr>rq_Method := MethodGet\<rparr>]
   in map rs_Status (fst (serve H rs (0, []))) \<in> {[204, 301], [204, 400], [204, 404], [204, 405]} \<and> snd (serve H rs (0, [])) = (1, [])"
proof -
  let ?r = "captured\<lparr>rq_Method := MethodGet\<rparr>" and ?H = "Handler captured_json counting"
  have "perform captured_json counting (CallHeartbeat (beat 3)) (0, []) = (empty_response 204, (1, []))"
    by (simp add: counting_def)
  moreover have "List.map_filter (request_call captured_json) [captured, ?r] = [CallHeartbeat (beat 3)]"
    by (simp add: List.map_filter_simps captured_call)
  moreover obtain a b t where served: "serve ?H [captured, ?r] (0, []) = ([a, b], t)"
    by (simp add: serve_Cons del: serve.simps(2))
  moreover note traffic_is_calls [of captured_json counting "[captured, ?r]" "(0, [])"]
  ultimately show ?thesis
    by (simp add: captured_call perform_all_Cons empty_response_def del: perform.simps perform_all.simps(2) serve.simps(2))
qed

section \<open>Coordinators with monotonic sequence numbers\<close>

text \<open>The contract of coordinator.go: a listing or heartbeat is only accepted when its \<open>Seq\<close> strictly exceeds the last
  one seen for its node, which it then becomes; and what was seen is never forgotten. \<open>lseq\<close> and \<open>bseq\<close> are the
  last \<open>Seq\<close> of a listing and a heartbeat in a state, whatever else the state holds; any method may change
  the rest of it. \<open>covers\<close> says which messages a coordinator gives the promise for.\<close>

definition not_behind ::
  "('s \<Rightarrow> NodeID \<Rightarrow> uint64 option) \<Rightarrow> 's \<Rightarrow> 's \<Rightarrow> bool" where
  "not_behind seqs s s' \<longleftrightarrow> (\<forall>n q. \<not> seq_exceeds (seqs s n) q \<longrightarrow> \<not> seq_exceeds (seqs s' n) q)"

locale monotonic_coordinator =
  fixes C :: "'s Coordinator" and covers :: "node_message \<Rightarrow> bool" and lseq bseq :: "'s \<Rightarrow> NodeID \<Rightarrow> uint64 option"
  assumes listing_fresh: "covers (ListingMsg l) \<Longrightarrow> co_SubmitListing C l s = (None, s') \<Longrightarrow>
      seq_exceeds (lseq s (cl_NodeID l)) (cl_Seq l) \<and> lseq s' (cl_NodeID l) = Some (cl_Seq l)"
    and heartbeat_fresh: "covers (HeartbeatMsg h) \<Longrightarrow> co_Heartbeat C h s = (None, s') \<Longrightarrow>
      seq_exceeds (bseq s (hb_NodeID h)) (hb_Seq h) \<and> bseq s' (hb_NodeID h) = Some (hb_Seq h)"
    and nothing_forgotten: "not_behind lseq s (snd (perform J C k s)) \<and> not_behind bseq s (snd (perform J C k s))"

text \<open>Traffic over HTTP, and whatever else happens to the coordinator in between, as long as it forgets no \<open>Seq\<close>.\<close>

datatype traffic = Sent http_request http_response | Elsewhere

fun traffic_step ::
  "json \<Rightarrow> 's Coordinator \<Rightarrow> ('s \<Rightarrow> NodeID \<Rightarrow> uint64 option) \<Rightarrow> ('s \<Rightarrow> NodeID \<Rightarrow> uint64 option) \<Rightarrow>
   's \<Rightarrow> traffic \<Rightarrow> 's \<Rightarrow> bool" where
  "traffic_step J C lseq bseq s (Sent r resp) s' \<longleftrightarrow> Handler J C r s = (resp, s')"
| "traffic_step J C lseq bseq s Elsewhere s' \<longleftrightarrow> not_behind lseq s s' \<and> not_behind bseq s s'"

text \<open>The listing or heartbeat that a response with status 204 has accepted.\<close>

fun accepted_message :: "json \<Rightarrow> traffic \<Rightarrow> node_message option" where
  "accepted_message J (Sent r resp) =
     (if rs_Status resp = 204 then
        (case request_call J r of
           Some (CallSubmitListing l) \<Rightarrow> Some (ListingMsg l)
         | Some (CallHeartbeat h) \<Rightarrow> Some (HeartbeatMsg h)
         | _ \<Rightarrow> None)
      else None)"
| "accepted_message J Elsewhere = None"

text \<open>What a state has seen of a node, as an account without key and nonces.\<close>

definition seen ::
  "('s \<Rightarrow> NodeID \<Rightarrow> uint64 option) \<Rightarrow> ('s \<Rightarrow> NodeID \<Rightarrow> uint64 option) \<Rightarrow> 's \<Rightarrow> NodeID \<Rightarrow> account" where
  "seen lseq bseq s n =
     \<lparr>ac_key = None, ac_listing_seq = lseq s n, ac_beat_seq = bseq s n, ac_key_seq = None, ac_proofs = []\<rparr>"

definition outdated ::
  "('s \<Rightarrow> NodeID \<Rightarrow> uint64 option) \<Rightarrow> ('s \<Rightarrow> NodeID \<Rightarrow> uint64 option) \<Rightarrow> 's \<Rightarrow> bytes \<Rightarrow> bool" where
  "outdated lseq bseq s b \<longleftrightarrow> (\<exists>m n. replay_protected m \<and> nm_sized m \<and> nm_bytes m = b \<and> nm_author m = Some n \<and>
     \<not> fresh (seen lseq bseq s n) m)"

definition accepted_bytes :: "json \<Rightarrow> (node_message \<Rightarrow> bool) \<Rightarrow> traffic \<Rightarrow> bytes option" where
  "accepted_bytes J covers t = (case accepted_message J t of
      Some m \<Rightarrow> if covers m \<and> nm_sized m then Some (nm_bytes m) else None | None \<Rightarrow> None)"

lemma seen_stays:
  assumes "not_behind lseq s s'" and "not_behind bseq s s'" and "\<not> fresh (seen lseq bseq s n) m"
  shows "\<not> fresh (seen lseq bseq s' n) m"
  using assms by (cases m) (auto simp: not_behind_def seen_def)

lemma server_fail_status [simp]: "rs_Status (server_fail err) = 500"
  by (simp add: server_fail_def http_Error_def)

lemma verdict_204: "verdict_response p = (resp, s') \<Longrightarrow> rs_Status resp = 204 \<Longrightarrow> p = (None, s')"
  by (cases p rule: verdict_response.cases) auto

context monotonic_coordinator
begin

lemma step_not_behind:
  assumes "traffic_step J C lseq bseq s t s'"
  shows "not_behind lseq s s' \<and> not_behind bseq s s'"
proof (cases t)
  case (Sent r resp)
  show ?thesis
  proof (cases "request_call J r")
    case None
    with Sent assms request_answers [of J C r s] have "s' = s" by (auto simp: answers_call_def)
    then show ?thesis by (simp add: not_behind_def)
  next
    case (Some k)
    with Sent assms request_answers [of J C r s] have "perform J C k s = (resp, s')" by (simp add: answers_call_def)
    then have "s' = snd (perform J C k s)" by (simp del: perform.simps)
    then show ?thesis using nothing_forgotten by simp
  qed
qed (use assms in simp)

lemma step_accepts:
  assumes "traffic_step J C lseq bseq s t s'" and "accepted_message J t = Some m" and "covers m"
  shows "\<exists>n. nm_author m = Some n \<and> replay_protected m \<and> fresh (seen lseq bseq s n) m \<and> \<not> fresh (seen lseq bseq s' n) m"
proof -
  from assms(2) obtain r resp k where t: "t = Sent r resp" "rs_Status resp = 204" "request_call J r = Some k"
    by (cases t) (auto split: if_splits option.splits)
  with assms(1) request_answers [of J C r s] have k: "perform J C k s = (resp, s')" by (simp add: answers_call_def)
  show ?thesis
  proof (cases k)
    case (CallSubmitListing l)
    with k t(2) have "co_SubmitListing C l s = (None, s')" by (auto dest: verdict_204)
    from listing_fresh [OF _ this] CallSubmitListing assms(2,3) t show ?thesis by (auto simp: seen_def)
  next
    case (CallHeartbeat h)
    with k t(2) have "co_Heartbeat C h s = (None, s')" by (auto dest: verdict_204)
    from heartbeat_fresh [OF _ this] CallHeartbeat assms(2,3) t show ?thesis by (auto simp: seen_def)
  qed (use assms(2) t in simp_all)
qed

end

sublocale monotonic_coordinator \<subseteq> guard:
  replay_guard "traffic_step J C lseq bseq" "accepted_bytes J covers" "outdated lseq bseq" for J
proof (unfold_locales, goal_cases)
  case (1 s t s' b)
  then obtain m where m: "accepted_message J t = Some m" "nm_sized m" "b = nm_bytes m" "covers m"
    by (auto simp: accepted_bytes_def split: option.splits if_splits)
  from step_accepts [OF 1(1) m(1,4)] obtain n where n: "nm_author m = Some n" "replay_protected m"
    "fresh (seen lseq bseq s n) m" "\<not> fresh (seen lseq bseq s' n) m" by blast
  have "\<not> outdated lseq bseq s b"
  proof
    assume "outdated lseq bseq s b"
    then obtain y k where y: "replay_protected y" "nm_sized y" "nm_bytes y = nm_bytes m" "nm_author y = Some k"
      "\<not> fresh (seen lseq bseq s k) y" unfolding outdated_def m(3) by blast
    from protected_bytes [OF y(3,1,2) m(2)] y(4,5) n(1,3) show False by simp
  qed
  moreover have "outdated lseq bseq s' b" using n m(2,3) by (auto simp: outdated_def)
  ultimately show ?case ..
next
  case (2 s t s' b)
  with step_not_behind [OF 2(1)] show ?case by (auto simp: outdated_def dest: seen_stays)
qed

context monotonic_coordinator
begin

lemma no_replay_over_http:
  "run (traffic_step J C lseq bseq) s ts s' \<Longrightarrow> distinct (List.map_filter (accepted_bytes J covers) ts)"
  by (rule guard.no_replay)

end

text \<open>The machine of \<open>Admission\<close> behind the interface is such a coordinator.\<close>

definition listing_seqs :: "book \<Rightarrow> NodeID \<Rightarrow> uint64 option" where
  "listing_seqs bk n = Option.bind (bk n) ac_listing_seq"

definition beat_seqs :: "book \<Rightarrow> NodeID \<Rightarrow> uint64 option" where
  "beat_seqs bk n = Option.bind (bk n) ac_beat_seq"

lemma admitted_not_behind:
  assumes "admit E bk m = Some bk'"
  shows "not_behind listing_seqs bk bk' \<and> not_behind beat_seqs bk bk'"
proof -
  from assms obtain n a pub where "bk n = Some a" "fresh a m" "bk' = bk(n \<mapsto> log_msg a m)" by (auto simp: admit_Some)
  then show ?thesis
    by (cases m) (auto simp: not_behind_def listing_seqs_def beat_seqs_def dest: seq_exceeds_mono)
qed

lemma recorded_not_behind: "not_behind listing_seqs bk (snd (verdict_response (record_message E m bk))) \<and>
    not_behind beat_seqs bk (snd (verdict_response (record_message E m bk)))"
  by (cases "admit E bk m") (simp_all add: record_message_def not_behind_def [of _ bk bk] admitted_not_behind)

interpretation book_monotonic: monotonic_coordinator "book_coordinator E offers declared" "\<lambda>_. True" listing_seqs beat_seqs
  for E offers declared
proof (unfold_locales, goal_cases)
  case (1 l s s')
  then show ?case
    by (auto simp: book_coordinator_def record_message_def admit_Some listing_seqs_def split: option.splits)
next
  case (2 h s s')
  then show ?case
    by (auto simp: book_coordinator_def record_message_def admit_Some beat_seqs_def split: option.splits)
next
  case (3 s J k)
  show ?case
    by (cases k) (simp_all add: book_coordinator_def recorded_not_behind, simp_all add: not_behind_def)
qed

text \<open>The recording coordinator of src/no_inbound_test.go gives the promise for heartbeats, with one \<open>Seq\<close> for all
  nodes.\<close>

fun is_heartbeat :: "node_message \<Rightarrow> bool" where
  "is_heartbeat (HeartbeatMsg h) = True"
| "is_heartbeat _ = False"

interpretation watching_monotonic: monotonic_coordinator watching is_heartbeat "\<lambda>_ _. None" "\<lambda>w _. Some (wa_lastSeq w)"
proof (unfold_locales, goal_cases)
  case (2 h s s')
  then show ?case by (auto simp: watching_def watch_def split: if_splits)
next
  case (3 s J k)
  show ?case by (cases k) (auto simp: watching_def watch_def not_behind_def)
qed simp

section \<open>Replayed requests\<close>

definition accepted_messages :: "json \<Rightarrow> traffic list \<Rightarrow> node_message list" where
  "accepted_messages J ts = List.map_filter (accepted_message J) ts"

lemma accepted_bytes_messages:
  "\<forall>m \<in> set (accepted_messages J ts). nm_sized m \<Longrightarrow>
     List.map_filter (accepted_bytes J covers) ts = map nm_bytes (filter covers (accepted_messages J ts))"
  by (induction ts) (auto simp: accepted_messages_def List.map_filter_simps accepted_bytes_def split: option.splits)

text \<open>C7: a captured request is not honored again. Take any coordinator that keeps the contract of \<open>Seq\<close> of coordinator.go
  (\<open>monotonic_coordinator\<close>) for the messages \<open>covers\<close> names, whatever else it does and keeps, and any HTTP requests in
  any order, mixed with anything that does not make it forget a \<open>Seq\<close>. The listings and heartbeats it covers
  that are answered with status 204 have pairwise different canonical bytes: one with the signed bytes of an earlier
  one is refused, however its JSON, its signature field, its URL or its headers are respelled, even when its time
  cannot be represented and is missing from the bytes. \<open>nm_sized\<close> is true of every Go value. The
  recording coordinator of src/no_inbound_test.go keeps the contract for heartbeats (the witness), the machine of
  \<open>Admission\<close> for both messages.\<close>

theorem replayed_request_refused:
  assumes "monotonic_coordinator C covers lseq bseq" and "run (traffic_step J C lseq bseq) s ts s'"
    and "\<forall>m \<in> set (accepted_messages J ts). nm_sized m"
  shows "distinct (map nm_bytes (filter covers (accepted_messages J ts)))"
  using monotonic_coordinator.no_replay_over_http [OF assms(1,2)] accepted_bytes_messages [OF assms(3)] by simp

lemma replayed_request_refused_witness:
  "let H = Handler captured_json watching; w = \<lparr>wa_calls = [], wa_lastSeq = 0, wa_nodeSeen = []\<rparr>;
       second = H captured (snd (H captured w))
   in rs_Status (fst (H captured w)) = 204 \<and> rs_Status (fst second) \<noteq> 204"
proof -
  let ?H = "Handler captured_json watching" and ?w = "\<lparr>wa_calls = [], wa_lastSeq = 0, wa_nodeSeen = []\<rparr>"
  obtain r1 w1 r2 w2 where run: "?H captured ?w = (r1, w1)" "?H captured w1 = (r2, w2)" by fastforce
  have "?H captured ?w = verdict_response (co_Heartbeat watching (beat 3) ?w)"
    unfolding captured_def Handler_received
    by (subst post_call(1)) (simp_all add: received_def captured_json_def fixed_codec_def)
  then have first: "rs_Status r1 = 204" using run(1) by (auto simp: watching_def beat_def empty_response_def)
  have "rs_Status r2 \<noteq> 204"
  proof
    assume second: "rs_Status r2 = 204"
    have "run (traffic_step captured_json watching (\<lambda>_ _. None) (\<lambda>w _. Some (wa_lastSeq w))) ?w
        [Sent captured r1, Sent captured r2] w2"
      using run by (simp add: run_iffs)
    from replayed_request_refused [OF watching_monotonic.monotonic_coordinator_axioms this]
    show False using captured_call(1) first second by (simp add: accepted_messages_def List.map_filter_simps beat_def)
  qed
  with run first show ?thesis by (simp add: Let_def)
qed

end
