(* ===== verification/Lifecycle.thy ===== *)
theory Lifecycle
  imports Recording_Coordinator
begin

text \<open>
  The pull model (SPEC.md section 6, src/no_inbound_test.go): a node that only ever dials out completes its whole
  lifecycle, and its address may change between two calls. The server of the test notes the source address of every
  request before it hands it to the handler of the recording coordinator; a node's client opens a connection
  of its own for every request, from the address it was given and a port the system chooses.
\<close>

section \<open>The server of the test\<close>

text \<open>\<open>net.JoinHostPort\<close>, which makes the \<open>RemoteAddr\<close> of a request, and \<open>net.SplitHostPort\<close>, \<open>None\<close> being
  an error.\<close>

definition JoinHostPort :: "bytes \<Rightarrow> bytes \<Rightarrow> bytes" where
  "JoinHostPort host port =
     (if 0x3A \<in> set host then 0x5B # host @ [0x5D, 0x3A] @ port else host @ 0x3A # port)"

definition SplitHostPort :: "bytes \<Rightarrow> (bytes \<times> bytes) option" where
  "SplitHostPort s =
     (if 0x3A \<notin> set s then None
      else let host = before_last 0x3A s; port = tl (from_last 0x3A s)
        in if hd s = 0x5B then
             (let inner = takeWhile (\<lambda>c. c \<noteq> 0x5D) (tl s)
              in if 0x5B # inner @ [0x5D] = host \<and> 0x5B \<notin> set inner \<and> 0x5B \<notin> set port \<and> 0x5D \<notin> set port
                then Some (inner, port) else None)
           else if 0x3A \<in> set host \<or> 0x5B \<in> set s \<or> 0x5D \<in> set s then None
           else Some (host, port))"

record tested =
  te_conns :: nat
  te_sources :: "bytes set"
  te_hosts :: "bytes set"
  te_coord :: watcher

definition test_server :: "json \<Rightarrow> bytes \<Rightarrow> tested handler" where
  "test_server J remote r st =
     (let st = st\<lparr>te_conns := te_conns st + 1, te_sources := insert remote (te_sources st),
            te_hosts := (case SplitHostPort remote of Some (h, p) \<Rightarrow> insert h (te_hosts st) | None \<Rightarrow> te_hosts st)\<rparr>;
          (resp, w) = Handler J watching r (te_coord st)
      in (resp, st\<lparr>te_coord := w\<rparr>))"

section \<open>A node's client\<close>

text \<open>What the system and the network choose: the address under which the server sees a connection dialled with a given
  \<open>localIP\<close> (empty for none; its usual text, that of a NAT in between, or the system's own choice), and the port of
  each connection, by the number of requests served before it.\<close>

record network =
  nw_seen :: "bytes \<Rightarrow> bytes"
  nw_port :: "nat \<Rightarrow> bytes"

definition source_of :: "network \<Rightarrow> bytes \<Rightarrow> nat \<Rightarrow> bytes" where
  "source_of net localIP k = JoinHostPort (nw_seen net localIP) (nw_port net k)"

definition dialled :: "json \<Rightarrow> network \<Rightarrow> bytes \<Rightarrow> tested handler" where
  "dialled J net localIP r st = test_server J (source_of net localIP (te_conns st)) r st"

definition nodeClient :: "json \<Rightarrow> network \<Rightarrow> bytes \<Rightarrow> bytes \<Rightarrow> tested Client" where
  "nodeClient J net baseURL localIP =
     \<lparr>hc_BaseURL = baseURL, hc_HTTP = Some (HttpClient (Some (http_Server (dialled J net localIP))))\<rparr>"

section \<open>A node's session\<close>

text \<open>Registration, a heartbeat, the fees, a poll and a refusal from the first address; a heartbeat and a report from
  the second. The errors are listed in the order of the calls; the test stops at the first one.\<close>

definition node_session ::
  "tested http_env \<Rightarrow> json \<Rightarrow> network \<Rightarrow> bytes \<Rightarrow> bytes \<Rightarrow> bytes \<Rightarrow> NodeID \<Rightarrow> go_time \<Rightarrow> go_time \<Rightarrow>
   uint64 \<Rightarrow> uint64 \<Rightarrow> tested \<Rightarrow> go_error option list \<times> Assignment list \<times> FeeDeclaration \<times> tested" where
  "node_session env J net url ip moved n now later seq seq' s0 =
     (let c = nodeClient J net url ip;
          (e1, s1) = Client_SubmitListing env J c (zero_CapabilityListing\<lparr>cl_NodeID := n, cl_IssuedAt := now, cl_Seq := 1\<rparr>) s0;
          (e2, s2) = Client_Heartbeat env J c (zero_Heartbeat\<lparr>hb_NodeID := n, hb_SentAt := now, hb_Seq := seq\<rparr>) s1;
          ((fee, e3), s3) = Client_Fees env J c s2;
          ((jobs, e4), s4) = Client_PollJobs env J c n s3;
          (e5, s5) = Client_Decline env J c
            (zero_Decline\<lparr>dc_JobID := as_JobID (jobs ! 0), dc_NodeID := n, dc_DeclinedAt := now\<rparr>) s4;
          c = nodeClient J net url moved;
          (e6, s6) = Client_Heartbeat env J c (zero_Heartbeat\<lparr>hb_NodeID := n, hb_SentAt := later, hb_Seq := seq'\<rparr>) s5;
          (e7, s7) = Client_ReportJob env J c (zero_JobReport\<lparr>jr_JobID := as_JobID (jobs ! 1), jr_NodeID := n,
            jr_StartedAt := now, jr_FinishedAt := later\<rparr>) s6
      in ([e1, e2, e3, e4, e5, e6, e7], jobs, fee, s7))"

section \<open>One exchange with a server around a handler\<close>

text \<open>\<open>H\<close> in state \<open>s\<close> answers as \<open>H0\<close> in state \<open>t\<close>, and its new state is a function of the other's.\<close>

definition surrounds :: "'s handler \<Rightarrow> 's \<Rightarrow> 't handler \<Rightarrow> 't \<Rightarrow> ('t \<Rightarrow> 's) \<Rightarrow> bool" where
  "surrounds H s H0 t put \<longleftrightarrow> (\<forall>r. H r s = apsnd put (H0 r t))"

lemma postJSON_surrounded:
  assumes "served_by env c H" and "served_by env0 c0 H0" and "surrounds H s H0 t put" and "path \<in> set route_paths"
    and "jc_Marshal jc v = Inr b" and "\<not> redirected (Inr (fst (H0 (received MethodPost path [] (lit ''application/json'') b) t)))"
  shows "postJSON env c jc path v s = apsnd put (postJSON env0 c0 jc path v t)"
proof -
  let ?r = "received MethodPost path [] (lit ''application/json'') b"
  obtain resp t' where H0: "H0 ?r t = (resp, t')" by fastforce
  with assms(3) have H: "H ?r s = (resp, put t')" by (simp add: surrounds_def)
  have ok: "\<not> redirected (Inr resp)" using assms(6) H0 by simp
  from served_request [OF assms(1,4) route_query_Nil H ok] served_request [OF assms(2,4) route_query_Nil H0 ok]
  show ?thesis
    by (auto simp: exchanged_as_def query_text_def postJSON_def assms(5) client_do_def status_error_def)
qed

lemma getJSON_surrounded:
  assumes "served_by env c H" and "served_by env0 c0 H0" and "surrounds H s H0 t put" and "path \<in> set route_paths"
    and "route_query q" and "\<not> redirected (Inr (fst (H0 (received MethodGet path q [] []) t)))"
  shows "getJSON env c jc (path @ query_text q) zero s = apsnd put (getJSON env0 c0 jc (path @ query_text q) zero t)"
proof -
  let ?r = "received MethodGet path q [] []"
  obtain resp t' where H0: "H0 ?r t = (resp, t')" by fastforce
  with assms(3) have H: "H ?r s = (resp, put t')" by (simp add: surrounds_def)
  have ok: "\<not> redirected (Inr resp)" using assms(6) H0 by simp
  from served_request [OF assms(1,4,5) H ok] served_request [OF assms(2,4,5) H0 ok]
  show ?thesis by (auto simp: exchanged_as_def getJSON_def client_do_out_def status_error_def)
qed

section \<open>Single calls\<close>

text \<open>The state of the server after one more request from \<open>localIP\<close>, the coordinator then being in state \<open>w\<close>.\<close>

definition logged :: "network \<Rightarrow> bytes \<Rightarrow> tested \<Rightarrow> watcher \<Rightarrow> tested" where
  "logged net localIP st w =
     st\<lparr>te_conns := te_conns st + 1, te_sources := insert (source_of net localIP (te_conns st)) (te_sources st),
        te_hosts := (case SplitHostPort (source_of net localIP (te_conns st)) of
          Some (h, p) \<Rightarrow> insert h (te_hosts st) | None \<Rightarrow> te_hosts st), te_coord := w\<rparr>"

lemma dialled_surrounds: "surrounds (dialled J net ip) st (Handler J watching) (te_coord st) (logged net ip st)"
  by (auto simp: surrounds_def dialled_def test_server_def logged_def split: prod.split)

lemma nodeClient_served: "coordinator_root url \<Longrightarrow> served_by env (nodeClient J net url ip) (dialled J net ip)"
  by (simp add: served_by_def delivers_def nodeClient_def httpClient_def client_Transport_def)

lemma plain_served: "served_by (loopback (Handler J watching)) demo_client (Handler J watching)"
  unfolding demo_client_def by (rule loopback_served [OF demo_root])

lemma marshals:
  "time_MarshalJSON z (cl_IssuedAt l) = Inr b \<Longrightarrow> \<exists>x. jc_Marshal (jn_listing (go_json err z nil)) l = Inr x"
  "time_MarshalJSON z (hb_SentAt h) = Inr b \<Longrightarrow> \<exists>x. jc_Marshal (jn_heartbeat (go_json err z nil)) h = Inr x"
  "time_MarshalJSON z (dc_DeclinedAt d) = Inr b \<Longrightarrow> \<exists>x. jc_Marshal (jn_decline (go_json err z nil)) d = Inr x"
  "time_MarshalJSON z (jr_StartedAt r) = Inr b \<Longrightarrow> time_MarshalJSON z (jr_FinishedAt r) = Inr b' \<Longrightarrow>
    \<exists>x. jc_Marshal (jn_report (go_json err z nil)) r = Inr x"
  using messages_encoded(1) [of z h nil] messages_encoded(2) [of z d nil] messages_encoded(3) [of z l nil]
    messages_encoded(6) [of z r nil]
  by (auto simp: encoded_as_def go_json_def codec_of_def)

lemma routes_known [simp]:
  "lit ''/v0/listing'' \<in> set route_paths" "lit ''/v0/heartbeat'' \<in> set route_paths" "lit ''/v0/decline'' \<in> set route_paths"
  "lit ''/v0/report'' \<in> set route_paths" "lit ''/v0/jobs'' \<in> set route_paths" "lit ''/v0/fees'' \<in> set route_paths"
  by (simp_all add: route_paths_def)

lemma handler_never_redirects:
  "\<not> redirected (Inr (fst (handle_jobs C J r s)))" "\<not> redirected (Inr (fst (handle_fees C J r s)))"
  by (auto simp: handle_jobs_def handle_fees_def methodNotAllowed_def server_fail_def http_Error_def writeJSON_def Let_def
      split: prod.splits option.splits)

lemma fees_url:
  "getJSON env c jc (lit ''/v0/fees'') zero = getJSON env c jc (lit ''/v0/fees'' @ query_text []) zero"
  by (simp add: query_text_def)

text \<open>Each call of the node is the call of any client of the recording coordinator, and one more source.\<close>

lemma node_calls:
  assumes "coordinator_root url" and J: "J = go_json err z nil" and H: "H = Handler J watching"
  shows "time_MarshalJSON z (cl_IssuedAt l) = Inr b \<Longrightarrow> Client_SubmitListing env J (nodeClient J net url ip) l st =
      apsnd (logged net ip st) (Client_SubmitListing (loopback H) J demo_client l (te_coord st))"
    and "time_MarshalJSON z (hb_SentAt h) = Inr b \<Longrightarrow> Client_Heartbeat env J (nodeClient J net url ip) h st =
      apsnd (logged net ip st) (Client_Heartbeat (loopback H) J demo_client h (te_coord st))"
    and "time_MarshalJSON z (dc_DeclinedAt d) = Inr b \<Longrightarrow> Client_Decline env J (nodeClient J net url ip) d st =
      apsnd (logged net ip st) (Client_Decline (loopback H) J demo_client d (te_coord st))"
    and "time_MarshalJSON z (jr_StartedAt r) = Inr b \<Longrightarrow> time_MarshalJSON z (jr_FinishedAt r) = Inr b' \<Longrightarrow>
      Client_ReportJob env J (nodeClient J net url ip) r st =
      apsnd (logged net ip st) (Client_ReportJob (loopback H) J demo_client r (te_coord st))"
    and "Client_PollJobs env J (nodeClient J net url ip) n st =
      apsnd (logged net ip st) (Client_PollJobs (loopback H) J demo_client n (te_coord st))"
    and "Client_Fees env J (nodeClient J net url ip) st =
      apsnd (logged net ip st) (Client_Fees (loopback H) J demo_client (te_coord st))"
proof -
  note sent = postJSON_surrounded [OF nodeClient_served [OF assms(1)] plain_served dialled_surrounds]
    and got = getJSON_surrounded [OF nodeClient_served [OF assms(1)] plain_served dialled_surrounds]
  note ok = Handler_received post_ok_status handler_never_redirects
  show "Client_SubmitListing env J (nodeClient J net url ip) l st =
      apsnd (logged net ip st) (Client_SubmitListing (loopback H) J demo_client l (te_coord st))"
    if "time_MarshalJSON z (cl_IssuedAt l) = Inr b"
    using marshals(1) [OF that, of err nil] unfolding Client_SubmitListing_def J H
    by (elim exE) (rule sent, simp_all only: ok routes_known simp_thms)
  show "Client_Heartbeat env J (nodeClient J net url ip) h st =
      apsnd (logged net ip st) (Client_Heartbeat (loopback H) J demo_client h (te_coord st))"
    if "time_MarshalJSON z (hb_SentAt h) = Inr b"
    using marshals(2) [OF that, of err nil] unfolding Client_Heartbeat_def J H
    by (elim exE) (rule sent, simp_all only: ok routes_known simp_thms)
  show "Client_Decline env J (nodeClient J net url ip) d st =
      apsnd (logged net ip st) (Client_Decline (loopback H) J demo_client d (te_coord st))"
    if "time_MarshalJSON z (dc_DeclinedAt d) = Inr b"
    using marshals(3) [OF that, of err nil] unfolding Client_Decline_def J H
    by (elim exE) (rule sent, simp_all only: ok routes_known simp_thms)
  show "Client_ReportJob env J (nodeClient J net url ip) r st =
      apsnd (logged net ip st) (Client_ReportJob (loopback H) J demo_client r (te_coord st))"
    if "time_MarshalJSON z (jr_StartedAt r) = Inr b" "time_MarshalJSON z (jr_FinishedAt r) = Inr b'"
    using marshals(4) [OF that, of err nil] unfolding Client_ReportJob_def J H
    by (elim exE) (rule sent, simp_all only: ok routes_known simp_thms)
  show "Client_PollJobs env J (nodeClient J net url ip) n st =
      apsnd (logged net ip st) (Client_PollJobs (loopback H) J demo_client n (te_coord st))"
    unfolding Client_PollJobs_def J H poll_url by (rule got) (simp_all only: ok routes_known poll_query simp_thms)
  show "Client_Fees env J (nodeClient J net url ip) st =
      apsnd (logged net ip st) (Client_Fees (loopback H) J demo_client (te_coord st))"
    unfolding Client_Fees_def J H
    by (subst (1 2) fees_url, rule got) (simp_all only: ok routes_known route_query_Nil simp_thms)
qed

section \<open>Source addresses\<close>

definition unbracketed :: "bytes \<Rightarrow> bool" where
  "unbracketed a \<longleftrightarrow> 0x5B \<notin> set a \<and> 0x5D \<notin> set a"

lemma last_colon:
  assumes "0x3A \<notin> set p"
  shows "before_last 0x3A (h @ 0x3A # p) = h" and "from_last 0x3A (h @ 0x3A # p) = 0x3A # p"
proof -
  have "cut_after 0x3A (rev p @ 0x3A # rev h) = rev h" using cut_at [of "0x3A" "rev p" "rev h"] assms by simp
  then show h: "before_last 0x3A (h @ 0x3A # p) = h" by (simp add: before_last_def)
  show "from_last 0x3A (h @ 0x3A # p) = 0x3A # p" by (rule from_last_at [OF assms])
qed

lemma port_digits: "list_all digit p \<Longrightarrow> 0x3A \<notin> set p \<and> 0x5B \<notin> set p \<and> 0x5D \<notin> set p"
  by (auto simp: list_all_iff digit_def)

lemma Split_Join:
  assumes "unbracketed a" and "list_all digit p"
  shows "SplitHostPort (JoinHostPort a p) = Some (a, p)"
proof (cases "0x3A \<in> set a")
  case True
  have "takeWhile (\<lambda>c. c \<noteq> 0x5D) (a @ 0x5D # 0x3A # p) = a"
    using assms(1) by (subst takeWhile_append2) (auto simp: unbracketed_def)
  with True assms(1) port_digits [OF assms(2)] last_colon [of p "0x5B # a @ [0x5D]"] show ?thesis
    by (simp add: JoinHostPort_def SplitHostPort_def unbracketed_def Let_def)
next
  case False
  moreover have "hd (a @ 0x3A # p) \<noteq> 0x5B" using assms(1) by (cases a) (auto simp: unbracketed_def)
  ultimately show ?thesis
    using assms(1) port_digits [OF assms(2)] last_colon [of p a]
    by (auto simp: JoinHostPort_def SplitHostPort_def unbracketed_def Let_def)
qed

lemma Join_inject:
  assumes "unbracketed a" and "unbracketed a'" and "list_all digit p" and "list_all digit p'"
    and "JoinHostPort a p = JoinHostPort a' p'"
  shows "a = a' \<and> p = p'"
  using Split_Join [OF assms(1,3)] Split_Join [OF assms(2,4)] assms(5) by (metis option.inject prod.inject)

lemma logged_fields:
  "te_conns (logged net ip st w) = te_conns st + 1" "te_coord (logged net ip st w) = w"
  "te_sources (logged net ip st w) = insert (source_of net ip (te_conns st)) (te_sources st)"
  "unbracketed (nw_seen net ip) \<Longrightarrow> \<forall>k. list_all digit (nw_port net k) \<Longrightarrow>
    te_hosts (logged net ip st w) = insert (nw_seen net ip) (te_hosts st)"
  by (simp_all add: logged_def source_of_def Split_Join)

text \<open>The coordinator's side of the session.\<close>

definition session_watch :: "NodeID \<Rightarrow> uint64 \<Rightarrow> uint64 \<Rightarrow> watcher \<Rightarrow> watcher" where
  "session_watch n seq seq' w =
     (let beat = (\<lambda>k w. if wa_lastSeq w < k then watch (lit ''Heartbeat'') n (w\<lparr>wa_lastSeq := k\<rparr>) else w)
      in watch (lit ''ReportJob'') n (beat seq' (watch (lit ''Decline'') n (watch (lit ''PollJobs'') n
           (watch (lit ''Fees'') [] (beat seq (watch (lit ''SubmitListing'') n w)))))))"

lemma session_watch_eq:
  assumes "n \<noteq> []"
  shows "session_watch n seq seq' w =
    (let fresh = wa_lastSeq w < seq; fresh' = max (wa_lastSeq w) seq < seq'; beats = (\<lambda>ok. if ok then [lit ''Heartbeat''] else [])
     in \<lparr>wa_calls = wa_calls w @ [lit ''SubmitListing''] @ beats fresh @
           [lit ''Fees'', lit ''PollJobs'', lit ''Decline''] @ beats fresh' @ [lit ''ReportJob''],
         wa_lastSeq = max (max (wa_lastSeq w) seq) seq', wa_nodeSeen = n\<rparr>)"
  using assms by (auto simp: session_watch_def watch_def max_def Let_def)

section \<open>The whole session\<close>

lemma beat_result:
  "(if p then (None, w) else (Some e, w')) = (if p then None else Some e, if p then w else w')"
  by simp

lemma node_session_run:
  assumes "coordinator_root url" and "n \<noteq> []" and "valid_utf8 n"
    and "wf_time now" and "wf_time later" and "time_MarshalJSON z now = Inr b" and "time_MarshalJSON z later = Inr b'"
  shows "node_session env (go_json err z nil) net url ip moved n now later seq seq' st =
    (let to = logged net ip; to' = logged net moved; w = te_coord st; w1 = watch (lit ''SubmitListing'') n w;
         w2 = (if wa_lastSeq w < seq then watch (lit ''Heartbeat'') n (w1\<lparr>wa_lastSeq := seq\<rparr>) else w1);
         w3 = watch (lit ''Fees'') [] w2; w4 = watch (lit ''PollJobs'') n w3; w5 = watch (lit ''Decline'') n w4;
         w6 = (if max (wa_lastSeq w) seq < seq' then watch (lit ''Heartbeat'') n (w5\<lparr>wa_lastSeq := seq'\<rparr>) else w5);
         beat = (\<lambda>ok. if ok then None else Some stale)
     in ([None, beat (wa_lastSeq w < seq), None, None, None, beat (max (wa_lastSeq w) seq < seq'), None], offered_jobs n,
         test_declaration,
         to' (to' (to (to (to (to (to st w1) w2) w3) w4) w5) w6) (watch (lit ''ReportJob'') n w6)))"
proof -
  note calls = node_calls [OF assms(1) refl refl]
  note plain = session_posts [OF refl plain_served assms(3)] session_gets [OF refl plain_served assms(3)]
  have seen: "wa_lastSeq (watch op n w) = wa_lastSeq w" for op n w by (simp add: watch_def)
  have top: "wa_lastSeq (if wa_lastSeq w < seq then watch op n (w1\<lparr>wa_lastSeq := seq\<rparr>) else w1) = max (wa_lastSeq w) seq"
    if "wa_lastSeq w1 = wa_lastSeq w" for op n w w1
    using that by (auto simp: seen max_def)
  have times: "cl_IssuedAt (zero_CapabilityListing\<lparr>cl_NodeID := n, cl_IssuedAt := t, cl_Seq := k\<rparr>) = t"
      "hb_SentAt (zero_Heartbeat\<lparr>hb_NodeID := n, hb_SentAt := t, hb_Seq := k\<rparr>) = t"
      "dc_DeclinedAt (zero_Decline\<lparr>dc_JobID := j, dc_NodeID := n, dc_DeclinedAt := t\<rparr>) = t"
      "jr_StartedAt (zero_JobReport\<lparr>jr_JobID := j, jr_NodeID := n, jr_StartedAt := t, jr_FinishedAt := t'\<rparr>) = t"
      "jr_FinishedAt (zero_JobReport\<lparr>jr_JobID := j, jr_NodeID := n, jr_StartedAt := t, jr_FinishedAt := t'\<rparr>) = t'"
    for t t' j k by simp_all
  note step = plain(1) [OF assms(4,6)] plain(2) [OF assms(4,6)] plain(2) [OF assms(5,7)] plain(3) [OF assms(4,6)]
    plain(4) [OF assms(4,6) assms(5,7)] plain(5) [OF assms(2)] plain(6)
  note told = calls(1) [where b = b] calls(2) [where b = b] calls(2) [where b = b'] calls(3) [where b = b]
    calls(4) [where b = b and b' = b'] calls(5,6)
  show ?thesis
    unfolding node_session_def Let_def
    by (simp only: told step times assms beat_result logged_fields apsnd_conv prod.case seen top)
qed

text \<open>What the server has noted after five requests from one address and two from another.\<close>

lemma logged_twice_and_five:
  assumes "unbracketed (nw_seen net ip)" and "unbracketed (nw_seen net moved)" and "\<forall>k. list_all digit (nw_port net k)"
  shows "logged net moved (logged net moved (logged net ip (logged net ip (logged net ip (logged net ip (logged net ip st
      w1) w2) w3) w4) w5) w6) w7 =
    \<lparr>te_conns = te_conns st + 7,
     te_sources = te_sources st \<union> (\<lambda>i. JoinHostPort (nw_seen net ip) (nw_port net i)) ` {te_conns st..<te_conns st + 5} \<union>
       (\<lambda>i. JoinHostPort (nw_seen net moved) (nw_port net i)) ` {te_conns st + 5..<te_conns st + 7},
     te_hosts = te_hosts st \<union> {nw_seen net ip, nw_seen net moved}, te_coord = w7\<rparr>"
proof -
  have five: "{k..<k + 5} = {k, Suc k, Suc (Suc k), Suc (Suc (Suc k)), Suc (Suc (Suc (Suc k)))}"
    and two: "{k + 5..<k + 7} = {Suc (Suc (Suc (Suc (Suc k)))), Suc (Suc (Suc (Suc (Suc (Suc k)))))}" for k :: nat
    by auto
  show ?thesis
    by (rule tested.equality)
      (simp_all add: logged_fields assms five two source_of_def insert_commute)
qed

lemma seven_sources:
  assumes "unbracketed ip" and "unbracketed moved" and "\<forall>k. list_all digit (nw_port net k)" and "inj (nw_port net)"
  shows "card ((\<lambda>i. JoinHostPort ip (nw_port net i)) ` {k..<k + 5} \<union>
       (\<lambda>i. JoinHostPort moved (nw_port net i)) ` {k + 5..<k + 7}) = 7"
proof -
  let ?f = "\<lambda>i. JoinHostPort (if i < k + 5 then ip else moved) (nw_port net i)"
  have "inj_on ?f {k..<k + 7}"
  proof (rule inj_onI)
    fix i j assume "?f i = ?f j"
    then have "nw_port net i = nw_port net j"
      using Join_inject [of "if i < k + 5 then ip else moved" "if j < k + 5 then ip else moved"] assms(1-3) by auto
    then show "i = j" using assms(4) by (simp add: inj_eq)
  qed
  then have seven: "card (?f ` {k..<k + 7}) = 7" by (simp add: card_image)
  have parts: "(\<lambda>i. JoinHostPort ip (nw_port net i)) ` {k..<k + 5} = ?f ` {k..<k + 5}"
      "(\<lambda>i. JoinHostPort moved (nw_port net i)) ` {k + 5..<k + 7} = ?f ` {k + 5..<k + 7}"
    by (rule image_cong, simp, auto)+
  have whole: "{k..<k + 7} = {k..<k + 5} \<union> {k + 5..<k + 7}" by auto
  show ?thesis using seven unfolding parts whole image_Un .
qed

lemma session_watch_steps:
  "session_watch n seq seq' w =
    watch (lit ''ReportJob'') n
      (if max (wa_lastSeq w) seq < seq'
       then watch (lit ''Heartbeat'') n
         ((watch (lit ''Decline'') n (watch (lit ''PollJobs'') n (watch (lit ''Fees'') []
            (if wa_lastSeq w < seq then watch (lit ''Heartbeat'') n ((watch (lit ''SubmitListing'') n w)\<lparr>wa_lastSeq := seq\<rparr>)
             else watch (lit ''SubmitListing'') n w))))\<lparr>wa_lastSeq := seq'\<rparr>)
       else watch (lit ''Decline'') n (watch (lit ''PollJobs'') n (watch (lit ''Fees'') []
            (if wa_lastSeq w < seq then watch (lit ''Heartbeat'') n ((watch (lit ''SubmitListing'') n w)\<lparr>wa_lastSeq := seq\<rparr>)
             else watch (lit ''SubmitListing'') n w))))"
  by (auto simp: session_watch_def watch_def max_def Let_def)

text \<open>C32: the pull model. A node that only dials out completes its lifecycle over the transport, and its address may
  change on the way. The node id is non-empty valid UTF-8 and the two times can be written in RFC 3339 (as the test's can);
  the two addresses under which the server sees the connections are any without brackets, IPv6
  included, the ports any digits. Then every call of the session is answered, the two
  assignments and the fees arrive as the coordinator made them, the server has noted seven connections, five from the
  first address and two from the second, each from its own port, and the coordinator has recorded the calls in
  order, under the node's id: its state is a function of the messages alone, not of the addresses and ports. Only a
  heartbeat whose sequence number does not exceed the last recorded one is refused, with the coordinator's own error,
  and leaves no trace there. If the system does not reuse a port, the seven sources differ.\<close>

theorem lifecycle_completes:
  assumes "coordinator_root url" and "n \<noteq> []" and "valid_utf8 n"
    and "wf_time now" and "wf_time later" and "time_MarshalJSON z now = Inr b" and "time_MarshalJSON z later = Inr b'"
    and "unbracketed (nw_seen net ip)" and "unbracketed (nw_seen net moved)" and "\<forall>k. list_all digit (nw_port net k)"
  shows "node_session env (go_json err z nil) net url ip moved n now later seq seq' st =
    (let w = te_coord st; k = te_conns st; fresh = wa_lastSeq w < seq; fresh' = max (wa_lastSeq w) seq < seq';
         beat = (\<lambda>ok. if ok then None else Some stale); beats = (\<lambda>ok. if ok then [lit ''Heartbeat''] else [])
     in ([None, beat fresh, None, None, None, beat fresh', None], offered_jobs n, test_declaration,
       \<lparr>te_conns = k + 7,
        te_sources = te_sources st \<union> (\<lambda>i. JoinHostPort (nw_seen net ip) (nw_port net i)) ` {k..<k + 5} \<union>
          (\<lambda>i. JoinHostPort (nw_seen net moved) (nw_port net i)) ` {k + 5..<k + 7},
        te_hosts = te_hosts st \<union> {nw_seen net ip, nw_seen net moved},
        te_coord =
          \<lparr>wa_calls = wa_calls w @ [lit ''SubmitListing''] @ beats fresh @
             [lit ''Fees'', lit ''PollJobs'', lit ''Decline''] @ beats fresh' @ [lit ''ReportJob''],
           wa_lastSeq = max (max (wa_lastSeq w) seq) seq', wa_nodeSeen = n\<rparr>\<rparr>)) \<and>
    (inj (nw_port net) \<longrightarrow> card ((\<lambda>i. JoinHostPort (nw_seen net ip) (nw_port net i)) ` {k..<k + 5} \<union>
       (\<lambda>i. JoinHostPort (nw_seen net moved) (nw_port net i)) ` {k + 5..<k + 7}) = 7)"
proof
  show "node_session env (go_json err z nil) net url ip moved n now later seq seq' st =
    (let w = te_coord st; k = te_conns st; fresh = wa_lastSeq w < seq; fresh' = max (wa_lastSeq w) seq < seq';
         beat = (\<lambda>ok. if ok then None else Some stale); beats = (\<lambda>ok. if ok then [lit ''Heartbeat''] else [])
     in ([None, beat fresh, None, None, None, beat fresh', None], offered_jobs n, test_declaration,
       \<lparr>te_conns = k + 7,
        te_sources = te_sources st \<union> (\<lambda>i. JoinHostPort (nw_seen net ip) (nw_port net i)) ` {k..<k + 5} \<union>
          (\<lambda>i. JoinHostPort (nw_seen net moved) (nw_port net i)) ` {k + 5..<k + 7},
        te_hosts = te_hosts st \<union> {nw_seen net ip, nw_seen net moved},
        te_coord =
          \<lparr>wa_calls = wa_calls w @ [lit ''SubmitListing''] @ beats fresh @
             [lit ''Fees'', lit ''PollJobs'', lit ''Decline''] @ beats fresh' @ [lit ''ReportJob''],
           wa_lastSeq = max (max (wa_lastSeq w) seq) seq', wa_nodeSeen = n\<rparr>\<rparr>))"
    unfolding node_session_run [OF assms(1-7)] Let_def
    by (simp only: Pair_inject simp_thms logged_twice_and_five [OF assms(8-10)] session_watch_eq [OF assms(2), unfolded Let_def]
        session_watch_steps [symmetric])
next
  show "inj (nw_port net) \<longrightarrow> card ((\<lambda>i. JoinHostPort (nw_seen net ip) (nw_port net i)) ` {k..<k + 5} \<union>
       (\<lambda>i. JoinHostPort (nw_seen net moved) (nw_port net i)) ` {k + 5..<k + 7}) = 7"
    using seven_sources [OF assms(8-10)] by blast
qed

text \<open>The values of the test: the two loopback addresses, and a new port for every connection.\<close>

definition test_network :: network where
  "test_network = \<lparr>nw_seen = (\<lambda>ip. if ip = [] then lit ''127.0.0.1'' else ip), nw_port = (\<lambda>k. replicate (Suc k) 0x31)\<rparr>"

lemma lifecycle_completes_witness:
  "let n = lit ''node-behind-nat''; ip = lit ''127.0.0.1''; moved = lit ''127.0.0.2'';
       at = \<lambda>unix. \<lparr>t_sec = unix + 62135596800, t_nsec = 0, t_loc = None, t_mono = None\<rparr>;
       J = go_json plain_error utc_zones True; sources = (\<lambda>i. JoinHostPort ip (nw_port test_network i)) ` {0..<5} \<union>
         (\<lambda>i. JoinHostPort moved (nw_port test_network i)) ` {5..<7}
   in node_session (loopback (dialled J test_network ip)) J test_network (lit ''http://c'') ip moved n (at 1700000000)
       (at 1700000060) 1 2 \<lparr>te_conns = 0, te_sources = {}, te_hosts = {},
         te_coord = \<lparr>wa_calls = [], wa_lastSeq = 0, wa_nodeSeen = []\<rparr>\<rparr> =
     ([None, None, None, None, None, None, None], offered_jobs n, test_declaration,
      \<lparr>te_conns = 7, te_sources = sources, te_hosts = {ip, moved},
       te_coord = \<lparr>wa_calls = [lit ''SubmitListing'', lit ''Heartbeat'', lit ''Fees'', lit ''PollJobs'', lit ''Decline'',
         lit ''Heartbeat'', lit ''ReportJob''], wa_lastSeq = 2, wa_nodeSeen = n\<rparr>\<rparr>) \<and> card sources = 7"
proof -
  let ?t = "\<lambda>s. \<lparr>t_sec = s + 62135596800, t_nsec = 0, t_loc = None, t_mono = None\<rparr> :: go_time"
  have n: "valid_utf8 (lit ''node-behind-nat'')" "lit ''node-behind-nat'' \<noteq> []" by code_simp+
  have times: "wf_time (?t s)" for s by (simp add: wf_time_def)
  have now: "\<exists>b. time_MarshalJSON utc_zones (?t s) = Inr b" if "s = 1700000000 \<or> s = 1700000060" for s
    using that by (intro time_MarshalJSON_ok) (auto simp: times instant_ns_def)
  then obtain b b' where written: "time_MarshalJSON utc_zones (?t 1700000000) = Inr b"
    "time_MarshalJSON utc_zones (?t 1700000060) = Inr b'" by metis
  have seen: "nw_seen test_network (lit ''127.0.0.1'') = lit ''127.0.0.1''" "nw_seen test_network (lit ''127.0.0.2'') = lit ''127.0.0.2''"
    by (simp_all add: test_network_def lit_def)
  have ips: "unbracketed (nw_seen test_network (lit ''127.0.0.1''))" "unbracketed (nw_seen test_network (lit ''127.0.0.2''))"
    unfolding seen by code_simp+
  have ports: "\<forall>k. list_all digit (nw_port test_network k)" "inj (nw_port test_network)"
    by (simp_all add: test_network_def list_all_iff digit_def inj_def)
  show ?thesis
    using lifecycle_completes [OF demo_root n(2,1) times times written ips ports(1),
        of "loopback (dialled (go_json plain_error utc_zones True) test_network (lit ''127.0.0.1''))" plain_error True 1 2
        "\<lparr>te_conns = 0, te_sources = {}, te_hosts = {}, te_coord = \<lparr>wa_calls = [], wa_lastSeq = 0, wa_nodeSeen = []\<rparr>\<rparr>" 0]
      ports(2)
    unfolding Let_def seen by simp
qed

end
