(* ===== verification/Inbound_Audit.thy ===== *)
theory Inbound_Audit
  imports Recording_Coordinator
begin

text \<open>
  The audit of src/no_inbound_test.go that no wire message carries an address a peer could dial: how it splits a
  Go name into words, which words it takes for an address, and the names of all objects \<open>encoding/json\<close> writes for the
  six messages of the transport. Unicode's tables are a parameter; names of the module are ASCII, where
  the tables are fixed by \<open>ascii_unicode\<close>.
\<close>

section \<open>Words of a name\<close>

type_synonym rune = int

record unicode_tables =
  un_IsUpper :: "rune \<Rightarrow> bool"
  un_IsLower :: "rune \<Rightarrow> bool"
  un_ToLower :: "rune \<Rightarrow> rune"

definition ascii_upper :: "rune \<Rightarrow> bool" where "ascii_upper r \<longleftrightarrow> 65 \<le> r \<and> r \<le> 90"
definition ascii_lower :: "rune \<Rightarrow> bool" where "ascii_lower r \<longleftrightarrow> 97 \<le> r \<and> r \<le> 122"

definition ascii_tables :: unicode_tables where
  "ascii_tables = \<lparr>un_IsUpper = ascii_upper, un_IsLower = ascii_lower,
     un_ToLower = (\<lambda>r. if ascii_upper r then r + 32 else r)\<rparr>"

definition ascii_unicode :: "unicode_tables \<Rightarrow> bool" where
  "ascii_unicode U \<longleftrightarrow> (\<forall>r. 0 \<le> r \<and> r < 128 \<longrightarrow> un_IsUpper U r = un_IsUpper ascii_tables r \<and>
     un_IsLower U r = un_IsLower ascii_tables r \<and> un_ToLower U r = un_ToLower ascii_tables r)"

definition runes :: "string \<Rightarrow> rune list" where
  "runes s = map of_char s"

text \<open>\<open>acronymPlural\<close> at position \<open>i\<close>, and whether a word ends before position \<open>i\<close>.\<close>

definition acronymPlural :: "unicode_tables \<Rightarrow> rune list \<Rightarrow> nat \<Rightarrow> bool" where
  "acronymPlural U r i \<longleftrightarrow> i + 1 < length r \<and> r ! (i + 1) = of_char (CHR ''s'') \<and>
     (i + 2 = length r \<or> un_IsUpper U (r ! (i + 2)))"

definition word_ends :: "unicode_tables \<Rightarrow> rune list \<Rightarrow> nat \<Rightarrow> bool" where
  "word_ends U r i \<longleftrightarrow> i = length r \<or>
     (un_IsUpper U (r ! i) \<and>
       (un_IsLower U (r ! (i - 1)) \<or>
        (i + 1 < length r \<and> un_IsLower U (r ! (i + 1)) \<and> un_IsUpper U (r ! (i - 1)) \<and> \<not> acronymPlural U r i)))"

function words_loop :: "unicode_tables \<Rightarrow> rune list \<Rightarrow> nat \<Rightarrow> nat \<Rightarrow> rune list list \<Rightarrow> rune list list" where
  "words_loop U r i start out =
     (if i \<le> length r
      then if word_ends U r i
        then words_loop U r (i + 1) i (out @ [map (un_ToLower U) (take (i - start) (drop start r))])
        else words_loop U r (i + 1) start out
      else out)"
  by pat_completeness auto
termination by (relation "measure (\<lambda>(U, r, i, start, out). Suc (length r) - i)") auto

declare words_loop.simps [simp del]

definition words :: "unicode_tables \<Rightarrow> rune list \<Rightarrow> rune list list" where
  "words U name = words_loop U name 1 0 []"

section \<open>Address words\<close>

definition addressWords :: "rune list list" where
  "addressWords = map runes [''addr'', ''address'', ''host'', ''hostname'', ''port'', ''endpoint'', ''url'', ''uri'',
     ''ip'', ''ipv4'', ''ipv6'', ''callback'', ''webhook'', ''listen'', ''inbound'', ''socket'', ''dial'']"

text \<open>\<open>strings.TrimSuffix\<close> and \<open>strings.FieldsFunc\<close>.\<close>

definition TrimSuffix :: "'a list \<Rightarrow> 'a list \<Rightarrow> 'a list" where
  "TrimSuffix s suf =
     (if length suf \<le> length s \<and> drop (length s - length suf) s = suf then take (length s - length suf) s else s)"

function FieldsFunc :: "('a \<Rightarrow> bool) \<Rightarrow> 'a list \<Rightarrow> 'a list list" where
  "FieldsFunc f s =
     (case dropWhile f s of
        [] \<Rightarrow> []
      | c # r \<Rightarrow> (c # takeWhile (\<lambda>x. \<not> f x) r) # FieldsFunc f (dropWhile (\<lambda>x. \<not> f x) r))"
  by pat_completeness auto
termination
proof (relation "measure (\<lambda>(f, s). length s)")
  fix f :: "'a \<Rightarrow> bool" and s c r
  assume "dropWhile f s = c # r"
  then have "Suc (length r) \<le> length s" using length_dropWhile_le [of f s] by simp
  then show "((f, dropWhile (\<lambda>x. \<not> f x) r), f, s) \<in> measure (\<lambda>(f, s). length s)"
    using length_dropWhile_le [of "\<lambda>x. \<not> f x" r] by simp
qed simp

declare FieldsFunc.simps [simp del]

definition addressWord :: "rune list \<Rightarrow> bool" where
  "addressWord w \<longleftrightarrow> w \<in> set addressWords \<or> TrimSuffix w (runes ''s'') \<in> set addressWords \<or>
     TrimSuffix w (runes ''es'') \<in> set addressWords"

definition addressName :: "unicode_tables \<Rightarrow> rune list \<Rightarrow> rune list" where
  "addressName U name =
     (case find addressWord (concat (map (words U) (FieldsFunc (\<lambda>r. r \<in> set (runes ''_-.'')) name))) of
        Some w \<Rightarrow> w
      | None \<Rightarrow> [])"

section \<open>Nothing of a name is lost\<close>

lemma drop_split: "start \<le> i \<Longrightarrow> drop start r = take (i - start) (drop start r) @ drop i r"
  using append_take_drop_id [of "i - start" "drop start r"] by simp

lemma words_loop_parts:
  assumes "start < i" and "i \<le> length r" and "[] \<notin> set out"
  shows "concat (words_loop U r i start out) = concat out @ map (un_ToLower U) (drop start r) \<and>
    [] \<notin> set (words_loop U r i start out)"
  using assms
proof (induction U r i start out rule: words_loop.induct)
  case (1 U r i start out)
  let ?w = "map (un_ToLower U) (take (i - start) (drop start r))"
  have w: "?w \<noteq> []" using 1(3,4) by simp
  have split: "?w @ map (un_ToLower U) (drop i r) = map (un_ToLower U) (drop start r)"
    using drop_split [of start i r] 1(3) by (metis less_imp_le map_append)
  note loop = words_loop.simps [of U r i start out]
  show ?case
  proof (cases "i = length r")
    case True
    have "words_loop U r (i + 1) i out' = out'" for out' using True by (simp add: words_loop.simps)
    moreover have "word_ends U r i" using True by (simp add: word_ends_def)
    ultimately have "words_loop U r i start out = out @ [?w]" using 1(4) by (subst loop) simp
    with True 1(5) w split show ?thesis by simp
  next
    case False
    then have i: "i + 1 \<le> length r" "i < i + 1" "start < i + 1" "i \<le> length r" using 1(3,4) by simp_all
    show ?thesis
    proof (cases "word_ends U r i")
      case True
      with 1(1) [OF i(4) True i(2,1)] 1(5) w have "concat (words_loop U r (i + 1) i (out @ [?w])) =
          concat (out @ [?w]) @ map (un_ToLower U) (drop i r) \<and> [] \<notin> set (words_loop U r (i + 1) i (out @ [?w]))"
        by simp
      with True i(4) split show ?thesis by (simp add: loop)
    next
      case False
      from 1(2) [OF i(4) False i(3,1) 1(5)] False i(4) show ?thesis by (simp add: loop)
    qed
  qed
qed

lemma words_parts:
  "concat (words U name) = map (un_ToLower U) name" "[] \<notin> set (words U name)"
proof -
  have "name = [] \<or> 0 < (1::nat) \<and> 1 \<le> length name" by (cases name) auto
  then show "concat (words U name) = map (un_ToLower U) name" "[] \<notin> set (words U name)"
    using words_loop_parts [of 0 1 name "[]" U] by (auto simp: words_def words_loop.simps)
qed

section \<open>ASCII names\<close>

lemma word_ends_ascii:
  assumes "ascii_unicode U" and "list_all (\<lambda>r. 0 \<le> r \<and> r < 128) r" and "0 < i" and "i \<le> length r"
  shows "word_ends U r i = word_ends ascii_tables r i"
proof -
  have at: "un_IsUpper U (r ! k) = un_IsUpper ascii_tables (r ! k) \<and> un_IsLower U (r ! k) = un_IsLower ascii_tables (r ! k)"
    if "k < length r" for k
    using assms(1,2) that by (simp add: ascii_unicode_def list_all_length)
  then show ?thesis
    using assms(3,4) by (cases "i = length r") (auto simp: word_ends_def acronymPlural_def)
qed

lemma words_loop_ascii:
  assumes "ascii_unicode U" and "list_all (\<lambda>r. 0 \<le> r \<and> r < 128) r" and "0 < i"
  shows "words_loop U r i start out = words_loop ascii_tables r i start out"
  using assms
proof (induction U r i start out rule: words_loop.induct)
  case (1 U r i start out)
  have piece: "map (un_ToLower U) (take k (drop start r)) = map (un_ToLower ascii_tables) (take k (drop start r))" for k
  proof (rule map_cong [OF refl])
    fix x
    assume "x \<in> set (take k (drop start r))"
    then have "x \<in> set r" by (meson in_set_dropD in_set_takeD)
    with 1(3,4) show "un_ToLower U x = un_ToLower ascii_tables x" by (simp add: ascii_unicode_def list_all_iff)
  qed
  show ?case
  proof (cases "i \<le> length r")
    case True
    with 1 word_ends_ascii [OF 1(3,4,5) True] show ?thesis
      by (simp add: words_loop.simps [of _ r i start out] piece)
  next
    case False
    then show ?thesis by (simp add: words_loop.simps)
  qed
qed

lemma FieldsFunc_set: "w \<in> set (FieldsFunc f s) \<Longrightarrow> set w \<subseteq> set s"
proof (induction f s rule: FieldsFunc.induct)
  case (1 f s)
  show ?case
  proof (cases "dropWhile f s")
    case Nil
    with 1(2) show ?thesis by (simp add: FieldsFunc.simps [of f s])
  next
    case (Cons c r)
    then have "set (c # r) \<subseteq> set s" by (metis set_dropWhileD subsetI)
    then show ?thesis
      using 1(2) 1(1) [OF Cons] set_takeWhileD [of _ "\<lambda>x. \<not> f x" r] set_dropWhileD [of _ "\<lambda>x. \<not> f x" r] Cons
      by (fastforce simp: FieldsFunc.simps [of f s])
  qed
qed

lemma addressName_ascii:
  assumes "ascii_unicode U" and "list_all (\<lambda>r. 0 \<le> r \<and> r < 128) name"
  shows "addressName U name = addressName ascii_tables name"
proof -
  let ?parts = "FieldsFunc (\<lambda>r. r \<in> set (runes ''_-.'')) name"
  have "words U w = words ascii_tables w" if "w \<in> set ?parts" for w
  proof -
    have "list_all (\<lambda>r. 0 \<le> r \<and> r < 128) w" using FieldsFunc_set [OF that] assms(2) by (auto simp: list_all_iff)
    then show ?thesis using words_loop_ascii [OF assms(1), of w 1 0 "[]"] by (simp add: words_def)
  qed
  then have "map (words U) ?parts = map (words ascii_tables) ?parts" by simp
  then show ?thesis by (simp only: addressName_def)
qed

section \<open>The names on the wire\<close>

text \<open>The names of all objects in a JSON value.\<close>

fun object_names :: "jvalue \<Rightarrow> bytes list" where
  "object_names (JArray vs) = concat (map object_names vs)"
| "object_names (JObject ms) = concat (map (\<lambda>(name, v). name # object_names v) ms)"
| "object_names _ = []"

text \<open>Names are ASCII; \<open>no_address\<close> is the verdict of the audit on one.\<close>

definition no_address :: "unicode_tables \<Rightarrow> bytes \<Rightarrow> bool" where
  "no_address U name \<longleftrightarrow> list_all (\<lambda>b. b < 0x80) name \<and> addressName U (map uint name) = []"

definition named :: "(bytes \<Rightarrow> bool) \<Rightarrow> json_error + jvalue \<Rightarrow> bool" where
  "named P r \<longleftrightarrow> (case r of Inl _ \<Rightarrow> True | Inr v \<Rightarrow> list_all P (object_names v))"

lemma named_simps [simp]: "named P (Inl e)" "named P (Inr v) = list_all P (object_names v)"
  by (simp_all add: named_def)

named_theorems named_rules

lemma named_leaves [named_rules]:
  "named P (json_text s)" "named P (json_int i)" "named P (json_uint u)" "named P (json_bool b)" "named P (json_blob nil bs)"
  "named P (json_time z t)"
  by (auto simp: named_def json_text_def json_int_def json_uint_def json_bool_def json_blob_def json_time_def split: sum.splits)

lemma all_encoded_named:
  "all_encoded es = Inr vs \<Longrightarrow> list_all (named P) es \<Longrightarrow> \<forall>v \<in> set vs. list_all P (object_names v)"
  by (induction es arbitrary: vs rule: all_encoded.induct) (auto simp: all_encoded.simps split: sum.splits)

lemma named_list [named_rules]:
  assumes "\<And>x. named P (enc x)"
  shows "named P (json_list nil enc xs)"
proof (cases "all_encoded (map enc xs)")
  case (Inr vs)
  have "list_all (named P) (map enc xs)" using assms by (simp add: list_all_iff)
  from all_encoded_named [OF Inr this] Inr show ?thesis by (simp add: json_list_def list_all_iff)
qed (simp add: json_list_def)

lemma names_zip:
  "list_all P ns \<Longrightarrow> \<forall>v \<in> set vs. list_all P (object_names v) \<Longrightarrow> list_all P (object_names (JObject (zip ns vs)))"
  by (induction ns vs rule: list_induct2') simp_all

lemma named_struct: "list_all (\<lambda>(name, e). P name \<and> named P e) ms \<Longrightarrow> named P (json_struct ms)"
proof -
  assume "list_all (\<lambda>(name, e). P name \<and> named P e) ms"
  then have "list_all P (map fst ms)" and "list_all (named P) (map snd ms)" by (auto simp: list_all_iff)
  then show ?thesis
    using names_zip [OF _ all_encoded_named] by (cases "all_encoded (map snd ms)") (simp_all del: object_names.simps)
qed

lemma runes_lit: "map uint (lit s) = runes s"
proof -
  have "uint (of_char c :: byte) = of_char c" for c :: char
    using nat_of_char_less_256 [of c] unat_of_nat [of "of_char c", where 'a = 8]
    by (simp add: of_char_def flip: int_nat_eq uint_nat)
  then show ?thesis by (simp add: lit_def runes_def)
qed

lemma no_address_lit:
  "no_address U (lit s) \<longleftrightarrow> list_all (\<lambda>r. 0 \<le> r \<and> r < 128) (runes s) \<and> addressName U (runes s) = []"
  unfolding no_address_def runes_lit [symmetric] by (simp add: list_all_iff word_less_def)

text \<open>The names of the members of all structs the transport carries.\<close>

definition wire_names :: "string list" where
  "wire_names = [
     ''API'', ''Args'', ''Capacity'', ''Class'', ''Compute'', ''ContributorShareBps'', ''CoordinatorID'',
     ''DeclinedAt'', ''DiskMB'', ''EffectiveAt'', ''ExitCode'', ''FailureCause'', ''Fee'', ''FinishedAt'',
     ''GPUAPI'', ''GPUMinVRAMMB'', ''GPUs'', ''Image'', ''IssuedAt'', ''JobID'', ''Kind'', ''MemMB'',
     ''Model'', ''NodeID'', ''OfferedAt'', ''OptIn'', ''PlatformFeeBps'', ''Print'', ''PrintQPS'',
     ''PrinterKind'', ''Printers'', ''Reason'', ''SentAt'', ''Seq'', ''Signature'', ''Spec'', ''StartedAt'',
     ''Storage'', ''StorageCommitMB'', ''Terms'', ''TmpfsExhausted'', ''VCPUs'', ''VRAMMB'', ''Workload'']"

lemma wire_names_ascii:
  "list_all (\<lambda>s. list_all (\<lambda>r. 0 \<le> r \<and> r < 128) (runes s) \<and> addressName ascii_tables (runes s) = []) wire_names"
  unfolding wire_names_def list.pred_inject by (intro conjI TrueI; code_simp)

lemma wire_names_pass: "ascii_unicode U \<Longrightarrow> list_all (\<lambda>s. no_address U (lit s)) wire_names"
  using wire_names_ascii by (simp add: list_all_iff no_address_lit addressName_ascii)

section \<open>Properties\<close>

lemma parts_named [named_rules]:
  assumes "list_all (\<lambda>s. P (lit s)) wire_names"
  shows "named P (PrinterCapability_json p)" "named P (GPUCapability_json g)" "named P (Capacity_json ca)"
    "named P (WorkloadOptIn_json w)" "named P (Terms_json t)" "named P (JobSpec_json nil j)"
  unfolding PrinterCapability_json_def GPUCapability_json_def Capacity_json_def WorkloadOptIn_json_def Terms_json_def
    JobSpec_json_def
  using assms by (auto simp: wire_names_def simp del: json_struct.simps intro!: named_struct named_rules)

lemma no_address_on_wire:
  assumes "ascii_unicode U"
  shows "named (no_address U) (CapabilityListing_json z nil l) \<and> named (no_address U) (Heartbeat_json z nil h) \<and>
    named (no_address U) (Assignment_json z nil a) \<and> named (no_address U) (Decline_json z nil d) \<and>
    named (no_address U) (JobReport_json z nil r) \<and> named (no_address U) (FeeDeclaration_json z nil f)"
proof -
  note names = wire_names_pass [OF assms]
  note parts = parts_named [OF names]
  show ?thesis
    unfolding CapabilityListing_json_def Heartbeat_json_def Assignment_json_def Decline_json_def JobReport_json_def
      FeeDeclaration_json_def
    using names by (intro conjI named_struct) (auto simp: wire_names_def simp del: json_struct.simps intro!: named_rules parts)
qed

text \<open>The word splitting loses no character of a name and makes no empty word, as documented; but it cuts \<open>IPv4\<close> before
  the \<open>P\<close>, and does not cut after a digit. So the entries \<open>ipv4\<close> and \<open>ipv6\<close> of the list match the JSON spelling only, and
  an exported field \<open>IPv4\<close> or \<open>Host2Addr\<close> would pass the audit.\<close>

lemma words_documented:
  "words ascii_tables (runes ''CallbackURL'') = map runes [''callback'', ''url'']"
  "words ascii_tables (runes ''RelayURLs'') = map runes [''relay'', ''urls'']"
  "words ascii_tables (runes ''GPUMinVRAMMB'') = map runes [''gpu'', ''min'', ''vrammb'']"
  "words ascii_tables (runes ''JobReport'') = map runes [''job'', ''report'']"
  by code_simp+

lemma addressName_found:
  "ascii_unicode U \<Longrightarrow> list_all (\<lambda>r. 0 \<le> r \<and> r < 128) name \<Longrightarrow> addressName ascii_tables name = w \<Longrightarrow> addressName U name = w"
  using addressName_ascii by simp

lemma audit_words:
  assumes "ascii_unicode U"
  shows "addressName U (runes ''ipv4'') = runes ''ipv4''" "addressName U (runes ''callback_url'') = runes ''callback''"
    "addressName U (runes ''RelayURLs'') = runes ''urls''"
    "addressName U (runes ''IPv4'') = []" "addressName U (runes ''IPv6'') = []" "addressName U (runes ''Host2Addr'') = []"
  by (rule addressName_found [OF assms]; code_simp)+

text \<open>C33: no message the transport sends tells where to reach a node. Every object of the JSON of the six message types,
  nested objects included, has only member names that the audit of src/no_inbound_test.go passes: none contains
  an address word, alone or in the plural. The audit finds the names it is documented to find, but passes \<open>IPv4\<close>,
  \<open>IPv6\<close> and \<open>Host2Addr\<close>.\<close>

theorem address_audit:
  assumes "ascii_unicode U"
  shows "named (no_address U) (CapabilityListing_json z nil l) \<and> named (no_address U) (Heartbeat_json z nil h) \<and>
    named (no_address U) (Assignment_json z nil a) \<and> named (no_address U) (Decline_json z nil d) \<and>
    named (no_address U) (JobReport_json z nil r) \<and> named (no_address U) (FeeDeclaration_json z nil f) \<and>
    addressName U (runes ''ipv4'') = runes ''ipv4'' \<and> addressName U (runes ''callback_url'') = runes ''callback'' \<and>
    addressName U (runes ''RelayURLs'') = runes ''urls'' \<and>
    addressName U (runes ''IPv4'') = [] \<and> addressName U (runes ''IPv6'') = [] \<and> addressName U (runes ''Host2Addr'') = []"
  using no_address_on_wire [OF assms] audit_words [OF assms] by simp

lemma ascii_tables_ok: "ascii_unicode ascii_tables"
  by (simp add: ascii_unicode_def)

lemma address_audit_witness:
  "\<exists>v. Heartbeat_json utc_zones True zero_Heartbeat = Inr v \<and> list_all (no_address ascii_tables) (object_names v)"
proof -
  have "\<not> isl (Heartbeat_json utc_zones True zero_Heartbeat)"
    by (simp add: encoded_as_isl [OF messages_encoded(1)] zero_Heartbeat_def)
  then obtain v where "Heartbeat_json utc_zones True zero_Heartbeat = Inr v"
    by (cases "Heartbeat_json utc_zones True zero_Heartbeat") simp_all
  with address_audit [OF ascii_tables_ok, of utc_zones True _ zero_Heartbeat]
  show ?thesis by simp
qed

end
