(* ===== verification/Heartbeat_Order.thy ===== *)
theory Heartbeat_Order
  imports Recording_Coordinator
begin

text \<open>
  Heartbeats on a network that delays, reorders and repeats: heartbeats reach the recording coordinator of
  src/no_inbound_test.go through any clients, in any order and any number of times. Which of them are accepted, what
  each sender is told, and what the coordinator knows at the end.
\<close>

section \<open>A series of heartbeats\<close>

text \<open>The heartbeats in the order in which they arrive, each with the client that sends it, and their results.\<close>

fun send_beats ::
  "'s http_env \<Rightarrow> json \<Rightarrow> ('s Client \<times> Heartbeat) list \<Rightarrow> 's \<Rightarrow> go_error option list \<times> 's" where
  "send_beats env J [] s = ([], s)"
| "send_beats env J ((c, h) # r) s =
     (let (e, s') = Client_Heartbeat env J c h s; (es, s'') = send_beats env J r s' in (e # es, s''))"

text \<open>A heartbeat whose time RFC 3339 can write, and one of a series whose \<open>Seq\<close> exceeds \<open>l\<close> and that of every
  writable one before it.\<close>

definition writable :: "zones \<Rightarrow> Heartbeat \<Rightarrow> bool" where
  "writable z h \<longleftrightarrow> \<not> isl (time_MarshalJSON z (hb_SentAt h))"

definition new_highest :: "zones \<Rightarrow> uint64 \<Rightarrow> Heartbeat list \<Rightarrow> nat \<Rightarrow> bool" where
  "new_highest z l hs i \<longleftrightarrow> writable z (hs ! i) \<and> l < hb_Seq (hs ! i) \<and>
     list_all (\<lambda>h. writable z h \<longrightarrow> hb_Seq h < hb_Seq (hs ! i)) (take i hs)"

definition highest_seq :: "zones \<Rightarrow> uint64 \<Rightarrow> Heartbeat list \<Rightarrow> uint64" where
  "highest_seq z l hs = Max (insert l (hb_Seq ` set (filter (writable z) hs)))"

lemma new_highest_Cons [simp]:
  "new_highest z l (h # hs) 0 \<longleftrightarrow> writable z h \<and> l < hb_Seq h"
  "new_highest z l (h # hs) (Suc i) \<longleftrightarrow>
    new_highest z (if writable z h \<and> l < hb_Seq h then hb_Seq h else l) hs i"
  by (auto simp: new_highest_def)

lemma highest_seq_Cons [simp]:
  "highest_seq z l [] = l"
  "highest_seq z l (h # hs) = highest_seq z (if writable z h \<and> l < hb_Seq h then hb_Seq h else l) hs"
proof -
  show "highest_seq z l [] = l" by (simp add: highest_seq_def)
  have "Max (insert l (insert q S)) = Max (insert (max l q) S)" if "finite S" for q and S :: "uint64 set"
    using that by (cases "S = {}") (simp_all add: max.assoc)
  then show "highest_seq z l (h # hs) = highest_seq z (if writable z h \<and> l < hb_Seq h then hb_Seq h else l) hs"
    by (auto simp: highest_seq_def max_def)
qed

section \<open>One heartbeat\<close>

definition beat_error :: "(json_error \<Rightarrow> go_error) \<Rightarrow> zones \<Rightarrow> bool \<Rightarrow> Heartbeat \<Rightarrow> go_error option" where
  "beat_error err z ok h =
     (case time_MarshalJSON z (hb_SentAt h) of
        Inl e \<Rightarrow> Some (err e)
      | Inr _ \<Rightarrow> if ok then None else Some stale)"

definition noted :: "Heartbeat list \<Rightarrow> nat list \<Rightarrow> watcher \<Rightarrow> watcher" where
  "noted hs is = fold (\<lambda>i. watch (lit ''Heartbeat'') (sanitize (hb_NodeID (hs ! i)))) is"

lemma noted_map_Suc: "noted (h # hs) (map Suc is) = noted hs is"
  by (simp add: noted_def fold_map comp_def)

lemma noted_Cons: "noted hs (i # is) w = noted hs is (watch (lit ''Heartbeat'') (sanitize (hb_NodeID (hs ! i))) w)"
  by (simp add: noted_def)

lemma beat_sent:
  assumes "served_by env c (Handler (go_json err z nil) watching)" and "wf_time (hb_SentAt h)"
  shows "Client_Heartbeat env (go_json err z nil) c h w =
    (beat_error err z (wa_lastSeq w < hb_Seq h) h,
     if writable z h \<and> wa_lastSeq w < hb_Seq h
     then watch (lit ''Heartbeat'') (sanitize (hb_NodeID h)) (w\<lparr>wa_lastSeq := hb_Seq h\<rparr>) else w)"
  by (auto simp: posts_arrive(2) [OF assms] refused_or_def beat_error_def writable_def watching_def Heartbeat_arrives_def
      stale_def not_le split: sum.split)

section \<open>The series\<close>

lemma watch_lastSeq: "wa_lastSeq (watch op n w) = wa_lastSeq w" "(watch op n w)\<lparr>wa_lastSeq := k\<rparr> = watch op n (w\<lparr>wa_lastSeq := k\<rparr>)"
  by (simp_all add: watch_def)

lemma series_sent:
  assumes "\<forall>(c, h) \<in> set beats. served_by env c (Handler (go_json err z nil) watching) \<and> wf_time (hb_SentAt h)"
  shows "send_beats env (go_json err z nil) beats w =
    (let hs = map snd beats; l = wa_lastSeq w in
     (map (\<lambda>i. beat_error err z (new_highest z l hs i) (hs ! i)) [0..<length hs],
      noted hs (filter (new_highest z l hs) [0..<length hs]) (w\<lparr>wa_lastSeq := highest_seq z l hs\<rparr>)))"
  using assms
proof (induction beats arbitrary: w)
  case Nil
  then show ?case by (simp add: noted_def)
next
  case (Cons b beats)
  obtain c h where b: "b = (c, h)" by (cases b)
  have sent: "served_by env c (Handler (go_json err z nil) watching)" "wf_time (hb_SentAt h)"
    using Cons.prems b by auto
  have error: "beat_error err z (writable z h \<and> p) h = beat_error err z p h" for p
    by (auto simp: beat_error_def writable_def split: sum.split)
  show ?case
    using Cons.IH Cons.prems
    by (simp add: b beat_sent [OF sent] Let_def filter_map comp_def noted_map_Suc noted_Cons watch_lastSeq error
        upt_conv_Cons del: upt_Suc flip: map_Suc_upt)
qed

lemma noted_calls: "wa_calls (noted hs is w) = wa_calls w @ replicate (length is) (lit ''Heartbeat'')"
  by (induction "is" arbitrary: w) (simp_all add: noted_def watch_def)

lemma noted_lastSeq: "wa_lastSeq (noted hs is w) = wa_lastSeq w"
  by (induction "is" arbitrary: w) (simp_all add: noted_def watch_lastSeq)

lemma new_highest_iff:
  assumes "i < length hs"
  shows "new_highest z l hs i \<longleftrightarrow>
    writable z (hs ! i) \<and> l < hb_Seq (hs ! i) \<and> (\<forall>j < i. writable z (hs ! j) \<longrightarrow> hb_Seq (hs ! j) < hb_Seq (hs ! i))"
  using assms by (auto simp: new_highest_def list_all_length)

section \<open>Property\<close>

text \<open>C13: the order of heartbeats. Any heartbeats (any node ids and signatures, any times a \<open>time.Time\<close> can
  hold) reach the test's coordinator through the transport, each by any client, delayed, reordered and repeated as the
  network likes. The sender is told of a failure of its own when the heartbeat's time cannot be written in RFC 3339;
  otherwise the heartbeat is accepted exactly when its \<open>Seq\<close> exceeds the last recorded one and that of every
  writable heartbeat that arrived before it, accepted or not, and else the sender is told the coordinator's own
  error. In the end the highest \<open>Seq\<close> is recorded, and one call for each accepted heartbeat; any two arrivals of the
  same heartbeats leave the same \<open>Seq\<close>.\<close>

theorem heartbeats_in_any_order:
  assumes "\<forall>(c, h) \<in> set beats. served_by env c (Handler (go_json err z nil) watching) \<and> wf_time (hb_SentAt h)"
    and "\<forall>(c, h) \<in> set beats'. served_by env c (Handler (go_json err z nil) watching) \<and> wf_time (hb_SentAt h)"
  shows "let hs = map snd beats; (results, w') = send_beats env (go_json err z nil) beats w;
      fresh = (\<lambda>i. wa_lastSeq w < hb_Seq (hs ! i) \<and> (\<forall>j < i. writable z (hs ! j) \<longrightarrow> hb_Seq (hs ! j) < hb_Seq (hs ! i)))
    in length results = length hs \<and>
      (\<forall>i < length hs. results ! i =
        (case time_MarshalJSON z (hb_SentAt (hs ! i)) of
           Inl e \<Rightarrow> Some (err e)
         | Inr _ \<Rightarrow> if fresh i then None else Some stale)) \<and>
      wa_lastSeq w' = Max (insert (wa_lastSeq w) (hb_Seq ` {h \<in> set hs. writable z h})) \<and>
      wa_calls w' = wa_calls w @ replicate (card {i. i < length hs \<and> results ! i = None}) (lit ''Heartbeat'') \<and>
      (set hs = snd ` set beats' \<longrightarrow> wa_lastSeq (snd (send_beats env (go_json err z nil) beats' w)) = wa_lastSeq w')"
proof -
  let ?hs = "map snd beats" and ?l = "wa_lastSeq w"
  let ?results = "map (\<lambda>i. beat_error err z (new_highest z ?l ?hs i) (?hs ! i)) [0..<length ?hs]"
  have sent: "send_beats env (go_json err z nil) beats w = (?results,
      noted ?hs (filter (new_highest z ?l ?hs) [0..<length ?hs]) (w\<lparr>wa_lastSeq := highest_seq z ?l ?hs\<rparr>))"
    using series_sent [OF assms(1), of w] by (simp add: Let_def)
  have verdict: "?results ! i = None \<longleftrightarrow> new_highest z ?l ?hs i" if "i < length ?hs" for i
    using that by (auto simp: beat_error_def new_highest_def writable_def split: sum.split)
  have "{i. i < length ?hs \<and> ?results ! i = None} = set (filter (new_highest z ?l ?hs) [0..<length ?hs])"
    using verdict unfolding set_filter set_upt atLeastLessThan_iff by blast
  then have calls: "length (filter (new_highest z ?l ?hs) [0..<length ?hs]) =
      card {i. i < length ?hs \<and> ?results ! i = None}"
    by (simp only: distinct_card [symmetric] distinct_filter distinct_upt)
  have results: "?results ! i = (case time_MarshalJSON z (hb_SentAt (?hs ! i)) of Inl e \<Rightarrow> Some (err e)
      | Inr _ \<Rightarrow> if ?l < hb_Seq (?hs ! i) \<and> (\<forall>j < i. writable z (?hs ! j) \<longrightarrow> hb_Seq (?hs ! j) < hb_Seq (?hs ! i))
          then None else Some stale)" if "i < length ?hs" for i
    using that new_highest_iff [OF that, of z ?l] by (auto simp: beat_error_def writable_def split: sum.split)
  have last: "wa_lastSeq (snd (send_beats env (go_json err z nil) beats' w)) = highest_seq z ?l (map snd beats')"
    by (simp add: series_sent [OF assms(2)] noted_lastSeq Let_def)
  show ?thesis
    unfolding sent Let_def prod.case
    using results last by (simp only: noted_calls noted_lastSeq calls) (simp add: highest_seq_def)
qed

text \<open>Sequence numbers 3, 5, 4, 5 on a new coordinator: the first two are accepted. In the order 5, 4, 4, 3 the record
  is the same.\<close>

definition beats_of :: "uint64 list \<Rightarrow> (watcher Client \<times> Heartbeat) list" where
  "beats_of = map (\<lambda>s. (demo_client, zero_Heartbeat\<lparr>hb_NodeID := lit ''node-behind-nat'', hb_Seq := s\<rparr>))"

lemma heartbeats_in_any_order_witness:
  "let J = go_json plain_error utc_zones True; env = loopback (Handler J watching);
       w = \<lparr>wa_calls = [], wa_lastSeq = 0, wa_nodeSeen = []\<rparr>;
       (results, w') = send_beats env J (beats_of [3, 5, 4, 5]) w
   in length results = 4 \<and> results ! 0 = None \<and> results ! 1 = None \<and> results ! 2 = Some stale \<and> results ! 3 = Some stale \<and>
     wa_lastSeq w' = 5 \<and> wa_lastSeq (snd (send_beats env J (beats_of [5, 4, 4, 3]) w)) = 5"
proof -
  let ?J = "go_json plain_error utc_zones True" and ?w = "\<lparr>wa_calls = [], wa_lastSeq = 0, wa_nodeSeen = []\<rparr>"
  let ?env = "loopback (Handler ?J watching)"
  have served: "served_by ?env demo_client (Handler ?J watching)"
    unfolding demo_client_def by (rule loopback_served [OF demo_root])
  have zero: "hb_SentAt zero_Heartbeat = zero_time" by (simp add: zero_Heartbeat_def)
  have all: "\<forall>(c, h) \<in> set (beats_of seqs). served_by ?env c (Handler ?J watching) \<and> wf_time (hb_SentAt h)" for seqs
    using served by (auto simp: beats_of_def zero)
  obtain b where b: "time_MarshalJSON utc_zones zero_time = Inr b"
    using zero_time_arrives(2) [of utc_zones] by (cases "time_MarshalJSON utc_zones zero_time") auto
  obtain results w' where sent: "send_beats ?env ?J (beats_of [3, 5, 4, 5]) ?w = (results, w')" by fastforce
  let ?h = "\<lambda>s. zero_Heartbeat\<lparr>hb_NodeID := lit ''node-behind-nat'', hb_Seq := s\<rparr>"
  let ?sent = "\<lambda>qs. send_beats ?env ?J (beats_of qs) ?w"
  have beats: "map snd (beats_of qs) = map ?h qs" "snd ` set (beats_of qs) = ?h ` set qs" for qs
    by (simp_all add: beats_of_def image_image)
  have all_writable: "writable utc_zones (?h s)" for s using b by (simp add: writable_def zero)
  then have set: "{h \<in> ?h ` set qs. writable utc_zones h} = ?h ` set qs" for qs by auto
  note order = heartbeats_in_any_order [OF all all, of _ ?w, unfolded beats Let_def case_prod_beta set_map set]
  have len: "length (fst (?sent qs)) = length qs" for qs using order [of qs qs] by simp
  have verdict: "fst (?sent qs) ! i = (if 0 < qs ! i \<and> list_all (\<lambda>j. qs ! j < qs ! i) [0..<i] then None else Some stale)"
    if "i < length qs" for qs i
    using order [of qs qs] that b by (simp add: all_writable list_all_iff zero)
  have last: "wa_lastSeq (snd (?sent qs)) = Max (insert 0 (set qs))" for qs
    using order [of qs qs] by (simp add: image_image)
  have "fst (?sent [3, 5, 4, 5]) ! 0 = None \<and> fst (?sent [3, 5, 4, 5]) ! 1 = None \<and>
      fst (?sent [3, 5, 4, 5]) ! 2 = Some stale \<and> fst (?sent [3, 5, 4, 5]) ! 3 = Some stale"
    by (simp add: verdict) code_simp
  then show ?thesis
    using len [of "[3, 5, 4, 5]"] last [of "[3, 5, 4, 5]"] last [of "[5, 4, 4, 3]"]
    unfolding Let_def case_prod_beta by simp
qed

end
