(* ===== verification/Spec2Isabelle.thy ===== *)
theory Spec2Isabelle
  imports Canon_Properties Wire_Format Operator_Properties Transport_Properties Vectors Crypto_Instance Wire_Decoding
    Operator_Verdict Admission_Properties Storage_Audit End_To_End Json_Properties Base_Url
    Transport_Tests Traffic Lifecycle Inbound_Audit Heartbeat_Order Version
begin

text \<open>
  A verification development for the Go module sohocloud-protocol (src/): the wire protocol between
  independently run nodes, coordinators and operators. The program defines signed messages, the
  deterministic bytes their signatures are computed over, and the checks a receiver makes; it keeps no
  state of its own.

  \<^bold>\<open>The program's parts and the theories that model them.\<close>

  \<^item> \<open>canon\<close> (src/canon/canon.go): the canonical encoding. \<open>Canon\<close> models
      \<open>Buffer\<close> as a record of the bytes
    and the latched error, each method as a function on it, \<open>ValidTime\<close> and \<open>VerifySig\<close>.
        \<open>Go_Time\<close> models
    the \<open>time.Time\<close> values and methods it uses, \<open>Go_Crypto\<close> the \<open>crypto/ed25519\<close>
        calls.
  \<^item> The message packages: \<open>Liveness\<close>, \<open>Fees\<close>, \<open>Listing\<close>,
      \<open>Employment\<close>, \<open>Lease\<close> and \<open>Identity\<close> model the Go
    packages of the same names (src/liveness/liveness.go, src/fees/fees.go, src/listing/listing.go,
    src/employment/employment.go, src/lease/lease.go, src/identity/identity.go and keylife.go): a record per
    struct, with the fields prefixed, and \<open>T_CanonicalBytes\<close>, \<open>T_Sign\<close>,
        \<open>T_Verify\<close> for the methods of \<open>T\<close>.
    \<open>Lease\<close> also has the proofs of possession, over the SHA-256 of \<open>Go_Sha256\<close>.
  \<^item> \<open>operator\<close> (src/operator/signer.go, operator.go): \<open>Operator\<close> models the seam and
      the three messages signed
    with two of an operator's seven keys. \<open>Operator_Protocol\<close> states the 2-of-7 contract,
        \<open>Registry\<close> the key
    registry under rotations.
  \<^item> \<open>coordinator\<close> and \<open>httpjson\<close> (src/coordinator/coordinator.go,
      src/transport/httpjson/server.go and client.go):
    \<open>Coordinator\<close> has the interfaces as records of methods over an abstract state,
        \<open>Http_Transport\<close> the handler and
    the client of the reference transport. Below them is the library they call, as of Go 1.22 (go.mod): \<open>Go_Url\<close> and
    \<open>Go_Url_Parse\<close> (\<open>net/url\<close>), \<open>Go_Mux\<close> and \<open>Go_Http\<close> (\<open>net/http\<close>: the mux, requests and responses,
    \<open>Client.Do\<close> with its redirects). They take their JSON codecs as a parameter; \<open>go_json\<close> (\<open>Json_Messages\<close>) is \<open>encoding/json\<close> for the
        six types the transport carries,
    built on the scanner as a machine over bytes (\<open>Json_Text\<close>, \<open>Json_Syntax\<close>),
        strings and UTF-8 (\<open>Json_String\<close>),
    base64 (\<open>Json_Base64\<close>), RFC 3339 times and their calendar (\<open>Time_Text\<close>,
        \<open>Go_Calendar\<close>), and the encoders and
    decoders that reflection drives (\<open>Json_Codec\<close>, \<open>Json_Contract\<close>). The obligations that
    the comments of coordinator.go and SPEC.md put on implementations (signatures under the current key,
    strictly monotonic \<open>Seq\<close>, single-use nonces, rotation,
        revocation) are written out as the abstract machine of \<open>Admission\<close>:
    a specification around the code's \<open>Verify\<close>, not a translation of code, since the implementations are outside the
    repository; what is claimed of it rests on the code's canonical bytes and codecs, not on its own rules. \<open>Storage_Audit\<close> composes the round of proof of possession from
    \<open>ProofOverShard\<close>, \<open>Sign\<close> and \<open>Verify\<close>;
        \<open>End_To_End\<close> puts the machine behind the handler and a client in front,
    \<open>Traffic\<close> sends any requests at all to the handler of any coordinator. Of src/no_inbound_test.go,
    \<open>Recording_Coordinator\<close> is the recording coordinator (\<open>watching\<close>), \<open>Lifecycle\<close> the session of a node that only dials
    out (\<open>testInboundLifecycle\<close>: the server that notes source addresses, \<open>nodeClient\<close>, the calls), \<open>Heartbeat_Order\<close> a
    series of heartbeats sent to it and \<open>Inbound_Audit\<close> the search of the wire for addresses.
  \<^item> \<open>Version\<close> is src/version.go.
  \<^item> \<open>Wire\<close> puts the fifteen messages into one type, with the operations dispatching to the packages'.

  The packages interact by calls only: every \<open>CanonicalBytes\<close> drives a \<open>Buffer\<close>,
      every \<open>Sign\<close> and \<open>Verify\<close> runs
  over those bytes, and assignments and leases carry the \<open>Terms\<close> of \<open>fees\<close>.

  \<^bold>\<open>How the code is represented.\<close> \<open>Go_Prelude\<close> fixes it: bytes are 8-bit words,
      strings and slices lists of
  bytes, \<open>int\<close>, \<open>int64\<close> and \<open>uint64\<close> 64-bit words with Go's wrap-around;
      \<open>error\<close> results are options; a call
  that may panic returns \<open>Ret\<close> or \<open>Panic\<close>. \<open>fits\<close> (fewer than \<open>2^63\<close>
      elements) and \<open>wf_time\<close> (nanoseconds below
  one second) hold of every Go value and appear only where a theorem needs them. Ed25519 is a parameter, a
  record \<open>ed25519\<close> of its three functions; \<open>ed25519_laws\<close> is its documented contract.
      No theorem assumes
  unforgeability: authenticity is a reduction, an accepted message the key holder never signed \<^emph>\<open>is\<close>
      a forgery.
  The order in which Go visits a map is an argument of the definitions that range over one.

  \<^bold>\<open>The interfaces.\<close> \<open>Prefix_Codes\<close> has the locale \<open>prefix_code\<close> (and
      \<open>repeated_code\<close>), which every primitive, every
  nested struct and every message provides; \<open>Signed_Messages\<close> has \<open>signed_payload\<close> and
      \<open>signed_message\<close>, which the
  twelve one-key messages and their sum provide; \<open>Operator_Protocol\<close> has \<open>two_key_message\<close> and
  \<open>operator_message\<close> for the other three; \<open>Go_Crypto\<close> has \<open>panic_safe_verifier\<close>,
      provided by \<open>canon.VerifySig\<close> and by
  \<open>operator.Ed25519Verifier\<close>; \<open>Decoders\<close> has \<open>strict_parser\<close>,
      provided by a parser of every primitive and every message;
  \<open>Replay_Guard\<close> has \<open>replay_guard\<close>, provided by the machine of \<open>Admission\<close> and by every \<open>monotonic_coordinator\<close>, the
  contract of \<open>Seq\<close> in \<open>Traffic\<close>, which the machine and the recording coordinator provide;
      \<open>Json_Contract\<close> has \<open>json_codec\<close> and
  \<open>json_list_codec\<close>, provided by every struct and slice the transport carries. The lemmas of each contract
      are proved once,
  in the locale.

  \<^bold>\<open>The specification.\<close> \<open>Spec_Encoding\<close> and \<open>Wire_Format\<close> write
      SPEC.md section 3 and the \<open>Order:\<close> clauses of
  sections 4 and 11 in integer arithmetic, independently of the code; the code refines them. \<open>Decoders\<close> and
  \<open>Wire_Decoding\<close> are its inverse, a strict parser of canonical bytes. \<open>Operator_Verdict\<close>
      writes the requirements of
  section 11.0 as a checklist in the order the code reports them. \<open>Vectors\<close> evaluates the model on the published
  messages of src/testdata/vectors.json.

  \<^bold>\<open>What is shown.\<close> Below: the bytes are unambiguous across all message types and refine the
      specification;
  signing and verifying, authenticity, domain separation; and the two consequences of the dropped
  encoding error. In \<open>Canon_Properties\<close>: the exact behaviour of \<open>Buffer\<close> and
      \<open>ValidTime\<close>. In \<open>Lease\<close>, \<open>Fees\<close> and
  \<open>Identity\<close>: proofs over shards, fee balance, key lifecycle and SPIFFE binding. In
      \<open>Operator_Properties\<close>: the exact
  acceptance conditions, errors, the registry invariant and its liveness;
      in \<open>Operator_Verdict\<close> the verdict of every
  operator message as the first violated requirement. In \<open>Wire_Decoding\<close>: the canonical bytes of well-formed
  messages are exactly what the strict parser accepts. In \<open>Admission_Properties\<close>,
      about every run: trusted keys are
  well formed and no signature is honored twice. In \<open>Storage_Audit\<close>: honest holders pass, answers bind the
  challenged bytes. In \<open>Http_Exchange\<close> and
  \<open>Transport_Properties\<close>: the client over the handler behaves as the coordinator behind it, and which requests never
  reach the coordinator. In \<open>Base_Url\<close>: what every base URL leads to, the trailing slash and the one that does not
  parse included. In \<open>Transport_Tests\<close>: the tables of
  server_test.go and client_test.go, carried out in the model. In \<open>Lifecycle\<close>: a node that only dials out completes its
  session whatever addresses it is seen under, and only a stale heartbeat is refused. In \<open>Inbound_Audit\<close>: no JSON the
  transport sends has a member named after an address, and which names the audit misses. In \<open>Traffic\<close>: whatever requests arrive, in
  any order, they amount to a sequence of calls of the coordinator, and a captured request is not honored again
  by one that keeps the contract of \<open>Seq\<close>. In \<open>Heartbeat_Order\<close>: which heartbeats the recording coordinator accepts when
  the network reorders and repeats them, and what it has recorded in the end. In
  \<open>End_To_End\<close>: a posted message is accepted exactly when the original signed message is,
      if JSON keeps its content;
  in \<open>Json_Transport\<close> and \<open>Json_Properties\<close>: what \<open>encoding/json\<close> delivers of
      every message, which messages keep their
  signed bytes, the end-to-end statement without an assumption on JSON, and the malformed bodies of the tests.

  \<^bold>\<open>Bounds and termination.\<close> No definition uses fuel. The varint loops terminate on the value they shift
  right, the SHA-256 loop and the UTF-8 functions on the length of their input; the JSON scanner is a fold over
  its bytes, with a stack of at most 10000 frames as in Go; an HTTP client follows at most nine redirects, the
  bound of Go's default policy; the ten-byte scratch array of \<open>Count\<close> is shown
      to be long
  enough for every 64-bit value.

  \<^bold>\<open>Not modelled.\<close> The curve arithmetic of Ed25519, a parameter. Of the transport,
      these are parameters: the network below the HTTP client (its \<open>Transport\<close>), an HTTP client with a redirect policy
  of its own, the time zones of the host and the texts of JSON errors. Of a request and a response only the method,
  the URL, the body, \<open>Content-Type\<close> and \<open>Location\<close> are kept. Nil and empty slices are one value of the model: an argument of the encoder says which of the two
  the empty slices are. Contexts and cancellation; implementations of the coordinator interfaces, which live
  outside the repository and appear only through their documented obligations; src/anchor (a stub without
  code), build files, and the tests that look at the source tree (imports, go.mod, listening sockets)
  rather than at what the program does; the timeouts of the test's clients, and of their connections everything but the
  source address. The binding of a SPIFFE path to a node (\<open>BindsTo\<close>) is modelled, its use by a deployment's
  authentication is not: there is none in the repository. Unicode's tables are a parameter of
  the audit, fixed on ASCII. SPEC.md section 11.0 leaves the replay window of operator messages to
  coordinators and gives no rule for it, so it is not modelled.
\<close>

section \<open>Messages used by the witnesses\<close>

definition demo_time :: "32 word \<Rightarrow> go_time" where
  "demo_time n = \<lparr>t_sec = 62135596800, t_nsec = n, t_loc = Some ''Local'', t_mono = None\<rparr>"

definition demo_heartbeat :: "uint64 \<Rightarrow> Heartbeat" where
  "demo_heartbeat seq =
     \<lparr>hb_NodeID = lit ''node-alpha'', hb_SentAt = demo_time 7, hb_Seq = seq, hb_Signature = replicate 64 0\<rparr>"

definition demo_transmission :: OperatorTransmission where
  "demo_transmission =
     \<lparr>ot_OperatorID = lit ''cloudy'', ot_TsUnixNano = 0, ot_Nonce = replicate 16 1, ot_Seq = 1, ot_Algo = AlgoEd25519,
      ot_Idx0 = 0, ot_Idx1 = 1, ot_Sig0 = replicate 64 0, ot_Sig1 = replicate 64 0\<rparr>"

lemma demo_heartbeat_good [simp]: "Heartbeat_good (demo_heartbeat seq)"
proof -
  have "wf_time (demo_time 7)" by (simp add: demo_time_def wf_time_def)
  moreover from this have "ValidTime (demo_time 7)"
    by (simp add: ValidTime_range demo_time_def instant_ns_def)
  ultimately show ?thesis by (simp add: Heartbeat_good_def demo_heartbeat_def fits_lit)
qed

lemma demo_transmission_good [simp]: "OperatorTransmission_good demo_transmission"
  by (simp add: OperatorTransmission_good_def demo_transmission_def fits_lit fits_array)

section \<open>The canonical bytes\<close>

text \<open>C1: the canonical bytes are unambiguous across the whole protocol: for any two of the fifteen message
  types and any trailing bytes, two messages with representable times have the same bytes exactly when
  they are the same type with the same value in every signed field (times as instants), and then the
  trailing bytes agree too. So a signature covers one content only, and no message is a prefix of
  another.\<close>

theorem wire_unambiguous:
  assumes "wire_good x" and "wire_good y"
  shows "wire_bytes x @ r = wire_bytes y @ s \<longleftrightarrow> wire_payload x = wire_payload y \<and> r = s"
  using assms by (rule wire_code.cancel_iff)

lemma wire_unambiguous_witness:
  "wire_bytes (NodeMsg (HeartbeatMsg (demo_heartbeat 1))) \<noteq> wire_bytes (NodeMsg (HeartbeatMsg (demo_heartbeat 2)))"
  using wire_unambiguous [of "NodeMsg (HeartbeatMsg (demo_heartbeat 1))" "NodeMsg (HeartbeatMsg (demo_heartbeat 2))"
      "[]" "[]"]
  by (simp add: Heartbeat_payload_eq_iff) (simp add: demo_heartbeat_def)

text \<open>C22: domain separation holds with no condition on the fields: whatever two messages contain, malformed
  or out-of-range values included, equal bytes (or one a prefix of the other) come from messages of the
  same type; so a signature on one message type never transfers to another.\<close>

theorem wire_domain_separation:
  assumes "wire_bytes x @ r = wire_bytes y @ s"
  shows "wire_kind x = wire_kind y"
  by (rule wire_tag_kind) (rule wire_tag_eq [OF assms])

lemma wire_domain_separation_witness:
  "wire_kind (NodeMsg (HeartbeatMsg (demo_heartbeat 1))) =
   wire_kind (NodeMsg (HeartbeatMsg (demo_heartbeat 1\<lparr>hb_Signature := []\<rparr>)))"
  by (rule wire_domain_separation [of _ "[]" _ "[]"]) (simp add: Heartbeat_canon)

text \<open>C4: the code refines the specification: for each of the fifteen messages, \<open>CanonicalBytes\<close> is the
  concatenation of the domain tag and the fields of the message's \<open>Order:\<close> clause (SPEC.md sections 4 and
  11) in that order, each under the primitive rule of section 3 written out in integer arithmetic.\<close>

theorem wire_bytes_refine_spec:
  assumes "wire_good m"
  shows "wire_bytes m = spec_message (wire_tag m) (wire_order m)"
  using wire_spec [OF assms] by (rule sym)

lemma wire_bytes_refine_spec_witness:
  "wire_bytes (NodeMsg (HeartbeatMsg (demo_heartbeat 3))) =
   spec_message (lit ''sohocloud/heartbeat/v0'') [FString (lit ''node-alpha''), FTime 7, FUint64 3]"
  using wire_bytes_refine_spec [of "NodeMsg (HeartbeatMsg (demo_heartbeat 3))"]
  by (simp add: domainHeartbeat_def demo_heartbeat_def [of 3] demo_time_def instant_ns_def demo_heartbeat_good [of 3,
      unfolded demo_heartbeat_def [of 3] demo_time_def]
      del: spec_field.simps)

text \<open>On the fifteen published messages of src/testdata/vectors.json the definitions compute exactly the
  published canonical bytes.\<close>

theorem vectors_conform: "list_all (\<lambda>(m, b). wire_bytes m = b) vectors"
  by (simp only: vectors_def list.pred_inject vectors_bytes prod.case simp_thms)

text \<open>No signature is part of the bytes it signs: replacing the signatures of any message, single or
  double, leaves its canonical bytes unchanged.\<close>

theorem signatures_excluded:
  "nm_bytes (nm_put s m) = nm_bytes m \<and> om_bytes (om_put s0 s1 m') = om_bytes m'"
  by (simp add: node_msg.canon_put op_msg.canon_put)

section \<open>Signing and verifying\<close>

text \<open>C11: \<open>Verify\<close> of each of the twelve one-key messages returns on every input, malformed keys and
  signatures of any length included, and accepts exactly when the message's own checks pass, the key has
  32 bytes, the signature 64, and the signature verifies over the canonical bytes.\<close>

theorem node_verify_total:
  "nm_verify E pub m = Ret (nm_guard pub m \<and> length pub = 32 \<and> length (nm_sig m) = 64 \<and>
     ed_verify E pub (nm_bytes m) (nm_sig m))"
  by (simp add: node_msg.verify_eq key_sizes)

text \<open>\<open>Verify\<close> of the three operator messages returns on every input and for every registry
    content.\<close>

theorem operator_verify_total: "\<exists>e. om_verify E o1 o2 km m = Ret e"
  using op_msg.verify_no_panic [of E o1 o2 km m] by (simp add: no_panic_Ret)

text \<open>\<open>Sign\<close> panics exactly on a private key that is not 64 bytes long, for every one-key message.\<close>

theorem node_sign_panics_iff: "nm_sign E priv m = Panic \<longleftrightarrow> length priv \<noteq> 64"
  by (simp add: node_msg.sign_panics_iff key_sizes)

text \<open>C12: a message signed with a key pair's private key is accepted under its public key and its content is
  unchanged, for each of the twelve one-key messages whose own checks pass.\<close>

theorem node_sign_verify:
  assumes "ed25519_laws E" and "keypair E priv pub" and "nm_guard pub m"
  shows "\<exists>m'. nm_sign E priv m = Ret m' \<and> nm_payload m' = nm_payload m \<and> nm_verify E pub m' = Ret True"
  using assms by (rule node_msg.sign_verify)

lemma node_sign_verify_witness:
  "\<exists>m'. nm_sign hash_signatures (demo_priv 5) (HeartbeatMsg (demo_heartbeat 1)) = Ret m' \<and>
     nm_verify hash_signatures (demo_pub 5) m' = Ret True"
  using node_sign_verify [of hash_signatures "demo_priv 5" "demo_pub 5" "HeartbeatMsg (demo_heartbeat 1)"] by auto

text \<open>What a signed message looks like to its receiver: every field of its Go type (arrays of their size, times
  representable) and signatures of 64 bytes, with an algorithm named where the message has one.\<close>

fun signed_well_typed :: "wire_msg \<Rightarrow> bool" where
  "signed_well_typed (NodeMsg m) = (nm_good m \<and> length (nm_sig m) = 64)"
| "signed_well_typed (OpMsg m) = (om_good m \<and> om_algo m \<noteq> [] \<and> length (om_sig0 m) = 64 \<and>
    length (om_sig1 m) = 64)"

lemma nm_good_put: "nm_good (nm_put s m) = nm_good m"
  by (cases m) (simp_all add: nm_good_defs)

lemma om_good_put: "om_good (om_put s0 s1 m) = om_good m"
  by (cases m) (simp_all add: om_good_defs)

lemma om_good_prep: "om_good m \<Longrightarrow> om_good (om_prep i j m)"
  by (cases m) (auto simp: om_good_defs transmission_prep_def rotation_prep_def conformance_prep_def)

lemma nm_kind_put: "nm_kind (nm_put s m) = nm_kind m"
  by (cases m) simp_all

lemma om_kind_put: "wire_kind (OpMsg (om_put s0 s1 (om_prep i j m))) = wire_kind (OpMsg m)"
  by (cases m) simp_all

text \<open>C20: \<open>Sign\<close> is type-sound for all fifteen messages: from a well-formed message and private keys
    of 64 bytes it
  returns a message of the same type that is again well formed, carries signatures of 64 bytes and, for
  an operator message, the two indices it was given and a non-empty algorithm. It never panics then.\<close>

theorem sign_well_typed:
  assumes "ed25519_laws E" and "length priv = 64" and "length priv' = 64"
  shows "(nm_good m \<longrightarrow> (\<exists>m'. nm_sign E priv m = Ret m' \<and>
      signed_well_typed (NodeMsg m') \<and> nm_kind m' = nm_kind m)) \<and>
    (om_good o' \<longrightarrow> (\<exists>p. om_sign E priv priv' i j o' = Ret p \<and> signed_well_typed (OpMsg p) \<and>
       wire_kind (OpMsg p) = wire_kind (OpMsg o') \<and> om_idx0 p = i \<and> om_idx1 p = j))"
proof -
  have sizes: "length (ed_sign E priv b) = 64" "length (ed_sign E priv' b) = 64" for b
    using ed25519_laws_length [OF assms(1)] assms(2,3) by (simp_all add: key_sizes)
  have sign: "ed25519_Sign E priv b = Ret (ed_sign E priv b)" "ed25519_Sign E priv' b = Ret (ed_sign E priv' b)" for b
    using assms(2,3) by (simp_all add: ed25519_Sign_def key_sizes)
  have "om_algo (om_prep i j o') \<noteq> []" by (simp add: op_msg.prep_fields(3))
  then show ?thesis
    by (simp add: node_msg.sign_eq op_msg.sign_eq sign sizes node_msg.sig_put op_msg.put_fields op_msg.prep_fields(1,2)
        nm_good_put om_good_put om_good_prep nm_kind_put om_kind_put)
qed

lemma sign_well_typed_witness:
  "\<exists>m'. nm_sign hash_signatures (demo_priv 5) (HeartbeatMsg (demo_heartbeat 1)) = Ret m' \<and>
      signed_well_typed (NodeMsg m')"
proof -
  have "length (demo_priv 5) = 64" "nm_good (HeartbeatMsg (demo_heartbeat 1))" by (simp_all add: demo_priv_def)
  then show ?thesis
    using sign_well_typed [of hash_signatures "demo_priv 5" "demo_priv 5" "HeartbeatMsg (demo_heartbeat 1)"]
      hash_signatures_laws by blast
qed

text \<open>C2: authenticity of the twelve one-key messages, malformed ones included. Let \<open>S\<close> be the messages a key's
  holder signed. If \<open>Verify\<close> accepts a message whose signed content differs from that of every message in \<open>S\<close>,
  whatever their types, then its signature is a forgery of Ed25519 itself, verifying over bytes the holder never
  signed; or the message has the bytes of a signed message of its own type and one of the two has a time outside the
  representable range, the only values of Go on which \<open>nm_good\<close> fails (\<open>unrepresentable_times_unprotected\<close> shows that this exception is real). So on
  representable times the encoding gives an attacker nothing.\<close>

theorem node_accepts_only_signed_content:
  assumes "nm_verify E pub m = Ret True" and "nm_payload m \<notin> nm_payload ` S"
  shows "forgery E pub (nm_bytes ` S) (nm_bytes m) (nm_sig m) \<or>
    (\<exists>m' \<in> S. nm_kind m' = nm_kind m \<and> nm_bytes m' = nm_bytes m \<and> (\<not> nm_good m \<or> \<not> nm_good m'))"
proof -
  have "nm_kind m' = nm_kind m" if "nm_bytes m' = nm_bytes m" for m'
    using nm_bytes_kind [of m' "[]" m "[]"] that by simp
  then have kind: "nm_kind m' = nm_kind m \<and> nm_bytes m' = nm_bytes m \<and> P \<longleftrightarrow> nm_bytes m' = nm_bytes m \<and> P" for m' P
    by blast
  show ?thesis unfolding kind by (rule node_msg.unsigned_content_is_forgery [OF assms])
qed

lemma node_accepts_only_signed_content_witness:
  "forgery accept_all (demo_pub 5) (nm_bytes ` {HeartbeatMsg (demo_heartbeat 1)})
     (nm_bytes (HeartbeatMsg (demo_heartbeat 2))) (replicate 64 0)"
proof -
  have "nm_verify accept_all (demo_pub 5) (HeartbeatMsg (demo_heartbeat 2)) = Ret True"
    by (simp add: Heartbeat_msg.verify_eq key_sizes) (simp add: demo_heartbeat_def)
  moreover have "nm_payload (HeartbeatMsg (demo_heartbeat 2)) \<notin> nm_payload ` {HeartbeatMsg (demo_heartbeat 1)}"
    by (simp add: Heartbeat_payload_eq_iff) (simp add: demo_heartbeat_def)
  moreover have "nm_sig (HeartbeatMsg (demo_heartbeat 2)) = replicate 64 0"
    by (simp add: demo_heartbeat_def)
  ultimately show ?thesis
    using node_accepts_only_signed_content [of accept_all "demo_pub 5" "HeartbeatMsg (demo_heartbeat 2)"
        "{HeartbeatMsg (demo_heartbeat 1)}"] by (metis demo_heartbeat_good nm_good.simps(2) singletonD)
qed

text \<open>C3: authenticity of the operator messages, for both keys at once. If \<open>Verify\<close> accepts an
    operator message
  whose content is not among the messages \<open>S\<close> that the holders signed, both signatures are forgeries, under
  two different registered keys; so accepting it takes breaking two keys, or the consent of two holders.\<close>

theorem operator_accepts_only_signed_content:
  assumes "om_verify E o1 o2 km m = Ret None" and "om_good m" and "\<forall>m' \<in> S. om_good m'"
    and "om_payload m \<notin> om_payload ` S"
  shows "\<exists>r0 r1. km (om_idx0 m) = Some r0 \<and> km (om_idx1 m) = Some r1 \<and>
      key_PublicKey r0 \<noteq> key_PublicKey r1 \<and>
      forgery E (key_PublicKey r0) (om_bytes ` S) (om_bytes m) (om_sig0 m) \<and>
      forgery E (key_PublicKey r1) (om_bytes ` S) (om_bytes m) (om_sig1 m)"
  using assms by (rule op_msg.unsigned_content_is_forgery)

lemma demo_transmission_accepted:
  "OperatorTransmission_Verify accept_all demo_registry demo_transmission = Ret None"
  by (simp add: transmission_msg.accepts_iff transmission_checks_def pair_valid_def key_valid_def demo_transmission_def
      demo_registry_at demo_record_def MinNonceLen_def)

lemma operator_accepts_only_signed_content_witness:
  "\<exists>r0 r1. demo_registry (ot_Idx0 demo_transmission) = Some r0 \<and>
      demo_registry (ot_Idx1 demo_transmission) = Some r1 \<and>
      key_PublicKey r0 \<noteq> key_PublicKey r1 \<and>
      forgery accept_all (key_PublicKey r0) {} (OperatorTransmission_CanonicalBytes demo_transmission) (ot_Sig0
      demo_transmission) \<and>
      forgery accept_all (key_PublicKey r1) {} (OperatorTransmission_CanonicalBytes demo_transmission) (ot_Sig1
      demo_transmission)"
  using operator_accepts_only_signed_content [of accept_all "[]" "[]" demo_registry "TransmissionMsg demo_transmission" "{}"]
  by (simp add: demo_transmission_accepted)

text \<open>C14: A signature pair given for conformance challenges never verifies as an \<open>OperatorTransmission\<close>
  (SPEC.md section 11.3): whatever conformance responses the two holders signed, accepting a
  transmission they did not sign means both signatures are forgeries.\<close>

theorem conformance_never_transmission:
  assumes "OperatorTransmission_Verify E km t = Ret None"
  shows "\<exists>r0 r1. km (ot_Idx0 t) = Some r0 \<and> km (ot_Idx1 t) = Some r1 \<and>
      key_PublicKey r0 \<noteq> key_PublicKey r1 \<and>
      forgery E (key_PublicKey r0) (range ConformanceResponse_CanonicalBytes) (OperatorTransmission_CanonicalBytes t)
      (ot_Sig0 t) \<and>
      forgery E (key_PublicKey r1) (range ConformanceResponse_CanonicalBytes) (OperatorTransmission_CanonicalBytes t)
      (ot_Sig1 t)"
proof -
  have "OperatorTransmission_CanonicalBytes t \<noteq> ConformanceResponse_CanonicalBytes c" for c
    unfolding conformance_msg.canon_tag
    by (rule transmission_msg.tag_separates) (use op_domains_distinct(2) in auto)
  with transmission_msg.two_keys [OF assms] show ?thesis by (auto simp: forgery_def)
qed

lemma conformance_never_transmission_witness:
  "\<exists>r0 r1. demo_registry 0 = Some r0 \<and> demo_registry 1 = Some r1 \<and>
      key_PublicKey r0 \<noteq> key_PublicKey r1"
  using conformance_never_transmission [OF demo_transmission_accepted] by (auto simp: demo_transmission_def)

section \<open>Times outside the representable range\<close>

text \<open>The encoding error of \<open>Buffer.Time\<close> is not seen by the messages: a heartbeat whose time is
    outside
  the representable range is signed, accepted, and stays accepted after its time is replaced by any
  other time outside the range (SPEC.md section 3 requires a verifier to reject it).\<close>

lemma heartbeat_out_of_range_malleable:
  assumes "ed25519_laws E" and "keypair E priv pub" and "\<not> ValidTime (hb_SentAt h)" and "\<not> ValidTime t"
  shows "\<exists>h'. Heartbeat_Sign E priv h = Ret h' \<and> Heartbeat_Verify E pub h' = Ret True \<and>
     Heartbeat_Verify E pub (h'\<lparr>hb_SentAt := t\<rparr>) = Ret True"
proof -
  from Heartbeat_msg.sign_verify [OF assms(1,2)] obtain h' where h': "Heartbeat_Sign E priv h = Ret h'"
    "Heartbeat_payload h' = Heartbeat_payload h" "Heartbeat_Verify E pub h' = Ret True" by blast
  then have "time_UTC (hb_SentAt h') = time_UTC (hb_SentAt h)" by (simp add: Heartbeat_payload_eq_iff)
  then have "\<not> ValidTime (hb_SentAt h')" using assms(3) by (metis ValidTime_UTC)
  then have "Heartbeat_CanonicalBytes (h'\<lparr>hb_SentAt := t\<rparr>) = Heartbeat_CanonicalBytes h'"
    using assms(4) by (simp add: Heartbeat_canon enc_time_def)
  with h' show ?thesis by (auto simp: Heartbeat_msg.verify_eq)
qed

definition zero_time :: go_time where
  "zero_time = \<lparr>t_sec = 0, t_nsec = 0, t_loc = None, t_mono = None\<rparr>"

lemma zero_time_invalid [simp]: "\<not> ValidTime zero_time" "\<not> ValidTime (zero_time\<lparr>t_nsec := n\<rparr>)"
  by (simp_all add: ValidTime_def time_Before_def time_After_def representable_bounds zero_time_def)

lemma heartbeat_out_of_range_malleable_witness:
  "\<exists>h'. Heartbeat_Verify hash_signatures (demo_pub 5) h' = Ret True \<and>
     Heartbeat_Verify hash_signatures (demo_pub 5) (h'\<lparr>hb_SentAt := zero_time\<lparr>t_nsec :=
     9\<rparr>\<rparr>) = Ret True"
  using heartbeat_out_of_range_malleable [of hash_signatures "demo_priv 5" "demo_pub 5"
      "(demo_heartbeat 1)\<lparr>hb_SentAt := zero_time\<rparr>" "zero_time\<lparr>t_nsec := 9\<rparr>"]
  by auto

text \<open>For the same reason a job report with one representable and one unrepresentable time has the same
  signed bytes as the report with the two times exchanged: a report signed with only \<open>StartedAt\<close>
  representable verifies as one with only \<open>FinishedAt\<close> representable.\<close>

lemma jobreport_times_exchangeable:
  assumes "\<not> ValidTime bad"
  shows "JobReport_Verify E pub (r\<lparr>jr_StartedAt := t, jr_FinishedAt := bad\<rparr>) =
     JobReport_Verify E pub (r\<lparr>jr_StartedAt := bad, jr_FinishedAt := t\<rparr>)"
  using assms by (simp add: JobReport_msg.verify_eq JobReport_canon enc_time_def)

lemma jobreport_times_exchangeable_witness:
  "\<forall>r. JobReport_Verify accept_all [] (r\<lparr>jr_StartedAt := demo_time 7, jr_FinishedAt := zero_time\<rparr>) =
     JobReport_Verify accept_all [] (r\<lparr>jr_StartedAt := zero_time, jr_FinishedAt := demo_time 7\<rparr>)"
  by (intro allI jobreport_times_exchangeable) simp

text \<open>C28: no signature protects a time outside the representable range, because the messages never look at the
  encoding error of \<open>Buffer.Time\<close>: a heartbeat with such a time is signed and accepted, and stays accepted with
  any other such time; a job report with one such time stays accepted with its two times exchanged. (SPEC.md
  section 3 requires a verifier to reject both.)\<close>

theorem unrepresentable_times_unprotected:
  assumes "ed25519_laws E" and "keypair E priv pub" and "\<not> ValidTime (hb_SentAt h)" and "\<not> ValidTime bad"
  shows "(\<exists>h'. Heartbeat_Sign E priv h = Ret h' \<and> Heartbeat_Verify E pub h' = Ret True \<and>
      Heartbeat_Verify E pub (h'\<lparr>hb_SentAt := bad\<rparr>) = Ret True) \<and>
    JobReport_Verify E k (r\<lparr>jr_StartedAt := t, jr_FinishedAt := bad\<rparr>) =
      JobReport_Verify E k (r\<lparr>jr_StartedAt := bad, jr_FinishedAt := t\<rparr>)"
  using heartbeat_out_of_range_malleable [OF assms] jobreport_times_exchangeable [OF assms(4)] by simp

lemma unrepresentable_times_unprotected_witness:
  "\<exists>h'. Heartbeat_Verify hash_signatures (demo_pub 5) h' = Ret True \<and>
     Heartbeat_Verify hash_signatures (demo_pub 5) (h'\<lparr>hb_SentAt := zero_time\<lparr>t_nsec := 9\<rparr>\<rparr>) = Ret True"
  using unrepresentable_times_unprotected [of hash_signatures "demo_priv 5" "demo_pub 5"
      "(demo_heartbeat 1)\<lparr>hb_SentAt := zero_time\<rparr>" "zero_time\<lparr>t_nsec := 9\<rparr>", THEN conjunct1]
  by auto

end
